(* ===== verification/Go_Prelude.thy ===== *)
theory Go_Prelude
  imports Main "HOL-Library.List_Lexorder" "HOL-Library.Char_ord"
begin

text \<open>
  Shared vocabulary of the development: Go strings as byte lists, the functions of
  packages \<open>strings\<close>, \<open>sort\<close>, \<open>fmt\<close> and \<open>encoding/hex\<close> that the sources call,
  Go maps with string keys, and the generic lemmas about them.  A Go string is a
  \<^typ>\<open>string\<close> whose characters are its bytes, so \<^const>\<open>length\<close> is Go's \<open>len\<close> and the
  lexicographic order of \<^typ>\<open>string\<close> is Go's byte order.
\<close>

named_theorems go_simps \<open>rewrite rules for the modelled parts of the Go library\<close>

section \<open>Slices of strings\<close>

text \<open>\<open>s[i:j]\<close>; every call site of the sources keeps \<open>i \<le> j \<le> len(s)\<close>.\<close>

definition slice :: "string \<Rightarrow> nat \<Rightarrow> nat \<Rightarrow> string" where
  "slice s i j = take (j - i) (drop i s)"

definition has_prefix :: "string \<Rightarrow> string \<Rightarrow> bool" where
  "has_prefix p s \<longleftrightarrow> take (length p) s = p"

definition has_suffix :: "string \<Rightarrow> string \<Rightarrow> bool" where
  "has_suffix p s \<longleftrightarrow> length p \<le> length s \<and> drop (length s - length p) s = p"

definition trim_prefix :: "string \<Rightarrow> string \<Rightarrow> string" where
  "trim_prefix p s = (if has_prefix p s then drop (length p) s else s)"

definition trim_suffix :: "string \<Rightarrow> string \<Rightarrow> string" where
  "trim_suffix p s = (if has_suffix p s then take (length s - length p) s else s)"

fun contains :: "string \<Rightarrow> string \<Rightarrow> bool" where
  "contains p [] = (p = [])"
| "contains p (c # s) = (has_prefix p (c # s) \<or> contains p s)"

text \<open>\<open>strings.ContainsAny(s, chars)\<close> for single-byte \<open>chars\<close>.\<close>

definition contains_any :: "string \<Rightarrow> string \<Rightarrow> bool" where
  "contains_any s chars \<longleftrightarrow> (\<exists>c \<in> set s. c \<in> set chars)"

text \<open>\<open>strings.LastIndex(s, p)\<close>: the last offset at which \<open>p\<close> occurs, \<open>-1\<close> if none.\<close>

fun last_index_from :: "string \<Rightarrow> string \<Rightarrow> int \<Rightarrow> int \<Rightarrow> int" where
  "last_index_from p [] i best = (if p = [] then i else best)"
| "last_index_from p (c # s) i best =
     last_index_from p s (i + 1) (if has_prefix p (c # s) then i else best)"

definition last_index :: "string \<Rightarrow> string \<Rightarrow> int" where
  "last_index s p = last_index_from p s 0 (-1)"

section \<open>Splitting and joining\<close>

text \<open>\<open>strings.Split(s, sep)\<close> for a one-byte separator.\<close>

fun split_char :: "char \<Rightarrow> string \<Rightarrow> string list" where
  "split_char c [] = [[]]"
| "split_char c (x # xs) =
     (if x = c then [] # split_char c xs
      else (case split_char c xs of [] \<Rightarrow> [[x]] | p # ps \<Rightarrow> (x # p) # ps))"

fun join :: "string \<Rightarrow> string list \<Rightarrow> string" where
  "join sep [] = []"
| "join sep [x] = x"
| "join sep (x # y # ys) = x @ sep @ join sep (y # ys)"

section \<open>Numbers as text\<close>

text \<open>\<open>fmt.Sprint\<close> / \<open>%d\<close> of a nonnegative integer.\<close>

definition digit :: "nat \<Rightarrow> char" where
  "digit n = char_of (48 + n)"

fun show_nat :: "nat \<Rightarrow> string" where
  "show_nat n = (if n < 10 then [digit n] else show_nat (n div 10) @ [digit (n mod 10)])"

declare show_nat.simps [simp del]

text \<open>\<open>%d\<close> of an integer.\<close>

definition show_int :: "int \<Rightarrow> string" where
  "show_int n = (if n < 0 then ''-'' @ show_nat (nat (- n)) else show_nat (nat n))"

text \<open>Lower-case hexadecimal digits, as \<open>%x\<close> and \<open>hex.EncodeToString\<close> print them.\<close>

definition hex_digit :: "nat \<Rightarrow> char" where
  "hex_digit n = (if n < 10 then char_of (48 + n) else char_of (87 + n))"

text \<open>\<open>%0kx\<close> of a number below \<open>16 ^ k\<close>: exactly \<open>k\<close> digits.\<close>

fun hex_pad :: "nat \<Rightarrow> nat \<Rightarrow> string" where
  "hex_pad 0 n = []"
| "hex_pad (Suc k) n = hex_pad k (n div 16) @ [hex_digit (n mod 16)]"

definition is_lower_hex :: "char \<Rightarrow> bool" where
  "is_lower_hex c \<longleftrightarrow> (CHR ''0'' \<le> c \<and> c \<le> CHR ''9'') \<or> (CHR ''a'' \<le> c \<and> c \<le> CHR ''f'')"

definition is_hex :: "char \<Rightarrow> bool" where
  "is_hex c \<longleftrightarrow> is_lower_hex c \<or> (CHR ''A'' \<le> c \<and> c \<le> CHR ''F'')"

text \<open>\<open>hex.DecodeString\<close> succeeds: an even number of hexadecimal digits; the decoded
  value has half as many bytes.\<close>

definition hex_decodes :: "string \<Rightarrow> bool" where
  "hex_decodes s \<longleftrightarrow> even (length s) \<and> list_all is_hex s"

section \<open>Go maps with string keys\<close>

text \<open>
  A Go map is nil or an association list read with \<^const>\<open>map_of\<close>.  Iteration order is
  unspecified in Go; the sources only fold order-independent tests over maps, or sort.
\<close>

datatype 'v gomap = NilMap | GoMap (entries: "(string \<times> 'v) list")
  where "entries NilMap = []"

definition gm_get :: "'v gomap \<Rightarrow> string \<Rightarrow> 'v option" where
  "gm_get m k = map_of (entries m) k"

text \<open>Reading a missing key yields the zero value: \<open>false\<close>, respectively the empty string.\<close>

definition gm_bool :: "bool gomap \<Rightarrow> string \<Rightarrow> bool" where
  "gm_bool m k \<longleftrightarrow> gm_get m k = Some True"

definition gm_str :: "string gomap \<Rightarrow> string \<Rightarrow> string" where
  "gm_str m k = (case gm_get m k of None \<Rightarrow> [] | Some v \<Rightarrow> v)"

text \<open>\<open>m[k] = v\<close> on a map that has been made or cloned.\<close>

definition gm_put :: "string \<Rightarrow> 'v \<Rightarrow> 'v gomap \<Rightarrow> 'v gomap" where
  "gm_put k v m = GoMap ((k, v) # filter (\<lambda>e. fst e \<noteq> k) (entries m))"

definition gm_delete :: "string \<Rightarrow> 'v gomap \<Rightarrow> 'v gomap" where
  "gm_delete k m = GoMap (filter (\<lambda>e. fst e \<noteq> k) (entries m))"

text \<open>\<open>make\<close> followed by a copying loop.\<close>

definition gm_clone :: "'v gomap \<Rightarrow> 'v gomap" where
  "gm_clone m = GoMap (entries m)"

definition gm_wf :: "'v gomap \<Rightarrow> bool" where
  "gm_wf m \<longleftrightarrow> distinct (map fst (entries m))"

definition gm_all :: "(string \<Rightarrow> 'v \<Rightarrow> bool) \<Rightarrow> 'v gomap \<Rightarrow> bool" where
  "gm_all P m \<longleftrightarrow> list_all (\<lambda>e. P (fst e) (snd e)) (entries m)"

section \<open>Lemmas on slices, prefixes and occurrences\<close>

lemma length_slice [simp]: "j \<le> length s \<Longrightarrow> length (slice s i j) = j - i"
  by (simp add: slice_def)

lemma slice_to_end [simp]: "slice s i (length s) = drop i s"
  by (simp add: slice_def)

lemma has_prefix_iff: "has_prefix p s \<longleftrightarrow> (\<exists>t. s = p @ t)"
  by (auto simp: has_prefix_def) (metis append_take_drop_id)

lemma has_suffix_iff: "has_suffix p s \<longleftrightarrow> (\<exists>t. s = t @ p)"
  by (auto simp: has_suffix_def) (metis append_take_drop_id)

lemma contains_iff: "contains p s \<longleftrightarrow> (\<exists>u v. s = u @ p @ v)"
proof (induction s)
  case Nil
  then show ?case by auto
next
  case (Cons c s)
  have "(\<exists>u v. c # s = u @ p @ v) \<longleftrightarrow> has_prefix p (c # s) \<or> (\<exists>u v. s = u @ p @ v)"
    by (auto simp: has_prefix_iff Cons_eq_append_conv)
  with Cons show ?case by simp
qed

lemma last_index_from_bounds:
  assumes "p \<noteq> []" and "best < i + int (length s)"
  shows "best \<le> last_index_from p s i best \<or> i \<le> last_index_from p s i best"
    and "last_index_from p s i best = best \<or>
           i \<le> last_index_from p s i best \<and>
           last_index_from p s i best + int (length p) \<le> i + int (length s)"
proof -
  have "last_index_from p s i best = best \<or>
      i \<le> last_index_from p s i best \<and>
      last_index_from p s i best + int (length p) \<le> i + int (length s)"
    using assms(1)
  proof (induction s arbitrary: i best)
    case Nil
    then show ?case by simp
  next
    case (Cons c s)
    have len: "has_prefix p (c # s) \<Longrightarrow> length p \<le> Suc (length s)"
      by (auto simp: has_prefix_def) (metis length_take min.absorb_iff2 nat_le_linear length_Cons)
    show ?case
      using Cons.IH [OF Cons.prems, of "i + 1" "if has_prefix p (c # s) then i else best"] len
      by (auto split: if_splits)
  qed
  then show "best \<le> last_index_from p s i best \<or> i \<le> last_index_from p s i best"
    and "last_index_from p s i best = best \<or>
           i \<le> last_index_from p s i best \<and>
           last_index_from p s i best + int (length p) \<le> i + int (length s)"
    by auto
qed

lemma last_index_fits:
  "p \<noteq> [] \<Longrightarrow> last_index s p \<ge> 0 \<Longrightarrow> nat (last_index s p) + length p \<le> length s"
  using last_index_from_bounds(2) [of p "-1" 0 s] by (auto simp: last_index_def)

section \<open>Lemmas on splitting and joining\<close>

lemma split_char_neq_Nil [simp]: "split_char c s \<noteq> []"
  by (induction s) (auto split: list.splits)

lemma join_split_char [simp]: "join [c] (split_char c s) = s"
proof (induction s)
  case Nil
  then show ?case by simp
next
  case (Cons x xs)
  obtain p ps where "split_char c xs = p # ps"
    by (cases "split_char c xs") auto
  with Cons show ?case by (cases ps) auto
qed

lemma split_char_no_sep: "p \<in> set (split_char c s) \<Longrightarrow> c \<notin> set p"
  by (induction s arbitrary: p) (auto split: if_splits list.splits)

lemma split_char_append_sep: "c \<notin> set p \<Longrightarrow> split_char c (p @ c # s) = p # split_char c s"
  by (induction p) auto

lemma split_char_id: "c \<notin> set p \<Longrightarrow> split_char c p = [p]"
  by (induction p) auto

lemma split_char_join:
  "ps \<noteq> [] \<Longrightarrow> (\<forall>p \<in> set ps. c \<notin> set p) \<Longrightarrow> split_char c (join [c] ps) = ps"
  by (induction "[c]" ps rule: join.induct) (auto simp: split_char_id split_char_append_sep)

section \<open>Lemmas on hexadecimal text\<close>

lemma length_hex_pad [simp]: "length (hex_pad k n) = k"
  by (induction k arbitrary: n) auto

lemma hex_digit_lower: "n < 16 \<Longrightarrow> is_lower_hex (hex_digit n)"
  by (auto simp: hex_digit_def is_lower_hex_def less_eq_char_def)

lemma hex_digit_inj: "m < 16 \<Longrightarrow> n < 16 \<Longrightarrow> hex_digit m = hex_digit n \<Longrightarrow> m = n"
proof -
  assume lt: "m < 16" "n < 16" and eq: "hex_digit m = hex_digit n"
  have of_char_hex: "of_char (hex_digit k) = (if k < 10 then 48 + k else 87 + k :: nat)"
    if "k < 16" for k
    using that by (simp add: hex_digit_def of_char_of)
  from eq have "(of_char (hex_digit m) :: nat) = of_char (hex_digit n)" by simp
  with lt show "m = n" by (auto simp: of_char_hex split: if_splits)
qed

lemma hex_pad_lower: "list_all is_lower_hex (hex_pad k n)"
  by (induction k arbitrary: n) (auto simp: hex_digit_lower)

lemma hex_pad_inj: "m < 16 ^ k \<Longrightarrow> n < 16 ^ k \<Longrightarrow> hex_pad k m = hex_pad k n \<Longrightarrow> m = n"
proof (induction k arbitrary: m n)
  case 0
  then show ?case by simp
next
  case (Suc k)
  from Suc.prems have "m div 16 < 16 ^ k" "n div 16 < 16 ^ k"
    by (simp_all add: less_mult_imp_div_less mult.commute)
  moreover from Suc.prems(3) have "hex_pad k (m div 16) = hex_pad k (n div 16)"
    and "hex_digit (m mod 16) = hex_digit (n mod 16)" by simp_all
  ultimately have "m div 16 = n div 16" "m mod 16 = n mod 16"
    by (auto intro: Suc.IH hex_digit_inj)
  then show ?case by (metis div_mult_mod_eq)
qed

section \<open>Lemmas on Go maps\<close>

lemma entries_gm [simp]:
  "entries (gm_put k v m) = (k, v) # filter (\<lambda>e. fst e \<noteq> k) (entries m)"
  "entries (gm_delete k m) = filter (\<lambda>e. fst e \<noteq> k) (entries m)"
  "entries (gm_clone m) = entries m"
  by (simp_all add: gm_put_def gm_delete_def gm_clone_def)

lemma map_of_filter_neq:
  "map_of (filter (\<lambda>e. fst e \<noteq> k) xs) = (map_of xs)(k := None)"
  by (induction xs) (auto simp: fun_eq_iff)

lemma gm_get_simps [simp]:
  "gm_get NilMap k = None"
  "gm_get (GoMap []) k = None"
  "gm_get (gm_put k v m) k' = (if k' = k then Some v else gm_get m k')"
  "gm_get (gm_delete k m) k' = (if k' = k then None else gm_get m k')"
  "gm_get (gm_clone m) k' = gm_get m k'"
  by (simp_all add: gm_get_def map_of_filter_neq)

lemma gm_bool_put [simp]:
  "gm_bool (gm_put k v m) k' \<longleftrightarrow> (if k' = k then v else gm_bool m k')"
  "gm_bool (gm_clone m) k' \<longleftrightarrow> gm_bool m k'"
  "\<not> gm_bool NilMap k'"
  "\<not> gm_bool (GoMap []) k'"
  by (auto simp: gm_bool_def)

lemma gm_str_put [simp]:
  "gm_str (gm_put k v m) k' = (if k' = k then v else gm_str m k')"
  "gm_str (gm_clone m) k' = gm_str m k'"
  by (auto simp: gm_str_def)

lemma gm_all_put:
  "gm_all P m \<Longrightarrow> P k v \<Longrightarrow> gm_all P (gm_put k v m)"
  by (auto simp: gm_all_def list_all_iff)

lemma gm_all_clone [simp]: "gm_all P (gm_clone m) \<longleftrightarrow> gm_all P m"
  by (simp add: gm_all_def)

lemma gm_all_empty [simp]: "gm_all P (GoMap [])" "gm_all P NilMap"
  by (simp_all add: gm_all_def)

lemma gm_allD: "gm_all P m \<Longrightarrow> gm_get m k = Some v \<Longrightarrow> P k v"
  by (auto simp: gm_all_def gm_get_def list_all_iff dest!: map_of_SomeD)

lemma distinct_fst_filter: "distinct (map fst xs) \<Longrightarrow> distinct (map fst (filter P xs))"
  by (induction xs) auto

lemma gm_wf_simps [simp]:
  "gm_wf (GoMap [])" "gm_wf NilMap"
  "gm_wf m \<Longrightarrow> gm_wf (gm_put k v m)"
  "gm_wf m \<Longrightarrow> gm_wf (gm_delete k m)"
  "gm_wf m \<Longrightarrow> gm_wf (gm_clone m)"
  by (auto simp: gm_wf_def distinct_fst_filter)

end
