(* ===== verification/Go_Text.thy ===== *)
theory Go_Text
  imports Go_Prelude
begin

text \<open>
  UTF-8 as Go reads it, \<open>strings.TrimSpace\<close> and \<open>strings.ToLower\<close>, and the JSON values
  that \<open>encoding/json\<close> produces for a target of type \<open>any\<close>.  What the sources compute with
  tables or algorithms of the Go library that carry no program logic (the JSON parser,
  the RFC 3339 parser, SHA-256, the Unicode case tables, the regular expression engine,
  calendar formatting) is the record \<open>golib\<close>, an argument of every definition that uses
  it; the lemmas hold for every value of it.
\<close>

section \<open>UTF-8\<close>

definition byte_of :: "char \<Rightarrow> nat" where
  "byte_of c = of_char c"

text \<open>\<open>utf8.RuneError\<close>\<close>

definition rune_error :: nat where
  "rune_error = 65533"

text \<open>The size of a sequence and the accepted range of its second byte, by its first byte
  (the tables \<open>first\<close> and \<open>acceptRanges\<close> of package \<open>unicode/utf8\<close>).\<close>

definition lead_info :: "nat \<Rightarrow> (nat \<times> nat \<times> nat) option" where
  "lead_info b =
     (if 194 \<le> b \<and> b \<le> 223 then Some (2, 128, 191)
      else if b = 224 then Some (3, 160, 191)
      else if b = 237 then Some (3, 128, 159)
      else if 225 \<le> b \<and> b \<le> 239 then Some (3, 128, 191)
      else if b = 240 then Some (4, 144, 191)
      else if 241 \<le> b \<and> b \<le> 243 then Some (4, 128, 191)
      else if b = 244 then Some (4, 128, 143)
      else None)"

definition continuation :: "nat \<Rightarrow> bool" where
  "continuation b \<longleftrightarrow> 128 \<le> b \<and> b \<le> 191"

text \<open>\<open>utf8.DecodeRuneInString\<close>: the rune and its width; an invalid byte is
  \<open>RuneError\<close> of width 1.\<close>

definition decode_rune :: "string \<Rightarrow> nat \<times> nat" where
  "decode_rune s =
     (case map byte_of (take 4 s) of
        [] \<Rightarrow> (rune_error, 0)
      | b0 # bs \<Rightarrow>
          if b0 < 128 then (b0, 1)
          else (case lead_info b0 of
                  None \<Rightarrow> (rune_error, 1)
                | Some (width, lo, hi) \<Rightarrow>
                    if length bs + 1 < width then (rune_error, 1)
                    else if bs ! 0 < lo \<or> hi < bs ! 0 then (rune_error, 1)
                    else if width = 2 then ((b0 - 192) * 64 + (bs ! 0 - 128), 2)
                    else if \<not> continuation (bs ! 1) then (rune_error, 1)
                    else if width = 3 then
                      ((b0 - 224) * 4096 + (bs ! 0 - 128) * 64 + (bs ! 1 - 128), 3)
                    else if \<not> continuation (bs ! 2) then (rune_error, 1)
                    else ((b0 - 240) * 262144 + (bs ! 0 - 128) * 4096 +
                          (bs ! 1 - 128) * 64 + (bs ! 2 - 128), 4)))"

lemma decode_rune_pos: "s \<noteq> [] \<Longrightarrow> 0 < snd (decode_rune s)"
  by (cases s) (auto simp: decode_rune_def Let_def split: option.splits prod.splits)

text \<open>The runes of \<open>for _, r := range s\<close>, each with its width.\<close>

function rune_steps :: "string \<Rightarrow> (nat \<times> nat) list" where
  "rune_steps s =
     (if s = [] then [] else decode_rune s # rune_steps (drop (snd (decode_rune s)) s))"
  by pat_completeness auto
termination
  by (relation "measure length") (use decode_rune_pos in auto)

declare rune_steps.simps [simp del]

definition runes :: "string \<Rightarrow> nat list" where
  "runes s = map fst (rune_steps s)"

definition valid_utf8 :: "string \<Rightarrow> bool" where
  "valid_utf8 s \<longleftrightarrow> list_all (\<lambda>st. st \<noteq> (rune_error, 1)) (rune_steps s)"

text \<open>\<open>unicode.IsControl\<close>: category Cc.\<close>

definition is_control :: "nat \<Rightarrow> bool" where
  "is_control r \<longleftrightarrow> r < 32 \<or> 127 \<le> r \<and> r < 160"

section \<open>White space\<close>

text \<open>The UTF-8 encodings of the runes of \<open>unicode.IsSpace\<close>: the six ASCII ones, U+0085,
  U+00A0, U+1680, U+2000 to U+200A, U+2028, U+2029, U+202F, U+205F and U+3000.\<close>

definition space_encodings :: "string list" where
  "space_encodings =
     map (map char_of)
       ([[9], [10], [11], [12], [13], [32], [194, 133], [194, 160], [225, 154, 128]]
        @ map (\<lambda>b. [226, 128, b]) [128..<139]
        @ [[226, 128, 168], [226, 128, 169], [226, 128, 175], [226, 129, 159],
           [227, 128, 128 :: nat]])"

text \<open>Drop leading members of a set of nonempty code words.\<close>

function strip_left :: "string list \<Rightarrow> string \<Rightarrow> string" where
  "strip_left ws s =
     (case find (\<lambda>w. w \<noteq> [] \<and> has_prefix w s) ws of
        None \<Rightarrow> s
      | Some w \<Rightarrow> strip_left ws (drop (length w) s))"
  by pat_completeness auto
termination
proof (relation "measure (\<lambda>(ws, s). length s)", goal_cases)
  case (2 ws s w)
  then have "w \<noteq> []" "has_prefix w s"
    by (auto simp: find_Some_iff)
  then show ?case by (cases s; cases w) (auto simp: has_prefix_def)
qed simp

declare strip_left.simps [simp del]

text \<open>\<open>strings.TrimSpace\<close> and \<open>bytes.TrimSpace\<close>.\<close>

definition trim_space :: "string \<Rightarrow> string" where
  "trim_space s =
     rev (strip_left (map rev space_encodings) (rev (strip_left space_encodings s)))"

section \<open>JSON values\<close>

text \<open>
  A value of type \<open>any\<close> after \<open>json.Unmarshal\<close>.  A number is the text by which
  \<open>json.Marshal\<close> prints that \<open>float64\<close>; an object is the list of its entries, with
  distinct keys.
\<close>

datatype json =
    JNull
  | JBool bool
  | JNum string
  | JStr string
  | JArr "json list"
  | JObj "(string \<times> json) list"

text \<open>A type assertion that yields the zero value when it fails, and \<open>object[key]\<close>.\<close>

fun string_value :: "json option \<Rightarrow> string" where
  "string_value (Some (JStr s)) = s"
| "string_value _ = []"

fun bool_value :: "json option \<Rightarrow> bool" where
  "bool_value (Some (JBool b)) = b"
| "bool_value _ = False"

fun as_object :: "json option \<Rightarrow> (string \<times> json) list option" where
  "as_object (Some (JObj kvs)) = Some kvs"
| "as_object _ = None"

fun as_array :: "json option \<Rightarrow> json list option" where
  "as_array (Some (JArr xs)) = Some xs"
| "as_array _ = None"

definition field :: "(string \<times> json) list \<Rightarrow> string \<Rightarrow> json option" where
  "field kvs k = map_of kvs k"

text \<open>\<open>input, _ := v.(map[string]any)\<close> followed by \<open>input[key]\<close>: a failed assertion is the
  nil map, which has no keys.\<close>

definition sub_field :: "json option \<Rightarrow> string \<Rightarrow> json option" where
  "sub_field v k = (case as_object v of None \<Rightarrow> None | Some kvs \<Rightarrow> field kvs k)"

fun first_non_empty :: "string list \<Rightarrow> string" where
  "first_non_empty [] = []"
| "first_non_empty (v # vs) = (if v \<noteq> [] then v else first_non_empty vs)"

lemma size_snd_mem: "kv \<in> set kvs \<Longrightarrow> size (snd kv) < Suc (size_list (size_prod (\<lambda>_. 0) size) kvs)"
  by (induction kvs) auto

text \<open>The nesting depth of a value, as each source package computes it.\<close>

fun json_depth :: "json \<Rightarrow> nat \<Rightarrow> nat" where
  "json_depth (JObj kvs) d = foldr (\<lambda>kv m. max m (json_depth (snd kv) (Suc d))) kvs d"
| "json_depth (JArr xs) d = foldr (\<lambda>x m. max m (json_depth x (Suc d))) xs d"
| "json_depth _ d = d"

section \<open>Printing JSON\<close>

text \<open>The string encoder of \<open>encoding/json\<close>; \<open>html\<close> is its \<open>escapeHTML\<close> option.\<close>

definition json_escape_ascii :: "bool \<Rightarrow> nat \<Rightarrow> string" where
  "json_escape_ascii html b =
     (if b = 34 then [CHR 0x5C, CHR 0x22]
      else if b = 92 then [CHR 0x5C, CHR 0x5C]
      else if b = 8 then [CHR 0x5C, CHR ''b'']
      else if b = 12 then [CHR 0x5C, CHR ''f'']
      else if b = 10 then [CHR 0x5C, CHR ''n'']
      else if b = 13 then [CHR 0x5C, CHR ''r'']
      else if b = 9 then [CHR 0x5C, CHR ''t'']
      else if b < 32 \<or> html \<and> (b = 60 \<or> b = 62 \<or> b = 38)
      then CHR 0x5C # ''u'' @ hex_pad 4 b
      else [char_of b])"

fun json_escape_steps :: "bool \<Rightarrow> (nat \<times> nat) list \<Rightarrow> string \<Rightarrow> string" where
  "json_escape_steps html [] s = []"
| "json_escape_steps html ((r, n) # steps) s =
     (if n = 1 \<and> r < 128 then json_escape_ascii html r
      else if (r, n) = (rune_error, 1) then CHR 0x5C # ''ufffd''
      else if r = 8232 \<or> r = 8233 then CHR 0x5C # ''u'' @ hex_pad 4 r
      else take n s) @ json_escape_steps html steps (drop n s)"

definition json_string :: "bool \<Rightarrow> string \<Rightarrow> string" where
  "json_string html s = CHR 0x22 # json_escape_steps html (rune_steps s) s @ [CHR 0x22]"

text \<open>\<open>json.Marshal\<close> of a value of type \<open>any\<close>; map keys are printed in sorted order.\<close>

fun json_marshal :: "bool \<Rightarrow> json \<Rightarrow> string" where
  "json_marshal html JNull = ''null''"
| "json_marshal html (JBool b) = (if b then ''true'' else ''false'')"
| "json_marshal html (JNum t) = t"
| "json_marshal html (JStr s) = json_string html s"
| "json_marshal html (JArr xs) =
     CHR ''['' # join '','' (map (json_marshal html) xs) @ '']''"
| "json_marshal html (JObj kvs) =
     CHR ''{'' #
       join '','' (map (\<lambda>kv. json_string html (fst kv) @ '':'' @ json_marshal html (snd kv))
                       (sort_key fst kvs)) @ ''}''"

section \<open>Library functions that stay parameters\<close>

type_synonym instant = int

text \<open>
  Times are instants in nanoseconds since the Unix epoch.  \<open>time.Time{}\<close>, the value for
  which \<open>IsZero\<close> holds, is 1 January of year 1.
\<close>

definition zero_time :: instant where
  "zero_time = -62135596800000000000"

definition is_zero_time :: "instant \<Rightarrow> bool" where
  "is_zero_time t \<longleftrightarrow> t = zero_time"

record golib =
  json_unmarshal :: "string \<Rightarrow> json option"  \<comment> \<open>\<open>json.Unmarshal\<close> into \<open>any\<close>\<close>
  time_parse :: "string \<Rightarrow> instant option"   \<comment> \<open>\<open>time.Parse(time.RFC3339Nano, s)\<close>\<close>
  float_instant :: "string \<Rightarrow> instant"       \<comment> \<open>a \<open>float64\<close> of seconds as an instant\<close>
  format_seconds :: "instant \<Rightarrow> string"      \<comment> \<open>\<open>Format(\"2006-01-02 15:04:05\")\<close> in UTC\<close>
  sha256_hex :: "string \<Rightarrow> string"           \<comment> \<open>hex of \<open>sha256.Sum256\<close>\<close>
  unicode_lower :: "string \<Rightarrow> string"        \<comment> \<open>\<open>strings.ToLower\<close> beyond ASCII\<close>
  re_submatch :: "string \<Rightarrow> string \<Rightarrow> string option" \<comment> \<open>first group of the leftmost match\<close>

text \<open>\<open>strings.ToLower\<close>: byte-wise on ASCII strings, by the Unicode tables otherwise.\<close>

definition ascii_lower :: "char \<Rightarrow> char" where
  "ascii_lower c = (if CHR ''A'' \<le> c \<and> c \<le> CHR ''Z'' then char_of (byte_of c + 32) else c)"

definition to_lower :: "golib \<Rightarrow> string \<Rightarrow> string" where
  "to_lower L s =
     (if list_all (\<lambda>c. byte_of c < 128) s then map ascii_lower s else unicode_lower L s)"

text \<open>The fraction that the layouts \<open>.999999999\<close> and \<open>canonicalTimestamp\<close> append: nothing
  for a whole second, else the nanoseconds without trailing zeros.\<close>

fun pad_nat :: "nat \<Rightarrow> nat \<Rightarrow> string" where
  "pad_nat 0 n = []"
| "pad_nat (Suc k) n = pad_nat k (n div 10) @ [digit (n mod 10)]"

definition time_fraction :: "instant \<Rightarrow> string" where
  "time_fraction t =
     (let nanos = nat (t mod 1000000000) in
      if nanos = 0 then []
      else ''.'' @ rev (dropWhile (\<lambda>c. c = CHR ''0'') (rev (pad_nat 9 nanos))))"

definition format_time :: "golib \<Rightarrow> instant \<Rightarrow> string" where
  "format_time L t = format_seconds L t @ time_fraction t @ ''+00:00''"

section \<open>Lemmas\<close>

lemma strip_left_suffix: "\<exists>u. s = u @ strip_left ws s"
proof (induction ws s rule: strip_left.induct)
  case (1 ws s)
  show ?case
  proof (cases "find (\<lambda>w. w \<noteq> [] \<and> has_prefix w s) ws")
    case None
    then show ?thesis by (simp add: strip_left.simps [of ws s])
  next
    case (Some w)
    with 1 obtain u where "drop (length w) s = u @ strip_left ws (drop (length w) s)"
      by blast
    then have "s = (take (length w) s @ u) @ strip_left ws (drop (length w) s)"
      by (metis append_assoc append_take_drop_id)
    moreover have "strip_left ws s = strip_left ws (drop (length w) s)"
      using Some by (simp add: strip_left.simps [of ws s])
    ultimately show ?thesis by metis
  qed
qed

lemma length_strip_left: "length (strip_left ws s) \<le> length s"
  using strip_left_suffix [of s ws] by (metis length_append le_add2)

lemma trim_space_infix: "\<exists>u v. s = u @ trim_space s @ v"
proof -
  obtain u where u: "s = u @ strip_left space_encodings s"
    using strip_left_suffix by blast
  obtain v where "rev (strip_left space_encodings s) =
      v @ strip_left (map rev space_encodings) (rev (strip_left space_encodings s))"
    using strip_left_suffix by blast
  then have "strip_left space_encodings s = trim_space s @ rev v"
    unfolding trim_space_def by (metis rev_append rev_rev_ident)
  with u show ?thesis by metis
qed

lemma length_trim_space: "length (trim_space s) \<le> length s"
  using trim_space_infix [of s] by (metis length_append le_add1 le_add2 order_trans)

lemma trim_space_Nil [simp]: "trim_space [] = []"
  using length_trim_space [of "[]"] by simp

lemma foldr_max_ge: "d \<le> foldr (\<lambda>x m. max m (f x)) xs (d :: nat)"
  by (induction xs) auto

lemma foldr_max_mem: "x \<in> set xs \<Longrightarrow> f x \<le> foldr (\<lambda>x m. max m (f x)) xs (d :: nat)"
  by (induction xs) auto

lemma json_depth_ge: "d \<le> json_depth v d"
  by (cases v) (auto intro: foldr_max_ge)

text \<open>A bound on the depth of a value bounds the depth of everything inside it.\<close>

lemma json_depth_child:
  "x \<in> set xs \<Longrightarrow> json_depth x (Suc d) \<le> json_depth (JArr xs) d"
  "kv \<in> set kvs \<Longrightarrow> json_depth (snd kv) (Suc d) \<le> json_depth (JObj kvs) d"
  by (simp_all add: foldr_max_mem [where f = "\<lambda>x. json_depth x (Suc d)"]
      foldr_max_mem [where f = "\<lambda>kv. json_depth (snd kv) (Suc d)"])

section \<open>Lemmas: trimming\<close>

lemma strip_left_stuck:
  "strip_left ws s = s \<longleftrightarrow> find (\<lambda>w. w \<noteq> [] \<and> has_prefix w s) ws = None"
proof
  assume eq: "strip_left ws s = s"
  show "find (\<lambda>w. w \<noteq> [] \<and> has_prefix w s) ws = None"
  proof (rule ccontr)
    assume "find (\<lambda>w. w \<noteq> [] \<and> has_prefix w s) ws \<noteq> None"
    then obtain w where w: "find (\<lambda>w. w \<noteq> [] \<and> has_prefix w s) ws = Some w" by auto
    then have "w \<noteq> []" "has_prefix w s" by (auto simp: find_Some_iff)
    then have "length (drop (length w) s) < length s"
      by (cases w; cases s) (auto simp: has_prefix_def)
    with w eq length_strip_left [of ws "drop (length w) s"] show False
      by (simp add: strip_left.simps [of ws s])
  qed
qed (simp add: strip_left.simps [of ws s])

lemma strip_left_idem: "strip_left ws (strip_left ws s) = strip_left ws s"
proof (induction ws s rule: strip_left.induct)
  case (1 ws s)
  then show ?case
    by (cases "find (\<lambda>w. w \<noteq> [] \<and> has_prefix w s) ws")
       (simp_all add: strip_left.simps [of ws s])
qed

lemma strip_left_prefix:
  assumes "strip_left ws (t @ v) = t @ v"
  shows "strip_left ws t = t"
  using assms unfolding strip_left_stuck find_None_iff by (auto simp: has_prefix_iff)

lemma trim_space_idem [simp]: "trim_space (trim_space s) = trim_space s"
proof -
  let ?u = "strip_left space_encodings s"
  let ?r = "strip_left (map rev space_encodings) (rev ?u)"
  obtain v where "rev ?u = v @ ?r" using strip_left_suffix by blast
  then have "?u = rev ?r @ rev v" by (metis rev_append rev_rev_ident)
  then have "strip_left space_encodings (rev ?r) = rev ?r"
    using strip_left_idem [of space_encodings s] strip_left_prefix by metis
  then show ?thesis by (simp add: trim_space_def strip_left_idem)
qed

lemma byte_of_inj [simp]: "byte_of a = byte_of b \<longleftrightarrow> a = b"
  by (simp add: byte_of_def)

lemma byte_of_char_of [simp]: "n < 256 \<Longrightarrow> byte_of (char_of n) = n"
  by (simp add: byte_of_def of_char_of)

lemma less_eq_char_byte: "a \<le> b \<longleftrightarrow> byte_of a \<le> byte_of b"
  by (simp add: less_eq_char_def byte_of_def)

definition solid :: "char \<Rightarrow> bool" where
  "solid c \<longleftrightarrow> 32 < byte_of c \<and> byte_of c < 128"

lemma strip_left_solid:
  assumes "list_all (\<lambda>w. w \<noteq> [] \<and> \<not> solid (hd w)) ws" "solid c"
  shows "strip_left ws (c # s) = c # s"
proof -
  have "\<not> (w \<noteq> [] \<and> has_prefix w (c # s))" if "w \<in> set ws" for w
    using assms that by (cases w) (auto simp: list_all_iff has_prefix_def)
  then show ?thesis by (simp add: strip_left_stuck find_None_iff)
qed

lemma trim_space_solid:
  assumes "s \<noteq> []" "solid (hd s)" "solid (last s)"
  shows "trim_space s = s"
proof -
  have "list_all (\<lambda>w. w \<noteq> [] \<and> \<not> solid (hd w)) space_encodings"
    and "list_all (\<lambda>w. w \<noteq> [] \<and> \<not> solid (hd w)) (map rev space_encodings)"
    by code_simp+
  moreover obtain c u where "s = c # u" using assms(1) by (cases s) auto
  moreover obtain d v where "rev s = d # v" "d = last s"
    using assms(1) by (cases s rule: rev_cases) auto
  ultimately have "strip_left space_encodings s = s"
    and "strip_left (map rev space_encodings) (rev s) = rev s"
    using assms strip_left_solid by auto
  then show ?thesis by (simp add: trim_space_def)
qed

section \<open>A concrete library\<close>

text \<open>An instance of the parameters on which the development is evaluated: nothing decodes or
  matches, every digest is zero.  The instances of the clients override single fields.\<close>

definition example_golib :: golib where
  "example_golib = \<lparr>json_unmarshal = (\<lambda>_. None), time_parse = (\<lambda>_. None), float_instant = (\<lambda>_. 0),
     format_seconds = (\<lambda>_. []), sha256_hex = (\<lambda>_. replicate 64 (CHR ''0'')),
     unicode_lower = (\<lambda>s. s), re_submatch = (\<lambda>_ _. None)\<rparr>"

end
