(* ===== verification/Go_Path.thy ===== *)
theory Go_Path
  imports Go_Text
begin

text \<open>
  The functions of \<open>path/filepath\<close> (on Unix, where the separator is the slash) that the
  sources use to keep paths absolute, clean and inside a root: \<open>IsAbs\<close>, \<open>Clean\<close>, \<open>Base\<close>,
  \<open>Dir\<close>, \<open>Ext\<close>, \<open>Join\<close> of two elements and \<open>Rel\<close>, with the facts that make \<open>Clean(p) == p\<close>
  a meaningful check.
\<close>

section \<open>Definitions\<close>

abbreviation slash :: char where
  "slash \<equiv> CHR ''/''"

definition is_abs :: "string \<Rightarrow> bool" where
  "is_abs p \<longleftrightarrow> has_prefix ''/'' p"

text \<open>One path element against the stack of elements kept so far (innermost first).\<close>

definition clean_step :: "bool \<Rightarrow> string list \<Rightarrow> string \<Rightarrow> string list" where
  "clean_step rooted stack c =
     (if c = [] \<or> c = ''.'' then stack
      else if c = ''..'' then
        (case stack of
           [] \<Rightarrow> if rooted then [] else [c]
         | t # ts \<Rightarrow> if t = ''..'' then c # stack else ts)
      else c # stack)"

definition clean_elements :: "bool \<Rightarrow> string list \<Rightarrow> string list" where
  "clean_elements rooted cs = rev (foldl (clean_step rooted) [] cs)"

definition path_clean :: "string \<Rightarrow> string" where
  "path_clean p =
     (let cs = clean_elements (is_abs p) (split_char slash p) in
      if is_abs p then slash # join ''/'' cs
      else if cs = [] then ''.'' else join ''/'' cs)"

text \<open>The test that guards every configured path: \<open>IsAbs(p) && Clean(p) == p\<close>.\<close>

definition abs_clean :: "string \<Rightarrow> bool" where
  "abs_clean p \<longleftrightarrow> is_abs p \<and> path_clean p = p"

definition strip_trailing_slashes :: "string \<Rightarrow> string" where
  "strip_trailing_slashes p = rev (dropWhile (\<lambda>c. c = slash) (rev p))"

definition path_base :: "string \<Rightarrow> string" where
  "path_base p =
     (if p = [] then ''.''
      else let q = strip_trailing_slashes p in
           if q = [] then ''/'' else last (split_char slash q))"

text \<open>\<open>Dir\<close>: everything up to the last slash, cleaned.\<close>

definition path_dir :: "string \<Rightarrow> string" where
  "path_dir p = path_clean (rev (dropWhile (\<lambda>c. c \<noteq> slash) (rev p)))"

text \<open>\<open>Ext\<close>: from the last dot of the final element, empty if it has none.\<close>

definition path_ext :: "string \<Rightarrow> string" where
  "path_ext p =
     (let final = last (split_char slash p) in
      if CHR ''.'' \<in> set final
      then CHR ''.'' # rev (takeWhile (\<lambda>c. c \<noteq> CHR ''.'') (rev final))
      else [])"

definition path_join :: "string \<Rightarrow> string \<Rightarrow> string" where
  "path_join a b =
     (if a = [] then (if b = [] then [] else path_clean b)
      else if b = [] then path_clean a
      else path_clean (a @ slash # b))"

text \<open>The elements of a cleaned path.\<close>

definition path_elements :: "string \<Rightarrow> string list" where
  "path_elements p = clean_elements (is_abs p) (split_char slash p)"

fun strip_common :: "string list \<Rightarrow> string list \<Rightarrow> string list \<times> string list" where
  "strip_common (b # bs) (t # ts) = (if b = t then strip_common bs ts else (b # bs, t # ts))"
| "strip_common bs ts = (bs, ts)"

text \<open>\<open>filepath.Rel(base, target)\<close>: \<open>None\<close> is its error, for a relative against an absolute
  path or a base that leaves an unresolvable \<open>..\<close>.\<close>

definition path_rel :: "string \<Rightarrow> string \<Rightarrow> string option" where
  "path_rel base target =
     (if is_abs base \<noteq> is_abs target then None
      else let (bs, ts) = strip_common (path_elements base) (path_elements target) in
           if ''..'' \<in> set bs then None
           else if bs = [] \<and> ts = [] then Some ''.''
           else Some (join ''/'' (map (\<lambda>_. ''..'') bs @ ts)))"

section \<open>Clean paths\<close>

text \<open>What a cleaned rooted element stack can hold.\<close>

definition plain_element :: "string \<Rightarrow> bool" where
  "plain_element c \<longleftrightarrow> c \<noteq> [] \<and> c \<noteq> ''.'' \<and> c \<noteq> ''..'' \<and> slash \<notin> set c"

lemma is_abs_Cons [simp]: "is_abs (c # p) \<longleftrightarrow> c = slash" "\<not> is_abs []"
  by (auto simp: is_abs_def has_prefix_def)

lemma clean_step_plain:
  "list_all plain_element stack \<Longrightarrow> slash \<notin> set c \<Longrightarrow>
   list_all plain_element (clean_step True stack c)"
  by (auto simp: clean_step_def plain_element_def split: list.splits)

lemma foldl_clean_step_plain:
  "list_all plain_element stack \<Longrightarrow> \<forall>c \<in> set cs. slash \<notin> set c \<Longrightarrow>
   list_all plain_element (foldl (clean_step True) stack cs)"
proof (induction cs arbitrary: stack)
  case Nil
  then show ?case by simp
next
  case (Cons c cs)
  then show ?case using clean_step_plain [of stack c] by simp
qed

lemma clean_elements_plain:
  "\<forall>c \<in> set cs. slash \<notin> set c \<Longrightarrow> list_all plain_element (clean_elements True cs)"
  unfolding clean_elements_def
  using foldl_clean_step_plain [of "[]" cs] by (simp add: list_all_iff)

lemma foldl_clean_step_id:
  "list_all plain_element cs \<Longrightarrow> foldl (clean_step r) stack cs = rev cs @ stack"
  by (induction cs arbitrary: stack) (auto simp: clean_step_def plain_element_def)

lemma clean_elements_id: "list_all plain_element cs \<Longrightarrow> clean_elements r cs = cs"
  by (simp add: clean_elements_def foldl_clean_step_id)

lemma path_elements_plain: "is_abs p \<Longrightarrow> list_all plain_element (path_elements p)"
  unfolding path_elements_def
  using clean_elements_plain [of "split_char slash p"] split_char_no_sep by auto

lemma path_clean_abs: "is_abs p \<Longrightarrow> path_clean p = slash # join ''/'' (path_elements p)"
  by (simp add: path_clean_def path_elements_def Let_def)

text \<open>A rooted path built from plain elements is clean, and reading its elements back
  returns them.\<close>

lemma path_elements_of_plain:
  assumes "list_all plain_element cs"
  shows "path_elements (slash # join ''/'' cs) = cs"
proof (cases "cs = []")
  case True
  then show ?thesis
    by (simp add: path_elements_def clean_elements_def clean_step_def)
next
  case False
  with assms have "split_char slash (join [slash] cs) = cs"
    by (intro split_char_join) (auto simp: list_all_iff plain_element_def)
  then have "split_char slash (slash # join ''/'' cs) = [] # cs" by simp
  moreover have "clean_elements True ([] # cs) = cs"
    using clean_elements_id [OF assms, of True]
    by (simp add: clean_elements_def clean_step_def)
  ultimately show ?thesis by (simp add: path_elements_def)
qed

lemma abs_clean_iff:
  "abs_clean p \<longleftrightarrow> (\<exists>cs. list_all plain_element cs \<and> p = slash # join ''/'' cs)"
proof
  assume "abs_clean p"
  then have "is_abs p" "path_clean p = p" by (simp_all add: abs_clean_def)
  then have "p = slash # join ''/'' (path_elements p)" by (simp add: path_clean_abs)
  with path_elements_plain [OF \<open>is_abs p\<close>]
  show "\<exists>cs. list_all plain_element cs \<and> p = slash # join ''/'' cs" by blast
next
  assume "\<exists>cs. list_all plain_element cs \<and> p = slash # join ''/'' cs"
  then show "abs_clean p"
    by (auto simp: abs_clean_def path_clean_abs path_elements_of_plain)
qed

text \<open>Cleaning an absolute path always gives a clean one, so \<open>Clean\<close> is idempotent there.\<close>

lemma abs_clean_path_clean: "is_abs p \<Longrightarrow> abs_clean (path_clean p)"
  unfolding abs_clean_iff using path_clean_abs path_elements_plain by blast

lemma path_elements_inj:
  assumes "abs_clean p" "abs_clean q" "path_elements p = path_elements q"
  shows "p = q"
  using assms by (metis abs_clean_def path_clean_abs)

lemma strip_common_append:
  "strip_common bs ts = (bs', ts') \<Longrightarrow> \<exists>c. bs = c @ bs' \<and> ts = c @ ts'"
  by (induction bs ts rule: strip_common.induct) (auto split: if_splits)

text \<open>The last element of a nonroot clean path is its base name.\<close>

lemma last_plain_no_slash:
  "list_all plain_element cs \<Longrightarrow> cs \<noteq> [] \<Longrightarrow> slash \<notin> set (last cs) \<and> last cs \<noteq> []"
  by (auto simp: list_all_iff plain_element_def dest: last_in_set)

end
