(* ===== verification/Split_Content.thy ===== *)
theory Split_Content
  imports Go_Text
begin

text \<open>
  Splitting a long conversation turn into parts of at most \<open>MaxChunkContentLength = 8000\<close>
  bytes with an overlap of \<open>ChunkOverlap = 1500\<close>.  Package \<open>claude\<close> has one version of
  \<open>splitContent\<close>; packages \<open>codex\<close>, \<open>gemini\<close> and \<open>chatgpt\<close> have a second one each, equal
  among themselves.  The lemmas show that the first version covers the content in parts
  that advance, overlap and respect the limit, and what the second version does at the
  end of the content.
\<close>

section \<open>Definitions\<close>

definition MaxChunkContentLength :: nat where
  "MaxChunkContentLength = 8000"

definition ChunkOverlap :: nat where
  "ChunkOverlap = 1500"

text \<open>The place where a part that does not reach the end stops: after the last blank line
  of its final 1000 bytes, else after its last sentence or line end, else at the limit.\<close>

definition break_end :: "string \<Rightarrow> nat \<Rightarrow> nat \<Rightarrow> nat" where
  "break_end content start stop =
     (let searchStart = max start (stop - 1000);
          region = slice content searchStart stop;
          breakAt = last_index region [CHR 0x0A, CHR 0x0A];
          candidate = max (max (last_index region ''. '') (last_index region ''! ''))
                          (max (last_index region ''? '') (last_index region [CHR 0x0A]))
      in if breakAt > 0 then searchStart + nat breakAt + 2
         else if candidate > 0 then searchStart + nat candidate + 1
         else stop)"

text \<open>The loop of \<open>claude.splitContent\<close>.\<close>

function claude_split_loop :: "string \<Rightarrow> nat \<Rightarrow> string list" where
  "claude_split_loop content start =
     (if start < length content then
        let stop = start + MaxChunkContentLength in
        if length content \<le> stop then [drop start content]
        else let e = break_end content start stop in
             slice content start e #
             claude_split_loop content (max (start + 1) (e - ChunkOverlap))
      else [])"
  by pat_completeness auto
termination
  by (relation "measure (\<lambda>(content, start). length content - start)") auto

declare claude_split_loop.simps [simp del]

definition claude_splitContent :: "string \<Rightarrow> string list" where
  "claude_splitContent content =
     (if length content \<le> MaxChunkContentLength then [content]
      else claude_split_loop content 0)"

text \<open>The loop of the other three packages: the part that reaches the end does not leave
  the loop.\<close>

function overlap_split_loop :: "string \<Rightarrow> nat \<Rightarrow> string list" where
  "overlap_split_loop content start =
     (if start < length content then
        let stop = min (start + MaxChunkContentLength) (length content);
            e = (if stop < length content then break_end content start stop else stop)
        in slice content start e #
           overlap_split_loop content (max (start + 1) (e - ChunkOverlap))
      else [])"
  by pat_completeness auto
termination
  by (relation "measure (\<lambda>(content, start). length content - start)") auto

declare overlap_split_loop.simps [simp del]

definition codex_splitContent :: "string \<Rightarrow> string list" where
  "codex_splitContent content =
     (if length content \<le> MaxChunkContentLength then [content]
      else overlap_split_loop content 0)"

definition gemini_splitContent :: "string \<Rightarrow> string list" where
  "gemini_splitContent content =
     (if length content \<le> MaxChunkContentLength then [content]
      else overlap_split_loop content 0)"

definition chatgpt_splitContent :: "string \<Rightarrow> string list" where
  "chatgpt_splitContent content =
     (if length content \<le> MaxChunkContentLength then [content]
      else overlap_split_loop content 0)"

lemmas split_limits [simp] = MaxChunkContentLength_def ChunkOverlap_def

section \<open>The break position\<close>

lemma break_end_bounds:
  assumes "start + 8000 = stop" "stop < length content"
  shows "start + 7000 < break_end content start stop" "break_end content start stop \<le> stop"
proof -
  define region where "region = slice content (start + 7000) stop"
  define breakAt where "breakAt = last_index region [CHR 0x0A, CHR 0x0A]"
  define candidate where "candidate =
      max (max (last_index region ''. '') (last_index region ''! ''))
          (max (last_index region ''? '') (last_index region [CHR 0x0A]))"
  have start: "max start (stop - 1000) = start + 7000" using assms by auto
  have eq: "break_end content start stop =
      (if breakAt > 0 then start + 7000 + nat breakAt + 2
       else if candidate > 0 then start + 7000 + nat candidate + 1 else stop)"
    unfolding break_end_def start Let_def
    by (simp add: region_def breakAt_def candidate_def)
  have len: "length region = 1000" using assms by (simp add: region_def)
  have fits: "last_index region p + 1 \<le> 1000" if "p \<noteq> []" for p
    using last_index_fits [of p region] that len
    by (cases "last_index region p \<ge> 0"; cases p) auto
  have "breakAt > 0 \<Longrightarrow> nat breakAt + 2 \<le> 1000"
    using last_index_fits [of "[CHR 0x0A, CHR 0x0A]" region] len by (simp add: breakAt_def)
  moreover have "candidate + 1 \<le> 1000"
    using fits [of "''. ''"] fits [of "''! ''"] fits [of "''? ''"] fits [of "[CHR 0x0A]"]
    by (simp add: candidate_def)
  ultimately show "start + 7000 < break_end content start stop"
    and "break_end content start stop \<le> stop"
    using assms(1) by (auto simp: eq)
qed

section \<open>Covering\<close>

text \<open>
  A list of spans covers \<open>[lo, n)\<close> when it starts at \<open>lo\<close>, each span is nonempty and no
  longer than the limit, each next span starts strictly later but not after the previous
  end, and the last one ends at \<open>n\<close>.
\<close>

fun covering :: "nat \<Rightarrow> nat \<Rightarrow> (nat \<times> nat) list \<Rightarrow> bool" where
  "covering lo n [] = False"
| "covering lo n [(i, j)] = (i = lo \<and> i < j \<and> j = n \<and> j - i \<le> MaxChunkContentLength)"
| "covering lo n ((i, j) # (i', j') # spans) =
     (i = lo \<and> i < j \<and> j \<le> n \<and> j - i \<le> MaxChunkContentLength \<and> i < i' \<and> i' \<le> j \<and>
      covering i' n ((i', j') # spans))"

lemma covering_Cons:
  assumes "covering i' n spans" "i < j" "j \<le> n" "j - i \<le> MaxChunkContentLength" "i < i'" "i' \<le> j"
  shows "covering i n ((i, j) # spans)"
proof (cases spans)
  case Nil
  with assms show ?thesis by simp
next
  case (Cons s rest)
  with assms show ?thesis by (cases s; cases rest) auto
qed

lemma claude_split_loop_covering:
  assumes "start < length content"
  shows "\<exists>spans. claude_split_loop content start = map (\<lambda>(i, j). slice content i j) spans
                 \<and> covering start (length content) spans"
  using assms
proof (induction content start rule: claude_split_loop.induct)
  case (1 content start)
  show ?case
  proof (cases "length content \<le> start + 8000")
    case True
    with "1.prems" have "claude_split_loop content start = map (\<lambda>(i, j). slice content i j)
        [(start, length content)]"
      by (simp add: claude_split_loop.simps [of content start])
    moreover have "covering start (length content) [(start, length content)]"
      using True "1.prems" by simp
    ultimately show ?thesis by blast
  next
    case False
    define e where "e = break_end content start (start + 8000)"
    define nxt where "nxt = max (start + 1) (e - 1500)"
    have e: "start + 7000 < e" "e \<le> start + 8000"
      using break_end_bounds [of start "start + 8000" content] False by (auto simp: e_def)
    then have n: "start < nxt" "nxt \<le> e" "nxt < length content"
      using False by (auto simp: nxt_def)
    have IH: "\<exists>spans. claude_split_loop content nxt = map (\<lambda>(i, j). slice content i j) spans
        \<and> covering nxt (length content) spans"
      using "1.IH" [OF "1.prems", of "start + 8000" e] False n
      by (simp add: e_def nxt_def)
    then obtain spans where s: "claude_split_loop content nxt =
        map (\<lambda>(i, j). slice content i j) spans" "covering nxt (length content) spans"
      by blast
    have "claude_split_loop content start = map (\<lambda>(i, j). slice content i j) ((start, e) # spans)"
      using "1.prems" False s(1)
      by (simp add: claude_split_loop.simps [of content start] Let_def e_def nxt_def)
    moreover have "covering start (length content) ((start, e) # spans)"
      using covering_Cons [OF s(2), of start e] e n False by simp
    ultimately show ?thesis by blast
  qed
qed

lemma covering_lengths:
  "covering lo n spans \<Longrightarrow> (i, j) \<in> set spans \<Longrightarrow> i < j \<and> j \<le> n \<and> j - i \<le> 8000"
  by (induction lo n spans rule: covering.induct) auto

lemma covering_point:
  "covering lo n spans \<Longrightarrow> lo \<le> k \<Longrightarrow> k < n \<Longrightarrow> \<exists>(i, j) \<in> set spans. i \<le> k \<and> k < j"
proof (induction lo n spans rule: covering.induct)
  case (3 lo n i j i' j' spans)
  show ?case
  proof (cases "k < j")
    case True
    with 3 show ?thesis by auto
  next
    case False
    with 3 show ?thesis by force
  qed
qed auto

section \<open>The end of the second version\<close>

text \<open>Once the start is within the overlap of the end, every remaining suffix is a part.\<close>

lemma overlap_split_tail:
  assumes "length content - ChunkOverlap \<le> start" "start \<le> length content"
    "ChunkOverlap \<le> length content"
  shows "overlap_split_loop content start = map (\<lambda>k. drop k content) [start..<length content]"
  using assms
proof (induction content start rule: overlap_split_loop.induct)
  case (1 content start)
  show ?case
  proof (cases "start < length content")
    case True
    have "max (Suc start) (length content - 1500) = Suc start"
      using "1.prems" by simp
    moreover have "overlap_split_loop content (Suc start) =
        map (\<lambda>k. drop k content) [Suc start..<length content]"
      using "1.IH" [of "length content" "length content"] True "1.prems" by (simp add: max_def)
    ultimately show ?thesis
      using True "1.prems"
      by (simp add: overlap_split_loop.simps [of content start] Let_def upt_conv_Cons)
  next
    case False
    with "1.prems" have "start = length content" by simp
    then show ?thesis using overlap_split_loop.simps [of content start] by simp
  qed
qed

lemma overlap_split_loop_tail:
  assumes "start + 1500 < length content"
  shows "\<exists>ps. ps \<noteq> [] \<and> overlap_split_loop content start =
           ps @ map (\<lambda>k. drop k content) [length content - 1500..<length content]"
  using assms
proof (induction content start rule: overlap_split_loop.induct)
  case (1 content start)
  define stop where "stop = min (start + 8000) (length content)"
  define e where "e = (if stop < length content then break_end content start stop else stop)"
  define nxt where "nxt = max (Suc start) (e - 1500)"
  have step: "overlap_split_loop content start = slice content start e # overlap_split_loop content nxt"
    using "1.prems"
    by (simp add: overlap_split_loop.simps [of content start] Let_def e_def nxt_def stop_def)
  show ?case
  proof (cases "stop < length content")
    case True
    then have "start + 7000 < e" "e \<le> stop"
      using break_end_bounds [of start stop content] by (auto simp: e_def stop_def)
    then have "nxt + 1500 < length content" using True by (auto simp: nxt_def)
    moreover have "start < length content" using "1.prems" by simp
    ultimately obtain ps where "overlap_split_loop content nxt =
        ps @ map (\<lambda>k. drop k content) [length content - 1500..<length content]"
      using "1.IH" [of stop e] by (auto simp: stop_def e_def nxt_def)
    with step show ?thesis by (metis append_Cons list.distinct(1))
  next
    case False
    with "1.prems" have "nxt = length content - 1500" by (auto simp: nxt_def e_def stop_def)
    then have "overlap_split_loop content nxt =
        map (\<lambda>k. drop k content) [length content - 1500..<length content]"
      using overlap_split_tail [of content nxt] "1.prems" by simp
    with step show ?thesis by (metis append_Cons append_Nil list.distinct(1))
  qed
qed

text \<open>A content above the limit has more than 1500 parts.\<close>

lemma overlap_split_many:
  assumes "MaxChunkContentLength < length content"
  shows "ChunkOverlap < length (overlap_split_loop content 0)"
proof -
  obtain ps where "ps \<noteq> []" "overlap_split_loop content 0 =
      ps @ map (\<lambda>k. drop k content) [length content - 1500..<length content]"
    using overlap_split_loop_tail [of 0 content] assms by auto
  with assms show ?thesis by (cases ps) simp_all
qed

section \<open>The number of parts\<close>

lemma claude_split_loop_count:
  assumes "start < length content"
  shows "claude_split_loop content start \<noteq> [] \<and>
     5500 * (length (claude_split_loop content start) - 1) < length content - start"
  using assms
proof (induction content start rule: claude_split_loop.induct)
  case (1 content start)
  show ?case
  proof (cases "length content \<le> start + 8000")
    case True
    with "1.prems" show ?thesis by (simp add: claude_split_loop.simps [of content start])
  next
    case False
    define e where "e = break_end content start (start + 8000)"
    define nxt where "nxt = max (start + 1) (e - 1500)"
    have n: "start + 5500 < nxt" "nxt < length content"
      using break_end_bounds [of start "start + 8000" content] False by (auto simp: e_def nxt_def)
    have "claude_split_loop content nxt \<noteq> [] \<and>
        5500 * (length (claude_split_loop content nxt) - 1) < length content - nxt"
      using "1.IH" [OF "1.prems", of "start + 8000" e] False n by (simp add: e_def nxt_def)
    moreover have "claude_split_loop content start =
        slice content start e # claude_split_loop content nxt"
      using "1.prems" False
      by (simp add: claude_split_loop.simps [of content start] Let_def e_def nxt_def)
    ultimately show ?thesis using n by (cases "claude_split_loop content nxt") auto
  qed
qed

section \<open>Properties\<close>



text \<open>C28: \<open>splitContent\<close> of the packages \<open>codex\<close>, \<open>gemini\<close> and \<open>chatgpt\<close> does not stop at the
  end of the content: above the limit, every one of its last 1500 suffixes becomes a part of its
  own.\<close>

theorem codex_splitContent_tail:
  assumes "MaxChunkContentLength < length content"
    and "split \<in> {codex_splitContent, gemini_splitContent, chatgpt_splitContent}"
  shows "\<exists>parts. parts \<noteq> [] \<and>
     split content = parts @ map (\<lambda>k. drop k content) [length content - ChunkOverlap..<length content]"
proof -
  have "split content = overlap_split_loop content 0"
    using assms
    by (auto simp: codex_splitContent_def gemini_splitContent_def chatgpt_splitContent_def)
  then show ?thesis using overlap_split_loop_tail [of 0 content] assms(1) by simp
qed

theorem codex_splitContent_tail_witness:
  "\<exists>parts. codex_splitContent (replicate 8001 (CHR ''x'')) =
     parts @ map (\<lambda>k. drop k (replicate 8001 (CHR ''x''))) [8001 - 1500..<8001]"
proof -
  have "MaxChunkContentLength < length (replicate 8001 (CHR ''x''))" by simp
  from codex_splitContent_tail [OF this, of codex_splitContent] obtain parts where
    "codex_splitContent (replicate 8001 (CHR ''x'')) = parts @
       map (\<lambda>k. drop k (replicate 8001 (CHR ''x'')))
         [length (replicate 8001 (CHR ''x'')) - ChunkOverlap..<length (replicate 8001 (CHR ''x''))]"
    by auto
  then show ?thesis by (intro exI [of _ parts]) (simp only: length_replicate ChunkOverlap_def)
qed

end
