(* ===== verification/Source_Common.thy ===== *)
theory Source_Common
  imports Go_Path Split_Content "HOL-Library.Word"
begin

text \<open>
  What the six source packages under \<open>internal/history/source\<close> share: the stored chunk
  (\<open>store.Chunk\<close>), the bounded reader and the JSONL line loop, and the assembly of a turn
  into numbered parts with parent and child links.  Each package repeats these pieces with
  its own constants; the package theories instantiate the definitions here.
\<close>

section \<open>Chunks\<close>

text \<open>\<open>store.Chunk\<close>.  A \<open>float32\<close> is its bit pattern.\<close>

record chunk =
  ck_id :: string
  ck_content :: string
  ck_vector :: "32 word list"
  ck_type :: string
  ck_session :: string
  ck_project_path :: string
  ck_project_name :: string
  ck_timestamp :: instant
  ck_user_uuid :: string
  ck_assistant_uuid :: string
  ck_file_path :: string
  ck_operation :: string
  ck_model :: string
  ck_source_file :: string
  ck_source_line :: int
  ck_parent :: string
  ck_children :: "string list"
  ck_machine :: string

text \<open>\<open>Chunk{}\<close>\<close>

definition zero_chunk :: chunk where
  "zero_chunk = \<lparr>ck_id = [], ck_content = [], ck_vector = [], ck_type = [], ck_session = [],
     ck_project_path = [], ck_project_name = [], ck_timestamp = zero_time, ck_user_uuid = [],
     ck_assistant_uuid = [], ck_file_path = [], ck_operation = [], ck_model = [],
     ck_source_file = [], ck_source_line = 0, ck_parent = [], ck_children = [],
     ck_machine = []\<rparr>"

text \<open>Provenance that every package attaches (\<open>Source\<close>); \<open>src_project\<close> is used by \<open>claude\<close>
  only, \<open>src_binary\<close> by \<open>antigravity\<close> only.\<close>

record source =
  src_file :: string
  src_machine :: string
  src_max_bytes :: int
  src_project :: string
  src_binary :: bool

text \<open>The first sixteen hexadecimal digits of the SHA-256 of content, session and key.\<close>

definition chunk_id :: "golib \<Rightarrow> string \<Rightarrow> string \<Rightarrow> string \<Rightarrow> string" where
  "chunk_id L content session key = take 16 (sha256_hex L (content @ session @ key))"

text \<open>An entry without a timestamp is dated \<open>line * 1000\<close> nanoseconds after the epoch.\<close>

definition fallback_time :: "nat \<Rightarrow> instant" where
  "fallback_time line = int line * 1000"

text \<open>The loop over the parts of a split content: numbering, identities and parents.
  \<open>mk\<close> builds the stored chunk from its identity, content and parent.\<close>

definition part_label :: "nat \<Rightarrow> nat \<Rightarrow> string \<Rightarrow> string" where
  "part_label index n part =
     ''[Part '' @ show_nat (index + 1) @ ''/'' @ show_nat n @ ''] '' @ part"

definition part_chunks ::
  "golib \<Rightarrow> (string \<Rightarrow> string \<Rightarrow> string \<Rightarrow> chunk) \<Rightarrow> string \<Rightarrow> string \<Rightarrow> string \<Rightarrow> string list \<Rightarrow> chunk list"
  where
  "part_chunks L mk baseID session key parts =
     map (\<lambda>(index, part).
            if length parts > 1 then
              let labelled = part_label index (length parts) part in
              mk (chunk_id L labelled session (key @ ''_part'' @ show_nat (index + 1)))
                 labelled (if index > 0 then baseID else [])
            else mk baseID part [])
         (enumerate 0 parts)"

text \<open>The first turn chunk lists the file chunks that belong to it, if there are any.\<close>

definition link_children :: "chunk list \<Rightarrow> chunk list \<Rightarrow> chunk list" where
  "link_children turns files =
     (case turns of
        [] \<Rightarrow> []
      | t # ts \<Rightarrow> (if files = [] then t else t\<lparr>ck_children := map ck_id files\<rparr>) # ts @ files)"

section \<open>Reading a source\<close>

text \<open>\<open>RuntimePanic\<close> is a nil dereference or a slice bound out of range in the source.\<close>

datatype source_error =
    InputRequired
  | IdentityRequired
  | LimitInvalid
  | TooLarge
  | ReadFailed
  | JsonInvalid
  | JsonTooDeep
  | ShapeInvalid
  | UnsupportedSource
  | RuntimePanic

record issue =
  is_line :: nat
  is_reason :: string

text \<open>An \<open>io.Reader\<close>: its bytes, and whether it then fails instead of reporting \<open>EOF\<close>.\<close>

record reader =
  rd_data :: string
  rd_fails :: bool

definition MaxJSONDepth :: nat where
  "MaxJSONDepth = 50"

definition MaxLineBytes :: nat where
  "MaxLineBytes = 524288"

text \<open>\<open>maxBytes == 0\<close> selects the package's limit; a value outside \<open>1 .. limit\<close> is an error.\<close>

definition byte_limit :: "int \<Rightarrow> int \<Rightarrow> int option" where
  "byte_limit limit maxBytes =
     (let m = (if maxBytes = 0 then limit else maxBytes) in
      if m < 1 \<or> limit < m then None else Some m)"

text \<open>Reading everything through \<open>boundedReader{input, maxBytes + 1}\<close>: the reader refuses
  with the too-large error once \<open>maxBytes + 1\<close> bytes have been delivered.\<close>

definition read_bounded :: "int \<Rightarrow> reader \<Rightarrow> source_error + string" where
  "read_bounded m r =
     (if m + 1 \<le> int (length (rd_data r)) then Inl TooLarge
      else if rd_fails r then Inl ReadFailed
      else Inr (rd_data r))"

text \<open>The physical lines: all but the last end with a line feed, which counts towards
  \<open>MaxLineBytes\<close>.\<close>

definition line_too_long :: "bool \<Rightarrow> string \<Rightarrow> bool" where
  "line_too_long final l \<longleftrightarrow> MaxLineBytes < length l + (if final then 0 else 1)"

text \<open>The loop of \<open>Parse\<close> over the lines: an oversized line is an issue, a blank line is
  skipped, any other line is parsed to an entry or to the reason of an issue.\<close>

fun jsonl_lines ::
  "(nat \<Rightarrow> string \<Rightarrow> string + 'a) \<Rightarrow> nat \<Rightarrow> string list \<Rightarrow> 'a list \<times> issue list" where
  "jsonl_lines parse n [] = ([], [])"
| "jsonl_lines parse n (l # ls) =
     (let (es, is) = jsonl_lines parse (n + 1) ls;
          text = trim_space l
      in if line_too_long (ls = []) l
         then (es, \<lparr>is_line = n, is_reason = ''line_too_long''\<rparr> # is)
         else if text = [] then (es, is)
         else (case parse n text of
                 Inl reason \<Rightarrow> (es, \<lparr>is_line = n, is_reason = reason\<rparr> # is)
               | Inr e \<Rightarrow> (e # es, is)))"

text \<open>\<open>Parse\<close> of the three JSONL packages; \<open>None\<close> is a nil reader.\<close>

definition jsonl_parse ::
  "int \<Rightarrow> (nat \<Rightarrow> string \<Rightarrow> string + 'a) \<Rightarrow> reader option \<Rightarrow> int \<Rightarrow>
   source_error + ('a list \<times> issue list)" where
  "jsonl_parse limit parse input maxBytes =
     (case input of
        None \<Rightarrow> Inl InputRequired
      | Some r \<Rightarrow>
          (case byte_limit limit maxBytes of
             None \<Rightarrow> Inl LimitInvalid
           | Some m \<Rightarrow>
               (case read_bounded m r of
                  Inl e \<Rightarrow> Inl e
                | Inr data \<Rightarrow> Inr (jsonl_lines parse 1 (split_char (CHR 0x0A) data)))))"

text \<open>\<open>Parse\<close> of the three packages that read one JSON document: the document, within the
  depth limit.\<close>

definition document_parse ::
  "golib \<Rightarrow> int \<Rightarrow> reader option \<Rightarrow> int \<Rightarrow> source_error + json" where
  "document_parse L limit input maxBytes =
     (case input of
        None \<Rightarrow> Inl InputRequired
      | Some r \<Rightarrow>
          (case byte_limit limit maxBytes of
             None \<Rightarrow> Inl LimitInvalid
           | Some m \<Rightarrow>
               (case read_bounded m r of
                  Inl e \<Rightarrow> Inl e
                | Inr data \<Rightarrow>
                    (case json_unmarshal L data of
                       None \<Rightarrow> Inl JsonInvalid
                     | Some v \<Rightarrow>
                         if MaxJSONDepth < json_depth v 0 then Inl JsonTooDeep else Inr v))))"

text \<open>A string nonempty after the type assertion, else the JSON text of the value.\<close>

definition json_value :: "json option \<Rightarrow> string" where
  "json_value v =
     (case v of None \<Rightarrow> [] | Some JNull \<Rightarrow> [] | Some w \<Rightarrow> json_marshal True w)"

definition value_text :: "json option \<Rightarrow> string" where
  "value_text v = (if string_value v \<noteq> [] then string_value v else json_value v)"

section \<open>File operations named in tool calls\<close>

record operation =
  op_path :: string
  op_kind :: string
  op_summary :: string
  op_id :: string

text \<open>The rules of \<open>patchOperations\<close>: a prefix of a patch line and what it means.\<close>

definition patch_rules :: "(string \<times> string \<times> string) list" where
  "patch_rules =
     [(''*** Add File: '', ''write'', ''Added file''),
      (''*** Update File: '', ''edit'', ''Updated file''),
      (''*** Delete File: '', ''delete'', ''Deleted file''),
      (''*** Move to: '', ''move'', ''Moved file'')]"

text \<open>One patch line in \<open>codex\<close> and \<open>gemini\<close>: the first rule whose trimmed remainder differs
  from the line decides.\<close>

fun patch_line :: "(string \<times> string \<times> string) list \<Rightarrow> string \<Rightarrow> operation list" where
  "patch_line [] line = []"
| "patch_line ((prefix, kind, summary) # rules) line =
     (let path = trim_space (trim_prefix prefix line) in
      if path \<noteq> line then
        (if path \<noteq> [] then [\<lparr>op_path = path, op_kind = kind, op_summary = summary, op_id = []\<rparr>]
         else [])
      else patch_line rules line)"

definition patch_text_operations :: "string \<Rightarrow> operation list" where
  "patch_text_operations patch =
     concat (map (patch_line patch_rules) (split_char (CHR 0x0A) patch))"

text \<open>The regular expressions of \<open>shellRules\<close>, by their source text, tried in order.\<close>

definition shell_rules :: "(string \<times> string \<times> string) list" where
  "shell_rules =
     [(CHR 0x5C # ''brm'' @ CHR 0x5C # ''s+(?:-[^'' @ CHR 0x5C # ''s]+'' @ CHR 0x5C # ''s+)?([^''
         @ CHR 0x5C # ''s]+)'', ''delete'', ''Deleted file''),
      (CHR 0x5C # ''bmv'' @ CHR 0x5C # ''s+[^'' @ CHR 0x5C # ''s]+'' @ CHR 0x5C # ''s+([^''
         @ CHR 0x5C # ''s]+)'', ''move'', ''Moved file''),
      (CHR 0x5C # ''bcp'' @ CHR 0x5C # ''s+[^'' @ CHR 0x5C # ''s]+'' @ CHR 0x5C # ''s+([^''
         @ CHR 0x5C # ''s]+)'', ''write'', ''Copied file''),
      (CHR 0x5C # ''btouch'' @ CHR 0x5C # ''s+([^'' @ CHR 0x5C # ''s]+)'',
         ''write'', ''Touched file''),
      (CHR 0x5C # ''bmkdir'' @ CHR 0x5C # ''s+(?:-p'' @ CHR 0x5C # ''s+)?([^'' @ CHR 0x5C # ''s]+)'',
         ''write'', ''Created directory''),
      (''>'' @ CHR 0x5C # ''s*([^'' @ CHR 0x5C # ''s]+)'', ''write'', ''Wrote file''),
      (CHR 0x5C # ''btee'' @ CHR 0x5C # ''s+(?:-a'' @ CHR 0x5C # ''s+)?([^'' @ CHR 0x5C # ''s]+)'',
         ''write'', ''Wrote file''),
      (CHR 0x5C # ''bsed'' @ CHR 0x5C # ''s+-i.*'' @ CHR 0x5C # ''s+([^'' @ CHR 0x5C # ''s]+)$'',
         ''edit'', ''Edited file'')]"

fun shell_command_operations ::
  "golib \<Rightarrow> (string \<times> string \<times> string) list \<Rightarrow> string \<Rightarrow> operation list" where
  "shell_command_operations L [] command = []"
| "shell_command_operations L ((re, kind, summary) # rules) command =
     (case re_submatch L re command of
        Some path \<Rightarrow> [\<lparr>op_path = path, op_kind = kind, op_summary = summary, op_id = []\<rparr>]
      | None \<Rightarrow> shell_command_operations L rules command)"

section \<open>Lemmas\<close>

lemma byte_limit_Some: "byte_limit limit m = Some k \<Longrightarrow> 1 \<le> k \<and> k \<le> limit"
  by (auto simp: byte_limit_def Let_def split: if_splits)

lemma read_bounded_Inr:
  "read_bounded m r = Inr data \<longleftrightarrow>
     int (length (rd_data r)) \<le> m \<and> \<not> rd_fails r \<and> data = rd_data r"
  by (auto simp: read_bounded_def)

text \<open>What becomes of one line, whatever the other lines are: nothing, an issue or an entry.\<close>

definition line_outcome ::
  "(nat \<Rightarrow> string \<Rightarrow> string + 'a) \<Rightarrow> nat \<Rightarrow> bool \<Rightarrow> string \<Rightarrow> (issue + 'a) option" where
  "line_outcome parse k final l =
     (if line_too_long final l then Some (Inl \<lparr>is_line = k, is_reason = ''line_too_long''\<rparr>)
      else if trim_space l = [] then None
      else Some (map_sum (\<lambda>reason. \<lparr>is_line = k, is_reason = reason\<rparr>) id (parse k (trim_space l))))"

fun line_outcomes :: "(nat \<Rightarrow> string \<Rightarrow> string + 'a) \<Rightarrow> nat \<Rightarrow> string list \<Rightarrow> (issue + 'a) list" where
  "line_outcomes parse k [] = []"
| "line_outcomes parse k (l # ls) =
     (case line_outcome parse k (ls = []) l of None \<Rightarrow> [] | Some r \<Rightarrow> [r]) @ line_outcomes parse (k + 1) ls"

lemma jsonl_lines_outcomes:
  "jsonl_lines parse k ls =
     (concat (map (case_sum (\<lambda>_. []) (\<lambda>e. [e])) (line_outcomes parse k ls)),
      concat (map (case_sum (\<lambda>i. [i]) (\<lambda>_. [])) (line_outcomes parse k ls)))"
  by (induction ls arbitrary: k)
     (auto simp: Let_def line_outcome_def split: prod.splits sum.splits)

lemma length_case_sum:
  "length (concat (map (case_sum (\<lambda>_. []) (\<lambda>e. [e])) os)) +
   length (concat (map (case_sum (\<lambda>i. [i]) (\<lambda>_. [])) os)) = length os"
  by (induction os) (auto split: sum.splits)

lemma line_outcomes_nth:
  "r \<in> set (line_outcomes parse k ls) \<longleftrightarrow>
     (\<exists>i < length ls. line_outcome parse (k + i) (Suc i = length ls) (ls ! i) = Some r)"
proof (induction ls arbitrary: k)
  case (Cons l ls)
  have "r \<in> set (line_outcomes parse k (l # ls)) \<longleftrightarrow>
      line_outcome parse k (ls = []) l = Some r \<or> r \<in> set (line_outcomes parse (k + 1) ls)"
    by (auto split: option.splits)
  then show ?case unfolding Cons.IH by (auto simp: less_Suc_eq_0_disj)
qed simp

lemma length_part_chunks [simp]: "length (part_chunks L mk b s k parts) = length parts"
  by (simp add: part_chunks_def)

lemma part_chunks_mem:
  assumes "c \<in> set (part_chunks L mk base session key parts)"
  shows "\<exists>i p q. c = mk i p q"
proof -
  from assms obtain index part where "c =
      (if length parts > 1 then
         let labelled = part_label index (length parts) part in
         mk (chunk_id L labelled session (key @ ''_part'' @ show_nat (index + 1)))
            labelled (if index > 0 then base else [])
       else mk base part [])"
    unfolding part_chunks_def by (auto simp del: append.simps)
  then show ?thesis unfolding Let_def by metis
qed

lemma link_children_mem:
  "c \<in> set (link_children turns files) \<Longrightarrow>
   c \<in> set files \<or> c \<in> set turns \<or> (\<exists>t \<in> set turns. c = t\<lparr>ck_children := map ck_id files\<rparr>)"
  by (cases turns) (auto simp: link_children_def split: if_splits)

lemma length_link_children:
  "turns \<noteq> [] \<Longrightarrow> length (link_children turns files) = length turns + length files"
  by (cases turns) (auto simp: link_children_def)

text \<open>What every chunk of a source carries, whatever its kind.\<close>

definition origin :: "source \<Rightarrow> chunk \<Rightarrow> bool" where
  "origin src c \<longleftrightarrow>
     ck_source_file c = src_file src \<and> ck_machine c = src_machine src \<and> ck_vector c = []"

definition provenance :: "source \<Rightarrow> chunk \<Rightarrow> bool" where
  "provenance src c \<longleftrightarrow>
     origin src c \<and> ck_session c \<noteq> [] \<and> ck_type c \<in> {''turn'', ''summary'', ''file_change''}"

lemma first_non_empty_default [simp]: "d \<noteq> [] \<Longrightarrow> first_non_empty (vs @ [d]) \<noteq> []"
  by (induction vs) auto

lemma first_non_empty_default2 [simp]:
  "d \<noteq> [] \<Longrightarrow> first_non_empty [a, d] \<noteq> []" "d \<noteq> [] \<Longrightarrow> first_non_empty [a, b, d] \<noteq> []"
  by auto

lemma provenance_children [simp]: "provenance src (c\<lparr>ck_children := k\<rparr>) = provenance src c"
  by (simp add: provenance_def origin_def)

section \<open>Lemmas: patches\<close>

lemma patch_line_hit:
  assumes "(prefix, kind, summary) \<in> set rules" "trim_space (prefix @ path) = prefix @ path"
    "trim_space path = path" "path \<noteq> []" "prefix \<noteq> []"
    and "list_all (\<lambda>(p, k, s). has_prefix p (prefix @ path) \<longrightarrow> (p, k, s) = (prefix, kind, summary)) rules"
  shows "patch_line rules (prefix @ path) =
     [\<lparr>op_path = path, op_kind = kind, op_summary = summary, op_id = []\<rparr>]"
  using assms(1,6)
proof (induction rules)
  case (Cons rule rules)
  obtain p k s where rule: "rule = (p, k, s)" by (cases rule)
  show ?case
  proof (cases "has_prefix p (prefix @ path)")
    case True
    with Cons.prems rule have "rule = (prefix, kind, summary)" by simp
    with assms(3-5) show ?thesis by (simp add: trim_prefix_def has_prefix_def)
  next
    case False
    with assms(2) have "patch_line (rule # rules) (prefix @ path) = patch_line rules (prefix @ path)"
      by (simp add: rule trim_prefix_def)
    moreover have "rule \<noteq> (prefix, kind, summary)" using False rule by (auto simp: has_prefix_def)
    ultimately show ?thesis using Cons by auto
  qed
qed simp

lemma patch_rules_apart:
  assumes "(prefix, kind, summary) \<in> set patch_rules"
  shows "prefix \<noteq> []" "solid (hd prefix)"
    "list_all (\<lambda>(p, k, s). has_prefix p (prefix @ path) \<longrightarrow> (p, k, s) = (prefix, kind, summary)) patch_rules"
proof -
  let ?apart = "\<lambda>r q. take 7 (fst q) = take 7 (fst r) \<longrightarrow> q = r"
  have all: "list_all (\<lambda>r. fst r \<noteq> [] \<and> solid (hd (fst r)) \<and> 7 \<le> length (fst r) \<and>
      list_all (?apart r) patch_rules) patch_rules"
    by code_simp
  with assms show "prefix \<noteq> []" "solid (hd prefix)" by (auto simp: list_all_iff)
  have "q = (prefix, kind, summary)" if q: "q \<in> set patch_rules" "has_prefix (fst q) (prefix @ path)" for q
  proof -
    obtain t where t: "prefix @ path = fst q @ t" using q(2) by (auto simp: has_prefix_iff)
    have len: "7 \<le> length prefix" "7 \<le> length (fst q)"
      using all assms q(1) by (auto simp: list_all_iff)
    then have "take 7 (fst q) = take 7 prefix"
      using arg_cong [OF t, of "take 7"] by simp
    with all assms q(1) show ?thesis by (auto simp: list_all_iff)
  qed
  then show "list_all (\<lambda>(p, k, s). has_prefix p (prefix @ path) \<longrightarrow> (p, k, s) = (prefix, kind, summary))
      patch_rules"
    by (fastforce simp: list_all_iff)
qed

section \<open>Properties\<close>



text \<open>A patch line that names a file after one of the four prefixes is reported as that
  operation on that file.\<close>

theorem patch_line_recognises:
  assumes "(prefix, kind, summary) \<in> set patch_rules" "path \<noteq> []" "solid (hd path)" "solid (last path)"
  shows "patch_line patch_rules (prefix @ path) =
     [\<lparr>op_path = path, op_kind = kind, op_summary = summary, op_id = []\<rparr>]"
proof -
  note rule = patch_rules_apart [OF assms(1)]
  have "trim_space (prefix @ path) = prefix @ path"
    using assms(2-4) rule by (intro trim_space_solid) auto
  moreover have "trim_space path = path" using assms(2-4) by (rule trim_space_solid)
  ultimately show ?thesis using assms(1,2) rule by (intro patch_line_hit)
qed

theorem patch_line_recognises_witness:
  "patch_line patch_rules ''*** Update File: a.go'' =
     [\<lparr>op_path = ''a.go'', op_kind = ''edit'', op_summary = ''Updated file'', op_id = []\<rparr>]"
  using patch_line_recognises [of "''*** Update File: ''" "''edit''" "''Updated file''" "''a.go''"]
  by (simp add: patch_rules_def solid_def byte_of_def del: patch_line.simps)

text \<open>C37: a patch line with white space at an end, such as any context line of a patch, is
  reported as a file that was added, whatever it says.\<close>

theorem patch_context_line_added:
  assumes "trim_space line \<noteq> line" "trim_space line \<noteq> []" "\<not> has_prefix ''*** Add File: '' line"
  shows "patch_line patch_rules line =
     [\<lparr>op_path = trim_space line, op_kind = ''write'', op_summary = ''Added file'', op_id = []\<rparr>]"
  using assms by (simp add: patch_rules_def trim_prefix_def)

theorem patch_context_line_added_witness:
  "patch_line patch_rules '' return nil'' =
     [\<lparr>op_path = ''return nil'', op_kind = ''write'', op_summary = ''Added file'', op_id = []\<rparr>]"
proof -
  have "trim_space '' return nil'' = ''return nil''" by code_simp
  then show ?thesis
    using patch_context_line_added [of "'' return nil''"]
    by (simp add: has_prefix_def del: patch_line.simps)
qed

end
