(* ===== verification/Source_Claude.thy ===== *)
theory Source_Claude
  imports Source_Common
begin

text \<open>
  Package \<open>source/claude\<close>: parsing Claude Code JSONL histories and turning user/assistant
  pairs, summaries and file edits into chunks.  The lemmas give provenance (which file,
  machine and type a chunk carries), and that a decoded project path never climbs.
\<close>

section \<open>Entries\<close>

record message =
  msg_role :: string
  msg_model :: string
  msg_content :: json

record entry =
  en_type :: string
  en_message :: "message option"
  en_summary :: string
  en_compact :: bool
  en_uuid :: string
  en_time :: instant
  en_has_time :: bool
  en_session :: string
  en_visible_only :: bool
  en_metadata_only :: bool

record located_entry =
  le_entry :: entry
  le_line :: nat

text \<open>\<open>Entry{}\<close>\<close>

definition zero_entry :: entry where
  "zero_entry = \<lparr>en_type = [], en_message = None, en_summary = [], en_compact = False,
     en_uuid = [], en_time = zero_time, en_has_time = False, en_session = [],
     en_visible_only = False, en_metadata_only = False\<rparr>"

definition claude_MaxFileBytes :: int where
  "claude_MaxFileBytes = 10 * 2 ^ 30"

definition claude_parseMessage :: "json \<Rightarrow> string \<Rightarrow> message option" where
  "claude_parseMessage value entryType =
     (case as_object (Some value) of
        None \<Rightarrow> None
      | Some obj \<Rightarrow>
          (case field obj ''content'' of
             None \<Rightarrow> None
           | Some content \<Rightarrow>
               if entryType = ''user'' \<and>
                  \<not> (case content of JStr _ \<Rightarrow> True | JArr _ \<Rightarrow> True | _ \<Rightarrow> False)
               then None
               else if entryType = ''assistant'' \<and>
                  \<not> (case content of JArr _ \<Rightarrow> True | _ \<Rightarrow> False)
               then None
               else Some \<lparr>msg_role = string_value (field obj ''role''),
                          msg_model = string_value (field obj ''model''),
                          msg_content = content\<rparr>))"

definition claude_parseEntry :: "golib \<Rightarrow> string \<Rightarrow> string + entry" where
  "claude_parseEntry L raw =
     (case json_unmarshal L raw of
        None \<Rightarrow> Inl ''invalid_json''
      | Some value \<Rightarrow>
          if MaxJSONDepth < json_depth value 0 then Inl ''json_too_deep''
          else (case as_object (Some value) of
             None \<Rightarrow> Inl ''entry_not_object''
           | Some obj \<Rightarrow>
               let typeValue = string_value (field obj ''type'');
                   timestamp = string_value (field obj ''timestamp'')
               in if typeValue = [] then Inl ''missing_type''
                  else if timestamp \<noteq> [] \<and> time_parse L timestamp = None
                  then Inl ''invalid_timestamp''
                  else Inr \<lparr>en_type = typeValue,
                    en_message =
                      (case field obj ''message'' of
                         None \<Rightarrow> None
                       | Some JNull \<Rightarrow> None
                       | Some rawMessage \<Rightarrow> claude_parseMessage rawMessage typeValue),
                    en_summary = string_value (field obj ''summary''),
                    en_compact = bool_value (field obj ''isCompactSummary''),
                    en_uuid = string_value (field obj ''uuid''),
                    en_time = (if timestamp = [] then zero_time
                               else the (time_parse L timestamp)),
                    en_has_time = (timestamp \<noteq> []),
                    en_session = string_value (field obj ''sessionId''),
                    en_visible_only = bool_value (field obj ''isVisibleInTranscriptOnly''),
                    en_metadata_only = bool_value (field obj ''isMeta'')\<rparr>))"

definition claude_Parse ::
  "golib \<Rightarrow> reader option \<Rightarrow> int \<Rightarrow> source_error + (located_entry list \<times> issue list)" where
  "claude_Parse L =
     jsonl_parse claude_MaxFileBytes
       (\<lambda>line text. map_sum id (\<lambda>e. \<lparr>le_entry = e, le_line = line\<rparr>) (claude_parseEntry L text))"

section \<open>Text and file operations of a message\<close>

definition truncate_text :: "string \<Rightarrow> nat \<Rightarrow> string" where
  "truncate_text value limit = (if length value > limit then take limit value else value)"

definition ellipsis :: "string \<Rightarrow> nat \<Rightarrow> string" where
  "ellipsis value limit = (if length value > limit then ''...'' else [])"

text \<open>One block of a message's content list, as \<open>textContent\<close> renders it.\<close>

definition claude_block_text :: "json \<Rightarrow> string list" where
  "claude_block_text raw =
     (case as_object (Some raw) of
        None \<Rightarrow> []
      | Some block \<Rightarrow>
          let kind = string_value (field block ''type'') in
          if kind = ''text'' then [string_value (field block ''text'')]
          else if kind = ''tool_use'' then
            let input = field block ''input'';
                name = string_value (field block ''name'')
            in if name \<in> set [''Read'', ''Edit'', ''Write''] then
                 [''[Used '' @ name @ '' on '' @
                  first_non_empty [string_value (sub_field input ''file_path''), ''unknown''] @ '']'']
               else if name = ''Bash'' then
                 [''[Ran command: '' @
                  map (\<lambda>c. if c = CHR 0x0A \<or> c = CHR 0x0D then CHR '' '' else c)
                    (truncate_text (string_value (sub_field input ''command'')) 100) @ '']'']
               else [''[Used '' @ name @ '']'']
          else if kind = ''tool_result'' then
            (case field block ''content'' of
               Some (JStr result) \<Rightarrow>
                 if length result < 500 then [''[Result: '' @ result @ '']'']
                 else [''[Tool result truncated]'']
             | _ \<Rightarrow> [''[Tool result truncated]''])
          else [])"

definition claude_textContent :: "message option \<Rightarrow> string" where
  "claude_textContent m =
     (case m of
        None \<Rightarrow> []
      | Some msg \<Rightarrow>
          (case msg_content msg of
             JStr text \<Rightarrow> text
           | JArr blocks \<Rightarrow> join [CHR 0x0A] (concat (map claude_block_text blocks))
           | _ \<Rightarrow> []))"

definition claude_messageModel :: "message option \<Rightarrow> string" where
  "claude_messageModel m = (case m of None \<Rightarrow> [] | Some msg \<Rightarrow> msg_model msg)"

definition claude_block_operation :: "json \<Rightarrow> operation list" where
  "claude_block_operation raw =
     (case as_object (Some raw) of
        None \<Rightarrow> []
      | Some block \<Rightarrow>
          if string_value (field block ''type'') \<noteq> ''tool_use'' then []
          else
            let input = field block ''input'';
                path = first_non_empty [string_value (sub_field input ''file_path''), ''unknown''];
                name = string_value (field block ''name'');
                ident = string_value (field block ''id'')
            in if name = ''Write'' then
                 [\<lparr>op_path = path, op_kind = ''write'', op_summary = ''Created/overwrote file'',
                   op_id = ident\<rparr>]
               else if name = ''Edit'' then
                 (case (sub_field input ''old_string'', sub_field input ''new_string'') of
                    (Some (JStr old), Some (JStr new)) \<Rightarrow>
                      [\<lparr>op_path = path, op_kind = ''edit'',
                        op_summary = ''Replaced '' @ [CHR 0x27] @ truncate_text old 100 @ ellipsis old 100 @
                          [CHR 0x27] @ '' with '' @ [CHR 0x27] @ truncate_text new 100 @ ellipsis new 100 @ [CHR 0x27],
                        op_id = ident\<rparr>]
                  | _ \<Rightarrow> [])
               else [])"

definition claude_fileOperations :: "message \<Rightarrow> operation list" where
  "claude_fileOperations m =
     (case msg_content m of
        JArr blocks \<Rightarrow> concat (map claude_block_operation blocks)
      | _ \<Rightarrow> [])"

section \<open>Chunks\<close>

definition claude_DecodeProjectPath :: "string \<Rightarrow> string" where
  "claude_DecodeProjectPath encoded =
     (if contains ''..'' encoded then ''/invalid/path''
      else let decoded = slash # map (\<lambda>c. if c = CHR ''-'' then slash else c)
                                   (trim_prefix ''-'' encoded)
           in if contains ''..'' decoded \<or> \<not> has_prefix ''/'' decoded then ''/invalid/path''
              else decoded)"

definition claude_entryTimestamp :: "entry \<Rightarrow> entry \<Rightarrow> nat \<Rightarrow> instant" where
  "claude_entryTimestamp first second sourceLine =
     (if en_has_time first then en_time first
      else if en_has_time second then en_time second
      else fallback_time sourceLine)"

definition claude_turnChunks ::
  "golib \<Rightarrow> entry \<Rightarrow> entry \<Rightarrow> nat \<Rightarrow> nat \<Rightarrow> string \<Rightarrow> source \<Rightarrow> chunk list" where
  "claude_turnChunks L user assistant sourceLine consumedLine projectPath src =
     (let userText = trim_space (claude_textContent (en_message user));
          assistantText = trim_space (claude_textContent (en_message assistant))
      in if userText = [] \<and> assistantText = [] then []
         else
           let projectName = path_base projectPath;
               content =
                 (if userText \<noteq> [] \<and> assistantText \<noteq> [] then
                    ''In project '' @ projectName @ '', user asked:'' @ [CHR 0x0A] @ userText @
                    [CHR 0x0A, CHR 0x0A] @ ''Assistant responded:'' @ [CHR 0x0A] @ assistantText
                  else if userText \<noteq> [] then
                    ''In project '' @ projectName @ '', user asked:'' @ [CHR 0x0A] @ userText @
                    [CHR 0x0A, CHR 0x0A] @ ''[No assistant response]''
                  else
                    ''In project '' @ projectName @ '', assistant response:'' @ [CHR 0x0A] @
                    assistantText);
               timestamp = claude_entryTimestamp assistant user consumedLine;
               session = first_non_empty [en_session user, en_session assistant, ''unknown''];
               key = format_time L timestamp;
               mk = (\<lambda>ident part parent. zero_chunk
                      \<lparr>ck_id := ident, ck_content := part, ck_type := ''turn'',
                       ck_session := session, ck_project_path := projectPath,
                       ck_project_name := projectName, ck_timestamp := timestamp,
                       ck_user_uuid := en_uuid user, ck_assistant_uuid := en_uuid assistant,
                       ck_model := claude_messageModel (en_message assistant),
                       ck_source_file := src_file src, ck_source_line := int sourceLine,
                       ck_parent := parent, ck_machine := src_machine src\<rparr>)
           in part_chunks L mk (chunk_id L content session key) session key
                (claude_splitContent content))"

definition claude_summaryChunk ::
  "golib \<Rightarrow> entry \<Rightarrow> nat \<Rightarrow> string \<Rightarrow> source \<Rightarrow> chunk option" where
  "claude_summaryChunk L e sourceLine projectPath src =
     (let text = trim_space (first_non_empty [en_summary e, claude_textContent (en_message e)]) in
      if text = [] then None
      else
        let timestamp = claude_entryTimestamp e zero_entry sourceLine;
            session = first_non_empty [en_session e, ''unknown''];
            projectName = path_base projectPath;
            content = ''Session summary for '' @ projectName @ '':'' @ [CHR 0x0A] @ text
        in Some (zero_chunk
             \<lparr>ck_id := chunk_id L content session (format_time L timestamp), ck_content := content,
              ck_type := ''summary'', ck_session := session, ck_project_path := projectPath,
              ck_project_name := projectName, ck_timestamp := timestamp,
              ck_source_file := src_file src, ck_source_line := int sourceLine,
              ck_machine := src_machine src\<rparr>))"

definition claude_fileChunks ::
  "golib \<Rightarrow> entry \<Rightarrow> string \<Rightarrow> nat \<Rightarrow> string \<Rightarrow> string \<Rightarrow> source \<Rightarrow> chunk list" where
  "claude_fileChunks L e userText sourceLine parent projectPath src =
     (case en_message e of
        None \<Rightarrow> []
      | Some m \<Rightarrow>
          let timestamp = claude_entryTimestamp e zero_entry sourceLine;
              projectName = path_base projectPath;
              session = first_non_empty [en_session e, ''unknown'']
          in map (\<lambda>(index, op).
               let prompt = (if length userText > 200 then take 200 userText @ ''...'' else userText);
                   content = ''In project '' @ projectName @ '', file '' @ op_path op @ '' was '' @
                     op_kind op @ ''. '' @ op_summary op @ ''. This was in response to: '' @ prompt;
                   toolID = (if op_id op = [] then ''idx'' @ show_nat index else op_id op)
               in zero_chunk
                  \<lparr>ck_id := chunk_id L content session (format_time L timestamp @ op_path op @ toolID),
                   ck_content := content, ck_type := ''file_change'', ck_session := session,
                   ck_project_path := projectPath, ck_project_name := projectName,
                   ck_timestamp := timestamp, ck_assistant_uuid := en_uuid e,
                   ck_file_path := op_path op, ck_operation := op_kind op, ck_model := msg_model m,
                   ck_source_file := src_file src, ck_source_line := int sourceLine,
                   ck_parent := parent, ck_machine := src_machine src\<rparr>)
             (enumerate 0 (claude_fileOperations m)))"

text \<open>The body of the loop of \<open>Chunks\<close>: the pending user entry and the chunks of one entry.\<close>

definition claude_step ::
  "golib \<Rightarrow> string \<Rightarrow> source \<Rightarrow> located_entry option \<Rightarrow> located_entry \<Rightarrow>
   located_entry option \<times> chunk list" where
  "claude_step L projectPath src pending located =
     (let e = le_entry located in
      if en_compact e \<or> en_type e = ''summary'' then
        (pending, (case claude_summaryChunk L e (le_line located) projectPath src of
                     None \<Rightarrow> [] | Some c \<Rightarrow> [c]))
      else if en_type e = ''user'' then (Some located, [])
      else if en_type e = ''assistant'' then
        (case pending of
           None \<Rightarrow>
             (None, claude_fileChunks L e ''[unpaired assistant message]'' (le_line located) []
                      projectPath src)
         | Some p \<Rightarrow>
             let turns = claude_turnChunks L (le_entry p) e (le_line p) (le_line located)
                           projectPath src
             in (None,
                 case turns of
                   [] \<Rightarrow> []
                 | t # _ \<Rightarrow> link_children turns
                     (claude_fileChunks L e (claude_textContent (en_message (le_entry p)))
                        (le_line located) (ck_id t) projectPath src)))
      else (pending, []))"

fun claude_chunk_loop ::
  "golib \<Rightarrow> string \<Rightarrow> source \<Rightarrow> located_entry option \<Rightarrow> located_entry list \<Rightarrow> chunk list" where
  "claude_chunk_loop L projectPath src pending [] = []"
| "claude_chunk_loop L projectPath src pending (located # rest) =
     (let (pending', cs) = claude_step L projectPath src pending located in
      cs @ claude_chunk_loop L projectPath src pending' rest)"

definition claude_Chunks ::
  "golib \<Rightarrow> reader option \<Rightarrow> source \<Rightarrow> source_error + (chunk list \<times> issue list)" where
  "claude_Chunks L input src =
     (if src_file src = [] then Inl IdentityRequired
      else (case claude_Parse L input (src_max_bytes src) of
              Inl e \<Rightarrow> Inl e
            | Inr (located, issues) \<Rightarrow>
                Inr (claude_chunk_loop L (claude_DecodeProjectPath (src_project src)) src None located,
                     issues)))"

section \<open>Lemmas\<close>

lemma claude_turnChunks_provenance:
  assumes "c \<in> set (claude_turnChunks L user assistant sl cl pp src)"
  shows "provenance src c"
  using assms unfolding claude_turnChunks_def Let_def
  by (auto simp del: first_non_empty.simps append.simps dest!: part_chunks_mem split: if_splits)
    (auto simp: provenance_def origin_def zero_chunk_def)

lemma claude_summaryChunk_provenance:
  "claude_summaryChunk L e sl pp src = Some c \<Longrightarrow> provenance src c"
  by (auto simp: claude_summaryChunk_def Let_def provenance_def origin_def zero_chunk_def split: if_splits)

lemma claude_fileChunks_provenance:
  "c \<in> set (claude_fileChunks L e t sl p pp src) \<Longrightarrow> provenance src c"
  by (auto simp: claude_fileChunks_def Let_def provenance_def origin_def zero_chunk_def
      simp del: append.simps first_non_empty.simps split: option.splits)

lemma claude_step_provenance:
  assumes "c \<in> set (snd (claude_step L pp src pending located))"
  shows "provenance src c"
  using assms unfolding claude_step_def Let_def
  by (auto split: if_splits option.splits list.splits dest!: link_children_mem
      dest: claude_summaryChunk_provenance [OF sym] claude_fileChunks_provenance
        claude_turnChunks_provenance [of _ L])

lemma claude_chunk_loop_provenance:
  "c \<in> set (claude_chunk_loop L pp src pending es) \<Longrightarrow> provenance src c"
proof (induction es arbitrary: pending)
  case Nil
  then show ?case by simp
next
  case (Cons e es)
  obtain pending' cs where step: "claude_step L pp src pending e = (pending', cs)"
    by fastforce
  from Cons.prems have "c \<in> set cs \<or> c \<in> set (claude_chunk_loop L pp src pending' es)"
    by (auto simp: step)
  then show ?case
    using Cons.IH claude_step_provenance [of c L pp src pending e] by (auto simp: step)
qed

end
