(* ===== verification/Source_Codex.thy ===== *)
theory Source_Codex
  imports Source_Common
begin

text \<open>
  Package \<open>source/codex\<close>: parsing Codex JSONL sessions.  \<open>Chunks\<close> runs a small state
  machine over the events (session, working directory, model, the pending user message and
  what answered it); \<open>codex_state\<close> is its local variables and \<open>codex_step\<close> one iteration of
  its loop.  The lemmas give the provenance of every chunk and the links between a turn
  and the file changes that belong to it.
\<close>

section \<open>Events\<close>

record event =
  ev_type :: string
  ev_payload :: "(string \<times> json) list option"
  ev_time :: instant
  ev_has_time :: bool
  ev_line :: nat

definition codex_MaxFileBytes :: int where
  "codex_MaxFileBytes = 10 * 2 ^ 30"

definition codex_parseEvent :: "golib \<Rightarrow> nat \<Rightarrow> string \<Rightarrow> string + event" where
  "codex_parseEvent L line raw =
     (case json_unmarshal L raw of
        None \<Rightarrow> Inl ''invalid_json''
      | Some value \<Rightarrow>
          if MaxJSONDepth < json_depth value 0 then Inl ''json_too_deep''
          else (case as_object (Some value) of
             None \<Rightarrow> Inl ''entry_not_object''
           | Some obj \<Rightarrow>
               let kind = string_value (field obj ''type'');
                   rawTimestamp = string_value (field obj ''timestamp'')
               in if kind = [] then Inl ''missing_type''
                  else if rawTimestamp \<noteq> [] \<and> time_parse L rawTimestamp = None
                  then Inl ''invalid_timestamp''
                  else Inr \<lparr>ev_type = kind, ev_payload = as_object (field obj ''payload''),
                    ev_time = (if rawTimestamp = [] then zero_time
                               else the (time_parse L rawTimestamp)),
                    ev_has_time = (rawTimestamp \<noteq> []), ev_line = line\<rparr>))"

definition codex_Parse ::
  "golib \<Rightarrow> reader option \<Rightarrow> int \<Rightarrow> source_error + (event list \<times> issue list)" where
  "codex_Parse L = jsonl_parse codex_MaxFileBytes (codex_parseEvent L)"

text \<open>Reading a key of the payload; a payload that is not an object is the nil map.\<close>

definition payload_field :: "event \<Rightarrow> string \<Rightarrow> json option" where
  "payload_field e k = (case ev_payload e of None \<Rightarrow> None | Some kvs \<Rightarrow> field kvs k)"

text \<open>\<open>json.Marshal\<close> prints a nil map as \<open>null\<close>.\<close>

definition payload_json :: "event \<Rightarrow> json" where
  "payload_json e = (case ev_payload e of None \<Rightarrow> JNull | Some kvs \<Rightarrow> JObj kvs)"

definition codex_eventTimestamp :: "event \<Rightarrow> instant" where
  "codex_eventTimestamp e = (if ev_has_time e then ev_time e else fallback_time (ev_line e))"

definition codex_projectPath :: "string \<Rightarrow> string \<Rightarrow> string" where
  "codex_projectPath lastCWD sessionCWD =
     (if lastCWD \<noteq> [] then lastCWD else if sessionCWD \<noteq> [] then sessionCWD else ''/unknown'')"

definition codex_projectName :: "string \<Rightarrow> string" where
  "codex_projectName project =
     (let name = path_base project in
      if name \<noteq> ''.'' \<and> name \<noteq> ''/'' \<and> name \<noteq> [] then name else ''unknown'')"

definition codex_sessionIDFromFilename :: "golib \<Rightarrow> string \<Rightarrow> string" where
  "codex_sessionIDFromFilename L path =
     (let stem = path_base (trim_suffix (path_ext path) path) in
      if length stem < 36 then []
      else let candidate = drop (length stem - 36) stem in
           if list_all (\<lambda>c. is_hex c \<or> c = CHR ''-'') candidate then to_lower L candidate
           else [])"

section \<open>Tool calls\<close>

definition codex_message_item :: "json \<Rightarrow> string list" where
  "codex_message_item raw =
     (case as_object (Some raw) of
        None \<Rightarrow> []
      | Some item \<Rightarrow>
          if string_value (field item ''type'') \<in> set [''input_text'', ''output_text'', ''text''] \<and>
             string_value (field item ''text'') \<noteq> []
          then [string_value (field item ''text'')] else [])"

definition codex_messageText :: "event \<Rightarrow> string" where
  "codex_messageText e =
     (case as_array (payload_field e ''content'') of
        None \<Rightarrow> []
      | Some items \<Rightarrow> join [CHR 0x0A] (concat (map codex_message_item items)))"

text \<open>\<open>shellOperations\<close>; the arguments are an object or the JSON text of one.\<close>

definition codex_shellOperations :: "golib \<Rightarrow> string \<Rightarrow> json option \<Rightarrow> operation list" where
  "codex_shellOperations L name args =
     (if name \<noteq> ''shell'' \<and> name \<noteq> ''shell_command'' then []
      else shell_command_operations L shell_rules
             (case args of
                Some (JStr raw) \<Rightarrow> string_value (sub_field (json_unmarshal L raw) ''command'')
              | _ \<Rightarrow> string_value (sub_field args ''command'')))"

definition codex_patchOperations :: "golib \<Rightarrow> string \<Rightarrow> operation list" where
  "codex_patchOperations L arguments =
     patch_text_operations (string_value (sub_field (json_unmarshal L arguments) ''patch''))"

definition codex_summarizeTool :: "golib \<Rightarrow> event \<Rightarrow> string \<times> operation list" where
  "codex_summarizeTool L e =
     (let kind = string_value (payload_field e ''type'') in
      if kind = ''function_call'' then
        let name = first_non_empty [string_value (payload_field e ''name''), ''unknown''];
            args = payload_field e ''arguments'';
            text = value_text args
        in (trim_space (''[Tool call] '' @ name @ '' '' @ text),
            if name = ''apply_patch'' \<and> text \<noteq> [] then codex_patchOperations L text
            else codex_shellOperations L name args)
      else if kind = ''function_call_output'' then
        (trim_space (''[Tool output] '' @ value_text (payload_field e ''output'')), [])
      else if kind = ''web_search_call'' then
        (trim_space (''[Web search] '' @
           string_value (sub_field (payload_field e ''action'') ''query'')), [])
      else if kind = ''reasoning'' then
        let items = (case as_array (payload_field e ''summary'') of None \<Rightarrow> [] | Some xs \<Rightarrow> xs);
            parts = filter (\<lambda>t. t \<noteq> []) (map (\<lambda>x. value_text (Some x)) items)
        in (if parts = [] then ''[Reasoning summary]''
            else ''[Reasoning summary] '' @ join '' '' parts, [])
      else if kind = ''ghost_snapshot'' then (''[Ghost snapshot captured]'', [])
      else ([], []))"

section \<open>Making chunks\<close>

text \<open>What a chunk of one event shares with the others: project, session, time, line, model.\<close>

definition codex_makeChunks ::
  "golib \<Rightarrow> string \<Rightarrow> string \<Rightarrow> string \<Rightarrow> string \<Rightarrow> instant \<Rightarrow> source \<Rightarrow> nat \<Rightarrow> string \<Rightarrow> chunk list"
  where
  "codex_makeChunks L content kind project session timestamp src line model =
     (let key = format_time L timestamp;
          mk = (\<lambda>ident part parent. zero_chunk
                 \<lparr>ck_id := ident, ck_content := part, ck_type := kind, ck_session := session,
                  ck_project_path := project, ck_project_name := codex_projectName project,
                  ck_timestamp := timestamp, ck_model := model, ck_source_file := src_file src,
                  ck_source_line := int line, ck_parent := parent,
                  ck_machine := src_machine src\<rparr>)
      in part_chunks L mk (chunk_id L content session key) session key
           (codex_splitContent content))"

definition codex_turnChunks ::
  "golib \<Rightarrow> string \<Rightarrow> string \<Rightarrow> string \<Rightarrow> string \<Rightarrow> instant \<Rightarrow> source \<Rightarrow> nat \<Rightarrow> string \<Rightarrow> chunk list"
  where
  "codex_turnChunks L user assistant project session timestamp src line model =
     codex_makeChunks L
       (''In project '' @ codex_projectName project @ '', user asked:'' @ [CHR 0x0A] @ user @
        [CHR 0x0A, CHR 0x0A] @ ''Assistant responded:'' @ [CHR 0x0A] @ trim_space assistant)
       ''turn'' project session timestamp src line model"

definition codex_assistantChunks ::
  "golib \<Rightarrow> string \<Rightarrow> string \<Rightarrow> string \<Rightarrow> instant \<Rightarrow> source \<Rightarrow> nat \<Rightarrow> string \<Rightarrow> chunk list" where
  "codex_assistantChunks L text project session timestamp src line model =
     (if trim_space text = [] then []
      else codex_makeChunks L
             (''In project '' @ codex_projectName project @ '', assistant responded:'' @
              [CHR 0x0A] @ text)
             ''turn'' project session timestamp src line model)"

definition codex_userChunks ::
  "golib \<Rightarrow> string \<Rightarrow> string \<Rightarrow> string \<Rightarrow> instant \<Rightarrow> source \<Rightarrow> nat \<Rightarrow> string \<Rightarrow> chunk list" where
  "codex_userChunks L text project session timestamp src line model =
     (if trim_space text = [] then []
      else codex_makeChunks L
             (''In project '' @ codex_projectName project @ '', user said:'' @ [CHR 0x0A] @ text)
             ''turn'' project session timestamp src line model)"

definition codex_fileChunks ::
  "golib \<Rightarrow> operation list \<Rightarrow> string \<Rightarrow> string \<Rightarrow> instant \<Rightarrow> source \<Rightarrow> nat \<Rightarrow> string \<Rightarrow> chunk list" where
  "codex_fileChunks L ops project session timestamp src line parent =
     map (\<lambda>(index, op).
            let content = ''In project '' @ codex_projectName project @ '', file '' @ op_path op @
                  '' was '' @ op_kind op @ ''.'' @ [CHR 0x0A] @ ''Summary: '' @ op_summary op
            in zero_chunk
               \<lparr>ck_id := chunk_id L content session
                  (format_time L timestamp @ op_path op @ show_nat index),
                ck_content := content, ck_type := ''file_change'', ck_session := session,
                ck_project_path := project, ck_project_name := codex_projectName project,
                ck_timestamp := timestamp, ck_file_path := op_path op, ck_operation := op_kind op,
                ck_source_file := src_file src, ck_source_line := int line, ck_parent := parent,
                ck_machine := src_machine src\<rparr>)
         (enumerate 0 ops)"

text \<open>The turn chunks followed by the file chunks linked to the first of them.\<close>

definition codex_turn_with_files ::
  "golib \<Rightarrow> chunk list \<Rightarrow> operation list \<Rightarrow> string \<Rightarrow> string \<Rightarrow> instant \<Rightarrow> source \<Rightarrow> nat \<Rightarrow> chunk list"
  where
  "codex_turn_with_files L turns ops project session timestamp src line =
     (case turns of
        [] \<Rightarrow> []
      | t # _ \<Rightarrow>
          link_children turns
            (codex_fileChunks L ops project session timestamp src line (ck_id t)))"

section \<open>The loop of \<open>Chunks\<close>\<close>

record pending_user =
  pu_content :: string
  pu_time :: instant
  pu_line :: nat

record codex_state =
  cx_session :: string
  cx_session_cwd :: string
  cx_last_cwd :: string
  cx_model :: string
  cx_pending :: "pending_user option"
  cx_fragments :: "string list"
  cx_ops :: "operation list"
  cx_chunks :: "chunk list"

definition cx_project :: "codex_state \<Rightarrow> string" where
  "cx_project st = codex_projectPath (cx_last_cwd st) (cx_session_cwd st)"

definition cx_emit :: "chunk list \<Rightarrow> codex_state \<Rightarrow> codex_state" where
  "cx_emit cs st = st\<lparr>cx_chunks := cx_chunks st @ cs\<rparr>"

text \<open>The closure \<open>finalize\<close>.\<close>

definition codex_finalize :: "golib \<Rightarrow> source \<Rightarrow> codex_state \<Rightarrow> codex_state" where
  "codex_finalize L src st =
     (case cx_pending st of
        None \<Rightarrow> st
      | Some p \<Rightarrow>
          (cx_emit
             (codex_turn_with_files L
                (codex_turnChunks L (pu_content p) (join [CHR 0x0A] (cx_fragments st))
                   (cx_project st) (cx_session st) (pu_time p) src (pu_line p) (cx_model st))
                (cx_ops st) (cx_project st) (cx_session st) (pu_time p) src (pu_line p)) st)
          \<lparr>cx_pending := None, cx_fragments := [], cx_ops := []\<rparr>)"

definition codex_assistant :: "golib \<Rightarrow> source \<Rightarrow> codex_state \<Rightarrow> event \<Rightarrow> string \<Rightarrow> chunk list" where
  "codex_assistant L src st e text =
     codex_assistantChunks L text (cx_project st) (cx_session st) (codex_eventTimestamp e) src
       (ev_line e) (cx_model st)"

text \<open>The case \<open>response_item\<close>.\<close>

definition codex_message_step ::
  "golib \<Rightarrow> source \<Rightarrow> codex_state \<Rightarrow> event \<Rightarrow> codex_state" where
  "codex_message_step L src st e =
     (let text = trim_space (codex_messageText e);
          role = string_value (payload_field e ''role'')
      in if text = [] then st
         else if role = ''user'' then
           (codex_finalize L src st)
           \<lparr>cx_pending := Some \<lparr>pu_content = text, pu_time = codex_eventTimestamp e,
                               pu_line = ev_line e\<rparr>\<rparr>
         else if role = ''assistant'' \<and> cx_pending st \<noteq> None then
           st\<lparr>cx_fragments := cx_fragments st @ [text]\<rparr>
         else cx_emit (codex_assistant L src st e text) st)"

definition codex_tool_step ::
  "golib \<Rightarrow> source \<Rightarrow> codex_state \<Rightarrow> event \<Rightarrow> codex_state" where
  "codex_tool_step L src st e =
     (let (summary, foundOps) = codex_summarizeTool L e in
      if cx_pending st \<noteq> None then
        st\<lparr>cx_fragments := cx_fragments st @ (if summary \<noteq> [] then [summary] else []),
           cx_ops := cx_ops st @ foundOps\<rparr>
      else if summary \<noteq> [] then
        cx_emit
          (codex_turn_with_files L (codex_assistant L src st e summary) foundOps (cx_project st)
             (cx_session st) (codex_eventTimestamp e) src (ev_line e)) st
      else st)"

definition codex_event_msg_step ::
  "golib \<Rightarrow> source \<Rightarrow> codex_state \<Rightarrow> event \<Rightarrow> codex_state" where
  "codex_event_msg_step L src st e =
     (let text = first_non_empty [string_value (payload_field e ''message''),
                                  json_marshal True (payload_json e)]
      in if text = [] then st
         else if string_value (payload_field e ''type'') = ''user_message'' then
           cx_emit (codex_userChunks L text (cx_project st) (cx_session st)
                      (codex_eventTimestamp e) src (ev_line e) (cx_model st)) st
         else cx_emit (codex_assistant L src st e text) st)"

definition codex_step :: "golib \<Rightarrow> source \<Rightarrow> codex_state \<Rightarrow> event \<Rightarrow> codex_state" where
  "codex_step L src st e =
     (if ev_type e = ''session_meta'' then
        st\<lparr>cx_session := first_non_empty [string_value (payload_field e ''id''), cx_session st],
           cx_session_cwd :=
             first_non_empty [string_value (payload_field e ''cwd''), cx_session_cwd st]\<rparr>
      else if ev_type e = ''turn_context'' then
        st\<lparr>cx_last_cwd := first_non_empty [string_value (payload_field e ''cwd''), cx_last_cwd st],
           cx_model := first_non_empty [string_value (payload_field e ''model''), cx_model st]\<rparr>
      else if ev_type e = ''event_msg'' then codex_event_msg_step L src st e
      else if ev_type e = ''response_item'' then
        (if string_value (payload_field e ''type'') = ''message'' then codex_message_step L src st e
         else codex_tool_step L src st e)
      else
        cx_emit (codex_assistant L src st e
                   (json_marshal True (JObj [(''type'', JStr (ev_type e)),
                                             (''payload'', payload_json e)]))) st)"

definition codex_start :: "golib \<Rightarrow> source \<Rightarrow> codex_state" where
  "codex_start L src =
     \<lparr>cx_session = first_non_empty [codex_sessionIDFromFilename L (src_file src), ''unknown''],
      cx_session_cwd = [], cx_last_cwd = [], cx_model = [], cx_pending = None,
      cx_fragments = [], cx_ops = [], cx_chunks = []\<rparr>"

definition codex_Chunks ::
  "golib \<Rightarrow> reader option \<Rightarrow> source \<Rightarrow> source_error + (chunk list \<times> issue list)" where
  "codex_Chunks L input src =
     (if src_file src = [] then Inl IdentityRequired
      else (case codex_Parse L input (src_max_bytes src) of
              Inl e \<Rightarrow> Inl e
            | Inr (events, issues) \<Rightarrow>
                Inr (cx_chunks (codex_finalize L src
                       (foldl (codex_step L src) (codex_start L src) events)), issues)))"

section \<open>Lemmas\<close>

lemma codex_makeChunks_provenance:
  assumes "c \<in> set (codex_makeChunks L content ''turn'' project session t src line model)"
    and "session \<noteq> []"
  shows "provenance src c"
  using assms unfolding codex_makeChunks_def Let_def
  by (auto dest!: part_chunks_mem simp: provenance_def origin_def zero_chunk_def)

lemma codex_fileChunks_provenance:
  "c \<in> set (codex_fileChunks L ops project session t src line parent) \<Longrightarrow> session \<noteq> [] \<Longrightarrow>
   provenance src c"
  by (auto simp: codex_fileChunks_def Let_def provenance_def origin_def zero_chunk_def
      simp del: append.simps)

lemmas codex_turns_defs =
  codex_turnChunks_def codex_assistantChunks_def codex_userChunks_def codex_assistant_def

lemma codex_turn_with_files_provenance:
  assumes "c \<in> set (codex_turn_with_files L turns ops project session t src line)"
    and "\<And>c. c \<in> set turns \<Longrightarrow> provenance src c" and "session \<noteq> []"
  shows "provenance src c"
proof (cases turns)
  case Nil
  with assms(1) show ?thesis by (simp add: codex_turn_with_files_def)
next
  case (Cons a list)
  with assms(1) have "c \<in> set (link_children turns
      (codex_fileChunks L ops project session t src line (ck_id a)))"
    by (simp add: codex_turn_with_files_def)
  from link_children_mem [OF this] show ?thesis
    using assms(2,3) codex_fileChunks_provenance by auto
qed

text \<open>The invariant of the loop.\<close>

definition codex_inv :: "source \<Rightarrow> codex_state \<Rightarrow> bool" where
  "codex_inv src st \<longleftrightarrow>
     cx_session st \<noteq> [] \<and> list_all (provenance src) (cx_chunks st) \<and>
     (cx_pending st = None \<longrightarrow> cx_fragments st = [] \<and> cx_ops st = [])"

lemma codex_inv_emit:
  "codex_inv src st \<Longrightarrow> list_all (provenance src) cs \<Longrightarrow> codex_inv src (cx_emit cs st)"
  by (simp add: codex_inv_def cx_emit_def)

lemma codex_turns_provenance:
  assumes "session \<noteq> []"
  shows "list_all (provenance src) (codex_turnChunks L u a p session t src l m)"
    and "list_all (provenance src) (codex_assistantChunks L x p session t src l m)"
    and "list_all (provenance src) (codex_userChunks L x p session t src l m)"
  using codex_makeChunks_provenance [OF _ assms]
  unfolding codex_turns_defs list_all_iff by (simp_all split: if_splits)

lemma codex_finalize_inv: "codex_inv src st \<Longrightarrow> codex_inv src (codex_finalize L src st)"
  using codex_turn_with_files_provenance codex_turns_provenance(1)
  by (fastforce simp: codex_finalize_def codex_inv_def cx_emit_def list_all_iff
      split: option.splits)

lemma codex_finalize_pending [simp]: "cx_pending (codex_finalize L src st) = None"
  by (auto simp: codex_finalize_def split: option.splits)

lemma codex_message_step_inv:
  assumes "codex_inv src st"
  shows "codex_inv src (codex_message_step L src st e)"
proof -
  have "codex_inv src (codex_finalize L src st)" using assms by (rule codex_finalize_inv)
  then show ?thesis
    using assms codex_inv_emit [OF assms] codex_turns_provenance(2) [of "cx_session st"]
    by (auto simp: codex_message_step_def Let_def codex_inv_def codex_assistant_def)
qed

lemma codex_tool_step_inv:
  assumes "codex_inv src st"
  shows "codex_inv src (codex_tool_step L src st e)"
proof -
  obtain summary ops where s: "codex_summarizeTool L e = (summary, ops)" by fastforce
  have ne: "cx_session st \<noteq> []" using assms by (simp add: codex_inv_def)
  have "list_all (provenance src)
      (codex_turn_with_files L (codex_assistant L src st e summary) ops (cx_project st)
         (cx_session st) (codex_eventTimestamp e) src (ev_line e))"
    using codex_turn_with_files_provenance codex_turns_provenance(2) [OF ne] ne
    unfolding codex_assistant_def list_all_iff by metis
  from codex_inv_emit [OF assms this] show ?thesis
    using assms by (auto simp: codex_tool_step_def s codex_inv_def)
qed

lemma codex_event_msg_step_inv:
  "codex_inv src st \<Longrightarrow> codex_inv src (codex_event_msg_step L src st e)"
  using codex_turns_provenance [of "cx_session st"]
  by (simp add: codex_event_msg_step_def Let_def codex_inv_emit codex_assistant_def codex_inv_def
      del: first_non_empty.simps json_marshal.simps) (simp add: cx_emit_def)

lemma codex_step_inv: "codex_inv src st \<Longrightarrow> codex_inv src (codex_step L src st e)"
  using codex_turns_provenance(2) [of "cx_session st"]
  by (simp add: codex_step_def codex_message_step_inv codex_tool_step_inv codex_event_msg_step_inv
      codex_inv_emit codex_assistant_def del: json_marshal.simps)
    (auto simp: codex_inv_def cx_emit_def)

lemma codex_start_inv: "codex_inv src (codex_start L src)"
  by (simp add: codex_inv_def codex_start_def)

lemma codex_run_inv:
  "codex_inv src st \<Longrightarrow> codex_inv src (foldl (codex_step L src) st events)"
  by (induction events arbitrary: st) (auto simp: codex_step_inv)

lemma codex_Chunks_provenance:
  assumes "codex_Chunks L input src = Inr (cs, issues)"
  shows "list_all (provenance src) cs"
proof -
  from assms obtain events where
    "cs = cx_chunks (codex_finalize L src (foldl (codex_step L src) (codex_start L src) events))"
    by (auto simp: codex_Chunks_def split: if_splits sum.splits)
  moreover have "codex_inv src (codex_finalize L src
      (foldl (codex_step L src) (codex_start L src) events))"
    by (intro codex_finalize_inv codex_run_inv codex_start_inv)
  ultimately show ?thesis by (simp add: codex_inv_def)
qed

end
