(* ===== verification/Source_Gemini.thy ===== *)
theory Source_Gemini
  imports Source_Common
begin

text \<open>
  Package \<open>source/gemini\<close>: a Gemini CLI source is one JSON document, either a session object
  with messages or an array of log events.  \<open>gemini_state\<close> is the local variables of the
  loop of \<open>Chunks\<close> over the messages and \<open>gemini_step\<close> one iteration.
\<close>

section \<open>Documents\<close>

record gemini_call =
  gc_id :: string
  gc_name :: string
  gc_args :: "json option"
  gc_result :: string

record gemini_message =
  gm_id :: string
  gm_type :: string
  gm_content :: string
  gm_model :: string
  gm_time :: instant
  gm_has_time :: bool
  gm_thoughts :: "string list"
  gm_calls :: "gemini_call list"
  gm_raw :: json

record gemini_event =
  ge_id :: string
  ge_session :: string
  ge_content :: string
  ge_time :: instant
  ge_has_time :: bool

record gemini_document =
  gd_session :: string
  gd_conversation :: string
  gd_messages :: "gemini_message list"
  gd_events :: "gemini_event list"

definition gemini_MaxFileBytes :: int where
  "gemini_MaxFileBytes = 2 * 2 ^ 30"

definition gemini_parseTimestamp :: "golib \<Rightarrow> json option \<Rightarrow> instant \<times> bool" where
  "gemini_parseTimestamp L value =
     (let text = string_value value in
      if text = [] then (zero_time, False)
      else (case time_parse L text of None \<Rightarrow> (zero_time, False) | Some t \<Rightarrow> (t, True)))"

definition gemini_call_of :: "nat \<Rightarrow> json \<Rightarrow> gemini_call list" where
  "gemini_call_of callIndex rawCall =
     (case as_object (Some rawCall) of
        None \<Rightarrow> []
      | Some call \<Rightarrow>
          [\<lparr>gc_id = first_non_empty [string_value (field call ''id''), show_nat (callIndex + 1)],
            gc_name = string_value (field call ''name''), gc_args = field call ''args'',
            gc_result = string_value (field call ''resultDisplay'')\<rparr>])"

definition gemini_parseMessage :: "golib \<Rightarrow> json \<Rightarrow> nat \<Rightarrow> gemini_message option" where
  "gemini_parseMessage L raw index =
     (case as_object (Some raw) of
        None \<Rightarrow> None
      | Some obj \<Rightarrow>
          Some \<lparr>gm_id = first_non_empty [string_value (field obj ''id''), show_nat index],
            gm_type = string_value (field obj ''type''), gm_content = value_text (field obj ''content''),
            gm_model = string_value (field obj ''model''),
            gm_time = fst (gemini_parseTimestamp L (field obj ''timestamp'')),
            gm_has_time = snd (gemini_parseTimestamp L (field obj ''timestamp'')),
            gm_thoughts =
              (case as_array (field obj ''thoughts'') of
                 None \<Rightarrow> [] | Some ts \<Rightarrow> map (\<lambda>t. value_text (Some t)) ts),
            gm_calls =
              (case as_array (field obj ''toolCalls'') of
                 None \<Rightarrow> []
               | Some calls \<Rightarrow> concat (map (\<lambda>(i, c). gemini_call_of i c) (enumerate 0 calls))),
            gm_raw = raw\<rparr>)"

definition gemini_parseEvent :: "golib \<Rightarrow> json \<Rightarrow> nat \<Rightarrow> gemini_event option" where
  "gemini_parseEvent L raw index =
     (case as_object (Some raw) of
        None \<Rightarrow> None
      | Some obj \<Rightarrow>
          Some \<lparr>ge_id = first_non_empty [string_value (field obj ''id''), show_nat index],
            ge_session = string_value (field obj ''sessionId''),
            ge_content = json_value (Some raw),
            ge_time = fst (gemini_parseTimestamp L (field obj ''timestamp'')),
            ge_has_time = snd (gemini_parseTimestamp L (field obj ''timestamp''))\<rparr>)"

text \<open>The loop over a JSON array: each element is parsed with its one-based index, an
  element that is not an object is an issue.\<close>

fun gemini_items ::
  "(json \<Rightarrow> nat \<Rightarrow> 'a option) \<Rightarrow> string \<Rightarrow> nat \<Rightarrow> json list \<Rightarrow> 'a list \<times> issue list" where
  "gemini_items parse reason index [] = ([], [])"
| "gemini_items parse reason index (raw # rest) =
     (let (xs, is) = gemini_items parse reason (index + 1) rest in
      (case parse raw (index + 1) of
         None \<Rightarrow> (xs, \<lparr>is_line = index + 1, is_reason = reason\<rparr> # is)
       | Some x \<Rightarrow> (x # xs, is)))"

definition gemini_Parse ::
  "golib \<Rightarrow> reader option \<Rightarrow> int \<Rightarrow> source_error + (gemini_document \<times> issue list)" where
  "gemini_Parse L input maxBytes =
     (case document_parse L gemini_MaxFileBytes input maxBytes of
        Inl e \<Rightarrow> Inl e
      | Inr (JArr items) \<Rightarrow>
          let (events, issues) = gemini_items (gemini_parseEvent L) ''event_not_object'' 0 items in
          Inr (\<lparr>gd_session = [], gd_conversation = [], gd_messages = [], gd_events = events\<rparr>, issues)
      | Inr (JObj obj) \<Rightarrow>
          let doc = \<lparr>gd_session = first_non_empty [string_value (field obj ''sessionId''),
                                                  ''gemini-session''],
                     gd_conversation = string_value (field obj ''conversationId''),
                     gd_messages = [], gd_events = []\<rparr>
          in (case field obj ''messages'' of
                None \<Rightarrow> Inr (doc, [])
              | Some (JArr raws) \<Rightarrow>
                  let (messages, issues) =
                    gemini_items (gemini_parseMessage L) ''message_not_object'' 0 raws
                  in Inr (doc\<lparr>gd_messages := messages\<rparr>, issues)
              | Some _ \<Rightarrow> Inr (doc, [\<lparr>is_line = 0, is_reason = ''messages_not_array''\<rparr>]))
      | Inr _ \<Rightarrow> Inl ShapeInvalid)"

section \<open>Text and operations of a message\<close>

definition gemini_call_json :: "gemini_call \<Rightarrow> string" where
  "gemini_call_json c =
     json_marshal True (JObj [(''id'', JStr (gc_id c)), (''name'', JStr (gc_name c)),
       (''args'', case gc_args c of None \<Rightarrow> JNull | Some v \<Rightarrow> v),
       (''resultDisplay'', JStr (gc_result c))])"

definition gemini_text :: "gemini_message \<Rightarrow> string" where
  "gemini_text m =
     join [CHR 0x0A, CHR 0x0A]
       ((if gm_content m \<noteq> [] then [gm_content m] else []) @
        (if gm_thoughts m \<noteq> [] then [''Thoughts:'' @ [CHR 0x0A] @ join [CHR 0x0A] (gm_thoughts m)]
         else []) @
        (if gm_calls m \<noteq> [] then
           [''Tool calls:'' @ [CHR 0x0A] @ join [CHR 0x0A] (map gemini_call_json (gm_calls m))]
         else []))"

definition gemini_patchOperations :: "string \<Rightarrow> operation list" where
  "gemini_patchOperations text = patch_text_operations text"

definition gemini_shellOperations :: "golib \<Rightarrow> string \<Rightarrow> operation list" where
  "gemini_shellOperations L command = shell_command_operations L shell_rules command"

definition gemini_call_operations :: "golib \<Rightarrow> gemini_call \<Rightarrow> operation list" where
  "gemini_call_operations L c =
     (if gc_name c \<in> set [''apply_patch'', ''applyPatch'', ''patch''] then
        (case as_object (gc_args c) of
           None \<Rightarrow> [] | Some args \<Rightarrow> gemini_patchOperations (string_value (field args ''patch''))) @
        gemini_patchOperations (gc_result c)
      else []) @
     (if gc_name c \<in> set [''shell'', ''shell_command'', ''bash''] then
        (case as_object (gc_args c) of
           None \<Rightarrow> []
         | Some args \<Rightarrow> gemini_shellOperations L (string_value (field args ''command'')))
      else [])"

definition gemini_toolOperations :: "golib \<Rightarrow> gemini_call list \<Rightarrow> operation list" where
  "gemini_toolOperations L calls = concat (map (gemini_call_operations L) calls)"

text \<open>The path element after \<open>tmp\<close> names the project.\<close>

fun gemini_project_of :: "string list \<Rightarrow> string \<times> string" where
  "gemini_project_of (p # q # rest) =
     (if p = ''tmp'' \<and> q \<noteq> [] then (''/gemini/'' @ q, q) else gemini_project_of (q # rest))"
| "gemini_project_of _ = (''/gemini/unknown'', ''unknown'')"

definition gemini_projectFromPath :: "string \<Rightarrow> string \<times> string" where
  "gemini_projectFromPath path = gemini_project_of (split_char slash (path_clean path))"

section \<open>Making chunks\<close>

definition gemini_timestamp :: "instant \<Rightarrow> bool \<Rightarrow> nat \<Rightarrow> instant" where
  "gemini_timestamp at has index = (if has then at else fallback_time index)"

definition gemini_makeChunks ::
  "golib \<Rightarrow> string \<Rightarrow> string \<times> string \<Rightarrow> string \<Rightarrow> instant \<Rightarrow> source \<Rightarrow> nat \<Rightarrow> string \<Rightarrow> chunk list"
  where
  "gemini_makeChunks L content project session at src line model =
     (let key = format_time L at;
          mk = (\<lambda>ident part parent. zero_chunk
                 \<lparr>ck_id := ident, ck_content := part, ck_type := ''turn'', ck_session := session,
                  ck_project_path := fst project, ck_project_name := snd project,
                  ck_timestamp := at, ck_model := model, ck_source_file := src_file src,
                  ck_source_line := int line, ck_parent := parent,
                  ck_machine := src_machine src\<rparr>)
      in part_chunks L mk (chunk_id L content session key) session key
           (gemini_splitContent content))"

definition gemini_turnChunks ::
  "golib \<Rightarrow> string \<Rightarrow> string \<Rightarrow> string \<times> string \<Rightarrow> string \<Rightarrow> instant \<Rightarrow> source \<Rightarrow> nat \<Rightarrow> string \<Rightarrow>
   chunk list" where
  "gemini_turnChunks L user assistant project session at src line model =
     gemini_makeChunks L
       (''In project '' @ snd project @ '', user asked:'' @ [CHR 0x0A] @ user @
        [CHR 0x0A, CHR 0x0A] @ ''Assistant responded:'' @ [CHR 0x0A] @ trim_space assistant)
       project session at src line model"

definition gemini_assistantChunks ::
  "golib \<Rightarrow> string \<Rightarrow> string \<times> string \<Rightarrow> string \<Rightarrow> instant \<Rightarrow> source \<Rightarrow> nat \<Rightarrow> string \<Rightarrow> chunk list"
  where
  "gemini_assistantChunks L content project session at src line model =
     (if trim_space content = [] then []
      else gemini_makeChunks L
             (''In project '' @ snd project @ '', assistant responded:'' @ [CHR 0x0A] @ content)
             project session at src line model)"

definition gemini_fileChunks ::
  "golib \<Rightarrow> operation list \<Rightarrow> string \<times> string \<Rightarrow> string \<Rightarrow> instant \<Rightarrow> source \<Rightarrow> nat \<Rightarrow> string \<Rightarrow>
   chunk list" where
  "gemini_fileChunks L ops project session at src line parent =
     map (\<lambda>(index, op).
            let content = ''In project '' @ snd project @ '', file '' @ op_path op @
                  '' was '' @ op_kind op @ ''.'' @ [CHR 0x0A] @ ''Summary: '' @ op_summary op
            in zero_chunk
               \<lparr>ck_id := chunk_id L content session
                  (format_time L at @ op_path op @ show_nat index),
                ck_content := content, ck_type := ''file_change'', ck_session := session,
                ck_project_path := fst project, ck_project_name := snd project,
                ck_timestamp := at, ck_file_path := op_path op, ck_operation := op_kind op,
                ck_source_file := src_file src, ck_source_line := int line, ck_parent := parent,
                ck_machine := src_machine src\<rparr>)
         (enumerate 0 ops)"

definition gemini_turn_with_files ::
  "golib \<Rightarrow> chunk list \<Rightarrow> operation list \<Rightarrow> string \<times> string \<Rightarrow> string \<Rightarrow> instant \<Rightarrow> source \<Rightarrow> nat \<Rightarrow>
   chunk list" where
  "gemini_turn_with_files L turns ops project session at src line =
     (case turns of
        [] \<Rightarrow> []
      | t # _ \<Rightarrow>
          link_children turns (gemini_fileChunks L ops project session at src line (ck_id t)))"

text \<open>The one-based position of the first message with the same identity.\<close>

fun gemini_pendingIndex_from :: "nat \<Rightarrow> gemini_message \<Rightarrow> gemini_message list \<Rightarrow> nat" where
  "gemini_pendingIndex_from index want [] = 1"
| "gemini_pendingIndex_from index want (m # ms) =
     (if gm_id m = gm_id want then index + 1 else gemini_pendingIndex_from (index + 1) want ms)"

definition gemini_pendingIndex :: "gemini_message \<Rightarrow> gemini_message list \<Rightarrow> nat" where
  "gemini_pendingIndex want messages = gemini_pendingIndex_from 0 want messages"

section \<open>The loop of \<open>Chunks\<close>\<close>

record gemini_state =
  gs_pending :: "gemini_message option"
  gs_fragments :: "string list"
  gs_ops :: "operation list"
  gs_model :: string
  gs_chunks :: "chunk list"

definition gemini_finalize ::
  "golib \<Rightarrow> source \<Rightarrow> gemini_document \<Rightarrow> gemini_state \<Rightarrow> gemini_state" where
  "gemini_finalize L src doc st =
     (case gs_pending st of
        None \<Rightarrow> st
      | Some p \<Rightarrow>
          let project = gemini_projectFromPath (src_file src);
              line = gemini_pendingIndex p (gd_messages doc);
              at = gemini_timestamp (gm_time p) (gm_has_time p) line;
              turns = gemini_turnChunks L (gm_content p) (join [CHR 0x0A] (gs_fragments st)) project
                        (gd_session doc) at src line (gs_model st)
          in st\<lparr>gs_chunks := gs_chunks st @
                  gemini_turn_with_files L turns (gs_ops st) project (gd_session doc) at src line,
                gs_pending := None, gs_fragments := [], gs_ops := []\<rparr>)"

definition gemini_step ::
  "golib \<Rightarrow> source \<Rightarrow> gemini_document \<Rightarrow> gemini_state \<Rightarrow> nat \<times> gemini_message \<Rightarrow> gemini_state" where
  "gemini_step L src doc st im =
     (let index = fst im; m = snd im;
          project = gemini_projectFromPath (src_file src);
          at = gemini_timestamp (gm_time m) (gm_has_time m) (index + 1);
          assistant = (\<lambda>model text. gemini_assistantChunks L text project (gd_session doc) at src
                         (index + 1) model)
      in if gm_type m = ''user'' then (gemini_finalize L src doc st)\<lparr>gs_pending := Some m\<rparr>
         else if gm_type m = ''gemini'' then
           let model = first_non_empty [gm_model m, gs_model st];
               combined = gemini_text m;
               found = gemini_toolOperations L (gm_calls m)
           in if gs_pending st = None then
                st\<lparr>gs_model := model,
                   gs_chunks := gs_chunks st @
                     gemini_turn_with_files L (assistant model combined) found project
                       (gd_session doc) at src (index + 1)\<rparr>
              else
                st\<lparr>gs_model := model,
                   gs_fragments := gs_fragments st @ (if combined \<noteq> [] then [combined] else []),
                   gs_ops := gs_ops st @ found\<rparr>
         else if gm_type m = ''info'' then
           st\<lparr>gs_chunks := gs_chunks st @ assistant (gs_model st) (gm_content m)\<rparr>
         else st\<lparr>gs_chunks := gs_chunks st @ assistant (gs_model st) (json_value (Some (gm_raw m)))\<rparr>)"

definition gemini_event_chunks :: "golib \<Rightarrow> source \<Rightarrow> nat \<times> gemini_event \<Rightarrow> chunk list" where
  "gemini_event_chunks L src ie =
     (let index = fst ie; e = snd ie in
      gemini_assistantChunks L (ge_content e) (gemini_projectFromPath (src_file src))
        (first_non_empty [ge_session e, ''gemini-logs''])
        (gemini_timestamp (ge_time e) (ge_has_time e) (index + 1)) src (index + 1) [])"

definition gemini_start :: gemini_state where
  "gemini_start = \<lparr>gs_pending = None, gs_fragments = [], gs_ops = [], gs_model = [], gs_chunks = []\<rparr>"

definition gemini_Chunks ::
  "golib \<Rightarrow> reader option \<Rightarrow> source \<Rightarrow> source_error + (chunk list \<times> issue list)" where
  "gemini_Chunks L input src =
     (if src_file src = [] then Inl IdentityRequired
      else (case gemini_Parse L input (src_max_bytes src) of
              Inl e \<Rightarrow> Inl e
            | Inr (doc, issues) \<Rightarrow>
                if gd_events doc \<noteq> [] then
                  Inr (concat (map (gemini_event_chunks L src) (enumerate 0 (gd_events doc))), issues)
                else
                  Inr (gs_chunks (gemini_finalize L src doc
                         (foldl (gemini_step L src doc) gemini_start
                            (enumerate 0 (gd_messages doc)))), issues)))"

section \<open>Lemmas\<close>

lemma gemini_assistantChunks_provenance:
  "session \<noteq> [] \<Longrightarrow>
   list_all (provenance src) (gemini_assistantChunks L x project session at src l m)"
  unfolding gemini_assistantChunks_def gemini_makeChunks_def list_all_iff Let_def
  by (auto dest!: part_chunks_mem simp: provenance_def origin_def zero_chunk_def)

lemma gemini_turnChunks_provenance:
  "session \<noteq> [] \<Longrightarrow>
   list_all (provenance src) (gemini_turnChunks L u a project session at src l m)"
  unfolding gemini_turnChunks_def gemini_makeChunks_def list_all_iff Let_def
  by (auto dest!: part_chunks_mem simp: provenance_def origin_def zero_chunk_def)

lemma gemini_fileChunks_provenance:
  "session \<noteq> [] \<Longrightarrow>
   list_all (provenance src) (gemini_fileChunks L ops project session at src line parent)"
  by (auto simp: gemini_fileChunks_def Let_def provenance_def origin_def zero_chunk_def list_all_iff
      simp del: append.simps)

lemma gemini_turn_with_files_provenance:
  assumes "list_all (provenance src) turns" "session \<noteq> []"
  shows "list_all (provenance src) (gemini_turn_with_files L turns ops project session at src line)"
proof (cases turns)
  case (Cons t ts)
  with assms gemini_fileChunks_provenance [OF assms(2)] show ?thesis
    unfolding gemini_turn_with_files_def list_all_iff by (fastforce dest: link_children_mem)
qed (simp add: gemini_turn_with_files_def)

lemma gemini_finalize_provenance:
  "gd_session doc \<noteq> [] \<Longrightarrow> list_all (provenance src) (gs_chunks st) \<Longrightarrow>
   list_all (provenance src) (gs_chunks (gemini_finalize L src doc st))"
  by (simp add: gemini_finalize_def Let_def gemini_turn_with_files_provenance
      gemini_turnChunks_provenance split: option.splits)

lemma gemini_step_provenance:
  "gd_session doc \<noteq> [] \<Longrightarrow> list_all (provenance src) (gs_chunks st) \<Longrightarrow>
   list_all (provenance src) (gs_chunks (gemini_step L src doc st im))"
  by (simp add: gemini_step_def Let_def gemini_finalize_provenance gemini_turn_with_files_provenance
      gemini_assistantChunks_provenance del: first_non_empty.simps)

lemma gemini_run_provenance:
  "gd_session doc \<noteq> [] \<Longrightarrow> list_all (provenance src) (gs_chunks st) \<Longrightarrow>
   list_all (provenance src) (gs_chunks (foldl (gemini_step L src doc) st ims))"
  by (induction ims arbitrary: st) (simp_all add: gemini_step_provenance)

lemma gemini_Parse_session:
  "gemini_Parse L input m = Inr (doc, issues) \<Longrightarrow> gd_messages doc \<noteq> [] \<Longrightarrow> gd_session doc \<noteq> []"
  by (auto simp: gemini_Parse_def Let_def split: sum.splits json.splits option.splits prod.splits if_splits)

lemma gemini_Chunks_provenance:
  assumes "gemini_Chunks L input src = Inr (cs, issues)"
  shows "list_all (provenance src) cs"
proof -
  from assms obtain doc where doc: "gemini_Parse L input (src_max_bytes src) = Inr (doc, issues)"
    and cs: "cs = (if gd_events doc \<noteq> [] then
        concat (map (gemini_event_chunks L src) (enumerate 0 (gd_events doc)))
      else gs_chunks (gemini_finalize L src doc
        (foldl (gemini_step L src doc) gemini_start (enumerate 0 (gd_messages doc)))))"
    by (auto simp: gemini_Chunks_def split: if_splits sum.splits)
  have "list_all (provenance src) (gemini_event_chunks L src ie)" for ie
    by (simp add: gemini_event_chunks_def Let_def gemini_assistantChunks_provenance)
  then have ev: "list_all (provenance src)
      (concat (map (gemini_event_chunks L src) (enumerate 0 (gd_events doc))))"
    by (auto simp: list_all_iff)
  show ?thesis
  proof (cases "gd_messages doc = []")
    case True
    with ev cs show ?thesis by (auto simp: gemini_start_def gemini_finalize_def)
  next
    case False
    from gemini_Parse_session [OF doc this] show ?thesis
      using ev cs gemini_finalize_provenance gemini_run_provenance
      by (simp add: gemini_start_def)
  qed
qed

end
