(* ===== verification/Source_Antigravity.thy ===== *)
theory Source_Antigravity
  imports Source_Common
begin

text \<open>
  Package \<open>source/antigravity\<close>: JSONL transcripts, one turn per event, and legacy binary
  blobs, one chunk per file.
\<close>

section \<open>Events\<close>

record antigravity_call =
  ac_id :: string
  ac_name :: string
  ac_args :: "json option"

record antigravity_event =
  ae_id :: string
  ae_source :: string
  ae_type :: string
  ae_status :: string
  ae_content :: string
  ae_thinking :: string
  ae_calls :: "antigravity_call list"
  ae_time :: instant
  ae_has_time :: bool
  ae_step :: string
  ae_line :: nat

definition antigravity_MaxFileBytes :: int where
  "antigravity_MaxFileBytes = 2 * 2 ^ 30"

definition antigravity_call_of :: "nat \<Rightarrow> json \<Rightarrow> antigravity_call list" where
  "antigravity_call_of i raw =
     (case as_object (Some raw) of
        None \<Rightarrow> []
      | Some call \<Rightarrow>
          [\<lparr>ac_id = first_non_empty [string_value (field call ''id''), show_nat (i + 1)],
            ac_name = string_value (field call ''name''), ac_args = field call ''args''\<rparr>])"

definition antigravity_parseEvent ::
  "golib \<Rightarrow> nat \<Rightarrow> string \<Rightarrow> string + antigravity_event" where
  "antigravity_parseEvent L line raw =
     (case json_unmarshal L raw of
        None \<Rightarrow> Inl ''invalid_json''
      | Some v \<Rightarrow>
          if MaxJSONDepth < json_depth v 0 then Inl ''json_too_deep''
          else (case as_object (Some v) of
             None \<Rightarrow> Inl ''event_not_object''
           | Some obj \<Rightarrow>
               let stamp = string_value (field obj ''created_at'') in
               if stamp \<noteq> [] \<and> time_parse L stamp = None then Inl ''invalid_timestamp''
               else Inr \<lparr>ae_id = string_value (field obj ''id''),
                 ae_source = string_value (field obj ''source''),
                 ae_type = string_value (field obj ''type''),
                 ae_status = string_value (field obj ''status''),
                 ae_content = string_value (field obj ''content''),
                 ae_thinking = string_value (field obj ''thinking''),
                 ae_calls =
                   (case as_array (field obj ''tool_calls'') of
                      None \<Rightarrow> []
                    | Some calls \<Rightarrow>
                        concat (map (\<lambda>(i, c). antigravity_call_of i c) (enumerate 0 calls))),
                 ae_time = (if stamp = [] then zero_time else the (time_parse L stamp)),
                 ae_has_time = (stamp \<noteq> []),
                 ae_step = first_non_empty [string_value (field obj ''step_index''), ''0''],
                 ae_line = line\<rparr>))"

definition antigravity_Parse ::
  "golib \<Rightarrow> reader option \<Rightarrow> int \<Rightarrow> source_error + (antigravity_event list \<times> issue list)" where
  "antigravity_Parse L = jsonl_parse antigravity_MaxFileBytes (antigravity_parseEvent L)"

section \<open>Text and operations of an event\<close>

text \<open>\<open>json.Marshal\<close> of the struct \<open>ToolCall\<close>: the fields in declaration order.\<close>

definition antigravity_call_json :: "antigravity_call \<Rightarrow> string" where
  "antigravity_call_json c =
     ''{'' @ json_string True ''ID'' @ '':'' @ json_string True (ac_id c) @ '','' @
     json_string True ''Name'' @ '':'' @ json_string True (ac_name c) @ '','' @
     json_string True ''Args'' @ '':'' @
     json_marshal True (case ac_args c of None \<Rightarrow> JNull | Some v \<Rightarrow> v) @ ''}''"

definition antigravity_eventContent :: "antigravity_event \<Rightarrow> string" where
  "antigravity_eventContent e =
     join [CHR 0x0A, CHR 0x0A]
       ([''Source: '' @ first_non_empty [ae_source e, ''unknown''],
         ''Type: '' @ first_non_empty [ae_type e, ''unknown''],
         ''Status: '' @ first_non_empty [ae_status e, ''unknown'']] @
        (if ae_content e \<noteq> [] then [''Content:'' @ [CHR 0x0A] @ ae_content e] else []) @
        (if ae_thinking e \<noteq> [] then [''Thinking:'' @ [CHR 0x0A] @ ae_thinking e] else []) @
        (if ae_calls e \<noteq> [] then
           [''Tool calls:'' @ [CHR 0x0A] @ ''['' @
            join '','' (map antigravity_call_json (ae_calls e)) @ '']'']
         else []))"

text \<open>\<open>patch\<close>: here the three rules are tried one after the other without leaving the loop.\<close>

definition antigravity_rules :: "(string \<times> string \<times> string) list" where
  "antigravity_rules =
     [(''*** Add File: '', ''write'', ''Added file''),
      (''*** Update File: '', ''edit'', ''Updated file''),
      (''*** Delete File: '', ''delete'', ''Deleted file'')]"

definition antigravity_patch_line :: "string \<Rightarrow> operation list" where
  "antigravity_patch_line line =
     concat (map (\<lambda>(prefix, kind, summary).
         let path = trim_space (trim_prefix prefix line) in
         if path \<noteq> line \<and> path \<noteq> []
         then [\<lparr>op_path = path, op_kind = kind, op_summary = summary, op_id = []\<rparr>] else [])
       antigravity_rules)"

definition antigravity_patch :: "string \<Rightarrow> operation list" where
  "antigravity_patch s = concat (map antigravity_patch_line (split_char (CHR 0x0A) s))"

definition antigravity_shellRE :: string where
  "antigravity_shellRE =
     CHR 0x5C # ''b(?:rm|touch)'' @ CHR 0x5C # ''s+(?:-[^'' @ CHR 0x5C # ''s]+'' @
     CHR 0x5C # ''s+)?([^'' @ CHR 0x5C # ''s]+)''"

definition antigravity_shell :: "golib \<Rightarrow> string \<Rightarrow> operation list" where
  "antigravity_shell L s =
     (case re_submatch L antigravity_shellRE s of
        None \<Rightarrow> []
      | Some path \<Rightarrow>
          if contains ''rm'' s
          then [\<lparr>op_path = path, op_kind = ''delete'', op_summary = ''Deleted file'', op_id = []\<rparr>]
          else [\<lparr>op_path = path, op_kind = ''write'', op_summary = ''Touched file'', op_id = []\<rparr>])"

definition antigravity_call_ops :: "golib \<Rightarrow> antigravity_call \<Rightarrow> operation list" where
  "antigravity_call_ops L c =
     (case ac_args c of
        Some (JObj args) \<Rightarrow>
          let path = first_non_empty [string_value (field args ''file_path''),
                                      string_value (field args ''path'')]
          in (if path \<noteq> [] then
                [\<lparr>op_path = path,
                  op_kind = (if contains ''edit'' (to_lower L (ac_name c)) then ''edit'' else ''write''),
                  op_summary = ac_name c @ '' tool call'', op_id = []\<rparr>]
              else []) @
             antigravity_patch (string_value (field args ''patch'')) @
             antigravity_shell L (string_value (field args ''command''))
      | Some (JStr raw) \<Rightarrow> antigravity_patch raw @ antigravity_shell L raw
      | _ \<Rightarrow> [])"

definition antigravity_ops :: "golib \<Rightarrow> antigravity_call list \<Rightarrow> operation list" where
  "antigravity_ops L calls = concat (map (antigravity_call_ops L) calls)"

section \<open>Making chunks\<close>

definition op_key :: "operation \<Rightarrow> string" where
  "op_key op = op_path op @ op_kind op"

text \<open>The loop of \<open>fileChunks\<close> with its set \<open>seen\<close>: the first operation of each key is kept.\<close>

fun first_by_key :: "string list \<Rightarrow> operation list \<Rightarrow> operation list" where
  "first_by_key seen [] = []"
| "first_by_key seen (op # ops) =
     (if op_key op \<in> set seen then first_by_key seen ops
      else op # first_by_key (op_key op # seen) ops)"

definition antigravity_fileChunks ::
  "golib \<Rightarrow> operation list \<Rightarrow> string \<Rightarrow> instant \<Rightarrow> source \<Rightarrow> nat \<Rightarrow> string \<Rightarrow> chunk list" where
  "antigravity_fileChunks L ops session at src line parent =
     map (\<lambda>op.
            let content = ''In Antigravity session '' @ session @ '', file '' @ op_path op @
                  '' was '' @ op_kind op @ ''.'' @ [CHR 0x0A] @ ''Summary: '' @ op_summary op
            in zero_chunk
               \<lparr>ck_id := chunk_id L content session (show_nat line @ '':'' @ op_key op),
                ck_content := content, ck_type := ''file_change'', ck_session := session,
                ck_project_path := ''/antigravity/'' @ session,
                ck_project_name := ''Antigravity Session'', ck_timestamp := at,
                ck_file_path := op_path op, ck_operation := op_kind op,
                ck_source_file := src_file src, ck_source_line := int line, ck_parent := parent,
                ck_machine := src_machine src\<rparr>)
         (first_by_key [] ops)"

definition antigravity_chunk ::
  "string \<Rightarrow> string \<Rightarrow> string \<Rightarrow> string \<Rightarrow> string \<Rightarrow> instant \<Rightarrow> source \<Rightarrow> nat \<Rightarrow> string \<Rightarrow> string \<Rightarrow>
   string \<Rightarrow> chunk" where
  "antigravity_chunk content kind session path name at src line model ident parent =
     zero_chunk
       \<lparr>ck_id := ident, ck_content := content, ck_type := kind, ck_session := session,
        ck_project_path := path, ck_project_name := name, ck_timestamp := at, ck_model := model,
        ck_source_file := src_file src, ck_source_line := int line, ck_parent := parent,
        ck_machine := src_machine src\<rparr>"

fun after_brain :: "string list \<Rightarrow> string option" where
  "after_brain (p # q # rest) = (if p = ''brain'' then Some q else after_brain (q # rest))"
| "after_brain _ = None"

definition antigravity_sessionID :: "string \<Rightarrow> string" where
  "antigravity_sessionID path =
     (case after_brain (split_char slash (path_clean path)) of
        Some q \<Rightarrow> q
      | None \<Rightarrow> trim_suffix (path_ext path) (path_base path))"

definition antigravity_event_chunks ::
  "golib \<Rightarrow> source \<Rightarrow> string \<Rightarrow> antigravity_event \<Rightarrow> chunk list" where
  "antigravity_event_chunks L src session e =
     (let at = (if ae_has_time e then ae_time e else fallback_time (ae_line e));
          content = antigravity_eventContent e;
          base = chunk_id L content session (ae_step e);
          turn = antigravity_chunk content ''turn'' session (''/antigravity/'' @ session)
                   ''Antigravity Session'' at src (ae_line e) ''gemini-unknown'' base [];
          files = antigravity_fileChunks L (antigravity_ops L (ae_calls e)) session at src
                    (ae_line e) base
      in link_children [turn] files)"

text \<open>\<open>strings.FieldsFunc\<close> with a predicate on single bytes below 128, which never occur
  inside a multi-byte rune.\<close>

fun fields_by :: "(char \<Rightarrow> bool) \<Rightarrow> string \<Rightarrow> string \<Rightarrow> string list" where
  "fields_by sep acc [] = (if acc = [] then [] else [rev acc])"
| "fields_by sep acc (c # s) =
     (if sep c then (if acc = [] then fields_by sep [] s else rev acc # fields_by sep [] s)
      else fields_by sep (c # acc) s)"

definition binary_separator :: "char \<Rightarrow> bool" where
  "binary_separator c \<longleftrightarrow> byte_of c < 32 \<and> c \<noteq> CHR 0x0A \<and> c \<noteq> CHR 0x09"

text \<open>\<open>binaryChunks\<close>: the byte limit is not validated, so a limit below \<open>-1\<close> makes the
  bounded reader slice with a negative bound.\<close>

definition antigravity_binaryChunks ::
  "golib \<Rightarrow> reader option \<Rightarrow> source \<Rightarrow> source_error + chunk list" where
  "antigravity_binaryChunks L input src =
     (let limit = (if src_max_bytes src = 0 then antigravity_MaxFileBytes else src_max_bytes src) in
      if limit < -1 \<or> input = None \<and> limit \<noteq> -1 then Inl RuntimePanic
      else (case (if limit = -1 then Inl TooLarge else read_bounded limit (the input)) of
         Inl e \<Rightarrow> Inl e
       | Inr data \<Rightarrow>
           let text = join '' '' (fields_by binary_separator [] data) in
           if trim_space text = [] then Inr []
           else
             let session = trim_suffix (path_ext (src_file src)) (path_base (src_file src));
                 content = ''Google Antigravity History from '' @ path_base (src_file src) @
                   [CHR 0x0A, CHR 0x0A] @ text
             in Inr [antigravity_chunk content ''antigravity_history'' session
                  ''/antigravity/unknown'' ''Antigravity Session'' 0 src 0 ''gemini-unknown''
                  (chunk_id L content session ''binary'') []]))"

definition antigravity_Chunks ::
  "golib \<Rightarrow> reader option \<Rightarrow> source \<Rightarrow> source_error + (chunk list \<times> issue list)" where
  "antigravity_Chunks L input src =
     (if src_file src = [] then Inl IdentityRequired
      else if src_binary src then map_sum id (\<lambda>cs. (cs, [])) (antigravity_binaryChunks L input src)
      else (case antigravity_Parse L input (src_max_bytes src) of
              Inl e \<Rightarrow> Inl e
            | Inr (events, issues) \<Rightarrow>
                Inr (concat (map (antigravity_event_chunks L src
                                    (antigravity_sessionID (src_file src))) events), issues)))"

section \<open>Lemmas\<close>

lemma first_by_key_distinct:
  "distinct (map op_key (first_by_key seen ops)) \<and>
   set (map op_key (first_by_key seen ops)) = op_key ` set ops - set seen"
  by (induction seen ops rule: first_by_key.induct) auto

lemma first_by_key_subset: "set (first_by_key seen ops) \<subseteq> set ops"
  by (induction seen ops rule: first_by_key.induct) auto

text \<open>What every Antigravity chunk carries; the session may be empty here.\<close>

lemma antigravity_event_chunks_origin:
  assumes "c \<in> set (antigravity_event_chunks L src session e)"
  shows "origin src c \<and> ck_session c = session \<and> ck_type c \<in> {''turn'', ''file_change''}"
  using assms unfolding antigravity_event_chunks_def Let_def
  by (auto dest!: link_children_mem simp: antigravity_chunk_def antigravity_fileChunks_def Let_def
      origin_def zero_chunk_def simp del: append.simps)

lemma antigravity_binaryChunks_origin:
  "antigravity_binaryChunks L input src = Inr cs \<Longrightarrow> list_all (origin src) cs"
  by (auto simp: antigravity_binaryChunks_def Let_def antigravity_chunk_def origin_def zero_chunk_def
      simp del: append.simps split: if_splits sum.splits)

lemma antigravity_Chunks_origin:
  assumes "antigravity_Chunks L input src = Inr (cs, issues)"
  shows "list_all (origin src) cs"
proof (cases "src_binary src")
  case True
  with assms show ?thesis
    by (cases "antigravity_binaryChunks L input src")
       (auto simp: antigravity_Chunks_def antigravity_binaryChunks_origin split: if_splits)
next
  case False
  with assms antigravity_event_chunks_origin show ?thesis
    by (fastforce simp: antigravity_Chunks_def list_all_iff split: if_splits sum.splits)
qed

section \<open>Properties\<close>

text \<open>The chunks of one Antigravity event form a two-level tree: one turn, which lists exactly
  the identities of its file changes in order, and each file change names that turn as its
  parent; no two of them have the same path and kind.\<close>

theorem antigravity_event_chunks_links:
  "\<exists>t fs. antigravity_event_chunks L src session e = t # fs \<and> ck_children t = map ck_id fs \<and>
     list_all (\<lambda>f. ck_parent f = ck_id t \<and> ck_type f = ''file_change'') fs \<and>
     distinct (map (\<lambda>f. ck_file_path f @ ck_operation f) fs)"
proof -
  define at where "at = (if ae_has_time e then ae_time e else fallback_time (ae_line e))"
  define base where "base = chunk_id L (antigravity_eventContent e) session (ae_step e)"
  define files where "files = antigravity_fileChunks L (antigravity_ops L (ae_calls e)) session at src
                    (ae_line e) base"
  define turn where "turn = antigravity_chunk (antigravity_eventContent e) ''turn'' session
    (''/antigravity/'' @ session) ''Antigravity Session'' at src (ae_line e) ''gemini-unknown'' base []"
  have "antigravity_event_chunks L src session e = link_children [turn] files"
    by (simp add: antigravity_event_chunks_def Let_def at_def base_def files_def turn_def)
  moreover have "list_all (\<lambda>f. ck_parent f = base \<and> ck_type f = ''file_change'') files"
    by (simp add: files_def antigravity_fileChunks_def Let_def list_all_iff zero_chunk_def
        del: append.simps)
  moreover have "map (\<lambda>f. ck_file_path f @ ck_operation f) files =
      map op_key (first_by_key [] (antigravity_ops L (ae_calls e)))"
    by (simp add: files_def antigravity_fileChunks_def Let_def op_key_def del: append.simps)
  then have "distinct (map (\<lambda>f. ck_file_path f @ ck_operation f) files)"
    using first_by_key_distinct [of "[]"] by simp
  moreover have "ck_id turn = base" "ck_children turn = []"
    by (simp_all add: turn_def antigravity_chunk_def zero_chunk_def)
  ultimately show ?thesis by (simp add: link_children_def)
qed

end
