(* ===== verification/Source_Exports.thy ===== *)
theory Source_Exports
  imports Source_Common "HOL-Library.Product_Lexorder"
begin

text \<open>
  Packages \<open>source/chatgpt\<close> and \<open>source/claudeapp\<close>: account exports, one JSON document with a
  list of conversations.  A turn is a user message and the next answer.  The lemmas show
  that the messages of a mapping come out in time order, whatever the order of the map,
  and what every chunk carries.
\<close>

section \<open>Shared by both exports\<close>

record export_issue =
  xi_conversation :: string
  xi_node :: string
  xi_reason :: string

text \<open>\<open>conversationsValue\<close> and \<open>convos\<close>.\<close>

definition export_conversations :: "json \<Rightarrow> json list option" where
  "export_conversations value =
     (case value of
        JArr list \<Rightarrow> Some list
      | JObj obj \<Rightarrow> as_array (field obj ''conversations'')
      | _ \<Rightarrow> None)"

lemma field_size: "field kvs k = Some v \<Longrightarrow> size v < Suc (size_list (size_prod (\<lambda>_. 0) size) kvs)"
  using size_snd_mem [of "(k, v)" kvs] by (simp add: field_def map_of_SomeD)

lemma size_elem: "x \<in> set xs \<Longrightarrow> size x < Suc (size_list size xs)"
  by (induction xs) auto

lemma as_array_Some: "as_array v = Some xs \<Longrightarrow> v = Some (JArr xs)"
  by (cases v rule: as_array.cases) auto

section \<open>ChatGPT: messages\<close>

record chatgpt_message =
  xm_id :: string
  xm_node :: string
  xm_parent :: string
  xm_role :: string
  xm_author :: string
  xm_content :: string
  xm_children :: "string list"
  xm_time :: instant
  xm_has_time :: bool

record chatgpt_conversation =
  xc_id :: string
  xc_title :: string
  xc_messages :: "chatgpt_message list"

definition chatgpt_MaxFileBytes :: int where
  "chatgpt_MaxFileBytes = 10 * 2 ^ 30"

function (sequential) chatgpt_textFromContent :: "json \<Rightarrow> string" where
  "chatgpt_textFromContent (JStr s) = s"
| "chatgpt_textFromContent (JArr xs) =
     join [CHR 0x0A] (filter (\<lambda>t. t \<noteq> []) (map chatgpt_textFromContent xs))"
| "chatgpt_textFromContent (JObj kvs) =
     (case as_array (field kvs ''parts'') of
        Some parts \<Rightarrow> chatgpt_textFromContent (JArr parts)
      | None \<Rightarrow>
          first_non_empty
            (map (\<lambda>k. case field kvs k of None \<Rightarrow> [] | Some v \<Rightarrow> chatgpt_textFromContent v)
               [''text'', ''value'', ''content'']))"
| "chatgpt_textFromContent _ = []"
  by pat_completeness auto
termination
  by (relation "measure size")
     (auto simp: size_elem dest!: as_array_Some dest: field_size)

definition chatgpt_messageText :: "(string \<times> json) list \<Rightarrow> string" where
  "chatgpt_messageText message =
     first_non_empty
       (map (\<lambda>k. case field message k of None \<Rightarrow> [] | Some v \<Rightarrow> chatgpt_textFromContent v)
          [''content'', ''text'', ''message''])"

definition chatgpt_messageRole :: "golib \<Rightarrow> (string \<times> json) list \<Rightarrow> string \<times> string" where
  "chatgpt_messageRole L message =
     (let plain = (to_lower L (first_non_empty [string_value (field message ''role''),
                                                string_value (field message ''sender'')]), [])
      in (case as_object (field message ''author'') of
            None \<Rightarrow> plain
          | Some author \<Rightarrow>
              let role = to_lower L (string_value (field author ''role'')) in
              if role \<noteq> [] then (role, string_value (field author ''name'')) else plain))"

definition chatgpt_parseTimestamp :: "golib \<Rightarrow> json option \<Rightarrow> instant option" where
  "chatgpt_parseTimestamp L value =
     (case value of
        Some (JNum t) \<Rightarrow> Some (float_instant L t)
      | Some (JStr s) \<Rightarrow> if s = [] then None else time_parse L s
      | _ \<Rightarrow> None)"

fun first_some :: "'a option list \<Rightarrow> 'a option" where
  "first_some [] = None"
| "first_some (None # xs) = first_some xs"
| "first_some (Some x # xs) = Some x"

definition chatgpt_parseMessage ::
  "golib \<Rightarrow> json option \<Rightarrow> string \<Rightarrow> string \<Rightarrow> chatgpt_message option" where
  "chatgpt_parseMessage L raw nodeID parentID =
     (case as_object raw of
        None \<Rightarrow> None
      | Some obj \<Rightarrow>
          let role = chatgpt_messageRole L obj;
              timestamp = first_some [chatgpt_parseTimestamp L (field obj ''create_time''),
                                      chatgpt_parseTimestamp L (field obj ''created_at''),
                                      chatgpt_parseTimestamp L (field obj ''update_time'')]
          in Some \<lparr>xm_id = first_non_empty [string_value (field obj ''id''),
                                            string_value (field obj ''message_id''), nodeID],
               xm_node = nodeID, xm_parent = parentID, xm_role = fst role, xm_author = snd role,
               xm_content = chatgpt_messageText obj, xm_children = [],
               xm_time = (case timestamp of None \<Rightarrow> zero_time | Some t \<Rightarrow> t),
               xm_has_time = (timestamp \<noteq> None)\<rparr>)"

section \<open>ChatGPT: conversations\<close>

fun chatgpt_list_messages ::
  "golib \<Rightarrow> string \<Rightarrow> nat \<Rightarrow> json list \<Rightarrow> chatgpt_message list \<times> export_issue list" where
  "chatgpt_list_messages L ident i [] = ([], [])"
| "chatgpt_list_messages L ident i (raw # rest) =
     (let (ms, is) = chatgpt_list_messages L ident (i + 1) rest in
      (case chatgpt_parseMessage L (Some raw) (show_nat (i + 1)) [] of
         None \<Rightarrow> (ms, \<lparr>xi_conversation = ident, xi_node = show_nat (i + 1),
                       xi_reason = ''message_not_object''\<rparr> # is)
       | Some m \<Rightarrow> (m # ms, is)))"

text \<open>One node of a mapping.\<close>

definition chatgpt_node ::
  "golib \<Rightarrow> string \<Rightarrow> string \<times> json \<Rightarrow> chatgpt_message list \<times> export_issue list" where
  "chatgpt_node L ident entry =
     (case as_object (Some (snd entry)) of
        None \<Rightarrow> ([], [\<lparr>xi_conversation = ident, xi_node = fst entry,
                       xi_reason = ''node_not_object''\<rparr>])
      | Some node \<Rightarrow>
          (case chatgpt_parseMessage L (field node ''message'') (fst entry)
                  (string_value (field node ''parent'')) of
             None \<Rightarrow> ([], [])
           | Some m \<Rightarrow>
               ([m\<lparr>xm_children :=
                    (case as_array (field node ''children'') of
                       None \<Rightarrow> []
                     | Some cs \<Rightarrow>
                         filter (\<lambda>t. t \<noteq> []) (map (\<lambda>c. string_value (Some c)) cs))\<rparr>], [])))"

text \<open>The comparison of \<open>sort.SliceStable\<close>: messages with a time first, by time, then by
  node identity.\<close>

definition chatgpt_less :: "chatgpt_message \<Rightarrow> chatgpt_message \<Rightarrow> bool" where
  "chatgpt_less a b =
     (if xm_has_time a \<noteq> xm_has_time b then xm_has_time a
      else if xm_has_time a \<and> xm_time a \<noteq> xm_time b then xm_time a < xm_time b
      else xm_node a < xm_node b)"

definition chatgpt_key :: "chatgpt_message \<Rightarrow> bool \<times> instant \<times> string" where
  "chatgpt_key m = (\<not> xm_has_time m, if xm_has_time m then xm_time m else 0, xm_node m)"

definition chatgpt_parseConversation ::
  "golib \<Rightarrow> (string \<times> json) list \<Rightarrow> nat \<Rightarrow> chatgpt_conversation \<times> export_issue list" where
  "chatgpt_parseConversation L obj index =
     (let ident = first_non_empty [string_value (field obj ''id''),
                                   string_value (field obj ''conversation_id''), show_nat index];
          conv = \<lparr>xc_id = ident,
                  xc_title = first_non_empty [string_value (field obj ''title''), ''Untitled''],
                  xc_messages = []\<rparr>
      in (case as_array (field obj ''messages'') of
            Some raws \<Rightarrow>
              let (ms, is) = chatgpt_list_messages L ident 0 raws in (conv\<lparr>xc_messages := ms\<rparr>, is)
          | None \<Rightarrow>
              (case as_object (field obj ''mapping'') of
                 None \<Rightarrow> (conv, [\<lparr>xi_conversation = ident, xi_node = [],
                                  xi_reason = ''messages_missing''\<rparr>])
               | Some mapping \<Rightarrow>
                   let nodes = map (chatgpt_node L ident) (sort_key fst mapping) in
                   (conv\<lparr>xc_messages := sort_key chatgpt_key (concat (map fst nodes))\<rparr>,
                    concat (map snd nodes)))))"

fun chatgpt_conversations ::
  "golib \<Rightarrow> nat \<Rightarrow> json list \<Rightarrow> chatgpt_conversation list \<times> export_issue list" where
  "chatgpt_conversations L index [] = ([], [])"
| "chatgpt_conversations L index (raw # rest) =
     (let (cs, is) = chatgpt_conversations L (index + 1) rest in
      (case as_object (Some raw) of
         None \<Rightarrow> (cs, \<lparr>xi_conversation = show_nat (index + 1), xi_node = [],
                       xi_reason = ''conversation_not_object''\<rparr> # is)
       | Some obj \<Rightarrow>
           let (c, is') = chatgpt_parseConversation L obj (index + 1) in (c # cs, is' @ is)))"

definition chatgpt_Parse ::
  "golib \<Rightarrow> reader option \<Rightarrow> int \<Rightarrow>
   source_error + (chatgpt_conversation list \<times> export_issue list)" where
  "chatgpt_Parse L input maxBytes =
     (case document_parse L chatgpt_MaxFileBytes input maxBytes of
        Inl e \<Rightarrow> Inl e
      | Inr v \<Rightarrow>
          (case export_conversations v of
             None \<Rightarrow> Inl ShapeInvalid
           | Some raws \<Rightarrow> Inr (chatgpt_conversations L 0 raws)))"

section \<open>ChatGPT: chunks\<close>

definition chatgpt_messageTimestamp :: "chatgpt_message \<Rightarrow> nat \<Rightarrow> instant" where
  "chatgpt_messageTimestamp m fallbackLine =
     (if xm_has_time m then xm_time m else fallback_time fallbackLine)"

definition chatgpt_turnChunks ::
  "golib \<Rightarrow> chatgpt_message \<Rightarrow> chatgpt_message \<Rightarrow> chatgpt_conversation \<Rightarrow> instant \<Rightarrow> source \<Rightarrow>
   nat \<Rightarrow> chunk list" where
  "chatgpt_turnChunks L user assistant conv timestamp src line =
     (let content = ''In ChatGPT conversation '' @ xc_title conv @ '', user asked:'' @ [CHR 0x0A] @
            xm_content user @ [CHR 0x0A, CHR 0x0A] @ ''ChatGPT responded:'' @ [CHR 0x0A] @
            xm_content assistant;
          key = format_time L timestamp;
          mk = (\<lambda>ident part parent. zero_chunk
                 \<lparr>ck_id := ident, ck_content := part, ck_type := ''turn'', ck_session := xc_id conv,
                  ck_project_path := ''/chatgpt/export'', ck_project_name := ''ChatGPT'',
                  ck_timestamp := timestamp, ck_user_uuid := xm_id user,
                  ck_assistant_uuid := xm_id assistant, ck_source_file := src_file src,
                  ck_source_line := int line, ck_parent := parent,
                  ck_machine := src_machine src\<rparr>)
      in part_chunks L mk (chunk_id L content (xc_id conv) key) (xc_id conv) key
           (chatgpt_splitContent content))"

fun chatgpt_message_loop ::
  "golib \<Rightarrow> source \<Rightarrow> nat \<Rightarrow> chatgpt_conversation \<Rightarrow> chatgpt_message option \<Rightarrow> nat \<Rightarrow>
   chatgpt_message list \<Rightarrow> chunk list" where
  "chatgpt_message_loop L src ci conv pending mi [] = []"
| "chatgpt_message_loop L src ci conv pending mi (m # ms) =
     (if trim_space (xm_content m) = [] then chatgpt_message_loop L src ci conv pending (mi + 1) ms
      else if xm_role m = ''user'' then chatgpt_message_loop L src ci conv (Some m) (mi + 1) ms
      else if xm_role m = ''assistant'' \<or> xm_role m = ''tool'' then
        (case pending of
           None \<Rightarrow> chatgpt_message_loop L src ci conv None (mi + 1) ms
         | Some p \<Rightarrow>
             let line = (ci + 1) * 100000 + mi + 1 in
             chatgpt_turnChunks L p m conv (chatgpt_messageTimestamp m line) src line @
             chatgpt_message_loop L src ci conv None (mi + 1) ms)
      else chatgpt_message_loop L src ci conv pending (mi + 1) ms)"

definition chatgpt_Chunks ::
  "golib \<Rightarrow> reader option \<Rightarrow> source \<Rightarrow> source_error + (chunk list \<times> export_issue list)" where
  "chatgpt_Chunks L input src =
     (if src_file src = [] then Inl IdentityRequired
      else (case chatgpt_Parse L input (src_max_bytes src) of
              Inl e \<Rightarrow> Inl e
            | Inr (convs, issues) \<Rightarrow>
                Inr (concat (map (\<lambda>(ci, c). chatgpt_message_loop L src ci c None 0 (xc_messages c))
                               (enumerate 0 convs)), issues)))"

section \<open>Claude App: messages\<close>

record claudeapp_message =
  am_id :: string
  am_role :: string
  am_author :: string
  am_content :: string
  am_artifacts :: "string list"
  am_time :: instant
  am_has_time :: bool

record claudeapp_conversation =
  acv_id :: string
  acv_title :: string
  acv_messages :: "claudeapp_message list"

definition claudeapp_MaxFileBytes :: int where
  "claudeapp_MaxFileBytes = 10 * 2 ^ 30"

function (sequential) claudeapp_value :: "json \<Rightarrow> string" where
  "claudeapp_value (JStr s) = s"
| "claudeapp_value (JArr xs) = join [CHR 0x0A] (filter (\<lambda>t. t \<noteq> []) (map claudeapp_value xs))"
| "claudeapp_value (JObj kvs) =
     first_non_empty
       (map (\<lambda>k. case field kvs k of None \<Rightarrow> [] | Some v \<Rightarrow> claudeapp_value v)
          [''text'', ''content'', ''message'', ''value''])"
| "claudeapp_value _ = []"
  by pat_completeness auto
termination
  by (relation "measure size") (auto simp: size_elem dest: field_size)

definition claudeapp_content :: "(string \<times> json) list \<Rightarrow> string" where
  "claudeapp_content obj =
     first_non_empty (map (\<lambda>k. case field obj k of None \<Rightarrow> [] | Some v \<Rightarrow> claudeapp_value v)
                        [''text'', ''content'', ''message''])"

text \<open>\<open>object[key]\<close> compared with \<open>nil\<close>: absent and \<open>null\<close> are the same.\<close>

definition non_null :: "json option \<Rightarrow> json option" where
  "non_null v = (case v of Some JNull \<Rightarrow> None | _ \<Rightarrow> v)"

definition claudeapp_role :: "golib \<Rightarrow> (string \<times> json) list \<Rightarrow> string \<times> string" where
  "claudeapp_role L obj =
     (let v = first_some [non_null (field obj ''sender''), non_null (field obj ''role''),
                          non_null (field obj ''author'')];
          w = (case as_object v of
                 None \<Rightarrow> v
               | Some a \<Rightarrow> first_some [non_null (field a ''role''), non_null (field a ''name'')]);
          s = to_lower L (string_value w);
          s' = (if s = ''human'' then ''user'' else s)
      in (if s' = ''claude'' then ''assistant'' else s', string_value w))"

definition claudeapp_stamp :: "golib \<Rightarrow> string \<Rightarrow> instant \<times> bool" where
  "claudeapp_stamp L s =
     (if s = [] then (zero_time, False)
      else (case time_parse L s of None \<Rightarrow> (zero_time, False) | Some t \<Rightarrow> (t, True)))"

definition claudeapp_message_of :: "golib \<Rightarrow> json \<Rightarrow> nat \<Rightarrow> claudeapp_message option" where
  "claudeapp_message_of L v i =
     (case as_object (Some v) of
        None \<Rightarrow> None
      | Some obj \<Rightarrow>
          let stamp = claudeapp_stamp L (first_non_empty [string_value (field obj ''created_at''),
                        string_value (field obj ''createdAt''), string_value (field obj ''timestamp'')])
          in Some \<lparr>am_id = first_non_empty [string_value (field obj ''uuid''),
                 string_value (field obj ''id''), string_value (field obj ''message_id''), show_nat i],
               am_role = fst (claudeapp_role L obj), am_author = snd (claudeapp_role L obj),
               am_content = claudeapp_content obj,
               am_artifacts =
                 concat (map (\<lambda>k. case as_array (field obj k) of
                                    None \<Rightarrow> [] | Some xs \<Rightarrow> map (json_marshal True) xs)
                           [''artifacts'', ''tool_uses'', ''tools'']),
               am_time = fst stamp, am_has_time = snd stamp\<rparr>)"

fun claudeapp_messages ::
  "golib \<Rightarrow> string \<Rightarrow> nat \<Rightarrow> json list \<Rightarrow> claudeapp_message list \<times> export_issue list" where
  "claudeapp_messages L ident j [] = ([], [])"
| "claudeapp_messages L ident j (x # xs) =
     (let (ms, is) = claudeapp_messages L ident (j + 1) xs in
      (case claudeapp_message_of L x (j + 1) of
         None \<Rightarrow> (ms, \<lparr>xi_conversation = ident, xi_node = show_nat (j + 1),
                       xi_reason = ''message_not_object''\<rparr> # is)
       | Some m \<Rightarrow> (m # ms, is)))"

fun claudeapp_conversations ::
  "golib \<Rightarrow> nat \<Rightarrow> json list \<Rightarrow> claudeapp_conversation list \<times> export_issue list" where
  "claudeapp_conversations L i [] = ([], [])"
| "claudeapp_conversations L i (x # rest) =
     (let (cs, is) = claudeapp_conversations L (i + 1) rest in
      (case as_object (Some x) of
         None \<Rightarrow> (cs, \<lparr>xi_conversation = show_nat (i + 1), xi_node = [],
                       xi_reason = ''conversation_not_object''\<rparr> # is)
       | Some obj \<Rightarrow>
           let ident = first_non_empty [string_value (field obj ''uuid''),
                 string_value (field obj ''id''), string_value (field obj ''conversation_id''),
                 show_nat (i + 1)];
               raws = (case first_some [as_array (field obj ''chat_messages''),
                                        as_array (field obj ''messages'')] of
                         None \<Rightarrow> [] | Some xs \<Rightarrow> xs);
               (ms, is') = claudeapp_messages L ident 0 raws
           in (\<lparr>acv_id = ident,
                 acv_title = first_non_empty [string_value (field obj ''name''),
                               string_value (field obj ''title''), ''Untitled''],
                 acv_messages = ms\<rparr> # cs, is' @ is)))"

definition claudeapp_Parse ::
  "golib \<Rightarrow> reader option \<Rightarrow> int \<Rightarrow>
   source_error + (claudeapp_conversation list \<times> export_issue list)" where
  "claudeapp_Parse L input maxBytes =
     (case document_parse L claudeapp_MaxFileBytes input maxBytes of
        Inl e \<Rightarrow> Inl e
      | Inr v \<Rightarrow>
          (case export_conversations v of
             None \<Rightarrow> Inl ShapeInvalid
           | Some raws \<Rightarrow> Inr (claudeapp_conversations L 0 raws)))"

section \<open>Claude App: chunks\<close>

definition claudeapp_turn ::
  "golib \<Rightarrow> source \<Rightarrow> claudeapp_conversation \<Rightarrow> claudeapp_message \<Rightarrow> claudeapp_message \<Rightarrow> nat \<Rightarrow> chunk"
  where
  "claudeapp_turn L src c u m line =
     (let at0 = (if am_has_time m then am_time m else am_time u);
          at = (if is_zero_time at0 then fallback_time line else at0);
          content = ''In Claude app conversation '' @ acv_title c @ '', user asked:'' @ [CHR 0x0A] @
            am_content u @ [CHR 0x0A, CHR 0x0A] @ ''Claude responded:'' @ [CHR 0x0A] @ am_content m
      in zero_chunk
         \<lparr>ck_id := chunk_id L content (acv_id c) (format_time L at), ck_content := content,
          ck_type := ''turn'', ck_session := acv_id c, ck_project_path := ''/claude-app/export'',
          ck_project_name := ''Claude App'', ck_timestamp := at, ck_user_uuid := am_id u,
          ck_assistant_uuid := am_id m, ck_source_file := src_file src,
          ck_source_line := int line, ck_machine := src_machine src\<rparr>)"

fun claudeapp_message_loop ::
  "golib \<Rightarrow> source \<Rightarrow> nat \<Rightarrow> claudeapp_conversation \<Rightarrow> claudeapp_message option \<Rightarrow> nat \<Rightarrow>
   claudeapp_message list \<Rightarrow> chunk list" where
  "claudeapp_message_loop L src ci c u mi [] = []"
| "claudeapp_message_loop L src ci c u mi (m # ms) =
     (if am_content m = [] then claudeapp_message_loop L src ci c u (mi + 1) ms
      else if am_role m = ''user'' then claudeapp_message_loop L src ci c (Some m) (mi + 1) ms
      else (case u of
              Some q \<Rightarrow>
                if am_role m = ''assistant'' then
                  claudeapp_turn L src c q m ((ci + 1) * 100000 + mi + 1) #
                  claudeapp_message_loop L src ci c None (mi + 1) ms
                else claudeapp_message_loop L src ci c u (mi + 1) ms
            | None \<Rightarrow> claudeapp_message_loop L src ci c u (mi + 1) ms))"

definition claudeapp_Chunks ::
  "golib \<Rightarrow> reader option \<Rightarrow> source \<Rightarrow> source_error + (chunk list \<times> export_issue list)" where
  "claudeapp_Chunks L input src =
     (if src_file src = [] then Inl IdentityRequired
      else (case claudeapp_Parse L input (src_max_bytes src) of
              Inl e \<Rightarrow> Inl e
            | Inr (cs, is) \<Rightarrow>
                Inr (concat (map (\<lambda>(ci, c). claudeapp_message_loop L src ci c None 0 (acv_messages c))
                               (enumerate 0 cs)), is)))"

section \<open>Lemmas: message order\<close>

text \<open>The key decides exactly the comparison of the source.\<close>

lemma chatgpt_less_key: "chatgpt_less a b \<longleftrightarrow> chatgpt_key a < chatgpt_key b"
  by (auto simp: chatgpt_less_def chatgpt_key_def)

lemma sorted_no_inversion:
  assumes "sorted (map f xs)" "i < j" "j < length xs"
  shows "\<not> f (xs ! j) < (f (xs ! i) :: 'a :: linorder)"
proof -
  have "f (xs ! i) \<le> f (xs ! j)"
    using assms sorted_nth_mono [of "map f xs" i j] by simp
  then show ?thesis by simp
qed

section \<open>Lemmas: provenance\<close>

lemma show_nat_neq_Nil [simp]: "show_nat n \<noteq> []"
  by (subst show_nat.simps) simp

lemma list_all_enumerate:
  "(\<And>i c. c \<in> set cs \<Longrightarrow> list_all P (f i c)) \<Longrightarrow>
   list_all P (concat (map (\<lambda>(i, c). f i c) (enumerate n cs)))"
  by (induction cs arbitrary: n) auto

lemma chatgpt_turnChunks_provenance:
  "xc_id conv \<noteq> [] \<Longrightarrow> list_all (provenance src) (chatgpt_turnChunks L u a conv t src line)"
  unfolding chatgpt_turnChunks_def Let_def list_all_iff
  by (auto dest!: part_chunks_mem simp: provenance_def origin_def zero_chunk_def)

lemma chatgpt_message_loop_provenance:
  "xc_id conv \<noteq> [] \<Longrightarrow> list_all (provenance src) (chatgpt_message_loop L src ci conv p mi ms)"
  by (induction ms arbitrary: p mi)
     (auto simp: Let_def chatgpt_turnChunks_provenance split: option.splits)

lemma chatgpt_parseConversation_id:
  "xc_id (fst (chatgpt_parseConversation L obj index)) \<noteq> []"
  by (simp add: chatgpt_parseConversation_def Let_def split: option.splits prod.splits)

lemma chatgpt_conversations_id:
  "c \<in> set (fst (chatgpt_conversations L index raws)) \<Longrightarrow> xc_id c \<noteq> []"
proof (induction raws arbitrary: index)
  case (Cons raw raws)
  obtain cs iss where r: "chatgpt_conversations L (Suc index) raws = (cs, iss)" by fastforce
  show ?case
  proof (cases "as_object (Some raw)")
    case None
    with Cons.prems Cons.IH [of "Suc index"] r show ?thesis by (simp add: Let_def)
  next
    case (Some obj)
    obtain d iss' where d: "chatgpt_parseConversation L obj (Suc index) = (d, iss')" by fastforce
    have "xc_id d \<noteq> []" using chatgpt_parseConversation_id [of L obj "Suc index"] d by simp
    then show ?thesis using Cons.prems Cons.IH [of "Suc index"] Some r d by (auto simp: Let_def)
  qed
qed simp

lemma chatgpt_Chunks_provenance:
  assumes "chatgpt_Chunks L input src = Inr (cs, issues)"
  shows "list_all (provenance src) cs"
proof -
  from assms obtain raws convs where r: "chatgpt_conversations L 0 raws = (convs, issues)"
    and cs: "cs = concat (map (\<lambda>(ci, c). chatgpt_message_loop L src ci c None 0 (xc_messages c))
                      (enumerate 0 convs))"
    unfolding chatgpt_Chunks_def chatgpt_Parse_def
    by (fastforce split: if_splits sum.splits option.splits)
  then have "xc_id c \<noteq> []" if "c \<in> set convs" for c
    using chatgpt_conversations_id [of c L 0 raws] that by simp
  then show ?thesis
    unfolding cs by (intro list_all_enumerate chatgpt_message_loop_provenance)
qed

lemma claudeapp_message_loop_provenance:
  "acv_id c \<noteq> [] \<Longrightarrow> list_all (provenance src) (claudeapp_message_loop L src ci c u mi ms)"
  by (induction ms arbitrary: u mi)
     (auto simp: claudeapp_turn_def Let_def provenance_def origin_def zero_chunk_def
       simp del: append.simps split: option.splits)

lemma claudeapp_conversations_id:
  "c \<in> set (fst (claudeapp_conversations L i raws)) \<Longrightarrow> acv_id c \<noteq> []"
proof (induction raws arbitrary: i)
  case (Cons raw raws)
  obtain cs iss where r: "claudeapp_conversations L (Suc i) raws = (cs, iss)" by fastforce
  show ?case
  proof (cases "as_object (Some raw)")
    case None
    with Cons.prems Cons.IH [of "Suc i"] r show ?thesis by (simp add: Let_def)
  next
    case (Some obj)
    with Cons.prems Cons.IH [of "Suc i"] r show ?thesis
      by (auto simp: Let_def split: prod.splits if_splits)
  qed
qed simp

lemma claudeapp_Chunks_provenance:
  assumes "claudeapp_Chunks L input src = Inr (cs, issues)"
  shows "list_all (provenance src) cs"
proof -
  from assms obtain raws convs where r: "claudeapp_conversations L 0 raws = (convs, issues)"
    and cs: "cs = concat (map (\<lambda>(ci, c). claudeapp_message_loop L src ci c None 0 (acv_messages c))
                      (enumerate 0 convs))"
    unfolding claudeapp_Chunks_def claudeapp_Parse_def
    by (fastforce split: if_splits sum.splits option.splits)
  then have "acv_id c \<noteq> []" if "c \<in> set convs" for c
    using claudeapp_conversations_id [of c L 0 raws] that by simp
  then show ?thesis
    unfolding cs by (intro list_all_enumerate claudeapp_message_loop_provenance)
qed

section \<open>Properties\<close>

text \<open>The messages of a ChatGPT conversation that is stored as a mapping come out in the
  order of the source's comparison, with a time before without, earlier before later, then by node:
  no later message precedes an earlier one, although the mapping itself has no order.\<close>

theorem chatgpt_mapping_sorted:
  assumes "as_array (field obj ''messages'') = None" "i < j"
    and "j < length (xc_messages (fst (chatgpt_parseConversation L obj index)))"
  shows "\<not> chatgpt_less (xc_messages (fst (chatgpt_parseConversation L obj index)) ! j)
                        (xc_messages (fst (chatgpt_parseConversation L obj index)) ! i)"
proof (cases "as_object (field obj ''mapping'')")
  case None
  with assms show ?thesis by (simp add: chatgpt_parseConversation_def Let_def)
next
  case (Some mapping)
  with assms(1) obtain ms where
    "xc_messages (fst (chatgpt_parseConversation L obj index)) = sort_key chatgpt_key ms"
    by (simp add: chatgpt_parseConversation_def Let_def)
  with assms(2,3) show ?thesis
    by (simp add: chatgpt_less_key sorted_no_inversion [of chatgpt_key])
qed

text \<open>A conversation of two nodes, listed against their times.\<close>

definition example_conversation :: "(string \<times> json) list" where
  "example_conversation = [(''mapping'', JObj
     [(''a'', JObj [(''message'', JObj [(''create_time'', JNum ''2''), (''content'', JStr ''late'')])]),
      (''b'', JObj [(''message'', JObj [(''create_time'', JNum ''1''), (''content'', JStr ''early'')])])])]"

theorem chatgpt_mapping_sorted_witness:
  "\<not> chatgpt_less
      (xc_messages (fst (chatgpt_parseConversation (example_golib\<lparr>float_instant := (\<lambda>t. if t = ''2'' then 2 else 1)\<rparr>)
         example_conversation 0)) ! 1)
      (xc_messages (fst (chatgpt_parseConversation (example_golib\<lparr>float_instant := (\<lambda>t. if t = ''2'' then 2 else 1)\<rparr>)
         example_conversation 0)) ! 0)"
proof -
  have "as_array (field example_conversation ''messages'') = None"
    "length (xc_messages (fst (chatgpt_parseConversation (example_golib\<lparr>float_instant := (\<lambda>t. if t = ''2'' then 2 else 1)\<rparr>)
       example_conversation 0))) = 2"
    by code_simp+
  then show ?thesis using chatgpt_mapping_sorted [of example_conversation 0 1] by simp
qed

end
