(* ===== verification/Watch_Registry.thy ===== *)
theory Watch_Registry
  imports Source_Claude Source_Codex Source_Gemini Source_Antigravity Source_Exports
begin

text \<open>
  \<open>watch/registry.go\<close>: which source package reads a path, and the dispatch to it; and
  \<open>relativeParts\<close> of \<open>watch/root.go\<close>, the test that keeps a candidate below its pinned root.
\<close>

section \<open>Paths below a root\<close>

definition relativeParts :: "string \<Rightarrow> string \<Rightarrow> string list option" where
  "relativeParts root candidate =
     (if \<not> is_abs candidate \<or> path_clean candidate \<noteq> candidate then None
      else (case path_rel root candidate of
         None \<Rightarrow> None
       | Some relative \<Rightarrow>
           if relative = ''.'' \<or> is_abs relative then None
           else let parts = split_char slash relative in
                if list_ex (\<lambda>p. p = [] \<or> p = ''.'' \<or> p = ''..'') parts then None else Some parts))"

section \<open>The registry\<close>

datatype source_kind =
    KClaude
  | KCodex
  | KChatGPT
  | KGemini
  | KAntigravity
  | KClaudeApp
  | KUnknown

record registry =
  rg_machine :: string
  rg_max_bytes :: int

text \<open>\<open>Detect\<close>; \<open>None\<close> is \<open>ErrUnsupportedSource\<close>.  \<open>filepath.ToSlash\<close> is the identity on Unix.\<close>

definition registry_Detect :: "string \<Rightarrow> source_kind option" where
  "registry_Detect path =
     (let base = path_base path in
      if base = ''conversations.json'' \<and> contains ''claude-app'' path then Some KClaudeApp
      else if base = ''conversations.json'' then Some KChatGPT
      else if base = ''transcript_full.jsonl'' \<or> has_suffix ''.pb'' base then Some KAntigravity
      else if base = ''logs.json'' \<or> contains ''/chats/'' path then Some KGemini
      else if has_suffix ''.jsonl'' base \<and> contains ''codex'' path then Some KCodex
      else if has_suffix ''.jsonl'' base then Some KClaude
      else None)"

definition registry_source :: "registry \<Rightarrow> string \<Rightarrow> source" where
  "registry_source rg path =
     \<lparr>src_file = path, src_machine = rg_machine rg, src_max_bytes = rg_max_bytes rg,
      src_project = [], src_binary = has_suffix ''.pb'' path\<rparr>"

definition registry_Dispatch ::
  "golib \<Rightarrow> registry \<Rightarrow> source_kind \<Rightarrow> reader option \<Rightarrow> string \<Rightarrow> source_error + chunk list" where
  "registry_Dispatch L rg kind input path =
     (let src = registry_source rg path in
      (case kind of
         KClaude \<Rightarrow> map_sum id fst (claude_Chunks L input src)
       | KCodex \<Rightarrow> map_sum id fst (codex_Chunks L input src)
       | KChatGPT \<Rightarrow> map_sum id fst (chatgpt_Chunks L input src)
       | KGemini \<Rightarrow> map_sum id fst (gemini_Chunks L input src)
       | KAntigravity \<Rightarrow> map_sum id fst (antigravity_Chunks L input src)
       | KClaudeApp \<Rightarrow> map_sum id fst (claudeapp_Chunks L input src)
       | KUnknown \<Rightarrow> Inl UnsupportedSource))"

section \<open>Lemmas\<close>

lemma split_rel:
  assumes "list_all plain_element ts" "ts \<noteq> []"
  shows "split_char slash (join ''/'' ts) = ts"
  using assms by (intro split_char_join) (auto simp: list_all_iff plain_element_def)

lemma join_plain_not_special:
  assumes "list_all plain_element ts" "ts \<noteq> []"
  shows "join ''/'' ts \<noteq> ''.''" "\<not> is_abs (join ''/'' ts)"
proof -
  from assms obtain t rest where ts: "ts = t # rest" by (cases ts) auto
  with assms have t: "plain_element t" by simp
  then obtain c cs where c: "t = c # cs" by (cases t) (auto simp: plain_element_def)
  with t have "c \<noteq> slash" by (auto simp: plain_element_def)
  then show "\<not> is_abs (join ''/'' ts)" using ts c by (cases rest) auto
  show "join ''/'' ts \<noteq> ''.''"
    using split_rel [OF assms] assms ts by (auto simp: plain_element_def)
qed

lemma strip_common_prefix: "strip_common bs (bs @ ts) = ([], ts)"
  by (induction bs) (cases ts; simp)+

text \<open>The elements that remain of two clean absolute paths decide.\<close>

lemma plain_no_dots: "list_all plain_element ts \<Longrightarrow> list_all (\<lambda>p. slash \<notin> set p \<and> p \<noteq> ''..'') ts"
  by (auto simp: list_all_iff plain_element_def)

lemma relativeParts_strip:
  assumes "abs_clean root" "abs_clean candidate"
    and sc: "strip_common (path_elements root) (path_elements candidate) = (bs, ts)"
  shows "relativeParts root candidate = (if bs = [] \<and> ts \<noteq> [] then Some ts else None)"
proof -
  have c: "is_abs candidate" "path_clean candidate = candidate" and ra: "is_abs root"
    using assms(1,2) by (simp_all add: abs_clean_def)
  have plain: "list_all plain_element bs" "list_all plain_element ts"
    using strip_common_append [OF sc] path_elements_plain [OF ra] path_elements_plain [OF c(1)]
    by auto
  have nb: "''..'' \<notin> set bs" using plain_no_dots [OF plain(1)] by (auto simp: list_all_iff)
  consider "bs = []" "ts = []" | "bs = []" "ts \<noteq> []" | "bs \<noteq> []" by blast
  then show ?thesis
  proof cases
    case 1
    then show ?thesis using sc c ra by (simp add: path_rel_def relativeParts_def)
  next
    case 2
    then have rel: "path_rel root candidate = Some (join ''/'' ts)"
      using sc c ra by (simp add: path_rel_def)
    have "\<not> list_ex (\<lambda>p. p = [] \<or> p = ''.'' \<or> p = ''..'') ts"
      using plain(2) by (auto simp: list_ex_iff list_all_iff plain_element_def)
    then show ?thesis
      using 2 c split_rel [OF plain(2)] join_plain_not_special [OF plain(2)]
      by (simp add: relativeParts_def rel Let_def del: join.simps)
  next
    case 3
    have "split_char slash (join ''/'' (map (\<lambda>_. ''..'') bs @ ts)) = map (\<lambda>_. ''..'') bs @ ts"
      using 3 plain_no_dots [OF plain(2)] by (intro split_char_join) (auto simp: list_all_iff)
    moreover have "list_ex (\<lambda>p. p = [] \<or> p = ''.'' \<or> p = ''..'') (map (\<lambda>_. ''..'') bs @ ts)"
      using 3 by (cases bs) auto
    ultimately show ?thesis
      using 3 sc nb c ra by (simp add: relativeParts_def path_rel_def Let_def)
  qed
qed

lemma claude_Chunks_provenance:
  "claude_Chunks L input src = Inr (cs, issues) \<Longrightarrow> list_all (provenance src) cs"
  by (auto simp: claude_Chunks_def list_all_iff claude_chunk_loop_provenance
      split: if_splits sum.splits)

lemma provenance_origin: "list_all (provenance src) cs \<Longrightarrow> list_all (origin src) cs"
  by (simp add: list_all_iff provenance_def)

text \<open>Every chunk of a dispatch names the path, the machine and no vector yet.\<close>

lemma registry_Dispatch_origin:
  assumes "registry_Dispatch L rg kind input path = Inr cs"
  shows "list_all (origin (registry_source rg path)) cs"
proof -
  have pick: "list_all P cs" if "map_sum id fst r = Inr cs" "\<And>ds i. r = Inr (ds, i) \<Longrightarrow> list_all P ds"
    for P and r :: "source_error + chunk list \<times> 'a"
    using that by (cases r) auto
  show ?thesis
    using assms unfolding registry_Dispatch_def Let_def
    by (cases kind)
       (auto elim!: pick intro: provenance_origin claude_Chunks_provenance codex_Chunks_provenance
          gemini_Chunks_provenance chatgpt_Chunks_provenance claudeapp_Chunks_provenance
          antigravity_Chunks_origin)
qed

section \<open>Properties\<close>

text \<open>C25: \<open>relativeParts\<close> accepts exactly the clean absolute paths strictly below the root, and
  returns the elements below it: no candidate outside the root, no \<open>..\<close> and no prefix that is
  not a whole element gets through.\<close>

theorem relativeParts_below_root:
  assumes root: "abs_clean root"
  shows "relativeParts root candidate = Some parts \<longleftrightarrow>
     abs_clean candidate \<and> parts \<noteq> [] \<and> path_elements candidate = path_elements root @ parts"
proof (cases "abs_clean candidate")
  case False
  then show ?thesis by (auto simp: relativeParts_def abs_clean_def)
next
  case True
  obtain bs ts where sc: "strip_common (path_elements root) (path_elements candidate) = (bs, ts)"
    by fastforce
  have "path_elements candidate = path_elements root @ parts \<longleftrightarrow> bs = [] \<and> parts = ts"
    using strip_common_append [OF sc] strip_common_prefix [of "path_elements root" parts] sc by auto
  with relativeParts_strip [OF root True sc] True show ?thesis by auto
qed

theorem relativeParts_below_root_witness:
  "relativeParts ''/home/u'' ''/home/u/a/b.jsonl'' = Some [''a'', ''b.jsonl'']"
proof -
  have "abs_clean ''/home/u''" "abs_clean ''/home/u/a/b.jsonl''"
    "path_elements ''/home/u/a/b.jsonl'' = path_elements ''/home/u'' @ [''a'', ''b.jsonl'']"
    by code_simp+
  then show ?thesis using relativeParts_below_root [of "''/home/u''"] by simp
qed

text \<open>C26: whatever the transcript contains, every chunk that the registry produces for a path
  names that path and the machine of the registry and carries no vector; a source package cannot
  attribute content to another file.\<close>

theorem dispatch_attributes_path:
  assumes "registry_Dispatch L rg kind input path = Inr chunks"
  shows "list_all (\<lambda>c. ck_source_file c = path \<and> ck_machine c = rg_machine rg \<and> ck_vector c = []) chunks"
  using registry_Dispatch_origin [OF assms]
  by (simp add: origin_def registry_source_def list_all_iff)

theorem dispatch_attributes_path_witness:
  "\<exists>c. registry_Dispatch example_golib \<lparr>rg_machine = ''m'', rg_max_bytes = 100\<rparr> KAntigravity
     (Some \<lparr>rd_data = ''hi'', rd_fails = False\<rparr>) ''/x.pb'' = Inr [c] \<and> ck_source_file c = ''/x.pb''"
proof -
  let ?d = "registry_Dispatch example_golib \<lparr>rg_machine = ''m'', rg_max_bytes = 100\<rparr> KAntigravity
     (Some \<lparr>rd_data = ''hi'', rd_fails = False\<rparr>) ''/x.pb''"
  have "case ?d of Inr [c] \<Rightarrow> True | _ \<Rightarrow> False" by code_simp
  then obtain c where c: "?d = Inr [c]" by (auto split: sum.splits list.splits)
  with dispatch_attributes_path [OF c] show ?thesis by simp
qed

end
