(* ===== verification/Durable.thy ===== *)
theory Durable
  imports Go_Path Go_Text
begin

text \<open>
  Package \<open>durable\<close> (\<open>durable.go\<close>, Unix): one private directory whose files are replaced
  atomically.  The directory is modelled at the level of inodes and of what has reached the
  disk, every system call may fail, and \<open>WriteAtomic\<close> and \<open>Remove\<close> return the states they
  pass through, so that a crash between any two system calls is one of those states.  The
  locale \<open>atomic_store\<close> is what the clients rely on.
\<close>

section \<open>The directory\<close>

datatype file_kind = Regular | Directory | OtherKind

text \<open>What \<open>unix.Stat_t\<close> says: identity, kind, permission bits and link count.\<close>

record ustat =
  st_dev :: nat
  st_ino :: nat
  st_kind :: file_kind
  st_perm :: nat
  st_nlink :: nat

text \<open>An inode: the data a reader sees and the data that \<open>fsync\<close> has put on the disk.\<close>

record inode =
  in_kind :: file_kind
  in_perm :: nat
  in_nlink :: nat
  in_data :: string
  in_synced :: string

text \<open>The names as readers see them, and as they are on the disk.\<close>

record fs =
  fs_dir :: "string \<Rightarrow> nat option"
  fs_dir_synced :: "string \<Rightarrow> nat option"
  fs_inodes :: "nat \<Rightarrow> inode option"
  fs_next :: nat

definition fs_lookup :: "fs \<Rightarrow> string \<Rightarrow> inode option" where
  "fs_lookup s name = Option.bind (fs_dir s name) (fs_inodes s)"

definition fs_content :: "fs \<Rightarrow> string \<Rightarrow> string option" where
  "fs_content s name = map_option in_data (fs_lookup s name)"

text \<open>What the name may hold after a crash: the entry is the old or the new one while the
  directory has not been synced, and the file has its synced data.\<close>

definition crash_contents :: "fs \<Rightarrow> string \<Rightarrow> string option set" where
  "crash_contents s name =
     {map_option in_synced (Option.bind (fs_dir s name) (fs_inodes s)),
      map_option in_synced (Option.bind (fs_dir_synced s name) (fs_inodes s))}"

definition stat_of :: "nat \<Rightarrow> inode \<Rightarrow> ustat" where
  "stat_of ino i = \<lparr>st_dev = 0, st_ino = ino, st_kind = in_kind i, st_perm = in_perm i,
                    st_nlink = in_nlink i\<rparr>"

text \<open>\<open>statAt\<close>; \<open>None\<close> is \<open>ENOENT\<close>.\<close>

definition stat_at :: "fs \<Rightarrow> string \<Rightarrow> ustat option" where
  "stat_at s name =
     Option.bind (fs_dir s name) (\<lambda>ino. map_option (stat_of ino) (fs_inodes s ino))"

definition fs_wf :: "fs \<Rightarrow> bool" where
  "fs_wf s \<longleftrightarrow>
     (\<forall>name ino. fs_dir s name = Some ino \<longrightarrow> ino < fs_next s) \<and>
     (\<forall>name ino. fs_dir_synced s name = Some ino \<longrightarrow> ino < fs_next s) \<and>
     (\<forall>ino i. fs_inodes s ino = Some i \<longrightarrow> ino < fs_next s)"

section \<open>System calls\<close>

definition fs_update :: "nat \<Rightarrow> (inode \<Rightarrow> inode) \<Rightarrow> fs \<Rightarrow> fs" where
  "fs_update ino f s = s\<lparr>fs_inodes := (fs_inodes s)(ino := map_option f (fs_inodes s ino))\<rparr>"

text \<open>\<open>openat\<close> with \<open>O_CREAT | O_EXCL\<close> of a name that does not exist.\<close>

definition fs_create :: "string \<Rightarrow> fs \<Rightarrow> nat \<times> fs" where
  "fs_create name s =
     (fs_next s,
      s\<lparr>fs_dir := (fs_dir s)(name := Some (fs_next s)),
        fs_inodes := (fs_inodes s)(fs_next s := Some \<lparr>in_kind = Regular, in_perm = 384,
          in_nlink = 1, in_data = [], in_synced = []\<rparr>),
        fs_next := Suc (fs_next s)\<rparr>)"

definition fs_rename :: "string \<Rightarrow> string \<Rightarrow> fs \<Rightarrow> fs" where
  "fs_rename old new s = s\<lparr>fs_dir := (fs_dir s)(old := None, new := fs_dir s old)\<rparr>"

definition fs_unlink :: "string \<Rightarrow> fs \<Rightarrow> fs" where
  "fs_unlink name s = s\<lparr>fs_dir := (fs_dir s)(name := None)\<rparr>"

text \<open>\<open>fsync\<close> of a file and of the directory.\<close>

definition fs_sync_file :: "nat \<Rightarrow> fs \<Rightarrow> fs" where
  "fs_sync_file ino s = fs_update ino (\<lambda>i. i\<lparr>in_synced := in_data i\<rparr>) s"

definition fs_sync_dir :: "fs \<Rightarrow> fs" where
  "fs_sync_dir s = s\<lparr>fs_dir_synced := fs_dir s\<rparr>"

text \<open>What the environment decides about one call: what the root looks like, which system
  calls fail, and the random tokens (\<open>None\<close> when the generator fails).\<close>

record faults =
  ft_held :: "ustat option"
  ft_named :: "ustat option"
  ft_stat :: bool
  ft_open :: bool
  ft_token :: "nat \<Rightarrow> string option"
  ft_newfile :: bool
  ft_chmod :: bool
  ft_write :: "nat option"
  ft_sync :: bool
  ft_fstat :: bool
  ft_rename :: bool
  ft_dirsync :: bool
  ft_final :: bool
  ft_unlink :: bool
  ft_dirsync2 :: bool

section \<open>Roots\<close>

datatype durable_error =
    UnsafePath
  | RootChanged
  | NotOwnerOnly
  | ReadLimit
  | IdentityChanged
  | RootClosed
  | SysError
  | Unconfirmed

record root =
  rt_path :: string
  rt_open :: bool
  rt_stat :: ustat

definition sameIdentity :: "ustat \<Rightarrow> ustat \<Rightarrow> bool" where
  "sameIdentity a b \<longleftrightarrow> st_dev a = st_dev b \<and> st_ino a = st_ino b"

text \<open>\<open>OpenRoot\<close>: \<open>before\<close> and \<open>opened\<close> are the results of \<open>Lstat\<close> and \<open>Fstat\<close>, \<open>held\<close> says
  that the directory could be opened.  0700 is 448.\<close>

definition durable_OpenRoot ::
  "string \<Rightarrow> ustat option \<Rightarrow> bool \<Rightarrow> ustat option \<Rightarrow> durable_error + root" where
  "durable_OpenRoot path before held opened =
     (if \<not> is_abs path \<or> path_clean path \<noteq> path then Inl UnsafePath
      else (case before of
         None \<Rightarrow> Inl SysError
       | Some b \<Rightarrow>
           if st_kind b \<noteq> Directory then Inl UnsafePath
           else if st_perm b \<noteq> 448 then Inl NotOwnerOnly
           else if \<not> held then Inl SysError
           else (case opened of
              None \<Rightarrow> Inl SysError
            | Some fd \<Rightarrow>
                if \<not> sameIdentity b fd then Inl IdentityChanged
                else Inr \<lparr>rt_path = path, rt_open = True, rt_stat = fd\<rparr>)))"

definition durable_Close :: "root \<Rightarrow> root" where
  "durable_Close r = r\<lparr>rt_open := False\<rparr>"

definition durable_verify :: "root \<Rightarrow> faults \<Rightarrow> durable_error option" where
  "durable_verify r ft =
     (if \<not> rt_open r then Some RootClosed
      else (case ft_held ft of
         None \<Rightarrow> Some SysError
       | Some held \<Rightarrow>
           (case ft_named ft of
              None \<Rightarrow> Some RootChanged
            | Some named \<Rightarrow>
                if \<not> sameIdentity (rt_stat r) held \<or> \<not> sameIdentity held named \<or>
                   st_kind named \<noteq> Directory \<or> st_perm named \<noteq> 448
                then Some RootChanged else None)))"

definition durable_validateName :: "string \<Rightarrow> bool" where
  "durable_validateName name \<longleftrightarrow>
     name \<noteq> [] \<and> name \<noteq> ''.'' \<and> name \<noteq> ''..'' \<and> path_base name = name \<and> path_clean name = name"

text \<open>0600 is 384.\<close>

definition durable_validateFile :: "ustat \<Rightarrow> durable_error option" where
  "durable_validateFile st =
     (if st_kind st \<noteq> Regular \<or> st_nlink st \<noteq> 1 then Some UnsafePath
      else if st_perm st \<noteq> 384 then Some NotOwnerOnly
      else None)"

definition durable_Exists :: "root \<Rightarrow> faults \<Rightarrow> fs \<Rightarrow> string \<Rightarrow> durable_error + bool" where
  "durable_Exists r ft s name =
     (if \<not> durable_validateName name then Inl UnsafePath
      else (case durable_verify r ft of
         Some e \<Rightarrow> Inl e
       | None \<Rightarrow>
           if ft_stat ft then Inl SysError
           else (case stat_at s name of
              None \<Rightarrow> Inr False
            | Some st \<Rightarrow>
                (case durable_validateFile st of Some e \<Rightarrow> Inl e | None \<Rightarrow> Inr True))))"

section \<open>Reading\<close>

text \<open>
  \<open>readLocked\<close> under interleaving with other processes: \<open>at k\<close> is the directory at its
  \<open>k\<close>-th system call (stat, open, stat again, read, last stat).  The opened file is the inode
  that the name denoted at the open.
\<close>

definition durable_Read ::
  "root \<Rightarrow> faults \<Rightarrow> (nat \<Rightarrow> fs) \<Rightarrow> string \<Rightarrow> int \<Rightarrow> durable_error + string" where
  "durable_Read r ft at name maxBytes =
     (if \<not> durable_validateName name \<or> maxBytes < 0 then Inl UnsafePath
      else (case durable_verify r ft of
         Some e \<Rightarrow> Inl e
       | None \<Rightarrow>
           (case stat_at (at 0) name of
              None \<Rightarrow> Inl SysError
            | Some before \<Rightarrow>
                (case durable_validateFile before of
                   Some e \<Rightarrow> Inl e
                 | None \<Rightarrow>
                     if ft_open ft \<or> ft_newfile ft \<or> ft_fstat ft then Inl SysError
                     else (case (stat_at (at 1) name, stat_at (at 2) name) of
                        (Some held, Some current) \<Rightarrow>
                          (case (durable_validateFile held, durable_validateFile current) of
                             (Some e, _) \<Rightarrow> Inl e
                           | (None, Some e) \<Rightarrow> Inl e
                           | (None, None) \<Rightarrow>
                               if \<not> sameIdentity before held \<or> \<not> sameIdentity held current
                               then Inl IdentityChanged
                               else (case fs_inodes (at 3) (st_ino held) of
                                  None \<Rightarrow> Inl SysError
                                | Some i \<Rightarrow>
                                    if maxBytes < int (length (in_data i)) then Inl ReadLimit
                                    else (case stat_at (at 4) name of
                                       None \<Rightarrow> Inl IdentityChanged
                                     | Some final \<Rightarrow>
                                         if \<not> sameIdentity held final then Inl IdentityChanged
                                         else Inr (in_data i))))
                      | _ \<Rightarrow> Inl SysError)))))"

section \<open>Replacing\<close>

definition durable_randomName :: "string \<Rightarrow> string \<Rightarrow> string \<Rightarrow> string" where
  "durable_randomName target token suffix = ''.'' @ target @ ''.'' @ token @ ''.'' @ suffix"

text \<open>The loop over attempts: \<open>n\<close> of them are left, \<open>k\<close> is the number of the next.\<close>

fun durable_create_temp ::
  "faults \<Rightarrow> string \<Rightarrow> nat \<Rightarrow> nat \<Rightarrow> fs \<Rightarrow> durable_error + (string \<times> nat \<times> fs)" where
  "durable_create_temp ft name 0 k s = Inl SysError"
| "durable_create_temp ft name (Suc n) k s =
     (case ft_token ft k of
        None \<Rightarrow> Inl SysError
      | Some token \<Rightarrow>
          let temp = durable_randomName name token ''tmp'' in
          if ft_open ft then Inl SysError
          else if fs_dir s temp \<noteq> None then durable_create_temp ft name n (Suc k) s
          else (case fs_create temp s of (ino, s') \<Rightarrow> Inr (temp, ino, s')))"

record outcome =
  oc_error :: "durable_error option"
  oc_fs :: fs
  oc_trace :: "fs list"

definition oc_fail :: "durable_error \<Rightarrow> fs \<Rightarrow> fs list \<Rightarrow> outcome" where
  "oc_fail e s trace = \<lparr>oc_error = Some e, oc_fs = s, oc_trace = trace\<rparr>"

text \<open>The deferred function: an uncommitted temporary is unlinked.\<close>

definition durable_abort :: "faults \<Rightarrow> durable_error \<Rightarrow> string \<Rightarrow> fs \<Rightarrow> fs list \<Rightarrow> outcome" where
  "durable_abort ft e temp s trace =
     (let s' = (if ft_unlink ft then s else fs_unlink temp s) in oc_fail e s' (trace @ [s']))"

text \<open>From the rename on.\<close>

definition durable_commit ::
  "faults \<Rightarrow> string \<Rightarrow> string \<Rightarrow> ustat \<Rightarrow> fs \<Rightarrow> fs list \<Rightarrow> outcome" where
  "durable_commit ft name temp staged s trace =
     (if ft_rename ft then durable_abort ft SysError temp s trace
      else
        let s1 = fs_rename temp name s in
        if ft_dirsync ft then oc_fail Unconfirmed s1 (trace @ [s1])
        else
          let s2 = fs_sync_dir s1; t2 = trace @ [s1, s2] in
          if ft_final ft then oc_fail IdentityChanged s2 t2
          else (case stat_at s2 name of
             None \<Rightarrow> oc_fail IdentityChanged s2 t2
           | Some final \<Rightarrow>
               if \<not> sameIdentity staged final then oc_fail IdentityChanged s2 t2
               else \<lparr>oc_error = durable_validateFile final, oc_fs = s2, oc_trace = t2\<rparr>))"

text \<open>From the creation of the temporary to the check of the staged file.\<close>

definition durable_stage ::
  "faults \<Rightarrow> string \<Rightarrow> string \<Rightarrow> string \<Rightarrow> nat \<Rightarrow> fs \<Rightarrow> fs list \<Rightarrow> outcome" where
  "durable_stage ft name payload temp ino s0 trace =
     (if ft_newfile ft then oc_fail SysError s0 trace
      else if ft_chmod ft then durable_abort ft SysError temp s0 trace
      else
        let s1 = fs_update ino (\<lambda>i. i\<lparr>in_perm := 384\<rparr>) s0;
            written = (case ft_write ft of None \<Rightarrow> payload | Some k \<Rightarrow> take k payload);
            s2 = fs_update ino (\<lambda>i. i\<lparr>in_data := written\<rparr>) s1;
            t2 = trace @ [s1, s2]
        in if ft_write ft \<noteq> None then durable_abort ft SysError temp s2 t2
           else if ft_sync ft then durable_abort ft SysError temp s2 t2
           else
             let s3 = fs_sync_file ino s2; t3 = t2 @ [s3] in
             if ft_fstat ft then durable_abort ft SysError temp s3 t3
             else (case map_option (stat_of ino) (fs_inodes s3 ino) of
                None \<Rightarrow> durable_abort ft SysError temp s3 t3
              | Some staged \<Rightarrow>
                  (case durable_validateFile staged of
                     Some e \<Rightarrow> durable_abort ft e temp s3 t3
                   | None \<Rightarrow> durable_commit ft name temp staged s3 t3)))"

definition durable_WriteAtomic ::
  "root \<Rightarrow> faults \<Rightarrow> fs \<Rightarrow> string \<Rightarrow> string \<Rightarrow> outcome" where
  "durable_WriteAtomic r ft s name payload =
     (if \<not> durable_validateName name then oc_fail UnsafePath s [s]
      else (case durable_verify r ft of
         Some e \<Rightarrow> oc_fail e s [s]
       | None \<Rightarrow>
           if ft_stat ft then oc_fail SysError s [s]
           else (case Option.bind (stat_at s name) durable_validateFile of
              Some e \<Rightarrow> oc_fail e s [s]
            | None \<Rightarrow>
                (case durable_create_temp ft name 128 0 s of
                   Inl e \<Rightarrow> oc_fail e s [s]
                 | Inr (temp, ino, s0) \<Rightarrow> durable_stage ft name payload temp ino s0 [s, s0]))))"

section \<open>Removing\<close>

text \<open>\<open>Remove\<close>, given whether the SHA-256 of the content that was read is the expected one;
  the content is read with the limit 16 MiB by \<open>readLockedWithoutMutex\<close>.\<close>

definition durable_Remove ::
  "golib \<Rightarrow> root \<Rightarrow> faults \<Rightarrow> fs \<Rightarrow> string \<Rightarrow> string \<Rightarrow> bool \<times> outcome" where
  "durable_Remove L r ft s name expected =
     (if \<not> durable_validateName name then (False, oc_fail UnsafePath s [s])
      else (case durable_verify r ft of
         Some e \<Rightarrow> (False, oc_fail e s [s])
       | None \<Rightarrow>
           if ft_stat ft then (False, oc_fail SysError s [s])
           else (case stat_at s name of
              None \<Rightarrow> (False, \<lparr>oc_error = None, oc_fs = s, oc_trace = [s]\<rparr>)
            | Some st \<Rightarrow>
                (case durable_validateFile st of
                   Some e \<Rightarrow> (False, oc_fail e s [s])
                 | None \<Rightarrow>
                     if ft_open ft \<or> ft_newfile ft then (False, oc_fail SysError s [s])
                     else if ft_fstat ft then (False, oc_fail IdentityChanged s [s])
                     else (case fs_content s name of
                        None \<Rightarrow> (False, oc_fail SysError s [s])
                      | Some payload \<Rightarrow>
                          if 16777216 < length payload then (False, oc_fail ReadLimit s [s])
                          else if sha256_hex L payload \<noteq> expected
                          then (False, oc_fail IdentityChanged s [s])
                          else (case ft_token ft 0 of
                             None \<Rightarrow> (False, oc_fail SysError s [s])
                           | Some token \<Rightarrow>
                               let tombstone = durable_randomName name token ''deleted'';
                                   s1 = fs_rename name tombstone s;
                                   s2 = fs_sync_dir s1;
                                   s3 = fs_unlink tombstone s2;
                                   s4 = fs_sync_dir s3
                               in if ft_rename ft then (False, oc_fail SysError s [s])
                                  else if ft_final ft then
                                    (False, oc_fail IdentityChanged s1 [s, s1])
                                  else if ft_dirsync ft then
                                    (False, oc_fail Unconfirmed s1 [s, s1])
                                  else if ft_unlink ft then
                                    (False, oc_fail Unconfirmed s2 [s, s1, s2])
                                  else if ft_dirsync2 ft then
                                    (False, oc_fail Unconfirmed s3 [s, s1, s2, s3])
                                  else (True, \<lparr>oc_error = None, oc_fs = s4,
                                               oc_trace = [s, s1, s2, s3, s4]\<rparr>)))))))"

section \<open>Lemmas: staging\<close>

text \<open>
  \<open>staged s temp ino t\<close>: since \<open>s\<close>, only the fresh inode \<open>ino\<close> and the entry \<open>temp\<close>, absent in
  \<open>s\<close>, have been touched.
\<close>

definition staged :: "fs \<Rightarrow> string \<Rightarrow> nat \<Rightarrow> fs \<Rightarrow> bool" where
  "staged s temp ino t \<longleftrightarrow>
     ino = fs_next s \<and> fs_dir s temp = None \<and>
     (\<forall>n. n \<noteq> temp \<longrightarrow> fs_dir t n = fs_dir s n) \<and> fs_dir_synced t = fs_dir_synced s \<and>
     (\<forall>j. j \<noteq> ino \<longrightarrow> fs_inodes t j = fs_inodes s j) \<and> fs_next t = Suc ino \<and>
     (\<forall>j. fs_dir t temp = Some j \<longrightarrow> j = ino) \<and> (\<exists>i. fs_inodes t ino = Some i)"

lemma randomName_neq [simp]: "durable_randomName name token suffix \<noteq> name"
proof -
  have "length name < length (durable_randomName name token suffix)"
    by (simp add: durable_randomName_def)
  then show ?thesis by auto
qed

lemma create_temp_staged:
  assumes "durable_create_temp ft name n k s = Inr (temp, ino, t)"
  shows "staged s temp ino t \<and> temp \<noteq> name \<and> fs_dir t temp = Some ino \<and>
     fs_inodes t ino =
       Some \<lparr>in_kind = Regular, in_perm = 384, in_nlink = 1, in_data = [], in_synced = []\<rparr>"
  using assms
proof (induction n arbitrary: k)
  case (Suc n)
  then show ?case
    by (auto simp: Let_def fs_create_def staged_def split: option.splits if_splits prod.splits)
qed simp

lemma staged_update: "staged s temp ino t \<Longrightarrow> staged s temp ino (fs_update ino f t)"
  by (auto simp: staged_def fs_update_def)

lemma staged_sync: "staged s temp ino t \<Longrightarrow> staged s temp ino (fs_sync_file ino t)"
  by (simp add: fs_sync_file_def staged_update)

lemma staged_unlink: "staged s temp ino t \<Longrightarrow> staged s temp ino (fs_unlink temp t)"
  by (auto simp: staged_def fs_unlink_def)

text \<open>While a replacement is staged nobody sees it under another name.\<close>

lemma staged_invisible:
  assumes "staged s temp ino t" "fs_wf s" "n \<noteq> temp"
  shows "fs_lookup t n = fs_lookup s n" "fs_content t n = fs_content s n"
    "crash_contents t n = crash_contents s n"
proof -
  have old: "fs_inodes t j = fs_inodes s j" if "j < fs_next s" for j
    using assms(1) that by (auto simp: staged_def)
  have "fs_dir t n = fs_dir s n" "fs_dir_synced t n = fs_dir_synced s n"
    using assms by (simp_all add: staged_def)
  moreover have "fs_inodes t j = fs_inodes s j" if "fs_dir s n = Some j \<or> fs_dir_synced s n = Some j" for j
    using assms(2) old that unfolding fs_wf_def by blast
  ultimately have "Option.bind (fs_dir t n) (fs_inodes t) = Option.bind (fs_dir s n) (fs_inodes s)"
    and "Option.bind (fs_dir_synced t n) (fs_inodes t) =
      Option.bind (fs_dir_synced s n) (fs_inodes s)"
    by (auto intro!: bind_option_cong)
  then show "fs_lookup t n = fs_lookup s n" "fs_content t n = fs_content s n"
    "crash_contents t n = crash_contents s n"
    by (simp_all add: fs_lookup_def fs_content_def crash_contents_def)
qed

lemma staged_wf: "staged s temp ino t \<Longrightarrow> fs_wf s \<Longrightarrow> fs_wf t"
proof -
  assume st: "staged s temp ino t" and wf: "fs_wf s"
  have "fs_dir t n = Some j \<Longrightarrow> j < Suc ino" for n j
    using st wf by (cases "n = temp") (auto simp: staged_def fs_wf_def less_Suc_eq)
  moreover have "fs_dir_synced t n = Some j \<Longrightarrow> j < Suc ino" for n j
    using st wf by (auto simp: staged_def fs_wf_def less_Suc_eq)
  moreover have "fs_inodes t j = Some i \<Longrightarrow> j < Suc ino" for i j
    using st wf by (cases "j = ino") (auto simp: staged_def fs_wf_def less_Suc_eq)
  ultimately show "fs_wf t" using st by (auto simp: fs_wf_def staged_def)
qed

section \<open>Lemmas: the contract of a replacement\<close>

text \<open>What a run may leave behind: the name holds what it held, or the whole payload; a
  crash leaves one of the contents it could leave before, or the whole payload; other
  names are as before; without an error the payload is there for good.\<close>

definition replaced :: "fs \<Rightarrow> string \<Rightarrow> string \<Rightarrow> outcome \<Rightarrow> bool" where
  "replaced s name payload oc \<longleftrightarrow>
     list_all (\<lambda>t. (fs_content t name = fs_content s name \<or> fs_content t name = Some payload) \<and>
                   crash_contents t name \<subseteq> insert (Some payload) (crash_contents s name))
       (oc_trace oc) \<and>
     (fs_content (oc_fs oc) name = fs_content s name \<or> fs_content (oc_fs oc) name = Some payload) \<and>
     crash_contents (oc_fs oc) name \<subseteq> insert (Some payload) (crash_contents s name) \<and>
     (\<forall>n. n \<noteq> name \<longrightarrow> fs_dir s n \<noteq> None \<longrightarrow> fs_lookup (oc_fs oc) n = fs_lookup s n) \<and>
     (oc_error oc = None \<longrightarrow>
        fs_content (oc_fs oc) name = Some payload \<and>
        crash_contents (oc_fs oc) name = {Some payload}) \<and>
     fs_wf (oc_fs oc)"

definition quiet :: "fs \<Rightarrow> string \<Rightarrow> string \<Rightarrow> fs list \<Rightarrow> bool" where
  "quiet s name payload trace \<longleftrightarrow>
     list_all (\<lambda>t. (fs_content t name = fs_content s name \<or> fs_content t name = Some payload) \<and>
                   crash_contents t name \<subseteq> insert (Some payload) (crash_contents s name)) trace"

lemma quiet_simps [simp]:
  "quiet s name payload []"
  "quiet s name payload (t # ts) \<longleftrightarrow> quiet s name payload [t] \<and> quiet s name payload ts"
    if "ts \<noteq> []" for ts
  by (simp_all add: quiet_def)

lemma quiet_append [simp]:
  "quiet s name payload (ts @ us) \<longleftrightarrow> quiet s name payload ts \<and> quiet s name payload us"
  by (simp add: quiet_def)

lemma quiet_self [simp]: "quiet s name payload [s]"
  by (simp add: quiet_def subset_insertI)

lemma staged_quiet:
  "staged s temp ino t \<Longrightarrow> fs_wf s \<Longrightarrow> temp \<noteq> name \<Longrightarrow> quiet s name payload [t]"
  by (simp add: quiet_def staged_invisible(2,3)) blast

lemma replaced_unchanged:
  "fs_wf s \<Longrightarrow> quiet s name payload trace \<Longrightarrow> replaced s name payload (oc_fail e s trace)"
  by (simp add: replaced_def quiet_def oc_fail_def subset_insertI)

lemma replaced_staged:
  assumes "staged s temp ino t" "fs_wf s" "temp \<noteq> name" "quiet s name payload trace"
  shows "replaced s name payload (oc_fail e t trace)"
proof -
  have "fs_dir s n \<noteq> None \<Longrightarrow> n \<noteq> temp" for n
    using assms(1) by (auto simp: staged_def)
  then show ?thesis
    using assms staged_wf
    by (auto simp: replaced_def quiet_def oc_fail_def staged_invisible subset_insertI)
qed

lemma replaced_abort:
  assumes "staged s temp ino t" "fs_wf s" "temp \<noteq> name" "quiet s name payload trace"
  shows "replaced s name payload (durable_abort ft e temp t trace)"
proof -
  have u: "staged s temp ino (fs_unlink temp t)" using assms(1) by (rule staged_unlink)
  have "quiet s name payload [t]" "quiet s name payload [fs_unlink temp t]"
    using staged_quiet assms u by blast+
  then show ?thesis
    using assms u replaced_staged by (auto simp: durable_abort_def Let_def)
qed

text \<open>The rename: the name now denotes the synced file.\<close>

lemma renamed:
  assumes st: "staged s temp ino t" and wf: "fs_wf s" and ne: "temp \<noteq> name"
    and entry: "fs_dir t temp = Some ino"
    and inode: "fs_inodes t ino = Some i" "in_data i = payload" "in_synced i = payload"
  shows "fs_content (fs_rename temp name t) name = Some payload"
    and "fs_wf (fs_rename temp name t)"
    and "crash_contents (fs_rename temp name t) name \<subseteq> insert (Some payload) (crash_contents s name)"
    and "n \<noteq> name \<Longrightarrow> fs_dir s n \<noteq> None \<Longrightarrow> fs_lookup (fs_rename temp name t) n = fs_lookup s n"
    and "crash_contents (fs_sync_dir (fs_rename temp name t)) name = {Some payload}"
proof -
  have wft: "fs_wf t" using st wf by (rule staged_wf)
  show "fs_content (fs_rename temp name t) name = Some payload"
    and "crash_contents (fs_sync_dir (fs_rename temp name t)) name = {Some payload}"
    using ne entry inode
    by (simp_all add: fs_content_def fs_lookup_def fs_rename_def crash_contents_def fs_sync_dir_def)
  show "fs_wf (fs_rename temp name t)"
    using wft entry by (auto simp: fs_wf_def fs_rename_def)
  have "crash_contents t name = crash_contents s name"
    using st wf ne by (simp add: staged_invisible)
  moreover have "crash_contents (fs_rename temp name t) name \<subseteq>
      insert (Some payload) (crash_contents t name)"
    using ne entry inode by (simp add: crash_contents_def fs_rename_def)
  ultimately show "crash_contents (fs_rename temp name t) name \<subseteq>
      insert (Some payload) (crash_contents s name)" by simp
  show "fs_lookup (fs_rename temp name t) n = fs_lookup s n"
    if "n \<noteq> name" "fs_dir s n \<noteq> None"
  proof -
    have "n \<noteq> temp" using st that by (auto simp: staged_def)
    then have "fs_lookup (fs_rename temp name t) n = fs_lookup t n"
      using that by (simp add: fs_lookup_def fs_rename_def)
    then show ?thesis using staged_invisible(1) [OF st wf \<open>n \<noteq> temp\<close>] by simp
  qed
qed

lemma fs_sync_dir_simps [simp]:
  "fs_lookup (fs_sync_dir s) n = fs_lookup s n" "fs_content (fs_sync_dir s) n = fs_content s n"
  "stat_at (fs_sync_dir s) n = stat_at s n" "fs_wf s \<Longrightarrow> fs_wf (fs_sync_dir s)"
  by (auto simp: fs_lookup_def fs_content_def stat_at_def fs_sync_dir_def fs_wf_def)

lemma replaced_commit:
  assumes st: "staged s temp ino t" and wf: "fs_wf s" and ne: "temp \<noteq> name"
    and entry: "fs_dir t temp = Some ino"
    and inode: "fs_inodes t ino = Some i" "in_data i = payload" "in_synced i = payload"
    and q: "quiet s name payload trace"
  shows "replaced s name payload (durable_commit ft name temp stg t trace)"
proof -
  note r = renamed [OF st wf ne entry inode]
  let ?t1 = "fs_rename temp name t"
  have q1: "quiet s name payload [?t1]" and q2: "quiet s name payload [fs_sync_dir ?t1]"
    using r(1,3,5) by (simp_all add: quiet_def)
  have base: "fs_content u name = Some payload \<and> fs_wf u \<and>
      crash_contents u name \<subseteq> insert (Some payload) (crash_contents s name) \<and>
      (\<forall>n. n \<noteq> name \<longrightarrow> fs_dir s n \<noteq> None \<longrightarrow> fs_lookup u n = fs_lookup s n)"
    if "u = ?t1 \<or> u = fs_sync_dir ?t1" for u
    using that r by auto
  have qa: "quiet s name payload (trace @ [?t1])"
    and qb: "quiet s name payload (trace @ [?t1, fs_sync_dir ?t1])"
    using q q1 q2 by simp_all
  show ?thesis
    using replaced_abort [OF st wf ne q] base qa qb r(5)
    by (simp add: durable_commit_def Let_def replaced_def oc_fail_def quiet_def
        split: option.splits)
qed

lemma replaced_stage:
  assumes st: "staged s temp ino t" and wf: "fs_wf s" and ne: "temp \<noteq> name"
    and entry: "fs_dir t temp = Some ino" and q: "quiet s name payload trace"
  shows "replaced s name payload (durable_stage ft name payload temp ino t trace)"
proof -
  let ?s1 = "fs_update ino (\<lambda>i. i\<lparr>in_perm := 384\<rparr>) t"
  let ?w = "case ft_write ft of None \<Rightarrow> payload | Some k \<Rightarrow> take k payload"
  let ?s2 = "fs_update ino (\<lambda>i. i\<lparr>in_data := ?w\<rparr>) ?s1"
  let ?s3 = "fs_sync_file ino ?s2"
  have s1: "staged s temp ino ?s1" and s2: "staged s temp ino ?s2" and s3: "staged s temp ino ?s3"
    using st by (simp_all add: staged_update staged_sync)
  have qs: "quiet s name payload [t]" "quiet s name payload [?s1]" "quiet s name payload [?s2]"
    "quiet s name payload [?s3]"
    using st s1 s2 s3 wf ne staged_quiet by blast+
  have q2: "quiet s name payload (trace @ [?s1, ?s2])"
    and q3: "quiet s name payload ((trace @ [?s1, ?s2]) @ [?s3])"
    using q qs by simp_all
  have e3: "fs_dir ?s3 temp = Some ino"
    using entry by (simp add: fs_sync_file_def fs_update_def)
  obtain i where i: "fs_inodes t ino = Some i" using st by (auto simp: staged_def)
  have f3: "ft_write ft = None \<Longrightarrow> \<exists>j. fs_inodes ?s3 ino = Some j \<and> in_data j = payload \<and>
      in_synced j = payload"
    using i by (simp add: fs_sync_file_def fs_update_def)
  show ?thesis
  proof (cases "ft_newfile ft \<or> ft_chmod ft \<or> ft_write ft \<noteq> None \<or> ft_sync ft \<or> ft_fstat ft")
    case True
    then show ?thesis
      using replaced_staged [OF st wf ne q] replaced_abort [OF st wf ne q]
        replaced_abort [OF s2 wf ne q2] replaced_abort [OF s3 wf ne q3]
      by (auto simp: durable_stage_def Let_def)
  next
    case False
    with f3 obtain j where j: "fs_inodes ?s3 ino = Some j" "in_data j = payload"
      "in_synced j = payload" by auto
    from False have "durable_stage ft name payload temp ino t trace =
        (case durable_validateFile (stat_of ino j) of
           Some e \<Rightarrow> durable_abort ft e temp ?s3 ((trace @ [?s1, ?s2]) @ [?s3])
         | None \<Rightarrow> durable_commit ft name temp (stat_of ino j) ?s3 ((trace @ [?s1, ?s2]) @ [?s3]))"
      using j(1) by (simp add: durable_stage_def Let_def cong del: option.case_cong_weak)
    then show ?thesis
      using replaced_abort [OF s3 wf ne q3] replaced_commit [OF s3 wf ne e3 j q3]
      by (simp split: option.splits)
  qed
qed

lemma WriteAtomic_replaced:
  assumes "fs_wf s"
  shows "replaced s name payload (durable_WriteAtomic r ft s name payload)"
proof -
  have fail: "replaced s name payload (oc_fail e s [s])" for e
    using assms by (simp add: replaced_unchanged)
  have "replaced s name payload (durable_stage ft name payload temp ino t [s, t])"
    if "durable_create_temp ft name 128 0 s = Inr (temp, ino, t)" for temp ino t
  proof -
    note c = create_temp_staged [OF that]
    then have "quiet s name payload [t]" using assms staged_quiet by blast
    then have "quiet s name payload [s, t]" by simp
    with c assms show ?thesis by (intro replaced_stage) auto
  qed
  then show ?thesis
    using fail unfolding durable_WriteAtomic_def
    by (auto split: option.splits sum.splits)
qed

text \<open>A replacement that reports success has left a file that the reader accepts.\<close>

lemma commit_ok_valid:
  assumes "oc_error (durable_commit ft name temp stg t trace) = None"
  shows "\<exists>st. stat_at (oc_fs (durable_commit ft name temp stg t trace)) name = Some st \<and>
              durable_validateFile st = None"
  using assms
  by (auto simp: durable_commit_def durable_abort_def oc_fail_def Let_def
      split: if_splits option.splits)

lemma stage_ok_valid:
  assumes "oc_error (durable_stage ft name payload temp ino t trace) = None"
  shows "\<exists>st. stat_at (oc_fs (durable_stage ft name payload temp ino t trace)) name = Some st \<and>
              durable_validateFile st = None"
  using assms commit_ok_valid
  by (auto simp: durable_stage_def durable_abort_def oc_fail_def Let_def
      split: if_splits option.splits)

lemma WriteAtomic_ok_valid:
  assumes "oc_error (durable_WriteAtomic r ft s name payload) = None"
  shows "durable_validateName name"
    and "\<exists>st. stat_at (oc_fs (durable_WriteAtomic r ft s name payload)) name = Some st \<and>
              durable_validateFile st = None"
  using assms stage_ok_valid
  by (auto simp: durable_WriteAtomic_def oc_fail_def split: if_splits option.splits sum.splits)

text \<open>A replacement that reports success has synced the directory.\<close>

lemma commit_ok_synced:
  assumes "oc_error (durable_commit ft name temp stg t trace) = None"
  shows "fs_dir_synced (oc_fs (durable_commit ft name temp stg t trace)) =
         fs_dir (oc_fs (durable_commit ft name temp stg t trace))"
  using assms
  by (auto simp: durable_commit_def durable_abort_def oc_fail_def Let_def fs_sync_dir_def
      split: if_splits option.splits)

lemma WriteAtomic_ok_synced:
  assumes "oc_error (durable_WriteAtomic r ft s name payload) = None"
  shows "fs_dir_synced (oc_fs (durable_WriteAtomic r ft s name payload)) =
         fs_dir (oc_fs (durable_WriteAtomic r ft s name payload))"
proof -
  have "fs_dir_synced (oc_fs (durable_stage ft name payload temp ino t trace)) =
      fs_dir (oc_fs (durable_stage ft name payload temp ino t trace))"
    if "oc_error (durable_stage ft name payload temp ino t trace) = None" for temp ino t trace
    using that commit_ok_synced
    by (auto simp: durable_stage_def durable_abort_def oc_fail_def Let_def
        split: if_splits option.splits)
  with assms show ?thesis
    by (auto simp: durable_WriteAtomic_def oc_fail_def split: if_splits option.splits sum.splits)
qed

section \<open>Lemmas: reading\<close>

lemma stat_of_simps [simp]: "st_ino (stat_of ino i) = ino" "sameIdentity st st"
  by (simp_all add: stat_of_def sameIdentity_def)

lemma stat_at_Some:
  "stat_at s name = Some st \<longleftrightarrow>
     (\<exists>ino i. fs_dir s name = Some ino \<and> fs_inodes s ino = Some i \<and> st = stat_of ino i)"
  by (auto simp: stat_at_def bind_eq_Some_conv)

lemma Read_stable:
  assumes "durable_validateName name" "0 \<le> maxBytes" "durable_verify r ft = None"
    and "\<not> ft_open ft" "\<not> ft_newfile ft" "\<not> ft_fstat ft"
    and "stat_at s name = Some st" "durable_validateFile st = None"
    and "fs_content s name = Some payload"
  shows "durable_Read r ft (\<lambda>_. s) name maxBytes =
     (if maxBytes < int (length payload) then Inl ReadLimit else Inr payload)"
proof -
  from assms(7) obtain ino i where i: "fs_dir s name = Some ino" "fs_inodes s ino = Some i"
    "st = stat_of ino i" by (auto simp: stat_at_Some)
  with assms(9) have "payload = in_data i" by (simp add: fs_content_def fs_lookup_def)
  with assms i show ?thesis
    by (simp add: durable_Read_def)
qed

section \<open>Lemmas: removing\<close>

text \<open>A directory in which the name is absent.\<close>

definition removed :: "string \<Rightarrow> fs \<Rightarrow> bool" where
  "removed name t \<longleftrightarrow> fs_dir t name = None"

lemma removed_steps:
  assumes "temp \<noteq> name"
  shows "removed name (fs_rename name temp s)"
    and "removed name t \<Longrightarrow> removed name (fs_sync_dir t)"
    and "removed name t \<Longrightarrow> removed name (fs_unlink n t)"
    and "removed name t \<Longrightarrow> fs_dir_synced (fs_sync_dir t) name = None"
  using assms by (auto simp: removed_def fs_rename_def fs_sync_dir_def fs_unlink_def)

text \<open>A removal stops before it has touched the directory, or all the later directories lack
  the name.\<close>

lemma Remove_cases:
  assumes "durable_Remove L r ft s name expected = (gone, oc)"
  obtains (same) "\<not> gone" "oc_fs oc = s" "oc_trace oc = [s]"
  | (moved) payload where "fs_content s name = Some payload" "sha256_hex L payload = expected"
      "gone \<longrightarrow> fs_dir_synced (oc_fs oc) name = None \<and> oc_error oc = None"
      "removed name (oc_fs oc)" "\<forall>t \<in> set (oc_trace oc). t = s \<or> removed name t"
proof -
  note steps = removed_steps [OF randomName_neq]
  show ?thesis
    using assms that steps
    unfolding durable_Remove_def oc_fail_def Let_def
    by (simp split: if_splits option.splits; force)
qed

section \<open>The interface of the clients\<close>

text \<open>
  A cell that holds a text or nothing.  \<open>views\<close> is what a reader may find in it, now or after a
  crash.  A write that reports success leaves its text as the only view; a write that reports
  failure adds at most its text.
\<close>

locale atomic_store =
  fixes put :: "'e \<Rightarrow> 'd \<Rightarrow> string \<Rightarrow> bool \<times> 'd"
    and views :: "'d \<Rightarrow> string option set"
    and good :: "'d \<Rightarrow> bool"
  assumes put_good: "good d \<Longrightarrow> good (snd (put e d p))"
    and put_ok: "good d \<Longrightarrow> fst (put e d p) \<Longrightarrow> views (snd (put e d p)) = {Some p}"
    and put_any: "good d \<Longrightarrow> views (snd (put e d p)) \<subseteq> insert (Some p) (views d)"
begin

text \<open>After a sequence of attempts a reader finds what it could find before, or one of the
  texts.\<close>

lemma put_sequence:
  "good d \<Longrightarrow> d' = foldl (\<lambda>d ep. snd (put (fst ep) d (snd ep))) d eps \<Longrightarrow>
   good d' \<and> views d' \<subseteq> views d \<union> Some ` snd ` set eps"
proof (induction eps arbitrary: d)
  case (Cons ep eps)
  let ?d = "snd (put (fst ep) d (snd ep))"
  have "good ?d" using Cons.prems(1) by (rule put_good)
  with Cons.IH [OF this] Cons.prems(2) put_any [OF Cons.prems(1), of "fst ep" "snd ep"]
  show ?case by auto
qed simp

end

text \<open>\<open>WriteAtomic\<close> of one name, as the clients call it, and what a reader may find there.\<close>

definition durable_put :: "root \<Rightarrow> string \<Rightarrow> faults \<Rightarrow> fs \<Rightarrow> string \<Rightarrow> bool \<times> fs" where
  "durable_put r name ft s payload =
     (let oc = durable_WriteAtomic r ft s name payload in (oc_error oc = None, oc_fs oc))"

definition durable_views :: "string \<Rightarrow> fs \<Rightarrow> string option set" where
  "durable_views name s = insert (fs_content s name) (crash_contents s name)"

interpretation durable: atomic_store "durable_put r name" "durable_views name" fs_wf for r name
proof
  fix s ft payload
  assume "fs_wf s"
  from WriteAtomic_replaced [OF this, of name payload r ft]
  show "fs_wf (snd (durable_put r name ft s payload))"
    and "fst (durable_put r name ft s payload) \<Longrightarrow>
         durable_views name (snd (durable_put r name ft s payload)) = {Some payload}"
    and "durable_views name (snd (durable_put r name ft s payload)) \<subseteq>
         insert (Some payload) (durable_views name s)"
    by (auto simp: durable_put_def Let_def replaced_def durable_views_def)
qed

text \<open>The directory after a crash: its entries are those in memory or those on the disk, every
  file has its synced data.\<close>

definition fs_crash :: "bool \<Rightarrow> fs \<Rightarrow> fs" where
  "fs_crash entries_written s =
     (let dir = (if entries_written then fs_dir s else fs_dir_synced s) in
      s\<lparr>fs_dir := dir, fs_dir_synced := dir,
        fs_inodes := (\<lambda>ino. map_option (\<lambda>i. i\<lparr>in_data := in_synced i\<rparr>) (fs_inodes s ino))\<rparr>)"

lemma fs_crash_wf: "fs_wf s \<Longrightarrow> fs_wf (fs_crash b s)"
  by (auto simp: fs_wf_def fs_crash_def Let_def)

lemma fs_crash_views: "durable_views name (fs_crash b s) \<subseteq> durable_views name s"
proof -
  have "map_option in_data (Option.bind e (fs_inodes (fs_crash b s))) =
      map_option in_synced (Option.bind e (fs_inodes s))"
    and "map_option in_synced (Option.bind e (fs_inodes (fs_crash b s))) =
      map_option in_synced (Option.bind e (fs_inodes s))" for e
    by (cases e; simp add: fs_crash_def Let_def option.map_comp comp_def)+
  then show ?thesis
    by (auto simp: durable_views_def crash_contents_def fs_content_def fs_lookup_def fs_crash_def
        Let_def)
qed

lemma fs_crash_content: "fs_content (fs_crash b s) name \<in> crash_contents s name"
  by (cases "fs_dir s name"; cases "fs_dir_synced s name")
    (auto simp: fs_content_def fs_lookup_def fs_crash_def Let_def crash_contents_def
      option.map_comp comp_def)

text \<open>Where the synced directory is the current one, a crash changes no \<open>stat\<close>.\<close>

lemma fs_crash_stat:
  "fs_dir_synced s = fs_dir s \<Longrightarrow> stat_at (fs_crash b s) name = stat_at s name"
  by (simp add: stat_at_def fs_crash_def option.map_comp comp_def stat_of_def [abs_def])

section \<open>An example directory\<close>

definition example_root :: root where
  "example_root = \<lparr>rt_path = ''/state'', rt_open = True,
     rt_stat = \<lparr>st_dev = 0, st_ino = 7, st_kind = Directory, st_perm = 448, st_nlink = 2\<rparr>\<rparr>"

definition no_faults :: faults where
  "no_faults = \<lparr>ft_held = Some (rt_stat example_root), ft_named = Some (rt_stat example_root),
     ft_stat = False, ft_open = False, ft_token = (\<lambda>k. Some (hex_pad 4 k)), ft_newfile = False,
     ft_chmod = False, ft_write = None, ft_sync = False, ft_fstat = False, ft_rename = False,
     ft_dirsync = False, ft_final = False, ft_unlink = False, ft_dirsync2 = False\<rparr>"

text \<open>One file that is on the disk, under the given name and with the given content.\<close>

definition example_fs :: "string \<Rightarrow> string \<Rightarrow> fs" where
  "example_fs name content = \<lparr>fs_dir = [name \<mapsto> 0], fs_dir_synced = [name \<mapsto> 0],
     fs_inodes = [0 \<mapsto> \<lparr>in_kind = Regular, in_perm = 384, in_nlink = 1, in_data = content,
                       in_synced = content\<rparr>],
     fs_next = 1\<rparr>"

definition empty_fs :: fs where
  "empty_fs = \<lparr>fs_dir = Map.empty, fs_dir_synced = Map.empty, fs_inodes = Map.empty, fs_next = 0\<rparr>"

lemma example_fs_wf [simp]: "fs_wf (example_fs name content)" "fs_wf empty_fs"
  by (auto simp: fs_wf_def example_fs_def empty_fs_def split: if_splits)

lemma example_fs_contents [simp]:
  "fs_content (example_fs name content) name = Some content"
  "crash_contents (example_fs name content) name = {Some content}"
  by (simp_all add: example_fs_def fs_content_def fs_lookup_def crash_contents_def)

section \<open>Properties\<close>

text \<open>C3: a crash between any two system calls of \<open>WriteAtomic\<close>, or after it, leaves under the
  name one of the contents that a crash could leave before the call, or the whole new payload,
  never a part of it; a reader sees the old content or the whole payload; no other file of the
  directory changes; and once the call has reported success only the payload can be found.\<close>

theorem WriteAtomic_crash_atomic:
  assumes "fs_wf s" and "oc = durable_WriteAtomic r ft s name payload"
  shows "(\<forall>t. t \<in> set (oc_fs oc # oc_trace oc) \<longrightarrow>
            fs_content t name \<in> {fs_content s name, Some payload} \<and>
            (\<forall>written. fs_content (fs_crash written t) name
               \<in> insert (Some payload) (crash_contents s name))) \<and>
         (\<forall>n. n \<noteq> name \<longrightarrow> fs_dir s n \<noteq> None \<longrightarrow> fs_lookup (oc_fs oc) n = fs_lookup s n) \<and>
         (oc_error oc = None \<longrightarrow> durable_views name (oc_fs oc) = {Some payload})"
proof -
  note r = WriteAtomic_replaced [OF assms(1), of name payload r ft, folded assms(2),
      unfolded replaced_def list_all_iff]
  have "fs_content t name \<in> {fs_content s name, Some payload} \<and>
      crash_contents t name \<subseteq> insert (Some payload) (crash_contents s name)"
    if "t \<in> set (oc_fs oc # oc_trace oc)" for t
    using r that by auto
  then have seen: "\<forall>t. t \<in> set (oc_fs oc # oc_trace oc) \<longrightarrow>
      fs_content t name \<in> {fs_content s name, Some payload} \<and>
      (\<forall>written. fs_content (fs_crash written t) name
         \<in> insert (Some payload) (crash_contents s name))"
    using fs_crash_content [of _ _ name] by (meson subsetD)
  have "oc_error oc = None \<longrightarrow> durable_views name (oc_fs oc) = {Some payload}"
    using r by (simp add: durable_views_def)
  with r seen show ?thesis by simp
qed

theorem WriteAtomic_crash_atomic_witness:
  "durable_views ''cursor''
     (oc_fs (durable_WriteAtomic example_root no_faults (example_fs ''cursor'' ''old'') ''cursor''
        ''new'')) = {Some ''new''} \<and>
   fs_content (fs_crash False
     (oc_fs (durable_WriteAtomic example_root (no_faults\<lparr>ft_dirsync := True\<rparr>)
        (example_fs ''cursor'' ''old'') ''cursor'' ''new''))) ''cursor'' \<in> {Some ''new'', Some ''old''}"
proof -
  have "oc_error (durable_WriteAtomic example_root no_faults (example_fs ''cursor'' ''old'')
      ''cursor'' ''new'') = None"
    by code_simp
  moreover note WriteAtomic_crash_atomic [OF example_fs_wf(1) refl,
      where r = example_root and ft = no_faults and name = "''cursor''" and payload = "''new''"]
    WriteAtomic_crash_atomic [OF example_fs_wf(1) refl, where r = example_root and name = "''cursor''"
      and ft = "no_faults\<lparr>ft_dirsync := True\<rparr>" and payload = "''new''"]
  ultimately show ?thesis by (metis example_fs_contents(2) list.set_intros(1))
qed





text \<open>C24: \<open>Remove\<close> takes a file away only when its content has the expected SHA-256, reports it
  gone only when no crash can bring it back, and at every moment the name holds its old content
  or nothing.\<close>

theorem Remove_guarded:
  assumes "durable_Remove L r ft s name expected = (gone, oc)"
  shows "(\<forall>t. t \<in> set (oc_fs oc # oc_trace oc) \<longrightarrow> fs_content t name \<in> {fs_content s name, None}) \<and>
     (fs_content (oc_fs oc) name \<noteq> fs_content s name \<or> gone \<longrightarrow>
        (\<exists>payload. fs_content s name = Some payload \<and> sha256_hex L payload = expected)) \<and>
     (gone \<longrightarrow> durable_views name (oc_fs oc) = {None} \<and> oc_error oc = None)"
proof -
  from assms show ?thesis
  proof (cases rule: Remove_cases)
    case same
    then show ?thesis by simp
  next
    case (moved payload)
    have away: "t = s \<or> fs_content t name = None" if "t \<in> set (oc_fs oc # oc_trace oc)" for t
      using moved(4,5) that by (auto simp: removed_def fs_content_def fs_lookup_def)
    have "durable_views name (oc_fs oc) = {None} \<and> oc_error oc = None" if gone
      using moved(3,4) that
      by (simp add: removed_def durable_views_def crash_contents_def fs_content_def fs_lookup_def)
    with away moved(1,2) show ?thesis by blast
  qed
qed

theorem Remove_guarded_witness:
  "durable_views ''cursor''
     (oc_fs (snd (durable_Remove (example_golib\<lparr>sha256_hex := (\<lambda>s. s)\<rparr>) example_root no_faults
        (example_fs ''cursor'' ''old'') ''cursor'' ''old''))) = {None}"
proof -
  have "durable_validateName ''cursor''" by code_simp
  then have "fst (durable_Remove (example_golib\<lparr>sha256_hex := (\<lambda>s. s)\<rparr>) example_root no_faults
      (example_fs ''cursor'' ''old'') ''cursor'' ''old'')"
    by (simp add: durable_Remove_def durable_verify_def no_faults_def example_root_def example_golib_def
        example_fs_def stat_at_def stat_of_def durable_validateFile_def sameIdentity_def
        fs_content_def fs_lookup_def Let_def)
  then show ?thesis
    using Remove_guarded [OF prod.collapse [symmetric], of "example_golib\<lparr>sha256_hex := (\<lambda>s. s)\<rparr>"
        example_root no_faults "example_fs ''cursor'' ''old''" "''cursor''" "''old''"] by blast
qed

end
