(* ===== verification/Forward.thy ===== *)
theory Forward
  imports Watch_Registry Durable
begin

text \<open>
  \<open>watch/forward.go\<close>: the forward-only producer.  A durable state records a cutoff, the
  watched roots, everything that existed when watching began (paths, objects, sessions) and
  the digest of each file already uploaded.  Each scan reads a candidate through its pinned
  root, decides whether it is entirely newer than the cutoff, uploads it, and records the
  progress; anything else is excluded for good.  What the operating system, the sink and the
  disk answer is data of the model (\<open>walk_item\<close>); the write of the state is a parameter, with
  \<open>durable_put\<close> as its instance.
\<close>

section \<open>The durable state\<close>

record root_identity =
  ri_volume :: "64 word"
  ri_object :: "64 word"

definition zero_identity :: root_identity where
  "zero_identity = \<lparr>ri_volume = 0, ri_object = 0\<rparr>"

record forward_root =
  fr_path :: string
  fr_volume :: "64 word"
  fr_object :: "64 word"

record forward_state =
  fw_version :: int
  fw_cutoff :: instant
  fw_roots :: "forward_root list"
  fw_paths :: "bool gomap"
  fw_objects :: "bool gomap"
  fw_sessions :: "bool gomap"
  fw_progress :: "string gomap"

definition forwardStateVersion :: int where
  "forwardStateVersion = 1"

definition maxForwardStateBytes :: nat where
  "maxForwardStateBytes = 134217728"

definition forwardIdentityKey :: "root_identity \<Rightarrow> string" where
  "forwardIdentityKey i =
     hex_pad 16 (unat (ri_volume i)) @ '':'' @ hex_pad 16 (unat (ri_object i))"

text \<open>The regular expression \<open>forwardObjectID\<close>.\<close>

definition forwardObjectID :: "string \<Rightarrow> bool" where
  "forwardObjectID s \<longleftrightarrow>
     length s = 33 \<and> list_all is_lower_hex (take 16 s) \<and> s ! 16 = CHR '':'' \<and>
     list_all is_lower_hex (drop 17 s)"

text \<open>The regular expression \<open>forwardSessionID\<close>: a match has 36 bytes.\<close>

definition uuid_text :: "string \<Rightarrow> bool" where
  "uuid_text s \<longleftrightarrow>
     length s = 36 \<and>
     list_all (\<lambda>i. if i \<in> set [8, 13, 18, 23] then s ! i = CHR ''-'' else is_hex (s ! i)) [0..<36]"

fun find_uuid :: "string \<Rightarrow> string" where
  "find_uuid [] = []"
| "find_uuid (c # s) = (if uuid_text (take 36 (c # s)) then take 36 (c # s) else find_uuid s)"

definition sessionIDFromPath :: "golib \<Rightarrow> string \<Rightarrow> string" where
  "sessionIDFromPath L path = to_lower L (find_uuid (path_base path))"

text \<open>The roots must be sorted by path without duplicates.\<close>

fun forward_roots_valid :: "forward_root list \<Rightarrow> bool" where
  "forward_roots_valid [] = True"
| "forward_roots_valid [r] = abs_clean (fr_path r)"
| "forward_roots_valid (r # q # rs) =
     (abs_clean (fr_path r) \<and> fr_path r < fr_path q \<and> forward_roots_valid (q # rs))"

definition validateForwardState :: "forward_state \<Rightarrow> bool" where
  "validateForwardState st \<longleftrightarrow>
     fw_version st = forwardStateVersion \<and> \<not> is_zero_time (fw_cutoff st) \<and> fw_roots st \<noteq> [] \<and>
     fw_paths st \<noteq> NilMap \<and> fw_objects st \<noteq> NilMap \<and> fw_sessions st \<noteq> NilMap \<and>
     fw_progress st \<noteq> NilMap \<and> forward_roots_valid (fw_roots st) \<and>
     gm_all (\<lambda>path excluded. excluded \<and> abs_clean path) (fw_paths st) \<and>
     gm_all (\<lambda>identity excluded. excluded \<and> forwardObjectID identity) (fw_objects st) \<and>
     gm_all (\<lambda>session excluded. excluded \<and> trim_space session \<noteq> []) (fw_sessions st) \<and>
     gm_all (\<lambda>path digest. abs_clean path \<and> hex_decodes digest \<and> length digest = 64)
       (fw_progress st)"

definition cloneForwardState :: "forward_state \<Rightarrow> forward_state" where
  "cloneForwardState st =
     st\<lparr>fw_paths := gm_clone (fw_paths st), fw_objects := gm_clone (fw_objects st),
        fw_sessions := gm_clone (fw_sessions st), fw_progress := gm_clone (fw_progress st)\<rparr>"

section \<open>Loading and writing the state\<close>

text \<open>
  The JSON codec: \<open>json.Marshal\<close> of the state, the token tree of a payload with duplicate
  keys kept (\<open>None\<close> for a syntax error or trailing data), and the strict decoder.
\<close>

record forward_codec =
  fc_marshal :: "forward_state \<Rightarrow> string option"
  fc_tokens :: "string \<Rightarrow> json option"
  fc_decode :: "string \<Rightarrow> forward_state option"

text \<open>\<open>walkForwardJSON\<close>: no object of the tree has a key twice.\<close>

function (sequential) walkForwardJSON :: "json \<Rightarrow> bool" where
  "walkForwardJSON (JObj kvs) \<longleftrightarrow>
     distinct (map fst kvs) \<and> list_all (\<lambda>kv. walkForwardJSON (snd kv)) kvs"
| "walkForwardJSON (JArr xs) \<longleftrightarrow> list_all walkForwardJSON xs"
| "walkForwardJSON _ \<longleftrightarrow> True"
  by pat_completeness auto
termination
  by (relation "measure size") (auto simp: size_elem dest: size_snd_mem)

definition rejectDuplicateForwardKeys :: "forward_codec \<Rightarrow> string \<Rightarrow> bool" where
  "rejectDuplicateForwardKeys codec payload \<longleftrightarrow>
     (case fc_tokens codec payload of None \<Rightarrow> False | Some tree \<Rightarrow> walkForwardJSON tree)"

definition decodeForwardState :: "forward_codec \<Rightarrow> string \<Rightarrow> forward_state option" where
  "decodeForwardState codec payload =
     (if \<not> rejectDuplicateForwardKeys codec payload then None
      else (case fc_decode codec payload of
              None \<Rightarrow> None
            | Some st \<Rightarrow> if validateForwardState st then Some st else None))"

definition writeForwardState ::
  "forward_codec \<Rightarrow> ('e \<Rightarrow> 'd \<Rightarrow> string \<Rightarrow> bool \<times> 'd) \<Rightarrow> 'e \<Rightarrow> forward_state \<Rightarrow> 'd \<Rightarrow> bool \<times> 'd" where
  "writeForwardState codec put e st d =
     (case fc_marshal codec st of
        None \<Rightarrow> (False, d)
      | Some payload \<Rightarrow>
          if maxForwardStateBytes < length payload then (False, d) else put e d payload)"

section \<open>Eligibility\<close>

datatype eligibility = ForwardWait | ForwardAccept | ForwardRefuse

definition timely :: "instant \<Rightarrow> instant \<Rightarrow> bool" where
  "timely cutoff t \<longleftrightarrow> \<not> is_zero_time t \<and> cutoff \<le> t"

fun compact :: "string list \<Rightarrow> string list" where
  "compact (x # y # ys) = (if x = y then compact (y # ys) else x # compact (y # ys))"
| "compact xs = xs"

definition classifyForwardTimes ::
  "instant list \<Rightarrow> string list \<Rightarrow> instant \<Rightarrow> eligibility \<times> string list" where
  "classifyForwardTimes stamps sessions cutoff =
     (if stamps = [] then (ForwardWait, sessions)
      else if list_ex (\<lambda>t. is_zero_time t \<or> t < cutoff) stamps then (ForwardRefuse, sessions)
      else (ForwardAccept, compact (sort sessions)))"

text \<open>The three JSONL sources: an unreadable timestamp refuses the file, any other issue waits.\<close>

definition forward_issues :: "issue list \<Rightarrow> eligibility option" where
  "forward_issues issues =
     (if list_ex (\<lambda>i. is_reason i = ''invalid_timestamp'') issues then Some ForwardRefuse
      else if issues \<noteq> [] then Some ForwardWait else None)"

text \<open>The loop that collects the times of the items, with the sessions each contributes; an
  item without a time refuses the file with the sessions seen so far.\<close>

fun forward_times ::
  "('a \<Rightarrow> string list) \<Rightarrow> ('a \<Rightarrow> bool) \<Rightarrow> ('a \<Rightarrow> instant option) \<Rightarrow> instant \<Rightarrow>
   instant list \<Rightarrow> string list \<Rightarrow> 'a list \<Rightarrow> eligibility \<times> string list" where
  "forward_times sess skip time cutoff stamps sessions [] =
     classifyForwardTimes stamps sessions cutoff"
| "forward_times sess skip time cutoff stamps sessions (x # xs) =
     (let sessions' = sessions @ sess x in
      if skip x then forward_times sess skip time cutoff stamps sessions' xs
      else (case time x of
              None \<Rightarrow> (ForwardRefuse, sessions')
            | Some t \<Rightarrow> forward_times sess skip time cutoff (stamps @ [t]) sessions' xs))"

definition nonempty :: "string \<Rightarrow> string list" where
  "nonempty s = (if s = [] then [] else [s])"

definition claude_eligibility ::
  "golib \<Rightarrow> reader option \<Rightarrow> int \<Rightarrow> instant \<Rightarrow> eligibility \<times> string list" where
  "claude_eligibility L input limit cutoff =
     (case claude_Parse L input limit of
        Inl _ \<Rightarrow> (ForwardWait, [])
      | Inr (located, issues) \<Rightarrow>
          (case forward_issues issues of
             Some v \<Rightarrow> (v, [])
           | None \<Rightarrow>
               forward_times (nonempty \<circ> en_session)
                 (\<lambda>e. \<not> (en_message e \<noteq> None \<or> trim_space (en_summary e) \<noteq> [] \<or> en_compact e))
                 (\<lambda>e. if en_has_time e then Some (en_time e) else None)
                 cutoff [] [] (map le_entry located)))"

definition codex_eligibility ::
  "golib \<Rightarrow> reader option \<Rightarrow> int \<Rightarrow> string \<Rightarrow> instant \<Rightarrow> eligibility \<times> string list" where
  "codex_eligibility L input limit path cutoff =
     (case codex_Parse L input limit of
        Inl _ \<Rightarrow> (ForwardWait, [])
      | Inr (events, issues) \<Rightarrow>
          (case forward_issues issues of
             Some v \<Rightarrow> (v, [])
           | None \<Rightarrow>
               forward_times
                 (\<lambda>e. if ev_type e = ''session_meta''
                      then nonempty (string_value (payload_field e ''id'')) else [])
                 (\<lambda>_. False) (\<lambda>e. if ev_has_time e then Some (ev_time e) else None)
                 cutoff [] (nonempty (sessionIDFromPath L path)) events))"

text \<open>Gemini: the messages, then the events; a refusal names the session of the document,
  respectively of the event.\<close>

definition gemini_eligibility ::
  "golib \<Rightarrow> reader option \<Rightarrow> int \<Rightarrow> instant \<Rightarrow> eligibility \<times> string list" where
  "gemini_eligibility L input limit cutoff =
     (case gemini_Parse L input limit of
        Inl _ \<Rightarrow> (ForwardWait, [])
      | Inr (doc, issues) \<Rightarrow>
          if issues \<noteq> [] then (ForwardWait, [])
          else if list_ex (\<lambda>m. \<not> gm_has_time m) (gd_messages doc)
          then (ForwardRefuse, [gd_session doc])
          else (case find (\<lambda>e. \<not> ge_has_time e) (gd_events doc) of
             Some e \<Rightarrow> (ForwardRefuse, [ge_session e])
           | None \<Rightarrow>
               classifyForwardTimes (map gm_time (gd_messages doc) @ map ge_time (gd_events doc))
                 [gd_session doc] cutoff))"

definition antigravity_eligibility ::
  "golib \<Rightarrow> reader option \<Rightarrow> int \<Rightarrow> string \<Rightarrow> instant \<Rightarrow> eligibility \<times> string list" where
  "antigravity_eligibility L input limit path cutoff =
     (if map ascii_lower (path_ext path) = ''.pb'' then
        (if limit = 0 then (ForwardWait, []) else (ForwardRefuse, [sessionIDFromPath L path]))
      else (case antigravity_Parse L input limit of
         Inl _ \<Rightarrow> (ForwardWait, [])
       | Inr (events, issues) \<Rightarrow>
           (case forward_issues issues of
              Some v \<Rightarrow> (v, [])
            | None \<Rightarrow>
                forward_times (\<lambda>_. []) (\<lambda>_. False)
                  (\<lambda>e. if ae_has_time e then Some (ae_time e) else None) cutoff [] [] events)))"

text \<open>The exports: the conversations and their messages, flattened in order; a conversation
  contributes its session before its messages.\<close>

definition chatgpt_items ::
  "chatgpt_conversation list \<Rightarrow> (string list \<times> chatgpt_message option) list" where
  "chatgpt_items convs =
     concat (map (\<lambda>c. ([xc_id c], None) # map (\<lambda>m. ([], Some m)) (xc_messages c)) convs)"

definition chatgpt_eligibility ::
  "golib \<Rightarrow> reader option \<Rightarrow> int \<Rightarrow> instant \<Rightarrow> eligibility \<times> string list" where
  "chatgpt_eligibility L input limit cutoff =
     (case chatgpt_Parse L input limit of
        Inl _ \<Rightarrow> (ForwardWait, [])
      | Inr (convs, issues) \<Rightarrow>
          if issues \<noteq> [] then (ForwardWait, [])
          else forward_times fst
                 (\<lambda>x. case snd x of None \<Rightarrow> True | Some m \<Rightarrow> trim_space (xm_content m) = [])
                 (\<lambda>x. case snd x of None \<Rightarrow> None
                      | Some m \<Rightarrow> if xm_has_time m then Some (xm_time m) else None)
                 cutoff [] [] (chatgpt_items convs))"

definition claudeapp_items ::
  "claudeapp_conversation list \<Rightarrow> (string list \<times> claudeapp_message option) list" where
  "claudeapp_items convs =
     concat (map (\<lambda>c. ([acv_id c], None) # map (\<lambda>m. ([], Some m)) (acv_messages c)) convs)"

definition claudeapp_eligibility ::
  "golib \<Rightarrow> reader option \<Rightarrow> int \<Rightarrow> instant \<Rightarrow> eligibility \<times> string list" where
  "claudeapp_eligibility L input limit cutoff =
     (case claudeapp_Parse L input limit of
        Inl _ \<Rightarrow> (ForwardWait, [])
      | Inr (convs, issues) \<Rightarrow>
          if issues \<noteq> [] then (ForwardWait, [])
          else forward_times fst
                 (\<lambda>x. case snd x of None \<Rightarrow> True | Some m \<Rightarrow> trim_space (am_content m) = [])
                 (\<lambda>x. case snd x of None \<Rightarrow> None
                      | Some m \<Rightarrow> if am_has_time m then Some (am_time m) else None)
                 cutoff [] [] (claudeapp_items convs))"

text \<open>\<open>strings.EqualFold\<close> with \<open>.pb\<close>: no other rune folds to these letters.\<close>

record snapshot =
  sn_path :: string
  sn_identity :: root_identity
  sn_data :: string
  sn_inspect_fails :: bool
  sn_dispatch_fails :: bool
  sn_close_ok :: bool

definition inspectForwardEligibility ::
  "golib \<Rightarrow> source_kind \<Rightarrow> snapshot \<Rightarrow> instant \<Rightarrow> eligibility \<times> string list" where
  "inspectForwardEligibility L kind sn cutoff =
     (let input = Some \<lparr>rd_data = sn_data sn, rd_fails = sn_inspect_fails sn\<rparr>;
          limit = int (length (sn_data sn))
      in (case kind of
            KClaude \<Rightarrow> claude_eligibility L input limit cutoff
          | KCodex \<Rightarrow> codex_eligibility L input limit (sn_path sn) cutoff
          | KGemini \<Rightarrow> gemini_eligibility L input limit cutoff
          | KAntigravity \<Rightarrow> antigravity_eligibility L input limit (sn_path sn) cutoff
          | KChatGPT \<Rightarrow> chatgpt_eligibility L input limit cutoff
          | KClaudeApp \<Rightarrow> claudeapp_eligibility L input limit cutoff
          | KUnknown \<Rightarrow> (ForwardWait, [])))"

definition reliableForwardSession :: "string \<Rightarrow> bool" where
  "reliableForwardSession session \<longleftrightarrow>
     session \<noteq> [] \<and> session \<noteq> ''unknown'' \<and> session \<noteq> ''gemini-session'' \<and>
     session \<noteq> ''gemini-logs'' \<and> list_ex (\<lambda>c. c < CHR ''0'' \<or> CHR ''9'' < c) session"

definition containsExcludedSession :: "golib \<Rightarrow> bool gomap \<Rightarrow> string list \<Rightarrow> bool" where
  "containsExcludedSession L excluded sessions \<longleftrightarrow>
     list_ex (\<lambda>s. gm_bool excluded (to_lower L (trim_space s))) sessions"

section \<open>Processing one path\<close>

datatype forward_error =
    WalkFailed
  | Cancelled
  | IdentityFailed
  | ScanLimit
  | SnapshotFailed
  | SourceChanged
  | CloseFailed
  | DispatchFailed source_error
  | UpsertFailed
  | PersistFailed
  | StateUnreadable
  | StateInvalid
  | RootsMismatch
  | RootUnbound
  | ProducerInvalid

text \<open>What the environment answers while one path is processed: the snapshot (\<open>None\<close> when it
  fails), whether the sink takes the chunks, and what the disk does.\<close>

record 'e attempt =
  at_snapshot :: "snapshot option"
  at_upsert :: bool
  at_disk :: 'e

text \<open>The tracker's state in memory, the disk, the batches handed to the sink, the readiness.\<close>

record 'd world =
  wd_state :: forward_state
  wd_disk :: 'd
  wd_log :: "chunk list list"
  wd_ready :: bool

definition forward_persist ::
  "forward_codec \<Rightarrow> ('e \<Rightarrow> 'd \<Rightarrow> string \<Rightarrow> bool \<times> 'd) \<Rightarrow> 'e \<Rightarrow> forward_state \<Rightarrow> 'd world \<Rightarrow>
   forward_error option \<times> 'd world" where
  "forward_persist codec put e st w =
     (let (ok, d) = writeForwardState codec put e st (wd_disk w) in
      if ok then (None, w\<lparr>wd_state := st, wd_disk := d\<rparr>)
      else (Some PersistFailed, w\<lparr>wd_disk := d\<rparr>))"

text \<open>The sessions a refusal excludes.\<close>

definition exclude_sessions :: "golib \<Rightarrow> string list \<Rightarrow> bool gomap \<Rightarrow> bool gomap" where
  "exclude_sessions L sessions m =
     foldl (\<lambda>m s. let t = to_lower L (trim_space s) in
                  if reliableForwardSession t then gm_put t True m else m) m sessions"

definition forward_refused ::
  "golib \<Rightarrow> string \<Rightarrow> root_identity \<Rightarrow> string list \<Rightarrow> forward_state \<Rightarrow> forward_state" where
  "forward_refused L path identity sessions st =
     (let st' = cloneForwardState st in
      st'\<lparr>fw_paths := gm_put path True (fw_paths st'),
          fw_objects := gm_put (forwardIdentityKey identity) True (fw_objects st'),
          fw_sessions := exclude_sessions L sessions (fw_sessions st')\<rparr>)"

definition refuseForwardPath ::
  "golib \<Rightarrow> forward_codec \<Rightarrow> ('e \<Rightarrow> 'd \<Rightarrow> string \<Rightarrow> bool \<times> 'd) \<Rightarrow> 'e \<Rightarrow> string \<Rightarrow> root_identity \<Rightarrow>
   string list \<Rightarrow> 'd world \<Rightarrow> forward_error option \<times> 'd world" where
  "refuseForwardPath L codec put e path identity sessions w =
     forward_persist codec put e (forward_refused L path identity sessions (wd_state w)) w"

definition forward_close :: "snapshot \<Rightarrow> 'd world \<Rightarrow> forward_error option \<times> 'd world" where
  "forward_close sn w = (if sn_close_ok sn then None else Some CloseFailed, w)"

text \<open>The check of one chunk before the upload.\<close>

definition forward_chunk_refused :: "golib \<Rightarrow> forward_state \<Rightarrow> chunk \<Rightarrow> bool" where
  "forward_chunk_refused L st c \<longleftrightarrow>
     is_zero_time (ck_timestamp c) \<or> ck_timestamp c < fw_cutoff st \<or>
     gm_bool (fw_sessions st) (to_lower L (ck_session c))"

definition forward_progressed :: "string \<Rightarrow> string \<Rightarrow> forward_state \<Rightarrow> forward_state" where
  "forward_progressed path digest st =
     (let st' = cloneForwardState st in st'\<lparr>fw_progress := gm_put path digest (fw_progress st')\<rparr>)"

text \<open>From the dispatch on.\<close>

definition forward_upload ::
  "golib \<Rightarrow> forward_codec \<Rightarrow> ('e \<Rightarrow> 'd \<Rightarrow> string \<Rightarrow> bool \<times> 'd) \<Rightarrow> registry \<Rightarrow> string \<Rightarrow> source_kind \<Rightarrow>
   root_identity \<Rightarrow> 'e attempt \<Rightarrow> snapshot \<Rightarrow> string list \<Rightarrow> 'd world \<Rightarrow>
   forward_error option \<times> 'd world" where
  "forward_upload L codec put rg path kind identity a sn sessions w =
     (case registry_Dispatch L rg kind
             (Some \<lparr>rd_data = sn_data sn, rd_fails = sn_dispatch_fails sn\<rparr>) path of
        Inl e \<Rightarrow> (Some (DispatchFailed e), w)
      | Inr chunks \<Rightarrow>
          if \<not> sn_close_ok sn then (Some CloseFailed, w)
          else if chunks = [] then (None, w)
          else (case find (forward_chunk_refused L (wd_state w)) chunks of
             Some c \<Rightarrow>
               refuseForwardPath L codec put (at_disk a) path identity (sessions @ [ck_session c]) w
           | None \<Rightarrow>
               let w' = w\<lparr>wd_log := wd_log w @ [chunks]\<rparr> in
               if \<not> at_upsert a then (Some UpsertFailed, w')
               else forward_persist codec put (at_disk a)
                      (forward_progressed path (sha256_hex L (sn_data sn)) (wd_state w')) w'))"

definition processForwardPath ::
  "golib \<Rightarrow> forward_codec \<Rightarrow> ('e \<Rightarrow> 'd \<Rightarrow> string \<Rightarrow> bool \<times> 'd) \<Rightarrow> registry \<Rightarrow> string \<Rightarrow> string \<Rightarrow>
   source_kind \<Rightarrow> root_identity \<Rightarrow> 'e attempt \<Rightarrow> 'd world \<Rightarrow> forward_error option \<times> 'd world" where
  "processForwardPath L codec put rg root path kind identity a w =
     (case (relativeParts root path, at_snapshot a) of
        (Some _, Some sn) \<Rightarrow>
          if sn_identity sn = zero_identity \<or> sn_identity sn \<noteq> identity then
            (if sn_close_ok sn then (Some SourceChanged, w) else (Some CloseFailed, w))
          else if gm_bool (fw_objects (wd_state w)) (forwardIdentityKey (sn_identity sn)) then
            forward_close sn w
          else if gm_str (fw_progress (wd_state w)) path = sha256_hex L (sn_data sn) then
            forward_close sn w
          else
            let (verdict, sessions) =
              inspectForwardEligibility L kind sn (fw_cutoff (wd_state w))
            in if verdict = ForwardWait then forward_close sn w
               else if verdict = ForwardRefuse \<or>
                       containsExcludedSession L (fw_sessions (wd_state w)) sessions then
                 (if sn_close_ok sn
                  then refuseForwardPath L codec put (at_disk a) path identity sessions w
                  else (Some CloseFailed, w))
               else forward_upload L codec put rg path kind identity a sn sessions w
      | _ \<Rightarrow> (Some SnapshotFailed, w))"

section \<open>Scanning\<close>

text \<open>One call of the function given to \<open>filepath.WalkDir\<close>: the entry, and the answers it gets.\<close>

record 'e walk_item =
  wi_root :: string
  wi_path :: string
  wi_err :: bool
  wi_cancelled :: bool
  wi_symlink :: bool
  wi_dir :: bool
  wi_regular :: bool
  wi_identity :: "root_identity option"
  wi_attempt :: "'e attempt"

definition MaxFilesPerScan :: nat where
  "MaxFilesPerScan = 1024"

text \<open>\<open>forwardSourceIdentity\<close>: refuses a path that is not below the root, then asks the system.\<close>

definition forwardSourceIdentity :: "string \<Rightarrow> string \<Rightarrow> root_identity option \<Rightarrow> root_identity option" where
  "forwardSourceIdentity root path answer =
     (case relativeParts root path of None \<Rightarrow> None | Some _ \<Rightarrow> answer)"

definition forward_visit ::
  "golib \<Rightarrow> forward_codec \<Rightarrow> ('e \<Rightarrow> 'd \<Rightarrow> string \<Rightarrow> bool \<times> 'd) \<Rightarrow> registry \<Rightarrow> 'e walk_item \<Rightarrow>
   nat \<Rightarrow> 'd world \<Rightarrow> forward_error option \<times> nat \<times> 'd world" where
  "forward_visit L codec put rg item seen w =
     (if wi_err item then (Some WalkFailed, seen, w)
      else if wi_cancelled item then (Some Cancelled, seen, w)
      else if wi_symlink item then (None, seen, w)
      else if wi_dir item \<or> \<not> wi_regular item then (None, seen, w)
      else (case registry_Detect (wi_path item) of
         None \<Rightarrow> (None, seen, w)
       | Some kind \<Rightarrow>
           let path = path_clean (wi_path item) in
           if gm_bool (fw_paths (wd_state w)) path then (None, seen, w)
           else (case forwardSourceIdentity (wi_root item) path (wi_identity item) of
              None \<Rightarrow> (Some IdentityFailed, seen, w)
            | Some identity \<Rightarrow>
                if gm_bool (fw_objects (wd_state w)) (forwardIdentityKey identity) then (None, seen, w)
                else if MaxFilesPerScan < seen + 1 then (Some ScanLimit, seen + 1, w)
                else
                  let (err, w') = processForwardPath L codec put rg (wi_root item) path kind identity
                                    (wi_attempt item) w
                  in (err, seen + 1, w'))))"

fun forward_walk ::
  "golib \<Rightarrow> forward_codec \<Rightarrow> ('e \<Rightarrow> 'd \<Rightarrow> string \<Rightarrow> bool \<times> 'd) \<Rightarrow> registry \<Rightarrow> 'e walk_item list \<Rightarrow>
   nat \<Rightarrow> 'd world \<Rightarrow> forward_error option \<times> 'd world" where
  "forward_walk L codec put rg [] seen w = (None, w)"
| "forward_walk L codec put rg (item # items) seen w =
     (case forward_visit L codec put rg item seen w of
        (Some e, _, w') \<Rightarrow> (Some e, w')
      | (None, seen', w') \<Rightarrow> forward_walk L codec put rg items seen' w')"

text \<open>\<open>scanForward\<close>: the items of all roots in order; the count of files spans the roots.\<close>

definition scanForward ::
  "golib \<Rightarrow> forward_codec \<Rightarrow> ('e \<Rightarrow> 'd \<Rightarrow> string \<Rightarrow> bool \<times> 'd) \<Rightarrow> registry \<Rightarrow> 'e walk_item list \<Rightarrow>
   'd world \<Rightarrow> forward_error option \<times> 'd world" where
  "scanForward L codec put rg items w =
     (let (err, w') = forward_walk L codec put rg items 0 w in
      (err, w'\<lparr>wd_ready := (err = None)\<rparr>))"

section \<open>Creating the producer\<close>

text \<open>A root of the producer: its path, its held identity, whether \<open>Verify\<close> succeeds before and
  after the walk, and the entries of the walk.\<close>

record 'e watch_root =
  wr_path :: string
  wr_identity :: "root_identity option"
  wr_verified :: bool
  wr_reverified :: bool
  wr_items :: "'e walk_item list"

text \<open>\<open>NewProducer\<close>, as far as the forward producer depends on it: distinct clean absolute
  paths, sorted.\<close>

definition newProducer_paths :: "string list \<Rightarrow> string list option" where
  "newProducer_paths paths =
     (let ordered = sort paths in
      if paths = [] \<or> \<not> distinct ordered \<or> \<not> list_all abs_clean ordered then None
      else Some ordered)"

fun currentForwardRoots :: "'e watch_root list \<Rightarrow> forward_root list option" where
  "currentForwardRoots [] = Some []"
| "currentForwardRoots (r # rs) =
     (case wr_identity r of
        None \<Rightarrow> None
      | Some i \<Rightarrow>
          (case currentForwardRoots rs of
             None \<Rightarrow> None
           | Some frs \<Rightarrow>
               Some (\<lparr>fr_path = wr_path r, fr_volume = ri_volume i, fr_object = ri_object i\<rparr> # frs)))"

definition baseline_entry ::
  "golib \<Rightarrow> string \<Rightarrow> root_identity \<Rightarrow> forward_state \<Rightarrow> forward_state" where
  "baseline_entry L clean identity st =
     (let session = sessionIDFromPath L clean in
      st\<lparr>fw_paths := gm_put clean True (fw_paths st),
         fw_objects := gm_put (forwardIdentityKey identity) True (fw_objects st),
         fw_sessions := (if session \<noteq> [] then gm_put session True (fw_sessions st)
                         else fw_sessions st)\<rparr>)"

fun baseline_walk ::
  "golib \<Rightarrow> string \<Rightarrow> 'e walk_item list \<Rightarrow> forward_state \<Rightarrow> forward_state option" where
  "baseline_walk L root [] st = Some st"
| "baseline_walk L root (item # items) st =
     (if wi_err item then None
      else if wi_symlink item \<or> wi_dir item \<or> \<not> wi_regular item
           \<or> registry_Detect (wi_path item) = None
      then baseline_walk L root items st
      else (case forwardSourceIdentity root (path_clean (wi_path item)) (wi_identity item) of
         None \<Rightarrow> None
       | Some identity \<Rightarrow>
           baseline_walk L root items (baseline_entry L (path_clean (wi_path item)) identity st)))"

fun baselineForwardPaths ::
  "golib \<Rightarrow> 'e watch_root list \<Rightarrow> forward_state \<Rightarrow> forward_state option" where
  "baselineForwardPaths L [] st = Some st"
| "baselineForwardPaths L (r # rs) st =
     (if \<not> wr_verified r then None
      else (case baseline_walk L (wr_path r) (wr_items r) st of
         None \<Rightarrow> None
       | Some st' \<Rightarrow> if \<not> wr_reverified r then None else baselineForwardPaths L rs st'))"

definition initial_forward_state :: "instant \<Rightarrow> forward_root list \<Rightarrow> forward_state" where
  "initial_forward_state now roots =
     \<lparr>fw_version = forwardStateVersion, fw_cutoff = now, fw_roots = roots, fw_paths = GoMap [],
      fw_objects = GoMap [], fw_sessions = GoMap [], fw_progress = GoMap []\<rparr>"

text \<open>\<open>NewForwardProducer\<close> after \<open>NewProducer\<close>: \<open>stored\<close> is what the state file holds (\<open>Inl\<close> when
  \<open>Exists\<close> or \<open>Read\<close> fails).\<close>

definition newForwardProducer ::
  "golib \<Rightarrow> forward_codec \<Rightarrow> ('e \<Rightarrow> 'd \<Rightarrow> string \<Rightarrow> bool \<times> 'd) \<Rightarrow> 'e watch_root list \<Rightarrow> instant \<Rightarrow>
   unit + string option \<Rightarrow> 'e \<Rightarrow> 'd \<Rightarrow> (forward_error + 'd world) \<times> 'd" where
  "newForwardProducer L codec put roots now stored e d =
     (case currentForwardRoots roots of
        None \<Rightarrow> (Inl RootUnbound, d)
      | Some current \<Rightarrow>
          (case stored of
             Inl _ \<Rightarrow> (Inl StateUnreadable, d)
           | Inr (Some payload) \<Rightarrow>
               (case decodeForwardState codec payload of
                  None \<Rightarrow> (Inl StateInvalid, d)
                | Some st \<Rightarrow>
                    if fw_roots st \<noteq> current then (Inl RootsMismatch, d)
                    else (Inr \<lparr>wd_state = st, wd_disk = d, wd_log = [], wd_ready = False\<rparr>, d))
           | Inr None \<Rightarrow>
               (case baselineForwardPaths L roots (initial_forward_state now current) of
                  None \<Rightarrow> (Inl WalkFailed, d)
                | Some st \<Rightarrow>
                    (case writeForwardState codec put e st d of
                       (False, d') \<Rightarrow> (Inl PersistFailed, d')
                     | (True, d') \<Rightarrow>
                         (Inr \<lparr>wd_state = st, wd_disk = d', wd_log = [], wd_ready = False\<rparr>, d')))))"

end
