(* ===== verification/Forward_Safety.thy ===== *)
theory Forward_Safety
  imports Forward
begin

text \<open>
  What the forward producer promises: exclusions only grow, cutoff and roots never change,
  and every batch handed to the sink is entirely newer than the cutoff and comes from a path
  and sessions that are not excluded.  The inductive relation \<open>forward_reachable\<close> lets scans,
  crashes and restarts interleave in any order, with any answers of the operating system, the
  sink and the disk; the promise survives all of them.
\<close>

section \<open>Growing states\<close>

definition extends :: "forward_state \<Rightarrow> forward_state \<Rightarrow> bool" where
  "extends st st' \<longleftrightarrow>
     fw_cutoff st' = fw_cutoff st \<and> fw_roots st' = fw_roots st \<and>
     (\<forall>k. gm_bool (fw_paths st) k \<longrightarrow> gm_bool (fw_paths st') k) \<and>
     (\<forall>k. gm_bool (fw_objects st) k \<longrightarrow> gm_bool (fw_objects st') k) \<and>
     (\<forall>k. gm_bool (fw_sessions st) k \<longrightarrow> gm_bool (fw_sessions st') k)"

lemma extends_refl [simp, intro]: "extends st st"
  by (simp add: extends_def)

lemma extends_trans: "extends a b \<Longrightarrow> extends b c \<Longrightarrow> extends a c"
  by (simp add: extends_def)

lemma exclude_sessions_mono:
  "gm_bool m k \<Longrightarrow> gm_bool (exclude_sessions L sessions m) k"
  unfolding exclude_sessions_def
  by (induction sessions arbitrary: m) (auto simp: Let_def)

lemma forward_refused_extends: "extends st (forward_refused L path identity sessions st)"
  by (auto simp: extends_def forward_refused_def cloneForwardState_def Let_def exclude_sessions_mono)

lemma forward_progressed_extends: "extends st (forward_progressed path digest st)"
  by (auto simp: extends_def forward_progressed_def cloneForwardState_def Let_def)

section \<open>Batches\<close>

text \<open>A batch that may be handed to the sink in a state.\<close>

definition batch_ok :: "golib \<Rightarrow> forward_state \<Rightarrow> chunk list \<Rightarrow> bool" where
  "batch_ok L st cs \<longleftrightarrow>
     list_all (\<lambda>c. timely (fw_cutoff st) (ck_timestamp c) \<and>
                   \<not> gm_bool (fw_sessions st) (to_lower L (ck_session c)) \<and>
                   \<not> gm_bool (fw_paths st) (ck_source_file c)) cs"

lemma batch_ok_weaken: "extends base st \<Longrightarrow> batch_ok L st cs \<Longrightarrow> batch_ok L base cs"
  by (auto simp: batch_ok_def extends_def list_all_iff)

lemma forward_persist_world:
  "forward_persist codec put e st w = (err, w') \<Longrightarrow>
   wd_log w' = wd_log w \<and> (wd_state w' = wd_state w \<or> wd_state w' = st)"
  by (auto simp: forward_persist_def split: prod.splits if_splits)

text \<open>One processed path: the state grows, and at most one batch, an admissible one, is added.\<close>

definition grows :: "golib \<Rightarrow> 'd world \<Rightarrow> 'd world \<Rightarrow> bool" where
  "grows L w w' \<longleftrightarrow>
     extends (wd_state w) (wd_state w') \<and>
     (\<exists>bs. wd_log w' = wd_log w @ bs \<and> list_all (batch_ok L (wd_state w)) bs)"

lemma grows_refl [simp, intro]: "grows L w w"
  by (simp add: grows_def)

lemma grows_trans: "grows L a b \<Longrightarrow> grows L b c \<Longrightarrow> grows L a c"
  unfolding grows_def list_all_iff
  by (metis (no_types, lifting) Un_iff append.assoc batch_ok_weaken extends_trans set_append)

lemma refuse_grows:
  assumes "refuseForwardPath L codec put e path identity sessions w = (err, w')"
  shows "grows L w w'"
  using forward_persist_world [OF assms [unfolded refuseForwardPath_def]] forward_refused_extends
  by (auto simp: grows_def)

lemma accepted_batch:
  assumes "registry_Dispatch L rg kind input path = Inr chunks"
    and "find (forward_chunk_refused L st) chunks = None"
    and "\<not> gm_bool (fw_paths st) path"
  shows "batch_ok L st chunks"
proof -
  have "origin (registry_source rg path) c" if "c \<in> set chunks" for c
    using registry_Dispatch_origin [OF assms(1)] that by (simp add: list_all_iff)
  then show ?thesis
    using assms(2,3)
    by (auto simp: batch_ok_def list_all_iff find_None_iff forward_chunk_refused_def timely_def
        origin_def registry_source_def)
qed

lemma upload_grows:
  assumes "forward_upload L codec put rg path kind identity a sn sessions w = (err, w')"
    and "\<not> gm_bool (fw_paths (wd_state w)) path"
  shows "grows L w w'"
proof (cases "registry_Dispatch L rg kind
    (Some \<lparr>rd_data = sn_data sn, rd_fails = sn_dispatch_fails sn\<rparr>) path")
  case (Inl e)
  with assms(1) show ?thesis by (simp add: forward_upload_def)
next
  case (Inr chunks)
  show ?thesis
  proof (cases "find (forward_chunk_refused L (wd_state w)) chunks")
    case (Some c)
    with Inr assms(1) refuse_grows show ?thesis
      by (fastforce simp: forward_upload_def split: if_splits)
  next
    case None
    have ok: "batch_ok L (wd_state w) chunks" by (rule accepted_batch [OF Inr None assms(2)])
    let ?w = "w\<lparr>wd_log := wd_log w @ [chunks]\<rparr>"
    consider "w' = w" | "w' = ?w" |
      "forward_persist codec put (at_disk a)
         (forward_progressed path (sha256_hex L (sn_data sn)) (wd_state w)) ?w = (err, w')"
      using assms(1) Inr None by (auto simp: forward_upload_def Let_def split: if_splits)
    then show ?thesis
    proof cases
      case 3
      from forward_persist_world [OF this] ok forward_progressed_extends show ?thesis
        by (auto simp: grows_def)
    qed (use ok in \<open>auto simp: grows_def\<close>)
  qed
qed

text \<open>The three ways in which processing a path ends.\<close>

lemma process_cases:
  assumes "processForwardPath L codec put rg root path kind identity a w = (err, w')"
  obtains (same) "w' = w"
  | (refuse) sessions where
      "refuseForwardPath L codec put (at_disk a) path identity sessions w = (err, w')"
  | (upload) sn sessions where
      "forward_upload L codec put rg path kind identity a sn sessions w = (err, w')"
  using assms unfolding processForwardPath_def forward_close_def
  by (auto split: option.splits if_splits prod.splits)

lemma process_grows:
  assumes "processForwardPath L codec put rg root path kind identity a w = (err, w')"
    and "\<not> gm_bool (fw_paths (wd_state w)) path"
  shows "grows L w w'"
  using assms(1)
proof (cases rule: process_cases)
  case (refuse sessions)
  then show ?thesis by (rule refuse_grows)
next
  case (upload sn sessions)
  then show ?thesis using assms(2) by (rule upload_grows)
qed auto

lemma visit_grows:
  assumes "forward_visit L codec put rg item seen w = (err, seen', w')"
  shows "grows L w w'"
proof -
  have "w' = w \<or> (\<exists>path kind identity. \<not> gm_bool (fw_paths (wd_state w)) path \<and>
      processForwardPath L codec put rg (wi_root item) path kind identity (wi_attempt item) w =
        (err, w'))"
    using assms unfolding forward_visit_def Let_def
    by (auto split: if_splits option.splits prod.splits)
  then show ?thesis using process_grows by blast
qed

lemma walk_grows:
  "forward_walk L codec put rg items seen w = (err, w') \<Longrightarrow> grows L w w'"
proof (induction items arbitrary: seen w)
  case (Cons item items)
  obtain err1 seen1 w1 where v: "forward_visit L codec put rg item seen w = (err1, seen1, w1)"
    by (cases "forward_visit L codec put rg item seen w") auto
  from visit_grows [OF v] show ?case
    using Cons v by (cases err1) (auto intro: grows_trans)
qed auto

lemma scan_grows:
  assumes "scanForward L codec put rg items w = (err, w')"
  shows "grows L w w'" and "wd_ready w' \<longleftrightarrow> err = None"
proof -
  obtain w1 where "forward_walk L codec put rg items 0 w = (err, w1)"
    and w': "w' = w1\<lparr>wd_ready := (err = None)\<rparr>"
    using assms by (auto simp: scanForward_def split: prod.splits)
  from walk_grows [OF this(1)] show "grows L w w'" by (simp add: grows_def w')
  show "wd_ready w' \<longleftrightarrow> err = None" by (simp add: w')
qed

section \<open>The disk\<close>

text \<open>
  The client of \<open>atomic_store\<close>: a store, and a codec for which decoding what was encoded gives
  a state with the same content.
\<close>

definition same_state :: "forward_state \<Rightarrow> forward_state \<Rightarrow> bool" where
  "same_state st st' \<longleftrightarrow> extends st st' \<and> extends st' st"

definition codec_faithful :: "forward_codec \<Rightarrow> bool" where
  "codec_faithful codec \<longleftrightarrow>
     (\<forall>st payload st'. fc_marshal codec st = Some payload \<longrightarrow> fc_decode codec payload = Some st' \<longrightarrow>
        same_state st st')"

text \<open>Every state that the disk may be read back as extends \<open>base\<close>.\<close>

definition disk_extends ::
  "('d \<Rightarrow> string option set) \<Rightarrow> ('d \<Rightarrow> bool) \<Rightarrow> forward_codec \<Rightarrow> forward_state \<Rightarrow> 'd \<Rightarrow> bool" where
  "disk_extends views good codec base d \<longleftrightarrow>
     good d \<and> None \<notin> views d \<and>
     (\<forall>payload st. Some payload \<in> views d \<longrightarrow> decodeForwardState codec payload = Some st \<longrightarrow>
        extends base st)"

definition safe ::
  "('d \<Rightarrow> string option set) \<Rightarrow> ('d \<Rightarrow> bool) \<Rightarrow> golib \<Rightarrow> forward_codec \<Rightarrow> forward_state \<Rightarrow> 'd world \<Rightarrow> bool"
  where
  "safe views good L codec base w \<longleftrightarrow>
     extends base (wd_state w) \<and> disk_extends views good codec base (wd_disk w) \<and>
     list_all (batch_ok L base) (wd_log w)"

lemma decode_marshal:
  assumes "codec_faithful codec" "fc_marshal codec st = Some payload"
    "decodeForwardState codec payload = Some st'"
  shows "extends st st'"
proof -
  have "fc_decode codec payload = Some st'"
    using assms(3) by (auto simp: decodeForwardState_def split: option.splits if_splits)
  with assms(1,2) show ?thesis by (auto simp: codec_faithful_def same_state_def)
qed

lemma safe_step:
  assumes "safe views good L codec base w" "grows L w w'"
    "disk_extends views good codec base (wd_disk w')"
  shows "safe views good L codec base w'"
proof -
  have "extends base (wd_state w')"
    using assms(1,2) extends_trans unfolding safe_def grows_def by blast
  moreover have "list_all (batch_ok L base) (wd_log w')"
    using assms(1,2) batch_ok_weaken unfolding safe_def grows_def list_all_iff by auto
  ultimately show ?thesis using assms(3) by (simp add: safe_def)
qed

context atomic_store
begin

lemma write_disk_extends:
  assumes "disk_extends views good codec base d" "extends base st"
    and "writeForwardState codec put e st d = (ok, d')"
    and faithful: "codec_faithful codec"
  shows "disk_extends views good codec base d'"
proof (cases "fc_marshal codec st")
  case (Some payload)
  show ?thesis
  proof (cases "maxForwardStateBytes < length payload")
    case False
    have g: "good d" using assms(1) by (simp add: disk_extends_def)
    have d': "d' = snd (put e d payload)"
      using assms(3) Some False by (simp add: writeForwardState_def)
    have "extends base st'" if "decodeForwardState codec payload = Some st'" for st'
      using decode_marshal [OF faithful Some that] assms(2) extends_trans by blast
    with assms(1) put_any [OF g, of e payload] put_good [OF g, of e payload] show ?thesis
      by (auto simp: disk_extends_def d')
  qed (use assms Some in \<open>auto simp: writeForwardState_def\<close>)
qed (use assms in \<open>auto simp: writeForwardState_def\<close>)

lemma write_ok_disk:
  assumes "good d" "writeForwardState codec put e st d = (True, d')"
    and faithful: "codec_faithful codec"
  shows "disk_extends views good codec st d'"
proof -
  obtain payload where p: "fc_marshal codec st = Some payload" "put e d payload = (True, d')"
    using assms(2) by (auto simp: writeForwardState_def split: option.splits if_splits)
  with put_ok [OF assms(1), of e payload] put_good [OF assms(1), of e payload]
    decode_marshal [OF faithful p(1)]
  show ?thesis by (auto simp: disk_extends_def)
qed

lemma persist_disk:
  assumes "forward_persist codec put e st w = (err, w')"
    and "disk_extends views good codec base (wd_disk w)" "extends base st"
    and faithful: "codec_faithful codec"
  shows "disk_extends views good codec base (wd_disk w')"
  using assms write_disk_extends
  by (fastforce simp: forward_persist_def split: prod.splits if_splits)

lemma refuse_disk:
  assumes "refuseForwardPath L codec put e path identity sessions w = (err, w')"
    and "disk_extends views good codec base (wd_disk w)" "extends base (wd_state w)"
    and faithful: "codec_faithful codec"
  shows "disk_extends views good codec base (wd_disk w')"
  using persist_disk [OF assms(1) [unfolded refuseForwardPath_def] assms(2) _ faithful]
    extends_trans [OF assms(3) forward_refused_extends] by blast

lemma upload_disk:
  assumes "forward_upload L codec put rg path kind identity a sn sessions w = (err, w')"
    and "disk_extends views good codec base (wd_disk w)" "extends base (wd_state w)"
    and faithful: "codec_faithful codec"
  shows "disk_extends views good codec base (wd_disk w')"
proof -
  let ?next = "\<lambda>chunks. w\<lparr>wd_log := wd_log w @ [chunks]\<rparr>"
  have "wd_disk w' = wd_disk w \<or>
    (\<exists>ss. refuseForwardPath L codec put (at_disk a) path identity ss w = (err, w')) \<or>
    (\<exists>chunks. forward_persist codec put (at_disk a)
       (forward_progressed path (sha256_hex L (sn_data sn)) (wd_state w)) (?next chunks) = (err, w'))"
    using assms(1) unfolding forward_upload_def Let_def
    by (auto split: sum.splits if_splits option.splits)
  then show ?thesis
  proof (elim disjE exE)
    fix ss
    assume "refuseForwardPath L codec put (at_disk a) path identity ss w = (err, w')"
    then show ?thesis using refuse_disk assms(2,3) faithful by blast
  next
    fix chunks
    assume p: "forward_persist codec put (at_disk a)
       (forward_progressed path (sha256_hex L (sn_data sn)) (wd_state w)) (?next chunks) = (err, w')"
    show ?thesis
      using persist_disk [OF p, of base] assms(2) faithful
        extends_trans [OF assms(3) forward_progressed_extends] by simp
  qed (use assms(2) in simp)
qed

lemma process_disk:
  assumes "processForwardPath L codec put rg root path kind identity a w = (err, w')"
    and "disk_extends views good codec base (wd_disk w)" "extends base (wd_state w)"
    and faithful: "codec_faithful codec"
  shows "disk_extends views good codec base (wd_disk w')"
  using assms(1)
proof (cases rule: process_cases)
  case (refuse sessions)
  then show ?thesis using assms(2,3) faithful by (rule refuse_disk)
next
  case (upload sn sessions)
  then show ?thesis using assms(2,3) faithful by (rule upload_disk)
qed (use assms(2) in simp)

lemma visit_disk:
  assumes "forward_visit L codec put rg item seen w = (err, seen', w')"
    and "disk_extends views good codec base (wd_disk w)" "extends base (wd_state w)"
    and faithful: "codec_faithful codec"
  shows "disk_extends views good codec base (wd_disk w')"
proof -
  have "w' = w \<or> (\<exists>path kind identity.
      processForwardPath L codec put rg (wi_root item) path kind identity (wi_attempt item) w =
        (err, w'))"
    using assms(1) unfolding forward_visit_def Let_def
    by (auto split: if_splits option.splits prod.splits)
  then show ?thesis using process_disk assms(2,3) faithful by blast
qed

lemma walk_safe:
  assumes "safe views good L codec base w" "codec_faithful codec"
    and "forward_walk L codec put rg items seen w = (err, w')"
  shows "safe views good L codec base w'"
  using assms
proof (induction items arbitrary: seen w)
  case (Cons item items)
  obtain err1 seen1 w1 where v: "forward_visit L codec put rg item seen w = (err1, seen1, w1)"
    by (cases "forward_visit L codec put rg item seen w") auto
  have "safe views good L codec base w1"
    using Cons.prems(1,2) safe_step [OF Cons.prems(1) visit_grows [OF v]] visit_disk [OF v]
    by (simp add: safe_def)
  with Cons v show ?case by (cases err1) auto
qed simp

lemma scan_safe:
  assumes "safe views good L codec base w" "codec_faithful codec"
    and "scanForward L codec put rg items w = (err, w')"
  shows "safe views good L codec base w'"
proof -
  obtain w1 where "forward_walk L codec put rg items 0 w = (err, w1)"
    and "w' = w1\<lparr>wd_ready := (err = None)\<rparr>"
    using assms(3) by (auto simp: scanForward_def split: prod.splits)
  with walk_safe [OF assms(1,2)] show ?thesis by (simp add: safe_def)
qed

end

section \<open>Interleaving of scans, crashes and restarts\<close>

text \<open>The whole system: the disk, the producer if one is running, every batch ever uploaded.\<close>

record 'd system =
  sy_disk :: 'd
  sy_running :: "forward_state option"
  sy_log :: "chunk list list"

definition sy_world :: "'d system \<Rightarrow> forward_state \<Rightarrow> 'd world" where
  "sy_world s st = \<lparr>wd_state = st, wd_disk = sy_disk s, wd_log = sy_log s, wd_ready = False\<rparr>"

text \<open>
  \<open>forward_reachable \<dots> base s\<close>: a first producer was created on a disk without a state file
  and recorded \<open>base\<close>; from there \<open>s\<close> was reached.  A restart reads one of the views of the disk
  or fails to read it; a crash may leave any disk whose views were views before.
\<close>

inductive forward_reachable ::
  "('e \<Rightarrow> 'd \<Rightarrow> string \<Rightarrow> bool \<times> 'd) \<Rightarrow> ('d \<Rightarrow> string option set) \<Rightarrow> ('d \<Rightarrow> bool) \<Rightarrow> golib \<Rightarrow>
   forward_codec \<Rightarrow> registry \<Rightarrow> forward_state \<Rightarrow> 'd system \<Rightarrow> bool"
  for put views good L codec rg where
  first: "forward_reachable put views good L codec rg (wd_state w)
     \<lparr>sy_disk = d', sy_running = Some (wd_state w), sy_log = []\<rparr>"
  if "good d" "newForwardProducer L codec put roots now (Inr None) e d = (Inr w, d')"
| scan: "forward_reachable put views good L codec rg base
     \<lparr>sy_disk = wd_disk w, sy_running = Some (wd_state w), sy_log = wd_log w\<rparr>"
  if "forward_reachable put views good L codec rg base s" "sy_running s = Some st"
    "scanForward L codec put rg items (sy_world s st) = (err, w)"
| crash: "forward_reachable put views good L codec rg base
     (s\<lparr>sy_running := None, sy_disk := d\<rparr>)"
  if "forward_reachable put views good L codec rg base s" "good d"
    "views d \<subseteq> views (sy_disk s)"
| restart: "forward_reachable put views good L codec rg base
     (s\<lparr>sy_disk := d, sy_running := (case r of Inl _ \<Rightarrow> None | Inr w \<Rightarrow> Some (wd_state w))\<rparr>)"
  if "forward_reachable put views good L codec rg base s"
    "stored = Inl () \<or> (\<exists>v \<in> views (sy_disk s). stored = Inr v)"
    "newForwardProducer L codec put roots now stored e (sy_disk s) = (r, d)"

inductive_cases forward_reachableE: "forward_reachable put views good L codec rg base s"

definition system_safe ::
  "('d \<Rightarrow> string option set) \<Rightarrow> ('d \<Rightarrow> bool) \<Rightarrow> golib \<Rightarrow> forward_codec \<Rightarrow> forward_state \<Rightarrow> 'd system \<Rightarrow>
   bool" where
  "system_safe views good L codec base s \<longleftrightarrow>
     disk_extends views good codec base (sy_disk s) \<and>
     (\<forall>st. sy_running s = Some st \<longrightarrow> extends base st) \<and>
     list_all (batch_ok L base) (sy_log s)"

context atomic_store
begin

lemma newForwardProducer_first:
  assumes "good d" "codec_faithful codec"
    and "newForwardProducer L codec put roots now (Inr None) e d = (Inr w, d')"
  shows "disk_extends views good codec (wd_state w) d'"
  using assms write_ok_disk
  by (fastforce simp: newForwardProducer_def split: option.splits prod.splits bool.splits)

lemma newForwardProducer_restart:
  assumes "disk_extends views good codec base d"
    and "stored = Inl () \<or> (\<exists>v \<in> views d. stored = Inr v)"
    and "newForwardProducer L codec put roots now stored e d = (r, d')"
  shows "d' = d" and "r = Inr w \<Longrightarrow> extends base (wd_state w)"
proof -
  consider "stored = Inl ()" | payload where "stored = Inr (Some payload)" "Some payload \<in> views d"
    using assms(1,2) unfolding disk_extends_def by (metis not_Some_eq)
  then have "d' = d \<and> (r = Inr w \<longrightarrow> extends base (wd_state w))"
  proof cases
    case 1
    with assms(3) show ?thesis
      by (auto simp: newForwardProducer_def split: option.splits)
  next
    case 2
    then have "extends base st" if "decodeForwardState codec payload = Some st" for st
      using assms(1) that by (auto simp: disk_extends_def)
    with 2 assms(3) show ?thesis
      by (auto simp: newForwardProducer_def split: option.splits if_splits)
  qed
  then show "d' = d" and "r = Inr w \<Longrightarrow> extends base (wd_state w)" by auto
qed

lemma reachable_safe:
  assumes "codec_faithful codec" "forward_reachable put views good L codec rg base s"
  shows "system_safe views good L codec base s"
  using assms(2)
proof (induction rule: forward_reachable.induct)
  case (first d roots now e w d')
  then show ?case using newForwardProducer_first assms(1) by (simp add: system_safe_def)
next
  case (scan base s st items err w)
  then have "safe views good L codec base (sy_world s st)"
    by (simp add: system_safe_def safe_def sy_world_def)
  from scan_safe [OF this assms(1) scan.hyps(3)] show ?case
    by (simp add: system_safe_def safe_def)
next
  case (crash base s d)
  then show ?case by (auto simp: system_safe_def disk_extends_def)
next
  case (restart base s stored roots now e r d)
  then have "disk_extends views good codec base (sy_disk s)" by (simp add: system_safe_def)
  from newForwardProducer_restart [OF this restart.hyps(2,3)] restart.IH show ?case
    by (auto simp: system_safe_def split: sum.splits)
qed

end

section \<open>The baseline\<close>

text \<open>An entry that the walk of the baseline records.\<close>

definition baseline_candidate :: "'e walk_item \<Rightarrow> bool" where
  "baseline_candidate item \<longleftrightarrow>
     \<not> wi_symlink item \<and> \<not> wi_dir item \<and> wi_regular item \<and> registry_Detect (wi_path item) \<noteq> None"

lemma baseline_entry_extends: "extends st (baseline_entry L clean identity st)"
  by (auto simp: extends_def baseline_entry_def Let_def)

lemma baseline_walk_extends: "baseline_walk L root items st = Some st' \<Longrightarrow> extends st st'"
proof (induction items arbitrary: st)
  case (Cons item items)
  then show ?case
    using extends_trans [OF baseline_entry_extends]
    by (auto split: if_splits option.splits) blast
qed simp

lemma baseline_walk_covers:
  "baseline_walk L root items st = Some st' \<Longrightarrow> item \<in> set items \<Longrightarrow> baseline_candidate item \<Longrightarrow>
   gm_bool (fw_paths st') (path_clean (wi_path item)) \<and>
   (\<exists>identity. wi_identity item = Some identity \<and>
      gm_bool (fw_objects st') (forwardIdentityKey identity)) \<and>
   (sessionIDFromPath L (path_clean (wi_path item)) \<noteq> [] \<longrightarrow>
      gm_bool (fw_sessions st') (sessionIDFromPath L (path_clean (wi_path item))))"
proof (induction items arbitrary: st)
  case (Cons i items)
  show ?case
  proof (cases "item \<in> set items")
    case True
    with Cons show ?thesis by (auto split: if_splits option.splits)
  next
    case False
    with Cons.prems have item: "item = i" "baseline_candidate i" by auto
    with Cons.prems obtain identity where
      f: "forwardSourceIdentity root (path_clean (wi_path i)) (wi_identity i) = Some identity"
      and r: "baseline_walk L root items (baseline_entry L (path_clean (wi_path i)) identity st) =
        Some st'"
      by (auto simp: baseline_candidate_def split: if_splits option.splits)
    from f have "wi_identity i = Some identity"
      by (auto simp: forwardSourceIdentity_def split: option.splits)
    with baseline_walk_extends [OF r] item show ?thesis
      by (auto simp: extends_def baseline_entry_def Let_def)
  qed
qed simp

lemma baseline_extends: "baselineForwardPaths L roots st = Some st' \<Longrightarrow> extends st st'"
proof (induction roots arbitrary: st)
  case (Cons r roots)
  then show ?case
    using extends_trans [OF baseline_walk_extends] by (auto split: if_splits option.splits) blast
qed simp

lemma baseline_covers:
  "baselineForwardPaths L roots st = Some st' \<Longrightarrow> r \<in> set roots \<Longrightarrow> item \<in> set (wr_items r) \<Longrightarrow>
   baseline_candidate item \<Longrightarrow>
   gm_bool (fw_paths st') (path_clean (wi_path item)) \<and>
   (\<exists>identity. wi_identity item = Some identity \<and>
      gm_bool (fw_objects st') (forwardIdentityKey identity)) \<and>
   (sessionIDFromPath L (path_clean (wi_path item)) \<noteq> [] \<longrightarrow>
      gm_bool (fw_sessions st') (sessionIDFromPath L (path_clean (wi_path item))))"
proof (induction roots arbitrary: st)
  case (Cons q roots)
  then obtain st1 where w: "baseline_walk L (wr_path q) (wr_items q) st = Some st1"
    and b: "baselineForwardPaths L roots st1 = Some st'"
    by (auto split: if_splits option.splits)
  show ?case
  proof (cases "r \<in> set roots")
    case True
    with Cons b show ?thesis by blast
  next
    case False
    with Cons.prems have "item \<in> set (wr_items q)" by auto
    from baseline_walk_covers [OF w this Cons.prems(4)] baseline_extends [OF b] show ?thesis
      by (auto simp: extends_def)
  qed
qed simp

end
