(* ===== verification/Forward_Example.thy ===== *)
theory Forward_Example
  imports Forward
begin

text \<open>
  A small concrete run of the forward producer, on which its theorems are applied: one root with
  one existing transcript, and a second transcript that appears later and is uploaded.
\<close>

section \<open>A codec for finitely many states\<close>

definition table_codec :: "forward_state list \<Rightarrow> forward_codec" where
  "table_codec sts =
     \<lparr>fc_marshal = (\<lambda>st. if st \<in> set sts
        then Some (replicate (length (takeWhile (\<lambda>x. x \<noteq> st) sts)) (CHR ''x'')) else None),
      fc_tokens = (\<lambda>_. Some JNull),
      fc_decode = (\<lambda>p. if length p < length sts then Some (sts ! length p) else None)\<rparr>"

lemma table_codec_decode:
  "fc_marshal (table_codec sts) st = Some p \<Longrightarrow> fc_decode (table_codec sts) p = Some st"
proof -
  assume "fc_marshal (table_codec sts) st = Some p"
  then have "st \<in> set sts" and p: "length p = length (takeWhile (\<lambda>x. x \<noteq> st) sts)"
    by (auto simp: table_codec_def split: if_splits)
  then have "length p < length sts"
    by (metis (mono_tags, lifting) length_takeWhile_le nat_less_le takeWhile_eq_all_conv takeWhile_eq_take
        take_all order_refl)
  then show ?thesis
    using nth_length_takeWhile [of "\<lambda>x. x \<noteq> st" sts] by (simp add: table_codec_def p)
qed

section \<open>A transcript\<close>

text \<open>One Antigravity event, dated 50.\<close>

definition forward_golib :: golib where
  "forward_golib = example_golib
     \<lparr>json_unmarshal := (\<lambda>s. if s = ''{}'' then Some (JObj [(''created_at'', JStr ''t''),
                                (''content'', JStr ''hi'')]) else None),
      time_parse := (\<lambda>s. if s = ''t'' then Some 50 else None)\<rparr>"

definition example_registry :: registry where
  "example_registry = \<lparr>rg_machine = ''m'', rg_max_bytes = 100\<rparr>"

definition example_identity :: root_identity where
  "example_identity = \<lparr>ri_volume = 1, ri_object = 2\<rparr>"

definition example_path :: string where
  "example_path = ''/w/brain/s/transcript_full.jsonl''"

definition example_snapshot :: snapshot where
  "example_snapshot = \<lparr>sn_path = example_path, sn_identity = example_identity, sn_data = ''{}'',
     sn_inspect_fails = False, sn_dispatch_fails = False, sn_close_ok = True\<rparr>"

text \<open>An entry of the walk; \<open>old\<close> names the transcript that exists before the producer.\<close>

definition old_path :: string where
  "old_path = ''/w/brain/r/transcript_full.jsonl''"

definition forward_item :: "string \<Rightarrow> root_identity \<Rightarrow> 'e \<Rightarrow> 'e walk_item" where
  "forward_item path identity e =
     \<lparr>wi_root = ''/w'', wi_path = path, wi_err = False, wi_cancelled = False, wi_symlink = False,
      wi_dir = False, wi_regular = True, wi_identity = Some identity,
      wi_attempt = \<lparr>at_snapshot = Some (example_snapshot\<lparr>sn_path := path, sn_identity := identity\<rparr>),
        at_upsert = True, at_disk = e\<rparr>\<rparr>"

definition example_watch_root :: "'e \<Rightarrow> 'e watch_root" where
  "example_watch_root e =
     \<lparr>wr_path = ''/w'', wr_identity = Some \<lparr>ri_volume = 1, ri_object = 1\<rparr>, wr_verified = True,
      wr_reverified = True,
      wr_items = [forward_item old_path \<lparr>ri_volume = 1, ri_object = 9\<rparr> e]\<rparr>"

section \<open>The states of the run\<close>

definition example_base :: forward_state where
  "example_base =
     \<lparr>fw_version = 1, fw_cutoff = 10,
      fw_roots = [\<lparr>fr_path = ''/w'', fr_volume = 1, fr_object = 1\<rparr>],
      fw_paths = GoMap [(old_path, True)],
      fw_objects = GoMap [(forwardIdentityKey \<lparr>ri_volume = 1, ri_object = 9\<rparr>, True)],
      fw_sessions = GoMap [], fw_progress = GoMap []\<rparr>"

definition example_done :: forward_state where
  "example_done = example_base\<lparr>fw_progress := GoMap [(example_path, replicate 64 (CHR ''0''))]\<rparr>"

definition example_codec :: forward_codec where
  "example_codec = table_codec [example_base, example_done]"

definition example_world :: "'d \<Rightarrow> 'd world" where
  "example_world d = \<lparr>wd_state = example_base, wd_disk = d, wd_log = [], wd_ready = False\<rparr>"

text \<open>The chunk that the transcript gives.\<close>

definition example_turn :: chunk where
  "example_turn = zero_chunk
     \<lparr>ck_id := replicate 16 (CHR ''0''),
      ck_content := ''Source: unknown'' @ [CHR 0x0A, CHR 0x0A] @ ''Type: unknown'' @
        [CHR 0x0A, CHR 0x0A] @ ''Status: unknown'' @ [CHR 0x0A, CHR 0x0A] @ ''Content:'' @
        [CHR 0x0A] @ ''hi'',
      ck_type := ''turn'', ck_session := ''s'', ck_project_path := ''/antigravity/s'',
      ck_project_name := ''Antigravity Session'', ck_timestamp := 50, ck_model := ''gemini-unknown'',
      ck_source_file := example_path, ck_source_line := 1, ck_machine := ''m''\<rparr>"

section \<open>Evaluation\<close>

lemma example_parts: "relativeParts ''/w'' example_path = Some [''brain'', ''s'', ''transcript_full.jsonl'']"
  and old_parts: "relativeParts ''/w'' old_path = Some [''brain'', ''r'', ''transcript_full.jsonl'']"
  by code_simp+

lemma example_paths [simp]:
  "path_clean example_path = example_path" "path_clean old_path = old_path"
  "registry_Detect example_path = Some KAntigravity" "registry_Detect old_path = Some KAntigravity"
  "example_path \<noteq> old_path" "sessionIDFromPath L old_path = []"
  by (code_simp)+

lemma example_parse:
  assumes "2 \<le> limit" "limit \<le> 100"
  shows "antigravity_Parse forward_golib (Some \<lparr>rd_data = ''{}'', rd_fails = False\<rparr>) limit =
     Inr ([\<lparr>ae_id = [], ae_source = [], ae_type = [], ae_status = [], ae_content = ''hi'',
            ae_thinking = [], ae_calls = [], ae_time = 50, ae_has_time = True, ae_step = ''0'',
            ae_line = 1\<rparr>], [])"
proof -
  have "antigravity_parseEvent forward_golib 1 ''{}'' =
      Inr \<lparr>ae_id = [], ae_source = [], ae_type = [], ae_status = [], ae_content = ''hi'',
            ae_thinking = [], ae_calls = [], ae_time = 50, ae_has_time = True, ae_step = ''0'',
            ae_line = 1\<rparr>"
    by code_simp
  moreover have "trim_space ''{}'' = ''{}''" by (simp add: trim_space_solid solid_def byte_of_def)
  ultimately show ?thesis
    using assms
    by (simp add: antigravity_Parse_def jsonl_parse_def byte_limit_def antigravity_MaxFileBytes_def
        read_bounded_def line_too_long_def MaxLineBytes_def)
qed

lemma example_dispatch:
  "registry_Dispatch forward_golib example_registry KAntigravity
     (Some \<lparr>rd_data = ''{}'', rd_fails = False\<rparr>) example_path = Inr [example_turn]"
proof -
  have "antigravity_event_chunks forward_golib (registry_source example_registry example_path)
      (antigravity_sessionID example_path)
      \<lparr>ae_id = [], ae_source = [], ae_type = [], ae_status = [], ae_content = ''hi'',
            ae_thinking = [], ae_calls = [], ae_time = 50, ae_has_time = True, ae_step = ''0'',
            ae_line = 1\<rparr> = [example_turn]"
    by code_simp
  moreover have "example_path \<noteq> []" "\<not> has_suffix ''.pb'' example_path" by code_simp+
  ultimately show ?thesis
    by (simp add: registry_Dispatch_def Let_def antigravity_Chunks_def registry_source_def
        example_registry_def example_parse)
qed

lemma example_eligible:
  "inspectForwardEligibility forward_golib KAntigravity example_snapshot 10 = (ForwardAccept, [])"
proof -
  have "map ascii_lower (path_ext example_path) \<noteq> ''.pb''" by code_simp
  then show ?thesis
    by (simp add: inspectForwardEligibility_def Let_def antigravity_eligibility_def example_snapshot_def
        example_parse forward_issues_def classifyForwardTimes_def is_zero_time_def zero_time_def)
qed

lemma example_marshal:
  "fc_marshal example_codec example_base = Some []" "fc_marshal example_codec example_done = Some ''x''"
  by (simp_all add: example_codec_def table_codec_def example_done_def example_base_def)

lemma example_process:
  assumes "put e d ''x'' = (True, d')"
  shows "processForwardPath forward_golib example_codec put example_registry ''/w'' example_path
     KAntigravity example_identity
     \<lparr>at_snapshot = Some example_snapshot, at_upsert = True, at_disk = e\<rparr> (example_world d) =
     (None, \<lparr>wd_state = example_done, wd_disk = d', wd_log = [[example_turn]], wd_ready = False\<rparr>)"
proof -
  have sn: "sn_data example_snapshot = ''{}''" "\<not> sn_dispatch_fails example_snapshot"
    "sn_close_ok example_snapshot" "sn_identity example_snapshot = example_identity"
    "example_identity \<noteq> zero_identity" "sha256_hex forward_golib ''{}'' = replicate 64 (CHR ''0'')"
    "fw_cutoff example_base = 10"
    by (simp_all add: example_snapshot_def example_identity_def zero_identity_def forward_golib_def
        example_golib_def example_base_def)
  have free: "\<not> gm_bool (fw_objects example_base) (forwardIdentityKey example_identity)"
    "gm_str (fw_progress example_base) example_path = []"
    "find (forward_chunk_refused forward_golib example_base) [example_turn] = None"
    by code_simp+
  have prog: "forward_progressed example_path (replicate 64 (CHR ''0'')) example_base = example_done"
    by (simp add: forward_progressed_def cloneForwardState_def example_done_def example_base_def
        gm_put_def gm_clone_def)
  have "forward_persist example_codec put e example_done
      (example_world d\<lparr>wd_log := [[example_turn]]\<rparr>) =
      (None, \<lparr>wd_state = example_done, wd_disk = d', wd_log = [[example_turn]], wd_ready = False\<rparr>)"
    using assms by (simp add: forward_persist_def writeForwardState_def example_marshal
        maxForwardStateBytes_def example_world_def)
  then have "forward_upload forward_golib example_codec put example_registry example_path
      KAntigravity example_identity
      \<lparr>at_snapshot = Some example_snapshot, at_upsert = True, at_disk = e\<rparr> example_snapshot []
      (example_world d) =
      (None, \<lparr>wd_state = example_done, wd_disk = d', wd_log = [[example_turn]], wd_ready = False\<rparr>)"
    using sn free(3) by (simp add: forward_upload_def example_dispatch Let_def example_world_def prog)
  then show ?thesis
    using sn free example_eligible example_parts
    by (simp add: processForwardPath_def example_world_def containsExcludedSession_def)
qed

lemma example_first:
  assumes "put e d [] = (True, d')"
  shows "newForwardProducer forward_golib example_codec put [example_watch_root e'] 10 (Inr None) e d =
     (Inr (example_world d'), d')"
proof -
  have "baselineForwardPaths forward_golib [example_watch_root e']
      (initial_forward_state 10 [\<lparr>fr_path = ''/w'', fr_volume = 1, fr_object = 1\<rparr>]) = Some example_base"
    by (simp add: example_watch_root_def forward_item_def forwardSourceIdentity_def old_parts
        baseline_entry_def initial_forward_state_def forwardStateVersion_def example_base_def
        gm_put_def Let_def)
  then show ?thesis
    using assms
    by (simp add: newForwardProducer_def example_watch_root_def writeForwardState_def example_marshal
        maxForwardStateBytes_def example_world_def)
qed

lemma example_scan:
  assumes "put e d ''x'' = (True, d')"
  shows "scanForward forward_golib example_codec put example_registry
     [forward_item example_path example_identity e] (example_world d) =
     (None, \<lparr>wd_state = example_done, wd_disk = d', wd_log = [[example_turn]], wd_ready = True\<rparr>)"
proof -
  let ?i = "forward_item example_path example_identity e"
  have free: "\<not> gm_bool (fw_paths example_base) example_path"
    "\<not> gm_bool (fw_objects example_base) (forwardIdentityKey example_identity)"
    by code_simp+
  have i: "wi_attempt ?i = \<lparr>at_snapshot = Some example_snapshot, at_upsert = True, at_disk = e\<rparr>"
    "wi_root ?i = ''/w''" "wi_path ?i = example_path" "wi_identity ?i = Some example_identity"
    "\<not> wi_err ?i" "\<not> wi_cancelled ?i" "\<not> wi_symlink ?i" "\<not> wi_dir ?i" "wi_regular ?i"
    by (simp_all add: forward_item_def example_snapshot_def)
  have "forward_visit forward_golib example_codec put example_registry ?i 0 (example_world d) =
      (None, 1, \<lparr>wd_state = example_done, wd_disk = d', wd_log = [[example_turn]], wd_ready = False\<rparr>)"
    using example_process [of put e d d'] assms free i
    by (simp add: forward_visit_def Let_def forwardSourceIdentity_def example_parts MaxFilesPerScan_def)
       (simp add: example_world_def)
  then show ?thesis by (simp add: scanForward_def)
qed

end
