(* ===== verification/Forward_Valid.thy ===== *)
theory Forward_Valid
  imports Forward_Safety Forward_Example
begin

text \<open>
  The state that the forward producer writes is one that it accepts when it starts again:
  the validation of \<open>loadForwardState\<close> is an invariant of the baseline and of every scan.  What
  this needs of the Go library is \<open>golib_ok\<close>: a SHA-256 prints as 64 hexadecimal digits, and
  lower-casing does not turn a text into white space.
\<close>

definition golib_ok :: "golib \<Rightarrow> bool" where
  "golib_ok L \<longleftrightarrow>
     (\<forall>s. length (sha256_hex L s) = 64 \<and> list_all is_lower_hex (sha256_hex L s)) \<and>
     (\<forall>s. trim_space s \<noteq> [] \<longrightarrow> trim_space (unicode_lower L s) \<noteq> [])"

section \<open>Trimming and lower case\<close>

text \<open>Lower-casing ASCII letters commutes with trimming.\<close>

definition caseless :: "char \<Rightarrow> bool" where
  "caseless c \<longleftrightarrow> (\<forall>x. ascii_lower x = c \<longleftrightarrow> x = c)"

lemma byte_of_lower:
  "byte_of (ascii_lower x) = (if 65 \<le> byte_of x \<and> byte_of x \<le> 90 then byte_of x + 32 else byte_of x)"
proof -
  have "byte_of (CHR ''A'') = 65" "byte_of (CHR ''Z'') = 90"
    by (simp_all add: byte_of_def)
  then show ?thesis by (auto simp: ascii_lower_def less_eq_char_byte)
qed

lemma caselessI:
  assumes "byte_of c < 65 \<or> 122 < byte_of c"
  shows "caseless c"
  unfolding caseless_def
proof (intro allI iffI)
  fix x
  assume "ascii_lower x = c"
  then have "byte_of (ascii_lower x) = byte_of c" by simp
  with assms have "byte_of x = byte_of c" by (auto simp: byte_of_lower split: if_splits)
  then show "x = c" by simp
next
  fix x
  assume "x = c"
  then have "byte_of (ascii_lower x) = byte_of c" using assms by (auto simp: byte_of_lower)
  then show "ascii_lower x = c" by simp
qed

lemma space_encodings_caseless: "w \<in> set space_encodings \<Longrightarrow> c \<in> set w \<Longrightarrow> caseless c"
proof -
  have "list_all (list_all (\<lambda>c. byte_of c < 65 \<or> 122 < byte_of c)) space_encodings"
    by code_simp
  then show "w \<in> set space_encodings \<Longrightarrow> c \<in> set w \<Longrightarrow> caseless c"
    by (auto simp: list_all_iff intro: caselessI)
qed

lemma has_prefix_map_lower:
  assumes "\<And>c. c \<in> set w \<Longrightarrow> caseless c"
  shows "has_prefix w (map ascii_lower s) \<longleftrightarrow> has_prefix w s"
  using assms
proof (induction w arbitrary: s)
  case (Cons c w)
  then show ?case by (cases s) (auto simp: has_prefix_def caseless_def)
qed (simp add: has_prefix_def)

lemma strip_left_map_lower:
  assumes "\<And>w c. w \<in> set ws \<Longrightarrow> c \<in> set w \<Longrightarrow> caseless c"
  shows "strip_left ws (map ascii_lower s) = map ascii_lower (strip_left ws s)"
  using assms
proof (induction ws s rule: strip_left.induct)
  case (1 ws s)
  have same: "find (\<lambda>w. w \<noteq> [] \<and> has_prefix w (map ascii_lower s)) ws =
      find (\<lambda>w. w \<noteq> [] \<and> has_prefix w s) ws"
    using "1.prems" has_prefix_map_lower by (intro find_cong) auto
  show ?case
  proof (cases "find (\<lambda>w. w \<noteq> [] \<and> has_prefix w s) ws")
    case None
    with same show ?thesis
      by (simp add: strip_left.simps [of ws s] strip_left.simps [of ws "map ascii_lower s"])
  next
    case (Some w)
    with same "1.IH" "1.prems" show ?thesis
      by (simp add: strip_left.simps [of ws s] strip_left.simps [of ws "map ascii_lower s"] drop_map)
  qed
qed

lemma trim_space_map_lower: "trim_space (map ascii_lower s) = map ascii_lower (trim_space s)"
proof -
  have "strip_left space_encodings (map ascii_lower s) = map ascii_lower (strip_left space_encodings s)"
    by (rule strip_left_map_lower) (rule space_encodings_caseless)
  moreover have "strip_left (map rev space_encodings) (map ascii_lower u) =
      map ascii_lower (strip_left (map rev space_encodings) u)" for u
    by (rule strip_left_map_lower) (auto intro: space_encodings_caseless)
  ultimately show ?thesis by (simp add: trim_space_def rev_map)
qed

lemma trim_space_to_lower:
  "golib_ok L \<Longrightarrow> trim_space s \<noteq> [] \<Longrightarrow> trim_space (to_lower L s) \<noteq> []"
  by (auto simp: to_lower_def trim_space_map_lower golib_ok_def)

lemma to_lower_Nil [simp]: "to_lower L [] = []"
  by (simp add: to_lower_def)

section \<open>Keys and digests\<close>

lemma forwardIdentityKey_ok: "forwardObjectID (forwardIdentityKey i)"
  by (simp add: forwardObjectID_def forwardIdentityKey_def hex_pad_lower nth_append)

lemma forwardIdentityKey_inj: "forwardIdentityKey a = forwardIdentityKey b \<longleftrightarrow> a = b"
proof
  assume eq: "forwardIdentityKey a = forwardIdentityKey b"
  have "unat w < 16 ^ 16" for w :: "64 word"
  proof -
    have "unat w < 2 ^ LENGTH(64)" by (rule unsigned_less)
    then show ?thesis by simp
  qed
  moreover have "hex_pad 16 (unat (ri_volume a)) = hex_pad 16 (unat (ri_volume b))"
    and "hex_pad 16 (unat (ri_object a)) = hex_pad 16 (unat (ri_object b))"
    using eq by (simp_all add: forwardIdentityKey_def)
  ultimately have "unat (ri_volume a) = unat (ri_volume b)" "unat (ri_object a) = unat (ri_object b)"
    using hex_pad_inj by blast+
  then show "a = b" by (simp add: word_unat_eq_iff)
qed simp

lemma digest_decodes:
  "golib_ok L \<Longrightarrow> hex_decodes (sha256_hex L s) \<and> length (sha256_hex L s) = 64"
  by (auto simp: golib_ok_def hex_decodes_def is_hex_def list_all_iff)

lemma find_uuid_cases: "find_uuid s = [] \<or> uuid_text (find_uuid s)"
  by (induction s) auto

lemma hex_byte: "is_hex c \<Longrightarrow> byte_of c < 128 \<and> 32 < byte_of c"
  by (auto simp: is_hex_def is_lower_hex_def less_eq_char_byte byte_of_def)

section \<open>Preservation\<close>

lemma gm_put_not_nil [simp]: "gm_put k v m \<noteq> NilMap" "gm_clone m \<noteq> NilMap"
  by (simp_all add: gm_put_def gm_clone_def)

lemma exclude_sessions_valid:
  assumes "golib_ok L" "gm_all (\<lambda>s e. e \<and> trim_space s \<noteq> []) m" "m \<noteq> NilMap"
  shows "gm_all (\<lambda>s e. e \<and> trim_space s \<noteq> []) (exclude_sessions L sessions m) \<and>
         exclude_sessions L sessions m \<noteq> NilMap"
  using assms(2,3) unfolding exclude_sessions_def
proof (induction sessions arbitrary: m)
  case (Cons s sessions)
  let ?t = "to_lower L (trim_space s)"
  have "trim_space ?t \<noteq> []" if "reliableForwardSession ?t"
  proof -
    have "trim_space s \<noteq> []" using that by (auto simp: reliableForwardSession_def)
    then show ?thesis using trim_space_to_lower [OF assms(1), of "trim_space s"] by simp
  qed
  with Cons show ?case by (simp add: Let_def gm_all_put)
qed simp

lemma forward_refused_valid:
  assumes "golib_ok L" "validateForwardState st" "abs_clean path"
  shows "validateForwardState (forward_refused L path identity sessions st)"
proof -
  have "gm_all (\<lambda>s e. e \<and> trim_space s \<noteq> []) (gm_clone (fw_sessions st))"
    using assms(2) by (simp add: validateForwardState_def)
  from exclude_sessions_valid [OF assms(1) this] assms show ?thesis
    by (simp add: validateForwardState_def forward_refused_def cloneForwardState_def Let_def gm_all_put
        forwardIdentityKey_ok)
qed

lemma forward_progressed_valid:
  assumes "golib_ok L" "validateForwardState st" "abs_clean path"
  shows "validateForwardState (forward_progressed path (sha256_hex L s) st)"
  using assms digest_decodes [OF assms(1), of s]
  by (simp add: validateForwardState_def forward_progressed_def cloneForwardState_def Let_def
      gm_all_put)

lemma relativeParts_abs_clean: "relativeParts root path = Some parts \<Longrightarrow> abs_clean path"
  by (auto simp: relativeParts_def abs_clean_def split: if_splits)

lemma process_valid:
  assumes "golib_ok L" "validateForwardState (wd_state w)"
    and "processForwardPath L codec put rg root path kind identity a w = (err, w')"
  shows "validateForwardState (wd_state w')"
proof (cases "relativeParts root path")
  case None
  with assms show ?thesis by (simp add: processForwardPath_def)
next
  case (Some parts)
  then have path: "abs_clean path" by (rule relativeParts_abs_clean)
  have refused: "validateForwardState (wd_state v)"
    if "refuseForwardPath L codec put e path identity ss w = (err, v)" for e ss v
    using forward_persist_world [OF that [unfolded refuseForwardPath_def]]
      forward_refused_valid [OF assms(1,2) path] assms(2) by auto
  from assms(3) show ?thesis
  proof (cases rule: process_cases)
    case (refuse sessions)
    then show ?thesis by (rule refused)
  next
    case (upload sn sessions)
    show ?thesis
    proof (cases "wd_state w' = wd_state w")
      case False
      with upload obtain ss chunks where
        "refuseForwardPath L codec put (at_disk a) path identity ss w = (err, w') \<or>
         forward_persist codec put (at_disk a)
           (forward_progressed path (sha256_hex L (sn_data sn)) (wd_state w))
           (w\<lparr>wd_log := wd_log w @ [chunks]\<rparr>) = (err, w')"
        by (auto simp: forward_upload_def Let_def split: sum.splits if_splits option.splits)
      then show ?thesis
        using refused forward_persist_world forward_progressed_valid [OF assms(1,2) path] False
        by fastforce
    qed (use assms(2) in simp)
  qed (use assms(2) in simp)
qed

lemma walk_valid:
  assumes "golib_ok L" "validateForwardState (wd_state w)"
    and "forward_walk L codec put rg items seen w = (err, w')"
  shows "validateForwardState (wd_state w')"
  using assms(2,3)
proof (induction items arbitrary: seen w)
  case (Cons item items)
  obtain err1 seen1 w1 where v: "forward_visit L codec put rg item seen w = (err1, seen1, w1)"
    by (cases "forward_visit L codec put rg item seen w") auto
  have "w1 = w \<or> (\<exists>path kind identity.
      processForwardPath L codec put rg (wi_root item) path kind identity (wi_attempt item) w =
        (err1, w1))"
    using v unfolding forward_visit_def Let_def
    by (auto split: if_splits option.splits prod.splits)
  then have "validateForwardState (wd_state w1)"
    using process_valid [OF assms(1) Cons.prems(1)] Cons.prems(1) by auto
  with Cons v show ?case by (cases err1) auto
qed simp

section \<open>The initial state\<close>

lemma uuid_solid:
  assumes "uuid_text s"
  shows "trim_space s = s"
proof -
  have len: "length s = 36" and hex: "is_hex (s ! 0)" "is_hex (s ! 35)"
    using assms by (auto simp: uuid_text_def list_all_iff)
  then have "s \<noteq> []" by auto
  with len have "hd s = s ! 0" "last s = s ! 35"
    by (simp_all add: hd_conv_nth last_conv_nth)
  with hex hex_byte \<open>s \<noteq> []\<close> show ?thesis by (intro trim_space_solid) (auto simp: solid_def)
qed

lemma session_nonblank:
  assumes "golib_ok L" "sessionIDFromPath L path \<noteq> []"
  shows "trim_space (sessionIDFromPath L path) \<noteq> []"
proof -
  let ?u = "find_uuid (path_base path)"
  have "?u \<noteq> []" using assms(2) by (auto simp: sessionIDFromPath_def)
  then have "uuid_text ?u" using find_uuid_cases by blast
  with \<open>?u \<noteq> []\<close> uuid_solid have "trim_space ?u \<noteq> []" by simp
  then show ?thesis using trim_space_to_lower [OF assms(1)] by (simp add: sessionIDFromPath_def)
qed

lemma baseline_walk_valid:
  assumes "golib_ok L" "validateForwardState st" "baseline_walk L root items st = Some st'"
  shows "validateForwardState st'"
  using assms(2,3)
proof (induction items arbitrary: st)
  case (Cons item items)
  have entry: "validateForwardState (baseline_entry L clean identity st)"
    if "forwardSourceIdentity root clean answer = Some identity" for clean answer identity
  proof -
    have "abs_clean clean"
      using that relativeParts_abs_clean by (auto simp: forwardSourceIdentity_def split: option.splits)
    then show ?thesis
      using Cons.prems(1) session_nonblank [OF assms(1), of clean] forwardIdentityKey_ok [of identity]
      by (simp add: validateForwardState_def baseline_entry_def Let_def gm_all_put)
  qed
  from Cons.prems Cons.IH entry show ?case by (auto split: if_splits option.splits)
qed simp

lemma baseline_valid:
  assumes "golib_ok L" "validateForwardState st" "baselineForwardPaths L roots st = Some st'"
  shows "validateForwardState st'"
  using assms(2,3)
proof (induction roots arbitrary: st)
  case (Cons r roots)
  then obtain st1 where w: "baseline_walk L (wr_path r) (wr_items r) st = Some st1"
    and b: "baselineForwardPaths L roots st1 = Some st'"
    by (auto split: if_splits option.splits)
  from Cons.IH [OF baseline_walk_valid [OF assms(1) Cons.prems(1) w] b] show ?case .
qed simp

text \<open>The paths that \<open>NewProducer\<close> accepts give valid roots.\<close>

lemma currentForwardRoots_paths:
  "currentForwardRoots roots = Some frs \<Longrightarrow> map fr_path frs = map wr_path roots"
  by (induction roots arbitrary: frs) (auto split: option.splits)

lemma forward_roots_validI:
  "list_all abs_clean (map fr_path rs) \<Longrightarrow> sorted (map fr_path rs) \<Longrightarrow> distinct (map fr_path rs) \<Longrightarrow>
   forward_roots_valid rs"
  by (induction rs rule: forward_roots_valid.induct) (auto simp: less_le)

lemma newProducer_roots_valid:
  assumes "newProducer_paths paths = Some (map wr_path roots)"
    and "currentForwardRoots roots = Some frs"
  shows "forward_roots_valid frs" "frs \<noteq> []"
proof -
  have ps: "map fr_path frs = sort paths" "paths \<noteq> []" "distinct (sort paths)"
    "list_all abs_clean (sort paths)"
    using assms currentForwardRoots_paths [OF assms(2)]
    by (auto simp: newProducer_paths_def Let_def split: if_splits)
  show "forward_roots_valid frs"
    using ps by (intro forward_roots_validI) (simp_all add: ps(1))
  show "frs \<noteq> []" using ps(1,2) by (cases frs) (auto dest: arg_cong [where f = set])
qed

lemma newForwardProducer_valid:
  assumes "golib_ok L" "newProducer_paths paths = Some (map wr_path roots)" "\<not> is_zero_time now"
    and "newForwardProducer L codec put roots now stored e d = (Inr w, d')"
  shows "validateForwardState (wd_state w)"
proof -
  from assms(4) obtain current where c: "currentForwardRoots roots = Some current"
    by (auto simp: newForwardProducer_def split: option.splits)
  show ?thesis
  proof (cases "stored = Inr None")
    case True
    have "validateForwardState (initial_forward_state now current)"
      using newProducer_roots_valid [OF assms(2) c] assms(3)
      by (simp add: validateForwardState_def initial_forward_state_def)
    from baseline_valid [OF assms(1) this] show ?thesis
      using assms(4) c True
      by (auto simp: newForwardProducer_def split: option.splits prod.splits bool.splits)
  next
    case False
    then show ?thesis
      using assms(4) c
      by (auto simp: newForwardProducer_def decodeForwardState_def
          split: option.splits sum.splits if_splits)
  qed
qed

section \<open>Properties\<close>

text \<open>C20: a producer that was created from accepted roots never holds a state that its own loader
  would reject: whatever a scan meets, the state it leaves passes \<open>validateForwardState\<close>.\<close>

theorem scan_keeps_valid:
  assumes "golib_ok L" "newProducer_paths paths = Some (map wr_path roots)" "\<not> is_zero_time now"
    and "newForwardProducer L codec put roots now stored e d = (Inr w, d')"
    and "scanForward L codec put rg items w = (err, w')"
  shows "validateForwardState (wd_state w')"
proof -
  obtain w1 where "forward_walk L codec put rg items 0 w = (err, w1)" "wd_state w' = wd_state w1"
    using assms(5) by (auto simp: scanForward_def split: prod.splits)
  with walk_valid [OF assms(1) newForwardProducer_valid [OF assms(1-4)]] show ?thesis by simp
qed

lemma forward_golib_ok: "golib_ok forward_golib"
  by (simp add: golib_ok_def forward_golib_def example_golib_def list_all_iff is_lower_hex_def
      less_eq_char_byte byte_of_def)

theorem scan_keeps_valid_witness: "validateForwardState example_done"
proof -
  let ?put = "\<lambda>(_::unit) (d::string list) p. (True, p # d)"
  have "newProducer_paths [''/w''] = Some (map wr_path [example_watch_root ()])"
    "\<not> is_zero_time 10"
    by code_simp+
  from scan_keeps_valid [OF forward_golib_ok this example_first example_scan,
      of ?put "()" "[]" "[[]]" "()" "[''x'', []]"]
  show ?thesis by simp
qed

text \<open>Two source files have the same entry among the excluded objects only if they are the
  same object of the same volume, and the key has the form that the loader demands.\<close>

theorem forwardIdentityKey_faithful:
  "(forwardIdentityKey a = forwardIdentityKey b \<longleftrightarrow> a = b) \<and> forwardObjectID (forwardIdentityKey a)"
  by (simp add: forwardIdentityKey_inj forwardIdentityKey_ok)

end
