(* ===== verification/Forward_Progress.thy ===== *)
theory Forward_Progress
  imports Forward_Example
begin

text \<open>
  What a processed path leaves behind: the progress map is written only after the sink took the
  chunks, a failure loses nothing, and a path that has been dealt with is not dealt with again.
\<close>

section \<open>Lemmas\<close>

lemma forward_close_None [simp]:
  "forward_close sn w = (None, w') \<longleftrightarrow> sn_close_ok sn \<and> w' = w"
  by (auto simp: forward_close_def)

lemma forward_persist_None:
  "forward_persist codec put e st w = (None, w') \<Longrightarrow> wd_state w' = st"
  by (auto simp: forward_persist_def split: prod.splits if_splits)

text \<open>A path whose object is excluded, or whose digest is the recorded one, is left alone.\<close>

definition settled :: "golib \<Rightarrow> string \<Rightarrow> snapshot \<Rightarrow> forward_state \<Rightarrow> bool" where
  "settled L path sn st \<longleftrightarrow>
     gm_bool (fw_objects st) (forwardIdentityKey (sn_identity sn)) \<or>
     gm_str (fw_progress st) path = sha256_hex L (sn_data sn)"

lemma process_settled:
  assumes "relativeParts root path \<noteq> None" "at_snapshot a = Some sn" "sn_close_ok sn"
    and "sn_identity sn \<noteq> zero_identity" "sn_identity sn = identity"
    and "settled L path sn (wd_state w)"
  shows "processForwardPath L codec put rg root path kind identity a w = (None, w)"
  using assms by (auto simp: processForwardPath_def settled_def)

lemma refused_settled:
  "sn_identity sn = identity \<Longrightarrow> settled L path sn (forward_refused L path identity sessions st)"
  by (simp add: settled_def forward_refused_def Let_def)

lemma progressed_settled: "settled L path sn (forward_progressed path (sha256_hex L (sn_data sn)) st)"
  by (simp add: settled_def forward_progressed_def Let_def)

text \<open>The ways in which the upload ends without an error.\<close>

lemma upload_ok:
  assumes "forward_upload L codec put rg path kind identity a sn sessions w = (None, w')"
    and "sn_identity sn = identity"
  shows "sn_close_ok sn \<and> (w' = w \<or> settled L path sn (wd_state w'))"
  using assms refused_settled progressed_settled
  by (auto simp: forward_upload_def refuseForwardPath_def Let_def dest!: forward_persist_None
      split: sum.splits if_splits option.splits)

lemma process_ok:
  assumes "processForwardPath L codec put rg root path kind identity a w = (None, w')"
  obtains sn where "relativeParts root path \<noteq> None" "at_snapshot a = Some sn" "sn_close_ok sn"
    "sn_identity sn \<noteq> zero_identity" "sn_identity sn = identity"
    "w' = w \<or> settled L path sn (wd_state w')"
proof -
  obtain parts sn where g: "relativeParts root path = Some parts" "at_snapshot a = Some sn"
    using assms by (auto simp: processForwardPath_def split: option.splits)
  have i: "sn_identity sn \<noteq> zero_identity" "sn_identity sn = identity"
    using assms g by (auto simp: processForwardPath_def split: if_splits)
  consider "sn_close_ok sn" "w' = w"
    | sessions where "sn_close_ok sn"
        "refuseForwardPath L codec put (at_disk a) path identity sessions w = (None, w')"
    | sessions where "forward_upload L codec put rg path kind identity a sn sessions w = (None, w')"
    using assms g i by (auto simp: processForwardPath_def split: if_splits prod.splits)
  then have "sn_close_ok sn \<and> (w' = w \<or> settled L path sn (wd_state w'))"
  proof cases
    case 2
    then show ?thesis
      using refused_settled [OF i(2)] by (auto simp: refuseForwardPath_def dest!: forward_persist_None)
  next
    case 3
    then show ?thesis using i(2) by (rule upload_ok)
  qed simp
  with g i that show thesis by auto
qed

lemma persist_progress:
  "forward_persist codec put e st w = (err, w') \<Longrightarrow>
   gm_str (fw_progress (wd_state w')) p \<noteq> gm_str (fw_progress (wd_state w)) p \<Longrightarrow>
   err = None \<and> wd_state w' = st \<and> wd_log w' = wd_log w"
  by (auto simp: forward_persist_def split: prod.splits if_splits)

lemma refuse_progress:
  "refuseForwardPath L codec put e path identity sessions w = (err, w') \<Longrightarrow>
   gm_str (fw_progress (wd_state w')) p = gm_str (fw_progress (wd_state w)) p"
  by (auto simp: refuseForwardPath_def forward_refused_def cloneForwardState_def Let_def
      dest: persist_progress)

lemma refuse_error:
  "refuseForwardPath L codec put e path identity sessions w = (err, w') \<Longrightarrow> err \<noteq> Some UpsertFailed"
  by (auto simp: refuseForwardPath_def forward_persist_def split: prod.splits if_splits)

lemma progressed_str:
  "gm_str (fw_progress (forward_progressed path digest st)) p =
     (if p = path then digest else gm_str (fw_progress st) p)"
  by (simp add: forward_progressed_def cloneForwardState_def Let_def)

lemma upload_progress:
  assumes "forward_upload L codec put rg path kind identity a sn sessions w = (err, w')"
  shows "(gm_str (fw_progress (wd_state w')) p \<noteq> gm_str (fw_progress (wd_state w)) p \<longrightarrow>
      err = None \<and> p = path \<and> at_upsert a \<and>
      (\<exists>chunks. chunks \<noteq> [] \<and>
         registry_Dispatch L rg kind
           (Some \<lparr>rd_data = sn_data sn, rd_fails = sn_dispatch_fails sn\<rparr>) path = Inr chunks \<and>
         wd_log w' = wd_log w @ [chunks]) \<and>
      gm_str (fw_progress (wd_state w')) p = sha256_hex L (sn_data sn)) \<and>
    (err = Some UpsertFailed \<longrightarrow> wd_state w' = wd_state w \<and> wd_disk w' = wd_disk w)"
proof -
  let ?next = "forward_progressed path (sha256_hex L (sn_data sn)) (wd_state w)"
  consider (same) "wd_state w' = wd_state w" "wd_disk w' = wd_disk w"
    | (refuse) ss where "refuseForwardPath L codec put (at_disk a) path identity ss w = (err, w')"
    | (persist) chunks where "at_upsert a" "chunks \<noteq> []"
        "registry_Dispatch L rg kind
           (Some \<lparr>rd_data = sn_data sn, rd_fails = sn_dispatch_fails sn\<rparr>) path = Inr chunks"
        "forward_persist codec put (at_disk a) ?next (w\<lparr>wd_log := wd_log w @ [chunks]\<rparr>) = (err, w')"
    using assms by (auto simp: forward_upload_def Let_def split: sum.splits if_splits option.splits)
  then show ?thesis
  proof cases
    case refuse
    then show ?thesis using refuse_progress refuse_error by metis
  next
    case persist
    then have "err \<noteq> Some UpsertFailed" by (auto simp: forward_persist_def split: prod.splits if_splits)
    with persist persist_progress [OF persist(4), of p] show ?thesis
      by (auto simp: progressed_str split: if_splits)
  qed simp
qed

lemma process_steps:
  assumes "processForwardPath L codec put rg root path kind identity a w = (err, w')"
  obtains (same) "w' = w" "err \<noteq> Some UpsertFailed"
  | (refuse) sessions where
      "refuseForwardPath L codec put (at_disk a) path identity sessions w = (err, w')"
  | (upload) sn sessions where "at_snapshot a = Some sn"
      "forward_upload L codec put rg path kind identity a sn sessions w = (err, w')"
  using assms unfolding processForwardPath_def forward_close_def
  by (auto split: option.splits if_splits prod.splits)

section \<open>Properties\<close>

text \<open>C19: processing is idempotent: once a path has been processed without an error, processing
  it again with the same content changes nothing, neither the state nor what the sink received.\<close>

theorem process_idempotent:
  assumes "processForwardPath L codec put rg root path kind identity a w = (None, w')"
  shows "processForwardPath L codec put rg root path kind identity a w' = (None, w')"
  using assms
proof (cases rule: process_ok)
  case (1 sn)
  then show ?thesis using assms process_settled [OF 1(1-5)] by blast
qed

theorem process_idempotent_witness:
  "processForwardPath forward_golib example_codec (\<lambda>e d p. (True, p # d)) example_registry ''/w''
     example_path KAntigravity example_identity
     \<lparr>at_snapshot = Some example_snapshot, at_upsert = True, at_disk = ()\<rparr>
     \<lparr>wd_state = example_done, wd_disk = [''x''], wd_log = [[example_turn]], wd_ready = False\<rparr> =
   (None, \<lparr>wd_state = example_done, wd_disk = [''x''], wd_log = [[example_turn]], wd_ready = False\<rparr>)"
  by (rule process_idempotent [OF example_process]) simp

text \<open>C18: no transcript is marked as done before it is: the progress of a path changes only when
  the sink accepted all of its chunks, the recorded digest is that of the content they came from,
  and no other path is touched; a refused upload leaves state and disk as they were, so that the
  next scan tries again.\<close>

theorem progress_after_upload:
  assumes "processForwardPath L codec put rg root path kind identity a w = (err, w')"
  shows "(gm_str (fw_progress (wd_state w')) p \<noteq> gm_str (fw_progress (wd_state w)) p \<longrightarrow>
           err = None \<and> p = path \<and> at_upsert a \<and>
           (\<exists>sn chunks. at_snapshot a = Some sn \<and> chunks \<noteq> [] \<and>
              registry_Dispatch L rg kind
                (Some \<lparr>rd_data = sn_data sn, rd_fails = sn_dispatch_fails sn\<rparr>) path = Inr chunks \<and>
              wd_log w' = wd_log w @ [chunks] \<and>
              gm_str (fw_progress (wd_state w')) p = sha256_hex L (sn_data sn))) \<and>
         (err = Some UpsertFailed \<longrightarrow> wd_state w' = wd_state w \<and> wd_disk w' = wd_disk w)"
  using assms
proof (cases rule: process_steps)
  case same
  then show ?thesis by auto
next
  case (refuse sessions)
  then show ?thesis using refuse_progress [OF refuse] refuse_error [OF refuse] by auto
next
  case (upload sn sessions)
  then show ?thesis using upload_progress [OF upload(2)] by (auto simp: upload(1))
qed

theorem progress_after_upload_witness:
  "\<exists>chunks. chunks \<noteq> [] \<and> registry_Dispatch forward_golib example_registry KAntigravity
     (Some \<lparr>rd_data = ''{}'', rd_fails = False\<rparr>) example_path = Inr chunks"
proof -
  have "gm_str (fw_progress example_done) example_path \<noteq> gm_str (fw_progress example_base) example_path"
    by code_simp
  then show ?thesis
    using progress_after_upload [OF example_process, of "\<lambda>e d p. (True, p # d)" "()" "[]" "[''x'']"
        example_path]
    by (simp add: example_world_def example_snapshot_def)
qed

end
