(* ===== verification/Local_Save.thy ===== *)
theory Local_Save
  imports Durable
begin

text \<open>
  The way in which \<open>uploadqueue.save\<close> and \<open>cursor.persist\<close> replace their file: a temporary in
  the same directory, written, synced, closed and renamed, then a sync of the directory.  It
  is a second provider of \<open>atomic_store\<close>.  Also the time values that both packages store.
\<close>

section \<open>Times with a location\<close>

text \<open>\<open>time.Time\<close> as \<open>==\<close> compares it: the instant and a tag for location and monotonic
  reading; tag 0 is UTC without monotonic reading.\<close>

record gotime =
  gt_instant :: instant
  gt_tag :: nat

definition gt_utc :: "gotime \<Rightarrow> gotime" where
  "gt_utc t = t\<lparr>gt_tag := 0\<rparr>"

definition gt_is_zero :: "gotime \<Rightarrow> bool" where
  "gt_is_zero t \<longleftrightarrow> is_zero_time (gt_instant t)"

section \<open>Replacing a file\<close>

record save_faults =
  sf_mkdir :: bool
  sf_token :: "string option"
  sf_write :: "nat option"
  sf_sync :: bool
  sf_close :: bool
  sf_rename :: bool
  sf_dir :: bool
  sf_remove :: bool

text \<open>The deferred \<open>os.Remove\<close> of the temporary.\<close>

definition save_cleanup :: "save_faults \<Rightarrow> string \<Rightarrow> fs \<Rightarrow> fs" where
  "save_cleanup sf temp s = (if sf_remove sf then s else fs_unlink temp s)"

definition local_save :: "string \<Rightarrow> string \<Rightarrow> save_faults \<Rightarrow> fs \<Rightarrow> string \<Rightarrow> bool \<times> fs" where
  "local_save prefix name sf s payload =
     (if sf_mkdir sf then (False, s)
      else (case sf_token sf of
         None \<Rightarrow> (False, s)
       | Some token \<Rightarrow>
           let temp = prefix @ token in
           if fs_dir s temp \<noteq> None then (False, s)
           else
             (case fs_create temp s of (ino, s0) \<Rightarrow>
                let written = (case sf_write sf of None \<Rightarrow> payload | Some k \<Rightarrow> take k payload);
                    s1 = fs_update ino (\<lambda>i. i\<lparr>in_data := written\<rparr>) s0
                in if sf_write sf \<noteq> None \<or> sf_sync sf then (False, save_cleanup sf temp s1)
                   else
                     let s2 = fs_sync_file ino s1 in
                     if sf_close sf \<or> sf_rename sf then (False, save_cleanup sf temp s2)
                     else
                       let s3 = fs_rename temp name s2 in
                       if sf_dir sf then (False, s3) else (True, fs_sync_dir s3))))"

text \<open>A directory in which the temporaries cannot be taken for the file itself.\<close>

definition save_good :: "string \<Rightarrow> string \<Rightarrow> fs \<Rightarrow> bool" where
  "save_good prefix name s \<longleftrightarrow> fs_wf s \<and> \<not> has_prefix prefix name"

lemma cleanup_views:
  assumes "staged s temp ino t" "fs_wf s" "temp \<noteq> name"
  shows "durable_views name (save_cleanup sf temp t) = durable_views name s"
    and "fs_wf (save_cleanup sf temp t)"
  using assms staged_unlink [OF assms(1)] staged_wf [OF _ assms(2)]
    staged_invisible [OF _ assms(2)]
  by (auto simp: save_cleanup_def durable_views_def)

lemma local_save_outcome:
  assumes "save_good prefix name s"
  shows "save_good prefix name (snd (local_save prefix name sf s payload))"
    and "fst (local_save prefix name sf s payload) \<Longrightarrow>
         durable_views name (snd (local_save prefix name sf s payload)) = {Some payload}"
    and "durable_views name (snd (local_save prefix name sf s payload)) \<subseteq>
         insert (Some payload) (durable_views name s)"
proof -
  have wf: "fs_wf s" and pre: "\<not> has_prefix prefix name"
    using assms by (simp_all add: save_good_def)
  let ?r = "local_save prefix name sf s payload"
  have "fs_wf (snd ?r) \<and> (fst ?r \<longrightarrow> durable_views name (snd ?r) = {Some payload}) \<and>
      durable_views name (snd ?r) \<subseteq> insert (Some payload) (durable_views name s)"
  proof (cases "sf_mkdir sf \<or> sf_token sf = None \<or> fs_dir s (prefix @ the (sf_token sf)) \<noteq> None")
    case True
    then have "?r = (False, s)" by (cases "sf_token sf") (auto simp: local_save_def Let_def)
    then show ?thesis using wf by auto
  next
    case False
    define temp where "temp = prefix @ the (sf_token sf)"
    obtain ino s0 where c: "fs_create temp s = (ino, s0)" by fastforce
    define w where "w = (case sf_write sf of None \<Rightarrow> payload | Some k \<Rightarrow> take k payload)"
    define s1 where "s1 = fs_update ino (\<lambda>i. i\<lparr>in_data := w\<rparr>) s0"
    define s2 where "s2 = fs_sync_file ino s1"
    have ne: "temp \<noteq> name" using pre by (auto simp: temp_def has_prefix_def)
    have st0: "staged s temp ino s0" and e0: "fs_dir s0 temp = Some ino"
      using c False by (auto simp: fs_create_def staged_def temp_def)
    have st1: "staged s temp ino s1" and st2: "staged s temp ino s2"
      using st0 by (simp_all add: s1_def s2_def staged_update staged_sync)
    have r: "?r = (if sf_write sf \<noteq> None \<or> sf_sync sf then (False, save_cleanup sf temp s1)
        else if sf_close sf \<or> sf_rename sf then (False, save_cleanup sf temp s2)
        else if sf_dir sf then (False, fs_rename temp name s2)
        else (True, fs_sync_dir (fs_rename temp name s2)))"
      using False c unfolding local_save_def Let_def temp_def s1_def s2_def w_def by auto
    obtain i where i: "fs_inodes s0 ino = Some i" using st0 by (auto simp: staged_def)
    have e2: "fs_dir s2 temp = Some ino"
      using e0 by (simp add: s1_def s2_def fs_sync_file_def fs_update_def)
    show ?thesis
    proof (cases "sf_write sf = None")
      case True
      then have "\<exists>j. fs_inodes s2 ino = Some j \<and> in_data j = payload \<and> in_synced j = payload"
        using i by (simp add: s1_def s2_def w_def fs_sync_file_def fs_update_def)
      then obtain j where j: "fs_inodes s2 ino = Some j" "in_data j = payload" "in_synced j = payload"
        by blast
      note rn = renamed [OF st2 wf ne e2 j]
      have "durable_views name (fs_rename temp name s2) \<subseteq> insert (Some payload) (durable_views name s)"
        and "durable_views name (fs_sync_dir (fs_rename temp name s2)) = {Some payload}"
        using rn(1,3,5) by (auto simp: durable_views_def)
      then show ?thesis
        using rn(2) cleanup_views [OF st1 wf ne] cleanup_views [OF st2 wf ne] by (auto simp: r)
    next
      case False
      then show ?thesis using cleanup_views [OF st1 wf ne] by (auto simp: r)
    qed
  qed
  with pre show "save_good prefix name (snd ?r)"
    and "fst ?r \<Longrightarrow> durable_views name (snd ?r) = {Some payload}"
    and "durable_views name (snd ?r) \<subseteq> insert (Some payload) (durable_views name s)"
    by (simp_all add: save_good_def)
qed

interpretation local: atomic_store "local_save prefix name" "durable_views name" "save_good prefix name"
  for prefix name
  by unfold_locales (use local_save_outcome in blast)+

text \<open>A run in which nothing fails.\<close>

definition no_save_faults :: save_faults where
  "no_save_faults = \<lparr>sf_mkdir = False, sf_token = Some ''17'', sf_write = None, sf_sync = False,
     sf_close = False, sf_rename = False, sf_dir = False, sf_remove = False\<rparr>"

end
