(* ===== verification/Upload_Queue.thy ===== *)
theory Upload_Queue
  imports Local_Save
begin

text \<open>
  Package \<open>uploadqueue\<close>: a bounded queue of work, kept in memory and in one file.  Every
  operation writes the new content first and changes the memory only when that succeeded.
  The write is a parameter (\<open>put\<close>), with \<open>local_save\<close> as its instance; \<open>queue_codec\<close> is the
  JSON encoding of the file.
\<close>

section \<open>Items and queues\<close>

record qitem =
  qi_id :: string
  qi_source :: string
  qi_payload :: string
  qi_attempts :: int
  qi_next :: gotime

record queue =
  q_capacity :: int
  q_items :: "qitem gomap"

datatype queue_error = QueueFull | QueueCorrupt | QueueInvalid | QueueIO

text \<open>The file: a version and the items.\<close>

record queue_codec =
  qc_marshal :: "int \<times> qitem list \<Rightarrow> string option"
  qc_unmarshal :: "string \<Rightarrow> (int \<times> qitem list) option"

text \<open>Go's \<open>int\<close> has 64 bits; \<open>Attempts++\<close> wraps.\<close>

definition int64 :: "int \<Rightarrow> int" where
  "int64 n = (n + 2 ^ 63) mod 2 ^ 64 - 2 ^ 63"

definition qitem_valid :: "qitem \<Rightarrow> bool" where
  "qitem_valid v \<longleftrightarrow>
     qi_id v \<noteq> [] \<and> qi_source v \<noteq> [] \<and> qi_payload v \<noteq> [] \<and> 0 \<le> qi_attempts v \<and>
     \<not> gt_is_zero (qi_next v)"

text \<open>\<open>path\<close> is the queue's path; \<open>content\<close> is what \<open>os.ReadFile\<close> gives: \<open>Inl\<close> an error, \<open>Inr None\<close>
  that the file does not exist.\<close>

fun queue_load :: "qitem list \<Rightarrow> qitem gomap \<Rightarrow> qitem gomap option" where
  "queue_load [] m = Some m"
| "queue_load (v # vs) m =
     (if \<not> qitem_valid v then None
      else if gm_get m (qi_id v) \<noteq> None then None
      else queue_load vs (gm_put (qi_id v) v m))"

definition queue_Open ::
  "queue_codec \<Rightarrow> string \<Rightarrow> int \<Rightarrow> unit + string option \<Rightarrow> queue_error + queue" where
  "queue_Open codec path capacity content =
     (if \<not> abs_clean path \<or> capacity < 1 then Inl QueueInvalid
      else (case content of
         Inl _ \<Rightarrow> Inl QueueIO
       | Inr None \<Rightarrow> Inr \<lparr>q_capacity = capacity, q_items = GoMap []\<rparr>
       | Inr (Some b) \<Rightarrow>
           (case qc_unmarshal codec b of
              None \<Rightarrow> Inl QueueCorrupt
            | Some (version, items) \<Rightarrow>
                if version \<noteq> 1 \<or> capacity < int (length items) then Inl QueueCorrupt
                else (case queue_load items (GoMap []) of
                        None \<Rightarrow> Inl QueueCorrupt
                      | Some m \<Rightarrow> Inr \<lparr>q_capacity = capacity, q_items = m\<rparr>))))"

text \<open>The list that \<open>save\<close> encodes: times in UTC, sorted by identity.\<close>

definition qitem_utc :: "qitem \<Rightarrow> qitem" where
  "qitem_utc v = v\<lparr>qi_next := gt_utc (qi_next v)\<rparr>"

definition queue_disk :: "qitem gomap \<Rightarrow> int \<times> qitem list" where
  "queue_disk m = (1, sort_key qi_id (map (qitem_utc \<circ> snd) (entries m)))"

definition queue_save ::
  "queue_codec \<Rightarrow> ('e \<Rightarrow> 'd \<Rightarrow> string \<Rightarrow> bool \<times> 'd) \<Rightarrow> 'e \<Rightarrow> qitem gomap \<Rightarrow> 'd \<Rightarrow> bool \<times> 'd" where
  "queue_save codec put e m d =
     (case qc_marshal codec (queue_disk m) of None \<Rightarrow> (False, d) | Some b \<Rightarrow> put e d b)"

text \<open>Saving \<open>next\<close> and, on success, making it the content of the queue.\<close>

definition queue_commit ::
  "queue_codec \<Rightarrow> ('e \<Rightarrow> 'd \<Rightarrow> string \<Rightarrow> bool \<times> 'd) \<Rightarrow> 'e \<Rightarrow> qitem gomap \<Rightarrow> queue \<Rightarrow> 'd \<Rightarrow>
   queue_error option \<times> queue \<times> 'd" where
  "queue_commit codec put e m q d =
     (case queue_save codec put e m d of
        (True, d') \<Rightarrow> (None, q\<lparr>q_items := m\<rparr>, d')
      | (False, d') \<Rightarrow> (Some QueueIO, q, d'))"

definition queue_Enqueue ::
  "queue_codec \<Rightarrow> ('e \<Rightarrow> 'd \<Rightarrow> string \<Rightarrow> bool \<times> 'd) \<Rightarrow> 'e \<Rightarrow> qitem \<Rightarrow> queue \<Rightarrow> 'd \<Rightarrow>
   queue_error option \<times> queue \<times> 'd" where
  "queue_Enqueue codec put e v q d =
     (if \<not> qitem_valid v then (Some QueueInvalid, q, d)
      else (case gm_get (q_items q) (qi_id v) of
         Some old \<Rightarrow> (if old = v then None else Some QueueInvalid, q, d)
       | None \<Rightarrow>
           if q_capacity q \<le> int (length (entries (q_items q))) then (Some QueueFull, q, d)
           else queue_commit codec put e (gm_put (qi_id v) v (gm_clone (q_items q))) q d))"

definition queue_Ack ::
  "queue_codec \<Rightarrow> ('e \<Rightarrow> 'd \<Rightarrow> string \<Rightarrow> bool \<times> 'd) \<Rightarrow> 'e \<Rightarrow> string \<Rightarrow> queue \<Rightarrow> 'd \<Rightarrow>
   queue_error option \<times> queue \<times> 'd" where
  "queue_Ack codec put e ident q d =
     (case gm_get (q_items q) ident of
        None \<Rightarrow> (None, q, d)
      | Some _ \<Rightarrow> queue_commit codec put e (gm_delete ident (gm_clone (q_items q))) q d)"

definition qitem_retried :: "gotime \<Rightarrow> qitem \<Rightarrow> qitem" where
  "qitem_retried t v = v\<lparr>qi_attempts := int64 (qi_attempts v + 1), qi_next := gt_utc t\<rparr>"

definition queue_Retry ::
  "queue_codec \<Rightarrow> ('e \<Rightarrow> 'd \<Rightarrow> string \<Rightarrow> bool \<times> 'd) \<Rightarrow> 'e \<Rightarrow> string \<Rightarrow> gotime \<Rightarrow> queue \<Rightarrow> 'd \<Rightarrow>
   queue_error option \<times> queue \<times> 'd" where
  "queue_Retry codec put e ident t q d =
     (if gt_is_zero t then (Some QueueInvalid, q, d)
      else (case gm_get (q_items q) ident of
         None \<Rightarrow> (None, q, d)
       | Some v \<Rightarrow>
           queue_commit codec put e (gm_put ident (qitem_retried t v) (gm_clone (q_items q))) q d))"

definition queue_Ready :: "instant \<Rightarrow> int \<Rightarrow> queue \<Rightarrow> qitem list" where
  "queue_Ready now limit q =
     (let out = sort_key qi_id (filter (\<lambda>v. gt_instant (qi_next v) \<le> now)
                                  (map snd (entries (q_items q))))
      in if 0 < limit \<and> limit < int (length out) then take (nat limit) out else out)"

section \<open>The invariant\<close>

definition queue_wf :: "queue \<Rightarrow> bool" where
  "queue_wf q \<longleftrightarrow>
     gm_wf (q_items q) \<and> 1 \<le> q_capacity q \<and> int (length (entries (q_items q))) \<le> q_capacity q \<and>
     gm_all (\<lambda>k v. k = qi_id v \<and> qitem_valid v) (q_items q)"

lemma int64_id: "- (2 ^ 63) \<le> n \<Longrightarrow> n < 2 ^ 63 \<Longrightarrow> int64 n = n"
  by (simp add: int64_def)

lemma queue_load_wf:
  "queue_load vs m = Some m' \<Longrightarrow> gm_wf m \<Longrightarrow> gm_all (\<lambda>k v. k = qi_id v \<and> qitem_valid v) m \<Longrightarrow>
   gm_wf m' \<and> gm_all (\<lambda>k v. k = qi_id v \<and> qitem_valid v) m' \<and>
   length (entries m') = length (entries m) + length vs"
proof (induction vs arbitrary: m)
  case (Cons v vs)
  then have ok: "qitem_valid v" "gm_get m (qi_id v) = None"
    and r: "queue_load vs (gm_put (qi_id v) v m) = Some m'" by (auto split: if_splits)
  have "filter (\<lambda>e. fst e \<noteq> qi_id v) (entries m) = entries m"
    using ok(2) by (force simp: gm_get_def map_of_eq_None_iff filter_id_conv)
  with Cons.IH [OF r] Cons.prems ok show ?case by (simp add: gm_all_put)
qed simp

lemma queue_Open_wf: "queue_Open codec path capacity content = Inr q \<Longrightarrow> queue_wf q"
  using queue_load_wf [of _ "GoMap []"]
  by (fastforce simp: queue_Open_def queue_wf_def split: if_splits sum.splits option.splits)

lemma queue_commit_cases:
  "queue_commit codec put e m q d = (err, q', d') \<Longrightarrow>
   (err = None \<and> q' = q\<lparr>q_items := m\<rparr> \<and> queue_save codec put e m d = (True, d')) \<or>
   (err = Some QueueIO \<and> q' = q \<and> queue_save codec put e m d = (False, d'))"
  by (auto simp: queue_commit_def split: prod.splits bool.splits)

lemma queue_put_wf:
  assumes "queue_wf q" "qitem_valid v"
    and "gm_get (q_items q) (qi_id v) = None \<Longrightarrow>
         int (length (entries (q_items q))) < q_capacity q"
  shows "queue_wf (q\<lparr>q_items := gm_put (qi_id v) v (gm_clone (q_items q))\<rparr>)"
proof -
  let ?es = "entries (q_items q)"
  have less: "length (filter (\<lambda>e. fst e \<noteq> qi_id v) ?es) < length ?es"
    if "gm_get (q_items q) (qi_id v) \<noteq> None"
  proof -
    from that obtain w where "(qi_id v, w) \<in> set ?es"
      by (auto simp: gm_get_def dest: map_of_SomeD)
    then show ?thesis by (intro length_filter_less) auto
  qed
  have le: "length (filter (\<lambda>e. fst e \<noteq> qi_id v) ?es) \<le> length ?es" by simp
  have "int (length (filter (\<lambda>e. fst e \<noteq> qi_id v) ?es)) + 1 \<le> q_capacity q"
  proof (cases "gm_get (q_items q) (qi_id v)")
    case None
    from le assms(3) [OF None] show ?thesis by linarith
  next
    case (Some w)
    with less have "length (filter (\<lambda>e. fst e \<noteq> qi_id v) ?es) < length ?es"
      by simp
    moreover have "int (length ?es) \<le> q_capacity q" using assms(1) by (simp add: queue_wf_def)
    ultimately show ?thesis by linarith
  qed
  then show ?thesis using assms(1,2) by (auto simp: queue_wf_def gm_all_put)
qed

lemma queue_Enqueue_wf:
  "queue_wf q \<Longrightarrow> queue_Enqueue codec put e v q d = (err, q', d') \<Longrightarrow> queue_wf q'"
  by (auto simp: queue_Enqueue_def intro: queue_put_wf dest!: queue_commit_cases
      split: if_splits option.splits)

lemma queue_delete_wf:
  assumes "queue_wf q"
  shows "queue_wf (q\<lparr>q_items := gm_delete ident (gm_clone (q_items q))\<rparr>)"
proof -
  have "length (filter (\<lambda>x. fst x \<noteq> ident) (entries (q_items q))) \<le> length (entries (q_items q))"
    by simp
  then have "int (length (filter (\<lambda>x. fst x \<noteq> ident) (entries (q_items q)))) \<le> q_capacity q"
    using assms unfolding queue_wf_def by linarith
  then show ?thesis using assms by (auto simp: queue_wf_def gm_all_def list_all_iff)
qed

lemma queue_Ack_wf:
  "queue_wf q \<Longrightarrow> queue_Ack codec put e ident q d = (err, q', d') \<Longrightarrow> queue_wf q'"
  by (auto simp: queue_Ack_def intro: queue_delete_wf dest!: queue_commit_cases split: option.splits)

lemma queue_Retry_wf:
  assumes "queue_wf q" "queue_Retry codec put e ident t q d = (err, q', d')"
    and bound: "\<And>v. gm_get (q_items q) ident = Some v \<Longrightarrow> qi_attempts v < 2 ^ 63 - 1"
  shows "queue_wf q'"
proof (cases "gm_get (q_items q) ident")
  case None
  with assms show ?thesis by (auto simp: queue_Retry_def split: if_splits)
next
  case (Some v)
  then have v: "ident = qi_id v" "qitem_valid v"
    using assms(1) gm_allD [of "\<lambda>k v. k = qi_id v \<and> qitem_valid v" "q_items q" ident v]
    by (auto simp: queue_wf_def)
  have idr: "qi_id (qitem_retried t v) = ident" using v by (simp add: qitem_retried_def)
  have "int64 (qi_attempts v + 1) = qi_attempts v + 1"
    using v bound [OF Some] by (intro int64_id) (auto simp: qitem_valid_def)
  then have "qitem_valid (qitem_retried t v)" if "\<not> gt_is_zero t"
    using v that by (simp add: qitem_valid_def qitem_retried_def gt_is_zero_def gt_utc_def)
  from queue_put_wf [OF assms(1) this] idr Some
  have "queue_wf (q\<lparr>q_items := gm_put ident (qitem_retried t v) (gm_clone (q_items q))\<rparr>)"
    if "\<not> gt_is_zero t" using that by simp
  with assms Some show ?thesis
    by (auto simp: queue_Retry_def dest!: queue_commit_cases split: if_splits)
qed

section \<open>What the file holds\<close>

text \<open>Decoding what was encoded gives it back when its times are in UTC.\<close>

definition queue_codec_ok :: "queue_codec \<Rightarrow> bool" where
  "queue_codec_ok codec \<longleftrightarrow>
     (\<forall>items b. list_all (\<lambda>v. gt_tag (qi_next v) = 0) items \<longrightarrow>
        qc_marshal codec (1, items) = Some b \<longrightarrow> qc_unmarshal codec b = Some (1, items))"

lemma queue_disk_tags: "list_all (\<lambda>v. gt_tag (qi_next v) = 0) (snd (queue_disk m))"
  by (auto simp: queue_disk_def list_all_iff qitem_utc_def gt_utc_def)

lemma queue_load_all:
  "list_all qitem_valid vs \<Longrightarrow> distinct (map qi_id vs) \<Longrightarrow>
   \<forall>v \<in> set vs. gm_get m (qi_id v) = None \<Longrightarrow>
   \<exists>m'. queue_load vs m = Some m' \<and>
     (\<forall>k. gm_get m' k = (case find (\<lambda>v. qi_id v = k) vs of None \<Rightarrow> gm_get m k | Some v \<Rightarrow> Some v))"
proof (induction vs arbitrary: m)
  case (Cons v vs)
  have "\<exists>m'. queue_load vs (gm_put (qi_id v) v m) = Some m' \<and>
     (\<forall>k. gm_get m' k = (case find (\<lambda>v. qi_id v = k) vs of
        None \<Rightarrow> gm_get (gm_put (qi_id v) v m) k | Some v \<Rightarrow> Some v))"
    using Cons.prems by (intro Cons.IH) (auto simp: image_iff)
  then obtain m' where m': "queue_load vs (gm_put (qi_id v) v m) = Some m'"
    and g: "gm_get m' k = (case find (\<lambda>v. qi_id v = k) vs of
        None \<Rightarrow> gm_get (gm_put (qi_id v) v m) k | Some v \<Rightarrow> Some v)" for k by blast
  have none: "find (\<lambda>w. qi_id w = qi_id v) vs = None"
    using Cons.prems(2) by (auto simp: find_None_iff image_iff)
  have "gm_get m' k = (case find (\<lambda>v. qi_id v = k) (v # vs) of None \<Rightarrow> gm_get m k | Some v \<Rightarrow> Some v)"
    for k using g [of k] none by (cases "qi_id v = k") (auto split: option.splits)
  with m' Cons.prems show ?case by simp
qed simp

lemma find_entries:
  assumes "gm_wf m" "gm_all (\<lambda>k v. k = qi_id v \<and> qitem_valid v) m"
  shows "find (\<lambda>v. qi_id v = k) (snd (queue_disk m)) = map_option qitem_utc (gm_get m k)"
proof -
  let ?vs = "snd (queue_disk m)"
  have idutc [simp]: "qi_id (qitem_utc v) = qi_id v" for v by (simp add: qitem_utc_def)
  have mem: "w \<in> set ?vs \<longleftrightarrow> (\<exists>k v. (k, v) \<in> set (entries m) \<and> w = qitem_utc v)" for w
    by (force simp: queue_disk_def)
  have key: "(k, v) \<in> set (entries m) \<Longrightarrow> k = qi_id v" for k v
    using assms(2) by (auto simp: gm_all_def list_all_iff)
  show ?thesis
  proof (cases "gm_get m k")
    case None
    then have "k \<notin> fst ` set (entries m)" by (simp add: gm_get_def map_of_eq_None_iff)
    then have "\<not> (\<exists>w \<in> set ?vs. qi_id w = k)" using mem key by force
    with None show ?thesis by (auto simp: find_None_iff)
  next
    case (Some v)
    then have v: "(k, v) \<in> set (entries m)" by (simp add: gm_get_def map_of_SomeD)
    then have "qitem_utc v \<in> set ?vs" "qi_id (qitem_utc v) = k" using mem key by force+
    then obtain w where w: "find (\<lambda>v. qi_id v = k) ?vs = Some w" "w \<in> set ?vs" "qi_id w = k"
      by (metis (mono_tags, lifting) find_None_iff find_Some_iff not_Some_eq nth_mem)
    then obtain k' v' where v': "(k', v') \<in> set (entries m)" "w = qitem_utc v'" using mem by blast
    with key w have "k' = k" by fastforce
    with v v' assms(1) have "v' = v" by (auto simp: gm_wf_def dest: eq_key_imp_eq_value)
    with w v' Some show ?thesis by simp
  qed
qed

lemma distinct_sort_key: "distinct (map f xs) \<Longrightarrow> distinct (map f (sort_key f xs))"
  by (simp add: distinct_map)

text \<open>Opening a saved queue gives the same items, with their times in UTC.\<close>

lemma queue_reopen:
  assumes "queue_wf q" "queue_codec_ok codec" "abs_clean path"
    and "qc_marshal codec (queue_disk (q_items q)) = Some b"
  shows "\<exists>q'. queue_Open codec path (q_capacity q) (Inr (Some b)) = Inr q' \<and>
     q_capacity q' = q_capacity q \<and>
     (\<forall>k. gm_get (q_items q') k = map_option qitem_utc (gm_get (q_items q) k))"
proof -
  let ?vs = "snd (queue_disk (q_items q))"
  have un: "qc_unmarshal codec b = Some (1, ?vs)"
    using assms(2,4) queue_disk_tags [of "q_items q"]
    by (auto simp: queue_codec_ok_def queue_disk_def)
  have all: "gm_all (\<lambda>k v. k = qi_id v \<and> qitem_valid v) (q_items q)" and wf: "gm_wf (q_items q)"
    and cap: "1 \<le> q_capacity q" "int (length (entries (q_items q))) \<le> q_capacity q"
    using assms(1) by (auto simp: queue_wf_def)
  have valid: "list_all qitem_valid ?vs"
    using all by (auto simp: queue_disk_def list_all_iff gm_all_def qitem_valid_def qitem_utc_def
        gt_is_zero_def gt_utc_def)
  have "map qi_id (map (qitem_utc \<circ> snd) (entries (q_items q))) = map fst (entries (q_items q))"
    using all by (auto simp: gm_all_def list_all_iff qitem_utc_def)
  then have "distinct (map qi_id (map (qitem_utc \<circ> snd) (entries (q_items q))))"
    using wf unfolding gm_wf_def by metis
  then have dist: "distinct (map qi_id ?vs)"
    unfolding queue_disk_def snd_conv by (rule distinct_sort_key)
  have len: "int (length ?vs) \<le> q_capacity q" using cap by (simp add: queue_disk_def)
  obtain m where m: "queue_load ?vs (GoMap []) = Some m" and
    g: "\<forall>k. gm_get m k = (case find (\<lambda>v. qi_id v = k) ?vs of None \<Rightarrow> gm_get (GoMap []) k | Some v \<Rightarrow> Some v)"
    using queue_load_all [OF valid dist, of "GoMap []"] by auto
  have "gm_get m k = map_option qitem_utc (gm_get (q_items q) k)" for k
    using g find_entries [OF wf all, of k] by (cases "gm_get (q_items q) k") auto
  with m un len cap assms(3) show ?thesis by (simp add: queue_Open_def)
qed

text \<open>A committed content is what every later opening finds, a crash included; a failed commit
  leaves the memory alone and adds at most the attempted content to what a reader may find.\<close>

context atomic_store
begin

lemma queue_commit_ok:
  assumes "queue_commit codec put e m q d = (None, q', d')" "good d" "queue_wf q'"
    and "queue_codec_ok codec" "abs_clean path" "v \<in> views d'"
  shows "\<exists>q''. queue_Open codec path (q_capacity q) (Inr v) = Inr q'' \<and>
     (\<forall>k. gm_get (q_items q'') k = map_option qitem_utc (gm_get m k))"
proof -
  have q': "q' = q\<lparr>q_items := m\<rparr>" and save: "queue_save codec put e m d = (True, d')"
    using queue_commit_cases [OF assms(1)] by auto
  then obtain b where b: "qc_marshal codec (queue_disk m) = Some b" "put e d b = (True, d')"
    by (auto simp: queue_save_def split: option.splits)
  with put_ok [OF assms(2), of e b] assms(6) have "v = Some b" by auto
  with queue_reopen [OF assms(3-5), of b] b q' show ?thesis by auto
qed

lemma queue_commit_failed:
  assumes "queue_commit codec put e m q d = (Some err, q', d')" "good d"
  shows "q' = q" and "views d' \<subseteq> insert (qc_marshal codec (queue_disk m)) (views d)"
  using queue_commit_cases [OF assms(1)] put_any [OF assms(2), of e]
  by (auto simp: queue_save_def split: option.splits) (metis insertE snd_conv subsetD)

end

section \<open>An example item\<close>

definition example_item :: qitem where
  "example_item = \<lparr>qi_id = ''a'', qi_source = ''codex'', qi_payload = ''p'', qi_attempts = 0,
     qi_next = \<lparr>gt_instant = 5, gt_tag = 3\<rparr>\<rparr>"

text \<open>A codec for one content, and a disk that never fails.\<close>

definition example_queue_codec :: "qitem list \<Rightarrow> queue_codec" where
  "example_queue_codec items =
     \<lparr>qc_marshal = (\<lambda>x. if x = (1, items) then Some ''{}'' else None),
      qc_unmarshal = (\<lambda>b. if b = ''{}'' then Some (1, items) else None)\<rparr>"

lemma example_queue_codec_ok: "queue_codec_ok (example_queue_codec items)"
  by (simp add: queue_codec_ok_def example_queue_codec_def)

section \<open>Properties\<close>





end
