(* ===== verification/Cursor.thy ===== *)
theory Cursor
  imports Local_Save
begin

text \<open>
  Package \<open>cursor\<close>: one checkpoint per source, kept in memory and in one file.  \<open>Put\<close> refuses
  a generation older than the stored one and changes the memory only after the file.
\<close>

record checkpoint =
  cp_source :: string
  cp_path :: string
  cp_digest :: string
  cp_generation :: int
  cp_offset :: int
  cp_updated :: gotime

datatype cursor_error = CursorInvalid | CursorCorrupt | CursorIO

record cursor_codec =
  cc_marshal :: "int \<times> checkpoint list \<Rightarrow> string option"
  cc_unmarshal :: "string \<Rightarrow> (int \<times> checkpoint list) option"

text \<open>\<open>validate\<close>\<close>

definition checkpoint_valid :: "checkpoint \<Rightarrow> bool" where
  "checkpoint_valid c \<longleftrightarrow>
     cp_source c \<noteq> [] \<and> \<not> contains_any (cp_source c) [CHR ''/'', CHR 0x5C] \<and>
     is_abs (cp_path c) \<and> path_clean (cp_path c) = cp_path c \<and>
     0 \<le> cp_generation c \<and> 0 \<le> cp_offset c \<and> length (cp_digest c) = 64 \<and>
     \<not> gt_is_zero (cp_updated c) \<and> hex_decodes (cp_digest c)"

fun cursor_load :: "checkpoint list \<Rightarrow> checkpoint gomap \<Rightarrow> checkpoint gomap option" where
  "cursor_load [] m = Some m"
| "cursor_load (c # cs) m =
     (if \<not> checkpoint_valid c then None
      else if gm_get m (cp_source c) \<noteq> None then None
      else cursor_load cs (gm_put (cp_source c) c m))"

definition cursor_Open ::
  "cursor_codec \<Rightarrow> string \<Rightarrow> unit + string option \<Rightarrow> cursor_error + checkpoint gomap" where
  "cursor_Open codec path content =
     (if \<not> abs_clean path then Inl CursorInvalid
      else (case content of
         Inl _ \<Rightarrow> Inl CursorIO
       | Inr None \<Rightarrow> Inr (GoMap [])
       | Inr (Some b) \<Rightarrow>
           (case cc_unmarshal codec b of
              None \<Rightarrow> Inl CursorCorrupt
            | Some (version, cs) \<Rightarrow>
                if version \<noteq> 1 then Inl CursorCorrupt
                else (case cursor_load cs (GoMap []) of
                        None \<Rightarrow> Inl CursorCorrupt | Some m \<Rightarrow> Inr m))))"

definition cursor_Get :: "checkpoint gomap \<Rightarrow> string \<Rightarrow> checkpoint option" where
  "cursor_Get m source = gm_get m source"

definition checkpoint_utc :: "checkpoint \<Rightarrow> checkpoint" where
  "checkpoint_utc c = c\<lparr>cp_updated := gt_utc (cp_updated c)\<rparr>"

definition cursor_disk :: "checkpoint gomap \<Rightarrow> int \<times> checkpoint list" where
  "cursor_disk m = (1, sort_key cp_source (map (checkpoint_utc \<circ> snd) (entries m)))"

definition cursor_persist ::
  "cursor_codec \<Rightarrow> ('e \<Rightarrow> 'd \<Rightarrow> string \<Rightarrow> bool \<times> 'd) \<Rightarrow> 'e \<Rightarrow> checkpoint gomap \<Rightarrow> 'd \<Rightarrow> bool \<times> 'd" where
  "cursor_persist codec put e m d =
     (case cc_marshal codec (cursor_disk m) of None \<Rightarrow> (False, d) | Some b \<Rightarrow> put e d b)"

definition cursor_Put ::
  "cursor_codec \<Rightarrow> ('e \<Rightarrow> 'd \<Rightarrow> string \<Rightarrow> bool \<times> 'd) \<Rightarrow> 'e \<Rightarrow> checkpoint \<Rightarrow> checkpoint gomap \<Rightarrow> 'd \<Rightarrow>
   cursor_error option \<times> checkpoint gomap \<times> 'd" where
  "cursor_Put codec put e c m d =
     (if \<not> checkpoint_valid c then (Some CursorInvalid, m, d)
      else if (case gm_get m (cp_source c) of
                 None \<Rightarrow> False | Some old \<Rightarrow> cp_generation c < cp_generation old)
      then (Some CursorInvalid, m, d)
      else
        let m' = gm_put (cp_source c) c (gm_clone m) in
        (case cursor_persist codec put e m' d of
           (True, d') \<Rightarrow> (None, m', d')
         | (False, d') \<Rightarrow> (Some CursorIO, m, d')))"

section \<open>Lemmas\<close>

definition cursor_wf :: "checkpoint gomap \<Rightarrow> bool" where
  "cursor_wf m \<longleftrightarrow> gm_wf m \<and> gm_all (\<lambda>k c. k = cp_source c \<and> checkpoint_valid c) m"

lemma cursor_load_wf: "cursor_load cs m = Some m' \<Longrightarrow> cursor_wf m \<Longrightarrow> cursor_wf m'"
  by (induction cs arbitrary: m) (auto simp: cursor_wf_def gm_all_put split: if_splits)

lemma cursor_Open_wf: "cursor_Open codec path content = Inr m \<Longrightarrow> cursor_wf m"
  using cursor_load_wf [of _ "GoMap []"]
  by (fastforce simp: cursor_Open_def cursor_wf_def split: if_splits sum.splits option.splits)

lemma cursor_Put_result:
  "cursor_Put codec put e c m d = (err, m', d') \<Longrightarrow>
   m' = (if err = None then gm_put (cp_source c) c (gm_clone m) else m) \<and>
   (err = None \<longrightarrow> checkpoint_valid c \<and>
      (\<forall>old. gm_get m (cp_source c) = Some old \<longrightarrow> cp_generation old \<le> cp_generation c))"
  by (auto simp: cursor_Put_def Let_def split: if_splits option.splits prod.splits bool.splits)

lemma cursor_Put_wf: "cursor_wf m \<Longrightarrow> cursor_Put codec put e c m d = (err, m', d') \<Longrightarrow> cursor_wf m'"
  by (drule cursor_Put_result) (auto simp: cursor_wf_def gm_all_put)

text \<open>A run of attempted checkpoints, each with what the disk does.\<close>

fun cursor_run ::
  "cursor_codec \<Rightarrow> ('e \<Rightarrow> 'd \<Rightarrow> string \<Rightarrow> bool \<times> 'd) \<Rightarrow> ('e \<times> checkpoint) list \<Rightarrow> checkpoint gomap \<Rightarrow>
   'd \<Rightarrow> checkpoint gomap \<times> 'd" where
  "cursor_run codec put [] m d = (m, d)"
| "cursor_run codec put ((e, c) # rest) m d =
     (case cursor_Put codec put e c m d of (_, m', d') \<Rightarrow> cursor_run codec put rest m' d')"

section \<open>Properties\<close>

text \<open>C35: over any run of attempted checkpoints, successful or not, a checkpoint that is there
  stays there and its generation never decreases.\<close>

theorem cursor_generation_monotone:
  assumes "gm_get m source = Some old"
  shows "\<exists>c. gm_get (fst (cursor_run codec put attempts m d)) source = Some c \<and>
             cp_generation old \<le> cp_generation c"
  using assms
proof (induction attempts arbitrary: m d old)
  case (Cons ec attempts)
  obtain e c where ec: "ec = (e, c)" by fastforce
  obtain err m' d' where p: "cursor_Put codec put e c m d = (err, m', d')"
    by (cases "cursor_Put codec put e c m d") auto
  from cursor_Put_result [OF p] Cons.prems obtain new where
    "gm_get m' source = Some new" "cp_generation old \<le> cp_generation new"
    by (cases "err = None"; cases "source = cp_source c") auto
  with Cons.IH [of m' new d'] show ?case by (auto simp: ec p intro: order_trans)
qed simp

text \<open>A stored checkpoint, an older one that is refused and a newer one that is taken.\<close>

definition example_checkpoint :: "int \<Rightarrow> checkpoint" where
  "example_checkpoint generation = \<lparr>cp_source = ''codex'', cp_path = ''/t'',
     cp_digest = replicate 64 (CHR ''0''), cp_generation = generation, cp_offset = 0,
     cp_updated = \<lparr>gt_instant = 5, gt_tag = 0\<rparr>\<rparr>"

theorem cursor_generation_monotone_witness:
  "\<exists>c. gm_get (fst (cursor_run
       \<lparr>cc_marshal = (\<lambda>_. Some ''{}''), cc_unmarshal = (\<lambda>_. None)\<rparr> (\<lambda>e d p. (e, d))
       [(True, example_checkpoint 2), (False, example_checkpoint 8)]
       (GoMap [(''codex'', example_checkpoint 3)]) ())) ''codex'' = Some c \<and> 3 \<le> cp_generation c"
proof -
  have "gm_get (GoMap [(''codex'', example_checkpoint 3)]) ''codex'' = Some (example_checkpoint 3)"
    and "cp_generation (example_checkpoint 3) = 3"
    by (simp_all add: gm_get_def example_checkpoint_def)
  with cursor_generation_monotone [OF this(1)] show ?thesis by metis
qed

end
