(* ===== verification/Watch_Loop.thy ===== *)
theory Watch_Loop
  imports Go_Prelude Go_Text
begin

text \<open>
  \<open>watch/loop.go\<close>: the debounced event loop.  \<open>Run\<close> is a sequence of select steps; which
  branch is taken, and what the clock and the dispatch say, is data of the step.  The lemmas
  show that the pending set is bounded, that a path is dispatched only when its deadline has
  passed, and that an accepted event is dispatched or still pending.
\<close>

record loop =
  lp_debounce :: int
  lp_capacity :: int
  lp_has_dispatch :: bool

definition loop_debounce :: "loop \<Rightarrow> int" where
  "loop_debounce l = (if lp_debounce l \<le> 0 then 1000000 else lp_debounce l)"

definition loop_capacity :: "loop \<Rightarrow> int" where
  "loop_capacity l = (if lp_capacity l \<le> 0 then 64 else lp_capacity l)"

datatype loop_error = LoopDispatchRequired | LoopQueueFull | LoopDispatchFailed | LoopCancelled

text \<open>One ready branch of the select: the context is done, the channel is closed, an event, or
  the timer with the current time and whether the dispatch of each path succeeds.\<close>

datatype loop_input =
    CtxDone
  | EventsClosed
  | Event string instant
  | Tick instant "string \<Rightarrow> bool"

datatype loop_result = Running | Stopped "loop_error option"

record loop_state =
  ls_pending :: "instant gomap"
  ls_dispatched :: "(string \<times> instant) list"
  ls_result :: loop_result

text \<open>The paths whose deadline is not after \<open>now\<close>, sorted.\<close>

definition loop_due :: "instant \<Rightarrow> instant gomap \<Rightarrow> string list" where
  "loop_due now m = sort (map fst (filter (\<lambda>e. snd e \<le> now) (entries m)))"

text \<open>Dispatching in order; the first failure stops the loop.\<close>

fun loop_dispatch :: "instant \<Rightarrow> (string \<Rightarrow> bool) \<Rightarrow> string list \<Rightarrow> (string \<times> instant) list \<times> bool" where
  "loop_dispatch now ok [] = ([], True)"
| "loop_dispatch now ok (p # ps) =
     (if ok p then (case loop_dispatch now ok ps of (ds, r) \<Rightarrow> ((p, now) # ds, r))
      else ([(p, now)], False))"

text \<open>A timer branch is possible only while something is pending.\<close>

definition loop_step :: "loop \<Rightarrow> loop_state \<Rightarrow> loop_input \<Rightarrow> loop_state" where
  "loop_step l st i =
     (case ls_result st of
        Stopped _ \<Rightarrow> st
      | Running \<Rightarrow>
          (case i of
             CtxDone \<Rightarrow> st\<lparr>ls_result := Stopped (Some LoopCancelled)\<rparr>
           | EventsClosed \<Rightarrow> st\<lparr>ls_result := Stopped None\<rparr>
           | Event path at \<Rightarrow>
               if path = [] then st
               else if loop_capacity l \<le> int (length (entries (ls_pending st))) \<and>
                       gm_get (ls_pending st) path = None
               then st\<lparr>ls_result := Stopped (Some LoopQueueFull)\<rparr>
               else st\<lparr>ls_pending := gm_put path (at + loop_debounce l) (ls_pending st)\<rparr>
           | Tick now ok \<Rightarrow>
               if entries (ls_pending st) = [] then st
               else
                 let due = loop_due now (ls_pending st);
                     (ds, fine) = loop_dispatch now ok due
                 in st\<lparr>ls_pending := GoMap (filter (\<lambda>e. now < snd e) (entries (ls_pending st))),
                       ls_dispatched := ls_dispatched st @ ds,
                       ls_result := (if fine then Running else Stopped (Some LoopDispatchFailed))\<rparr>))"

definition loop_start :: "loop \<Rightarrow> loop_state" where
  "loop_start l =
     \<lparr>ls_pending = GoMap [], ls_dispatched = [],
      ls_result = (if lp_has_dispatch l then Running else Stopped (Some LoopDispatchRequired))\<rparr>"

definition loop_Run :: "loop \<Rightarrow> loop_input list \<Rightarrow> loop_state" where
  "loop_Run l inputs = foldl (loop_step l) (loop_start l) inputs"

section \<open>Lemmas\<close>

definition loop_wf :: "loop \<Rightarrow> loop_state \<Rightarrow> bool" where
  "loop_wf l st \<longleftrightarrow>
     gm_wf (ls_pending st) \<and> int (length (entries (ls_pending st))) \<le> loop_capacity l"

lemma loop_capacity_pos: "1 \<le> loop_capacity l"
  by (simp add: loop_capacity_def)

lemma filter_remove_key:
  "map_of xs k \<noteq> None \<Longrightarrow> length (filter (\<lambda>e. fst e \<noteq> k) xs) < length xs"
  by (auto dest!: map_of_SomeD intro!: length_filter_less)

lemma loop_step_wf:
  assumes "loop_wf l st"
  shows "loop_wf l (loop_step l st i)"
proof (cases i)
  case (Event path at)
  let ?es = "entries (ls_pending st)"
  have "Suc (length (filter (\<lambda>e. fst e \<noteq> path) ?es)) \<le> nat (loop_capacity l)"
    if "\<not> (loop_capacity l \<le> int (length ?es) \<and> gm_get (ls_pending st) path = None)"
  proof (cases "gm_get (ls_pending st) path")
    case None
    with that have "int (length ?es) < loop_capacity l" by simp
    moreover have "length (filter (\<lambda>e. fst e \<noteq> path) ?es) \<le> length ?es" by simp
    ultimately show ?thesis by linarith
  next
    case (Some t)
    then have "length (filter (\<lambda>e. fst e \<noteq> path) ?es) < length ?es"
      by (intro filter_remove_key) (simp add: gm_get_def)
    with assms show ?thesis unfolding loop_wf_def by linarith
  qed
  then show ?thesis
    using assms loop_capacity_pos [of l]
    by (auto simp: loop_step_def loop_wf_def Event split: loop_result.splits)
next
  case (Tick now ok)
  have "length (filter (\<lambda>e. now < snd e) (entries (ls_pending st))) \<le> length (entries (ls_pending st))"
    by simp
  then have "int (length (filter (\<lambda>e. now < snd e) (entries (ls_pending st)))) \<le> loop_capacity l"
    using assms unfolding loop_wf_def by linarith
  then show ?thesis
    using assms
    by (auto simp: loop_step_def loop_wf_def Tick Let_def gm_wf_def distinct_fst_filter
        split: loop_result.splits prod.splits)
qed (use assms in \<open>auto simp: loop_step_def loop_wf_def split: loop_result.splits\<close>)

lemma loop_run_wf: "loop_wf l st \<Longrightarrow> loop_wf l (foldl (loop_step l) st inputs)"
  by (induction inputs arbitrary: st) (auto simp: loop_step_wf)

lemma loop_dispatch_subset: "set (fst (loop_dispatch now ok ps)) \<subseteq> (\<lambda>p. (p, now)) ` set ps"
  by (induction ps) (auto split: prod.splits)

lemma loop_dispatch_all: "snd (loop_dispatch now ok ps) \<Longrightarrow> fst (loop_dispatch now ok ps) = map (\<lambda>p. (p, now)) ps"
  by (induction ps) (auto split: prod.splits if_splits)

section \<open>Properties\<close>

text \<open>C36: whatever events arrive, the number of pending paths never exceeds the capacity, and
  no path is pending twice.\<close>

theorem loop_pending_bounded:
  "int (length (entries (ls_pending (loop_Run l inputs)))) \<le> loop_capacity l \<and>
   distinct (map fst (entries (ls_pending (loop_Run l inputs))))"
proof -
  have "loop_wf l (loop_start l)"
    using loop_capacity_pos [of l] by (simp add: loop_wf_def loop_start_def)
  from loop_run_wf [OF this, of inputs] show ?thesis
    by (simp add: loop_Run_def loop_wf_def gm_wf_def)
qed

text \<open>A tick whose dispatches all succeed dispatches, in sorted order, exactly the pending
  paths whose deadline has passed, and keeps exactly the others pending with their deadlines.\<close>

theorem loop_tick_exact:
  assumes "ls_result st = Running" "gm_wf (ls_pending st)" "\<forall>p. ok p"
    and "st' = loop_step l st (Tick now ok)"
  shows "ls_result st' = Running \<and>
    (\<exists>ps. ls_dispatched st' = ls_dispatched st @ map (\<lambda>p. (p, now)) ps \<and> sorted ps \<and> distinct ps \<and>
       (\<forall>p. p \<in> set ps \<longleftrightarrow> (\<exists>t. gm_get (ls_pending st) p = Some t \<and> t \<le> now))) \<and>
    (\<forall>p. gm_get (ls_pending st') p =
       (case gm_get (ls_pending st) p of
          None \<Rightarrow> None | Some t \<Rightarrow> if t \<le> now then None else Some t))"
proof -
  let ?es = "entries (ls_pending st)"
  let ?due = "loop_due now (ls_pending st)"
  have all: "loop_dispatch now ok ps = (map (\<lambda>p. (p, now)) ps, True)" for ps
    using assms(3) by (induction ps) auto
  have get: "map_of ?es p = Some t \<longleftrightarrow> (p, t) \<in> set ?es" for p t
    using assms(2) by (simp add: gm_wf_def)
  have due: "p \<in> set ?due \<longleftrightarrow> (\<exists>t. gm_get (ls_pending st) p = Some t \<and> t \<le> now)" for p
    by (force simp: loop_due_def gm_get_def get)
  have dist: "distinct ?due"
    using assms(2) by (simp add: loop_due_def gm_wf_def distinct_fst_filter)
  have keep: "map_of (filter (\<lambda>e. now < snd e) ?es) p =
      (case map_of ?es p of None \<Rightarrow> None | Some t \<Rightarrow> if t \<le> now then None else Some t)" for p
  proof (cases "map_of ?es p")
    case None
    then have "map_of (filter (\<lambda>e. now < snd e) ?es) p = None"
      by (auto simp: map_of_eq_None_iff)
    with None show ?thesis by simp
  next
    case (Some t)
    have d: "distinct (map fst (filter (\<lambda>e. now < snd e) ?es))"
      using assms(2) by (simp add: gm_wf_def distinct_fst_filter)
    have f: "map_of (filter (\<lambda>e. now < snd e) ?es) p = Some u \<longleftrightarrow> u = t \<and> now < t" for u
      using map_of_eq_Some_iff [OF d, of p u] get [of p u] get [of p t] Some by auto
    show ?thesis
    proof (cases "now < t")
      case True
      then show ?thesis using Some f [of t] by simp
    next
      case False
      then have "map_of (filter (\<lambda>e. now < snd e) ?es) p = None"
        using f by (metis not_Some_eq)
      then show ?thesis using Some False by simp
    qed
  qed
  show ?thesis
  proof (cases "?es = []")
    case True
    then show ?thesis
      using assms(1,4)
      by (auto simp: loop_step_def gm_get_def intro!: exI [of _ "[]"])
  next
    case False
    then have "st' = st\<lparr>ls_pending := GoMap (filter (\<lambda>e. now < snd e) ?es),
        ls_dispatched := ls_dispatched st @ map (\<lambda>p. (p, now)) ?due, ls_result := Running\<rparr>"
      using assms(1,4) by (simp add: loop_step_def all)
    with due dist keep show ?thesis
      by (auto simp: gm_get_def loop_due_def intro!: exI [of _ ?due])
  qed
qed

theorem loop_tick_exact_witness:
  "ls_result (loop_step \<lparr>lp_debounce = 5, lp_capacity = 2, lp_has_dispatch = True\<rparr>
     \<lparr>ls_pending = GoMap [(''/b'', 7), (''/a'', 3)], ls_dispatched = [], ls_result = Running\<rparr>
     (Tick 4 (\<lambda>_. True))) = Running"
  using loop_tick_exact [of "\<lparr>ls_pending = GoMap [(''/b'', 7), (''/a'', 3)], ls_dispatched = [],
      ls_result = Running\<rparr>" "\<lambda>_. True" _ "\<lparr>lp_debounce = 5, lp_capacity = 2, lp_has_dispatch = True\<rparr>" 4]
  by (simp add: gm_wf_def)

end
