(* ===== verification/Store_Config.thy ===== *)
theory Store_Config
  imports Source_Common
begin

text \<open>
  \<open>store/config.go\<close> and the constants of \<open>store/types.go\<close>: the configuration of the Spanner
  store and its validation.  Durations are nanoseconds.
\<close>

section \<open>Definitions\<close>

record store_config =
  sc_project :: string
  sc_instance :: string
  sc_database :: string
  sc_model_project :: string
  sc_model_location :: string
  sc_strategy :: string
  sc_remote_model :: string
  sc_embedding_model :: string
  sc_dimension :: int
  sc_document_task :: string
  sc_query_task :: string
  sc_rpc_batch :: int
  sc_full_text :: bool
  sc_enable_ann :: bool
  sc_use_ann :: bool
  sc_index_leaves :: int
  sc_search_leaves :: int
  sc_hybrid_limit :: int
  sc_rrf_k :: int
  sc_max_limit :: int
  sc_concurrency :: int
  sc_batch :: int
  sc_interval :: int
  sc_max_batches :: int
  sc_stats_ttl :: int

definition TableName :: string where "TableName = ''ConversationChunks''"
definition VectorIndexName :: string where "VectorIndexName = ''ConversationChunksVectorIndex''"
definition RemoteModelName :: string where "RemoteModelName = ''ConversationEmbeddingModel''"
definition EmbeddingModelName :: string where "EmbeddingModelName = ''gemini-embedding-001''"
definition VectorDimension :: int where "VectorDimension = 3072"
definition TaskRetrievalQuery :: string where "TaskRetrievalQuery = ''RETRIEVAL_QUERY''"
definition TaskRetrievalDocument :: string where "TaskRetrievalDocument = ''RETRIEVAL_DOCUMENT''"
definition EmbeddingRemoteModel :: string where "EmbeddingRemoteModel = ''remote_model''"
definition EmbeddingDeferred :: string where "EmbeddingDeferred = ''deferred''"

lemmas store_constants =
  TableName_def VectorIndexName_def RemoteModelName_def EmbeddingModelName_def VectorDimension_def
  TaskRetrievalQuery_def TaskRetrievalDocument_def EmbeddingRemoteModel_def EmbeddingDeferred_def

definition is_lower :: "char \<Rightarrow> bool" where
  "is_lower c \<longleftrightarrow> CHR ''a'' \<le> c \<and> c \<le> CHR ''z''"

definition is_digit :: "char \<Rightarrow> bool" where
  "is_digit c \<longleftrightarrow> CHR ''0'' \<le> c \<and> c \<le> CHR ''9''"

text \<open>\<open>identifierPart\<close>: one lower-case letter, or 2 to 64 characters that start with a letter and
  end with a letter or digit.\<close>

definition identifierPart :: "string \<Rightarrow> bool" where
  "identifierPart s \<longleftrightarrow>
     s \<noteq> [] \<and> is_lower (hd s) \<and>
     (length s = 1 \<or>
      length s \<le> 64 \<and> (is_lower (last s) \<or> is_digit (last s)) \<and>
      list_all (\<lambda>c. is_lower c \<or> is_digit c \<or> c = CHR ''-'') (butlast (tl s)))"

text \<open>\<open>locationPart\<close>: letters, a hyphen, letters, one digit.\<close>

definition locationPart :: "string \<Rightarrow> bool" where
  "locationPart s \<longleftrightarrow>
     (case split_char (CHR ''-'') s of
        [a, b] \<Rightarrow> a \<noteq> [] \<and> list_all is_lower a \<and> 2 \<le> length b \<and> is_digit (last b) \<and>
                  list_all is_lower (butlast b)
      | _ \<Rightarrow> False)"

definition config_identifier :: "string \<Rightarrow> bool" where
  "config_identifier v \<longleftrightarrow>
     (let t = trim_space v in t \<noteq> [] \<and> length t \<le> 64 \<and> identifierPart t)"

definition config_bounded :: "int \<Rightarrow> int \<Rightarrow> int \<Rightarrow> bool" where
  "config_bounded v lo hi \<longleftrightarrow> \<not> (v < lo \<or> hi < v)"

definition config_Validate :: "store_config \<Rightarrow> bool" where
  "config_Validate c \<longleftrightarrow>
     config_identifier (sc_project c) \<and> config_identifier (sc_instance c) \<and>
     config_identifier (sc_database c) \<and> config_identifier (sc_model_project c) \<and>
     locationPart (sc_model_location c) \<and>
     (sc_strategy c = EmbeddingRemoteModel \<or> sc_strategy c = EmbeddingDeferred) \<and>
     sc_remote_model c = RemoteModelName \<and> sc_embedding_model c = EmbeddingModelName \<and>
     sc_dimension c = VectorDimension \<and> sc_document_task c = TaskRetrievalDocument \<and>
     sc_query_task c = TaskRetrievalQuery \<and> sc_rpc_batch c = 1 \<and>
     config_bounded (sc_index_leaves c) 1 1000000 \<and>
     config_bounded (sc_search_leaves c) 1 1000000 \<and>
     config_bounded (sc_hybrid_limit c) 1 10000 \<and> config_bounded (sc_rrf_k c) 1 10000 \<and>
     config_bounded (sc_max_limit c) 1 1000 \<and> config_bounded (sc_concurrency c) 1 256 \<and>
     config_bounded (sc_batch c) 1 2000 \<and>
     \<not> (sc_interval c < 10000000000 \<or> 3600000000000 < sc_interval c) \<and>
     config_bounded (sc_max_batches c) 1 1000000 \<and>
     \<not> (sc_stats_ttl c < 1000000000 \<or> 60000000000 < sc_stats_ttl c) \<and>
     \<not> (sc_use_ann c \<and> \<not> sc_enable_ann c)"

section \<open>An accepted configuration\<close>

definition example_config :: store_config where
  "example_config =
     \<lparr>sc_project = ''history-project'', sc_instance = ''history'', sc_database = ''chunks'',
      sc_model_project = ''history-project'', sc_model_location = ''us-central1'',
      sc_strategy = ''deferred'', sc_remote_model = ''ConversationEmbeddingModel'',
      sc_embedding_model = ''gemini-embedding-001'', sc_dimension = 3072,
      sc_document_task = ''RETRIEVAL_DOCUMENT'', sc_query_task = ''RETRIEVAL_QUERY'',
      sc_rpc_batch = 1, sc_full_text = True, sc_enable_ann = True, sc_use_ann = True,
      sc_index_leaves = 1000, sc_search_leaves = 10, sc_hybrid_limit = 100, sc_rrf_k = 60,
      sc_max_limit = 100, sc_concurrency = 8, sc_batch = 100, sc_interval = 60000000000,
      sc_max_batches = 1000, sc_stats_ttl = 5000000000\<rparr>"

lemma solid_lower: "is_lower c \<Longrightarrow> solid c" "is_digit c \<Longrightarrow> solid c"
  by (auto simp: is_lower_def is_digit_def solid_def less_eq_char_byte byte_of_def)

lemma config_identifierI:
  assumes "identifierPart v" "length v \<le> 64"
  shows "config_identifier v"
proof -
  have "v \<noteq> []" "solid (hd v)" using assms by (auto simp: identifierPart_def solid_lower)
  moreover have "solid (last v)"
    using assms by (cases v rule: rev_cases) (auto simp: identifierPart_def solid_lower)
  ultimately show ?thesis using assms by (simp add: config_identifier_def trim_space_solid)
qed

lemma example_config_valid: "config_Validate example_config"
proof -
  have "config_identifier ''history-project''" "config_identifier ''history''"
    "config_identifier ''chunks''"
    by (rule config_identifierI; code_simp)+
  moreover have "locationPart ''us-central1''" by code_simp
  ultimately show ?thesis
    by (simp add: config_Validate_def example_config_def store_constants config_bounded_def)
qed

end
