(* ===== verification/Store_SQL.thy ===== *)
theory Store_SQL
  imports Store_Config
begin

text \<open>
  The SQL texts of \<open>store/plans.go\<close>, cut at the verbs of \<open>fmt.Sprintf\<close>: the piece \<open>n\<close> of a template
  precedes its \<open>n\<close>-th argument.
\<close>

definition create_table_sql :: string where
  "create_table_sql =
     ''CREATE TABLE ConversationChunks ('' @ [CHR 0x0A] @ ''  Id STRING(64) NOT NULL,'' @
     [CHR 0x0A] @ ''  Content STRING(MAX) NOT NULL,'' @ [CHR 0x0A] @
     ''  ContentTokens TOKENLIST AS (TOKENIZE_FULLTEXT(Content)) HIDDEN,'' @ [CHR 0x0A] @
     ''  Vector ARRAY<FLOAT32>(vector_length=>3072),'' @ [CHR 0x0A] @
     ''  ChunkType STRING(32) NOT NULL,'' @ [CHR 0x0A] @
     ''  SessionId STRING(128) NOT NULL,'' @ [CHR 0x0A] @
     ''  ProjectPath STRING(MAX) NOT NULL,'' @ [CHR 0x0A] @
     ''  ProjectName STRING(256) NOT NULL,'' @ [CHR 0x0A] @
     ''  Timestamp TIMESTAMP NOT NULL,'' @ [CHR 0x0A] @ ''  UserUuid STRING(128),'' @
     [CHR 0x0A] @ ''  AssistantUuid STRING(128),'' @ [CHR 0x0A] @
     ''  FilePath STRING(MAX),'' @ [CHR 0x0A] @ ''  Operation STRING(32),'' @ [CHR 0x0A] @
     ''  Model STRING(256),'' @ [CHR 0x0A] @ ''  SourceFile STRING(MAX) NOT NULL,'' @
     [CHR 0x0A] @ ''  SourceLine INT64 NOT NULL,'' @ [CHR 0x0A] @
     ''  ParentChunkId STRING(64),'' @ [CHR 0x0A] @ ''  ChildChunkIds ARRAY<STRING(64)>,'' @
     [CHR 0x0A] @ ''  MachineId STRING(256)'' @ [CHR 0x0A] @ '') PRIMARY KEY (Id)''"

definition index_by_project_sql :: string where
  "index_by_project_sql =
     ''CREATE INDEX ConversationChunksByProject ON ConversationChunks(ProjectPath)''"

definition index_by_machine_sql :: string where
  "index_by_machine_sql =
     ''CREATE INDEX ConversationChunksByMachine ON ConversationChunks(MachineId)''"

definition index_by_timestamp_sql :: string where
  "index_by_timestamp_sql =
     ''CREATE INDEX ConversationChunksByTimestamp ON ConversationChunks(Timestamp)''"

definition index_by_project_timestamp_sql :: string where
  "index_by_project_timestamp_sql =
     ''CREATE INDEX ConversationChunksByProjectTimestamp ON ConversationChunks(ProjectPath, Timestamp)''"

definition search_index_sql :: string where
  "search_index_sql =
     ''CREATE SEARCH INDEX ConversationChunksContentSearch ON ConversationChunks(ContentTokens)''"

definition create_model_sql_0 :: string where
  "create_model_sql_0 =
     ''CREATE MODEL IF NOT EXISTS ''"

definition create_model_sql_1 :: string where
  "create_model_sql_1 =
     [CHR 0x0A] @ ''INPUT(content STRING(MAX), task_type STRING(MAX))'' @ [CHR 0x0A] @
     ''OUTPUT(embeddings STRUCT<statistics STRUCT<truncated BOOL, token_count FLOAT64>, values ARRAY<FLOAT64>>)'' @
     [CHR 0x0A] @ ''REMOTE OPTIONS (endpoint = '' @ [CHR 0x27]"

definition create_model_sql_2 :: string where
  "create_model_sql_2 =
     [CHR 0x27] @ '', default_batch_size = ''"

definition create_model_sql_3 :: string where
  "create_model_sql_3 =
     '')''"

definition vector_index_sql_0 :: string where
  "vector_index_sql_0 =
     ''CREATE VECTOR INDEX ConversationChunksVectorIndex'' @ [CHR 0x0A] @
     ''ON ConversationChunks(Vector)'' @ [CHR 0x0A] @
     ''STORING (ChunkType, SessionId, ProjectName, MachineId)'' @ [CHR 0x0A] @
     ''WHERE Vector IS NOT NULL'' @ [CHR 0x0A] @ ''OPTIONS (distance_type = '' @ [CHR 0x27] @
     ''COSINE'' @ [CHR 0x27] @ '', tree_depth = 2, num_leaves = ''"

definition vector_index_sql_1 :: string where
  "vector_index_sql_1 =
     '')''"

definition query_embedding_sql :: string where
  "query_embedding_sql =
     ''SELECT ARRAY('' @ [CHR 0x0A] @
     ''  SELECT CAST(value AS FLOAT32) FROM UNNEST(embeddings.values) AS value'' @
     [CHR 0x0A] @ '') AS Vector'' @ [CHR 0x0A] @ ''FROM M'' @ ''L.PREDICT('' @ [CHR 0x0A] @
     ''  MODEL ConversationEmbeddingModel,'' @ [CHR 0x0A] @
     ''  (SELECT @content AS content, @task_type AS task_type),'' @ [CHR 0x0A] @
     ''  STRUCT(3072 AS outputDimensionality)'' @ [CHR 0x0A] @ '') @'' @
     ''{remote_udf_max_rows_per_rpc=1}''"

definition remote_model_sql_0 :: string where
  "remote_model_sql_0 =
     ''INSERT OR UPDATE INTO ConversationChunks ('' @ [CHR 0x0A] @
     ''  Id, Content, Vector, ChunkType, SessionId, ProjectPath, ProjectName, Timestamp,'' @
     [CHR 0x0A] @
     ''  UserUuid, AssistantUuid, FilePath, Operation, Model, SourceFile, SourceLine,'' @
     [CHR 0x0A] @ ''  ParentChunkId, ChildChunkIds, MachineId'' @ [CHR 0x0A] @ '')'' @
     [CHR 0x0A] @ ''SELECT pred.id, pred.content,'' @ [CHR 0x0A] @
     ''  ARRAY(SELECT CAST(value AS FLOAT32) FROM UNNEST(pred.embeddings.values) AS value),'' @
     [CHR 0x0A] @
     ''  pred.chunk_type, pred.session_id, pred.project_path, pred.project_name, pred.timestamp,'' @
     [CHR 0x0A] @
     ''  pred.user_uuid, pred.assistant_uuid, pred.file_path, pred.operation, pred.model,'' @
     [CHR 0x0A] @
     ''  pred.source_file, pred.source_line, pred.parent_chunk_id, pred.child_chunk_ids,'' @
     [CHR 0x0A] @ ''  pred.machine_id'' @ [CHR 0x0A] @ ''FROM M'' @ ''L.PREDICT('' @ [CHR 0x0A] @
     ''  MODEL ConversationEmbeddingModel,'' @ [CHR 0x0A] @
     ''  (SELECT r.*, @task_type AS task_type FROM UNNEST(@rows) AS r),'' @ [CHR 0x0A] @
     ''  STRUCT(3072 AS outputDimensionality)'' @ [CHR 0x0A] @ '') @'' @
     ''{remote_udf_max_rows_per_rpc=''"

definition remote_model_sql_1 :: string where
  "remote_model_sql_1 =
     ''} AS pred''"

definition approx_distance_sql_0 :: string where
  "approx_distance_sql_0 =
     ''APPROX_COSINE_DISTANCE(Vector, @query_vector, options => JSON '' @ [CHR 0x27] @ ''{'' @
     [CHR 0x22] @ ''num_leaves_to_search'' @ [CHR 0x22] @ '': ''"

definition approx_distance_sql_1 :: string where
  "approx_distance_sql_1 =
     ''}'' @ [CHR 0x27] @ '')''"

definition search_sql_0 :: string where
  "search_sql_0 =
     ''SELECT Id, Content, ChunkType, SessionId, ProjectPath, ProjectName,'' @ [CHR 0x0A] @
     ''  Timestamp, FilePath, Operation, MachineId, ''"

definition search_sql_1 :: string where
  "search_sql_1 =
     '' AS Distance'' @ [CHR 0x0A] @ ''FROM ''"

definition search_sql_2 :: string where
  "search_sql_2 =
     [CHR 0x0A] @ ''WHERE ''"

definition search_sql_3 :: string where
  "search_sql_3 =
     [CHR 0x0A] @ ''ORDER BY Distance ASC'' @ [CHR 0x0A] @ ''LIMIT ''"

definition full_text_sql_0 :: string where
  "full_text_sql_0 =
     ''SELECT Id, Content, ChunkType, SessionId, ProjectPath, ProjectName,'' @ [CHR 0x0A] @
     ''  Timestamp, FilePath, Operation, MachineId,'' @ [CHR 0x0A] @
     ''  1.0 - SCORE(ContentTokens, @query) AS Distance'' @ [CHR 0x0A] @
     ''FROM ConversationChunks'' @ [CHR 0x0A] @ ''WHERE ''"

definition full_text_sql_1 :: string where
  "full_text_sql_1 =
     [CHR 0x0A] @ ''ORDER BY SCORE(ContentTokens, @query) DESC'' @ [CHR 0x0A] @ ''LIMIT ''"

definition hybrid_sql_0 :: string where
  "hybrid_sql_0 =
     ''WITH VectorCandidates AS ('' @ [CHR 0x0A] @
     ''  SELECT rank, chunk_id AS Id FROM UNNEST(ARRAY('' @ [CHR 0x0A] @
     ''    SELECT Id FROM ''"

definition hybrid_sql_1 :: string where
  "hybrid_sql_1 =
     '' WHERE ''"

definition hybrid_sql_2 :: string where
  "hybrid_sql_2 =
     '' ORDER BY ''"

definition hybrid_sql_3 :: string where
  "hybrid_sql_3 =
     '' ASC LIMIT ''"

definition hybrid_sql_4 :: string where
  "hybrid_sql_4 =
     [CHR 0x0A] @ ''  )) AS chunk_id WITH OFFSET AS rank'' @ [CHR 0x0A] @
     ''), TextCandidates AS ('' @ [CHR 0x0A] @
     ''  SELECT rank, chunk_id AS Id FROM UNNEST(ARRAY('' @ [CHR 0x0A] @
     ''    SELECT Id FROM ConversationChunks WHERE ''"

definition hybrid_sql_5 :: string where
  "hybrid_sql_5 =
     [CHR 0x0A] @ ''    ORDER BY SCORE(ContentTokens, @query) DESC LIMIT ''"

definition hybrid_sql_6 :: string where
  "hybrid_sql_6 =
     [CHR 0x0A] @ ''  )) AS chunk_id WITH OFFSET AS rank'' @ [CHR 0x0A] @
     ''), FusedCandidates AS ('' @ [CHR 0x0A] @
     ''  SELECT Id, SUM(1.0 / (@rrf_k + rank + 1)) AS Score'' @ [CHR 0x0A] @
     ''  FROM (SELECT Id, rank FROM VectorCandidates UNION ALL SELECT Id, rank FROM TextCandidates)'' @
     [CHR 0x0A] @ ''  GROUP BY Id'' @ [CHR 0x0A] @ '')'' @ [CHR 0x0A] @
     ''SELECT c.Id, c.Content, c.ChunkType, c.SessionId, c.ProjectPath, c.ProjectName,'' @
     [CHR 0x0A] @ ''  c.Timestamp, c.FilePath, c.Operation, c.MachineId,'' @ [CHR 0x0A] @
     ''  1.0 - LEAST(1.0, f.Score / (2.0 / (@rrf_k + 1))) AS Distance'' @ [CHR 0x0A] @
     ''FROM FusedCandidates f JOIN ConversationChunks c ON c.Id = f.Id'' @ [CHR 0x0A] @
     ''ORDER BY f.Score DESC LIMIT ''"

definition backfill_read_sql_0 :: string where
  "backfill_read_sql_0 =
     ''SELECT Id, Content, ChunkType, SessionId, ProjectPath, ProjectName,'' @ [CHR 0x0A] @
     ''  Timestamp, UserUuid, AssistantUuid, FilePath, Operation, Model, SourceFile,'' @
     [CHR 0x0A] @ ''  SourceLine, ParentChunkId, ChildChunkIds, MachineId'' @ [CHR 0x0A] @
     ''FROM ConversationChunks'' @ [CHR 0x0A] @
     ''WHERE Vector IS NULL AND STARTS_WITH(Id, @prefix)'' @ [CHR 0x0A] @ ''LIMIT ''"

end
