(* ===== verification/Store_Plans.thy ===== *)
theory Store_Plans
  imports Store_SQL
begin

text \<open>
  \<open>store/plans.go\<close>: validation of chunks, vectors and queries, and the statements and mutations
  that the store sends to Spanner.  An error is a short text that names the failed check.  The
  lemmas show that a plan exists exactly for a valid batch, that batches are never mixed, that
  approximate search is used only where the index can answer, and that no text of a user
  becomes part of the SQL.
\<close>

section \<open>Values, statements and queries\<close>

record embedding_row =
  er_id :: string
  er_content :: string
  er_type :: string
  er_session :: string
  er_project_path :: string
  er_project_name :: string
  er_time :: instant
  er_user :: "string option"
  er_assistant :: "string option"
  er_file :: "string option"
  er_operation :: "string option"
  er_model :: "string option"
  er_source_file :: string
  er_source_line :: int
  er_parent :: "string option"
  er_children :: "string list"
  er_machine :: "string option"

text \<open>A value of type \<open>any\<close> in a parameter, a mutation or a row; floating-point numbers are bit
  patterns, \<open>VFloatOf\<close> is a converted integer.\<close>

datatype dbvalue =
    VNull
  | VBool bool
  | VBytes string
  | VStr string
  | VInt int
  | VTime instant
  | VF32 "32 word"
  | VF64 "64 word"
  | VF32s "32 word list"
  | VF64s "64 word list"
  | VFloatOf int
  | VStrs "string list"
  | VRows "embedding_row list"

record statement =
  st_sql :: string
  st_params :: "(string \<times> dbvalue) list"

record mutation =
  mu_table :: string
  mu_columns :: "string list"
  mu_values :: "dbvalue list list"

record ddl =
  dd_sql :: string
  dd_exists_ok :: bool

record filter =
  fi_project_path :: string
  fi_chunk_type :: string
  fi_session :: string
  fi_project_name :: string
  fi_machine :: string
  fi_file_path :: string
  fi_operation :: string
  fi_date_from :: instant
  fi_date_to :: instant

record query =
  qu_text :: string
  qu_vector :: "32 word list"
  qu_limit :: int
  qu_mode :: string
  qu_filter :: filter

datatype upsert_plan = PlanStatement statement | PlanMutation mutation

record search_plan =
  sp_statement :: statement
  sp_mode :: string
  sp_type :: string

definition SearchAuto :: string where "SearchAuto = ''auto''"
definition SearchExact :: string where "SearchExact = ''exact''"
definition SearchANN :: string where "SearchANN = ''ann''"

lemmas search_modes = SearchAuto_def SearchExact_def SearchANN_def

section \<open>Vectors\<close>

text \<open>A \<open>float32\<close> is finite when its exponent is not all ones; its magnitude is at least
  \<open>1e-10\<close> when its bits without the sign are at least those of the nearest \<open>float32\<close> above.\<close>

definition f32_finite :: "32 word \<Rightarrow> bool" where
  "f32_finite w \<longleftrightarrow> unat w mod 2147483648 < 2139095040"

definition f32_significant :: "32 word \<Rightarrow> bool" where
  "f32_significant w \<longleftrightarrow> 786163455 \<le> unat w mod 2147483648"

definition validateVector :: "32 word list \<Rightarrow> bool" where
  "validateVector v \<longleftrightarrow>
     int (length v) = VectorDimension \<and> list_all f32_finite v \<and> list_ex f32_significant v"

text \<open>\<open>float32(value)\<close> of a finite \<open>float64\<close> not above \<open>math.MaxFloat32\<close>: round to nearest, ties to
  even.\<close>

definition round_shift :: "nat \<Rightarrow> nat \<Rightarrow> nat" where
  "round_shift m k =
     (let q = m div 2 ^ k; r = m mod 2 ^ k in
      if 2 * r > 2 ^ k \<or> 2 * r = 2 ^ k \<and> odd q then q + 1 else q)"

definition f64_to_f32 :: "64 word \<Rightarrow> 32 word" where
  "f64_to_f32 w =
     (let n = unat w; sign = n div 2 ^ 63; e = (n div 2 ^ 52) mod 2048; m = n mod 2 ^ 52;
          bits = (if 897 \<le> e then (e - 897) * 2 ^ 23 + round_shift (2 ^ 52 + m) 29
                  else if e = 0 then 0
                  else round_shift (2 ^ 52 + m) (926 - e))
      in word_of_nat (sign * 2 ^ 31 + bits))"

text \<open>Not a number, infinite, or beyond \<open>math.MaxFloat32\<close> in magnitude.\<close>

definition f64_rejected :: "64 word \<Rightarrow> bool" where
  "f64_rejected w \<longleftrightarrow> 5183643170566569984 < unat w mod 2 ^ 63"

definition f64_finite :: "64 word \<Rightarrow> bool" where
  "f64_finite w \<longleftrightarrow> unat w mod 2 ^ 63 < 9218868437227405312"

section \<open>Chunks\<close>

definition required_field :: "string \<Rightarrow> nat \<Rightarrow> bool" where
  "required_field v maximum \<longleftrightarrow> v \<noteq> [] \<and> length v \<le> maximum"

definition validateChunk :: "chunk \<Rightarrow> bool" where
  "validateChunk c \<longleftrightarrow>
     required_field (ck_id c) 64 \<and> required_field (ck_content c) 8388608 \<and>
     required_field (ck_type c) 32 \<and> required_field (ck_session c) 128 \<and>
     required_field (ck_project_path c) 8192 \<and> required_field (ck_project_name c) 256 \<and>
     required_field (ck_source_file c) 8192 \<and>
     length (ck_user_uuid c) \<le> 128 \<and> length (ck_assistant_uuid c) \<le> 128 \<and>
     length (ck_file_path c) \<le> 8192 \<and> length (ck_operation c) \<le> 32 \<and>
     length (ck_model c) \<le> 256 \<and> length (ck_parent c) \<le> 64 \<and> length (ck_machine c) \<le> 256 \<and>
     \<not> is_zero_time (ck_timestamp c) \<and> 0 \<le> ck_source_line c \<and>
     length (ck_children c) \<le> 10000 \<and> list_all (\<lambda>i. required_field i 64) (ck_children c)"

definition hasLowerHexShardPrefix :: "string \<Rightarrow> bool" where
  "hasLowerHexShardPrefix ident \<longleftrightarrow> 2 \<le> length ident \<and> list_all is_lower_hex (take 2 ident)"

definition nullable :: "string \<Rightarrow> dbvalue" where
  "nullable v = (if v = [] then VNull else VStr v)"

definition optionalString :: "string \<Rightarrow> string option" where
  "optionalString v = (if v = [] then None else Some v)"

definition allColumns :: "string list" where
  "allColumns =
     [''Id'', ''Content'', ''Vector'', ''ChunkType'', ''SessionId'', ''ProjectPath'',
      ''ProjectName'', ''Timestamp'', ''UserUuid'', ''AssistantUuid'', ''FilePath'',
      ''Operation'', ''Model'', ''SourceFile'', ''SourceLine'', ''ParentChunkId'',
      ''ChildChunkIds'', ''MachineId'']"

definition columnsWithoutVector :: "string list" where
  "columnsWithoutVector =
     [''Id'', ''Content'', ''ChunkType'', ''SessionId'', ''ProjectPath'', ''ProjectName'',
      ''Timestamp'', ''UserUuid'', ''AssistantUuid'', ''FilePath'', ''Operation'', ''Model'',
      ''SourceFile'', ''SourceLine'', ''ParentChunkId'', ''ChildChunkIds'', ''MachineId'']"

definition chunkValues :: "chunk \<Rightarrow> bool \<Rightarrow> dbvalue list" where
  "chunkValues c includeVector =
     [VStr (ck_id c), VStr (ck_content c)] @ (if includeVector then [VF32s (ck_vector c)] else []) @
     [VStr (ck_type c), VStr (ck_session c), VStr (ck_project_path c), VStr (ck_project_name c),
      VTime (ck_timestamp c), nullable (ck_user_uuid c), nullable (ck_assistant_uuid c),
      nullable (ck_file_path c), nullable (ck_operation c), nullable (ck_model c),
      VStr (ck_source_file c), VInt (ck_source_line c), nullable (ck_parent c),
      VStrs (ck_children c), nullable (ck_machine c)]"

definition chunkRow :: "chunk \<Rightarrow> embedding_row" where
  "chunkRow c =
     \<lparr>er_id = ck_id c, er_content = ck_content c, er_type = ck_type c, er_session = ck_session c,
      er_project_path = ck_project_path c, er_project_name = ck_project_name c,
      er_time = ck_timestamp c, er_user = optionalString (ck_user_uuid c),
      er_assistant = optionalString (ck_assistant_uuid c), er_file = optionalString (ck_file_path c),
      er_operation = optionalString (ck_operation c), er_model = optionalString (ck_model c),
      er_source_file = ck_source_file c, er_source_line = ck_source_line c,
      er_parent = optionalString (ck_parent c), er_children = ck_children c,
      er_machine = optionalString (ck_machine c)\<rparr>"

section \<open>Data definition\<close>

definition model_endpoint :: "store_config \<Rightarrow> string" where
  "model_endpoint c =
     ''//aiplatform.googleapis.com/projects/'' @ sc_model_project c @ ''/locations/'' @
     sc_model_location c @ ''/publishers/google/models/'' @ EmbeddingModelName"

definition BuildInitializationDDL :: "store_config \<Rightarrow> string + ddl list" where
  "BuildInitializationDDL c =
     (if \<not> config_Validate c then Inl ''config''
      else Inr (map (\<lambda>sql. \<lparr>dd_sql = sql, dd_exists_ok = True\<rparr>)
        ([create_table_sql, index_by_project_sql, index_by_machine_sql, index_by_timestamp_sql,
          index_by_project_timestamp_sql] @
         (if sc_full_text c then [search_index_sql] else []) @
         [create_model_sql_0 @ RemoteModelName @ create_model_sql_1 @ model_endpoint c @
          create_model_sql_2 @ show_int (sc_rpc_batch c) @ create_model_sql_3])))"

definition BuildVectorIndexDDL :: "store_config \<Rightarrow> string + ddl" where
  "BuildVectorIndexDDL c =
     (if \<not> config_Validate c then Inl ''config''
      else Inr \<lparr>dd_sql = vector_index_sql_0 @ show_int (sc_index_leaves c) @ vector_index_sql_1,
                dd_exists_ok = True\<rparr>)"

section \<open>Upserts\<close>

definition buildRemoteModelStatement :: "store_config \<Rightarrow> chunk list \<Rightarrow> statement" where
  "buildRemoteModelStatement c chunks =
     \<lparr>st_sql = remote_model_sql_0 @ show_int (sc_rpc_batch c) @ remote_model_sql_1,
      st_params = [(''rows'', VRows (map chunkRow chunks)),
                   (''task_type'', VStr (sc_document_task c))]\<rparr>"

text \<open>The loop over the chunks: each is checked; the counts of embedded and unembedded ones.\<close>

fun upsert_counts :: "store_config \<Rightarrow> chunk list \<Rightarrow> string + nat \<times> nat" where
  "upsert_counts c [] = Inr (0, 0)"
| "upsert_counts c (k # ks) =
     (if \<not> validateChunk k then Inl ''chunk''
      else if sc_strategy c = EmbeddingDeferred \<and> ck_vector k = [] \<and>
              \<not> hasLowerHexShardPrefix (ck_id k) then Inl ''shard prefix''
      else if ck_vector k \<noteq> [] \<and> \<not> validateVector (ck_vector k) then Inl ''vector''
      else (case upsert_counts c ks of
         Inl e \<Rightarrow> Inl e
       | Inr (embedded, unembedded) \<Rightarrow>
           Inr (if ck_vector k = [] then (embedded, unembedded + 1) else (embedded + 1, unembedded))))"

definition BuildUpsertPlan :: "store_config \<Rightarrow> chunk list \<Rightarrow> string + upsert_plan" where
  "BuildUpsertPlan c chunks =
     (if \<not> config_Validate c then Inl ''config''
      else if chunks = [] then Inl ''empty batch''
      else if 500 < length chunks then Inl ''batch exceeds 500''
      else (case upsert_counts c chunks of
         Inl e \<Rightarrow> Inl e
       | Inr (embedded, unembedded) \<Rightarrow>
           if embedded \<noteq> 0 \<and> unembedded \<noteq> 0 then Inl ''mixed batch''
           else if embedded \<noteq> 0 then
             Inr (PlanMutation \<lparr>mu_table = TableName, mu_columns = allColumns,
                                mu_values = map (\<lambda>k. chunkValues k True) chunks\<rparr>)
           else if sc_strategy c = EmbeddingDeferred then
             Inr (PlanMutation \<lparr>mu_table = TableName, mu_columns = columnsWithoutVector,
                                mu_values = map (\<lambda>k. chunkValues k False) chunks\<rparr>)
           else Inr (PlanStatement (buildRemoteModelStatement c chunks))))"

section \<open>Searches\<close>

definition maxQueryTextBytes :: nat where "maxQueryTextBytes = 16384"

definition validateLimit :: "int \<Rightarrow> int \<Rightarrow> bool" where
  "validateLimit limit maximum \<longleftrightarrow> \<not> (limit < 1 \<or> maximum < limit)"

definition validateQueryText :: "string \<Rightarrow> bool" where
  "validateQueryText t \<longleftrightarrow> \<not> (trim_space t = [] \<or> maxQueryTextBytes < length t)"

definition BuildQueryEmbeddingPlan :: "store_config \<Rightarrow> string \<Rightarrow> string + statement" where
  "BuildQueryEmbeddingPlan c text =
     (if \<not> config_Validate c then Inl ''config''
      else if \<not> validateQueryText text then Inl ''query text''
      else Inr \<lparr>st_sql = query_embedding_sql,
                st_params = [(''content'', VStr text), (''task_type'', VStr (sc_query_task c))]\<rparr>)"

definition hasUnstoredFilters :: "filter \<Rightarrow> bool" where
  "hasUnstoredFilters f \<longleftrightarrow>
     fi_project_path f \<noteq> [] \<or> fi_file_path f \<noteq> [] \<or> fi_operation f \<noteq> [] \<or>
     \<not> is_zero_time (fi_date_from f) \<or> \<not> is_zero_time (fi_date_to f)"

definition chooseVectorMode :: "store_config \<Rightarrow> query \<Rightarrow> bool \<Rightarrow> string + string" where
  "chooseVectorMode c q available =
     (let annReady = sc_enable_ann c \<and> sc_use_ann c \<and> available in
      if qu_mode q \<noteq> SearchAuto \<and> qu_mode q \<noteq> SearchExact \<and> qu_mode q \<noteq> SearchANN
      then Inl ''mode''
      else if hasUnstoredFilters (qu_filter q) then
        (if qu_mode q = SearchANN then Inl ''ann filters'' else Inr SearchExact)
      else if qu_mode q = SearchANN then (if annReady then Inr SearchANN else Inl ''ann unavailable'')
      else if qu_mode q = SearchAuto \<and> annReady then Inr SearchANN
      else Inr SearchExact)"

text \<open>The six equality filters, in order: column, parameter, value, limit.\<close>

definition filter_items :: "filter \<Rightarrow> (string \<times> string \<times> string \<times> nat) list" where
  "filter_items f =
     [(''ProjectPath'', ''project_path'', fi_project_path f, 8192),
      (''ChunkType'', ''chunk_type'', fi_chunk_type f, 32),
      (''SessionId'', ''session_id'', fi_session f, 128),
      (''ProjectName'', ''project_name'', fi_project_name f, 256),
      (''MachineId'', ''machine_id'', fi_machine f, 256),
      (''Operation'', ''operation'', fi_operation f, 32)]"

definition equality_filters :: "filter \<Rightarrow> (string \<times> string \<times> string \<times> nat) list" where
  "equality_filters f = List.filter (\<lambda>(_, _, v, _). v \<noteq> []) (filter_items f)"

definition buildFilters :: "filter \<Rightarrow> bool \<Rightarrow> string + string list \<times> (string \<times> dbvalue) list" where
  "buildFilters f vector =
     (if \<not> is_zero_time (fi_date_from f) \<and> \<not> is_zero_time (fi_date_to f) \<and>
         fi_date_to f < fi_date_from f then Inl ''date range''
      else if list_ex (\<lambda>(_, _, v, limit). limit < length v) (equality_filters f)
      then Inl ''filter too long''
      else if 8192 < length (fi_file_path f) then Inl ''filter too long''
      else
        let filters =
              (if vector then [''Vector IS NOT NULL''] else []) @
              map (\<lambda>(col, par, _, _). col @ '' = @'' @ par) (equality_filters f) @
              (if fi_file_path f \<noteq> [] then [''FilePath LIKE @file_path''] else []) @
              (if is_zero_time (fi_date_from f) then [] else [''Timestamp >= @date_from'']) @
              (if is_zero_time (fi_date_to f) then [] else [''Timestamp <= @date_to'']);
            params =
              map (\<lambda>(_, par, v, _). (par, VStr v)) (equality_filters f) @
              (if fi_file_path f \<noteq> [] then [(''file_path'', VStr (''%'' @ fi_file_path f @ ''%''))]
               else []) @
              (if is_zero_time (fi_date_from f) then [] else [(''date_from'', VTime (fi_date_from f))]) @
              (if is_zero_time (fi_date_to f) then [] else [(''date_to'', VTime (fi_date_to f))])
        in Inr (if filters = [] then [''TRUE''] else filters, params))"

definition ann_table :: string where
  "ann_table = TableName @ ''@'' @ ''{FORCE_INDEX='' @ VectorIndexName @ ''}''"

definition vector_table :: "string \<Rightarrow> string" where
  "vector_table mode = (if mode = SearchANN then ann_table else TableName)"

definition vector_distance :: "store_config \<Rightarrow> string \<Rightarrow> string" where
  "vector_distance c mode =
     (if mode = SearchANN
      then approx_distance_sql_0 @ show_int (sc_search_leaves c) @ approx_distance_sql_1
      else ''COSINE_DISTANCE(Vector, @query_vector)'')"

definition BuildSearchPlan :: "store_config \<Rightarrow> query \<Rightarrow> bool \<Rightarrow> string + search_plan" where
  "BuildSearchPlan c q available =
     (if \<not> config_Validate c then Inl ''config''
      else if \<not> validateLimit (qu_limit q) (sc_max_limit c) then Inl ''limit''
      else if \<not> validateVector (qu_vector q) then Inl ''query vector''
      else (case chooseVectorMode c q available of
         Inl e \<Rightarrow> Inl e
       | Inr mode \<Rightarrow>
           (case buildFilters (qu_filter q) True of
              Inl e \<Rightarrow> Inl e
            | Inr (filters, params) \<Rightarrow>
                Inr \<lparr>sp_statement =
                       \<lparr>st_sql = search_sql_0 @ vector_distance c mode @ search_sql_1 @
                          vector_table mode @ search_sql_2 @ join '' AND '' filters @
                          search_sql_3 @ show_int (qu_limit q),
                        st_params = (''query_vector'', VF32s (qu_vector q)) # params\<rparr>,
                     sp_mode = mode,
                     sp_type = (if mode = SearchANN then ''ann'' else ''exact'')\<rparr>)))"

definition BuildFullTextPlan :: "store_config \<Rightarrow> query \<Rightarrow> string + search_plan" where
  "BuildFullTextPlan c q =
     (if \<not> config_Validate c then Inl ''config''
      else if \<not> sc_full_text c then Inl ''full text disabled''
      else if \<not> validateLimit (qu_limit q) (sc_max_limit c) then Inl ''limit''
      else if \<not> validateQueryText (qu_text q) then Inl ''query text''
      else (case buildFilters (qu_filter q) False of
         Inl e \<Rightarrow> Inl e
       | Inr (filters, params) \<Rightarrow>
           Inr \<lparr>sp_statement =
                  \<lparr>st_sql = full_text_sql_0 @
                     join '' AND '' (''SEARCH(ContentTokens, @query)'' # filters) @
                     full_text_sql_1 @ show_int (qu_limit q),
                   st_params = (''query'', VStr (qu_text q)) # params\<rparr>,
                sp_mode = SearchExact, sp_type = ''full_text''\<rparr>))"

text \<open>The text of the hybrid search: both candidate lists are bounded by the larger limit.\<close>

definition hybrid_sql ::
  "store_config \<Rightarrow> string \<Rightarrow> string list \<Rightarrow> string list \<Rightarrow> int \<Rightarrow> string" where
  "hybrid_sql c mode vectorFilters textFilters limit =
     (let candidates = show_int (max limit (sc_hybrid_limit c)) in
      hybrid_sql_0 @ vector_table mode @ hybrid_sql_1 @ join '' AND '' vectorFilters @
      hybrid_sql_2 @ vector_distance c mode @ hybrid_sql_3 @ candidates @ hybrid_sql_4 @
      join '' AND '' (''SEARCH(ContentTokens, @query)'' # textFilters) @
      hybrid_sql_5 @ candidates @ hybrid_sql_6 @ show_int limit)"

definition BuildHybridPlan :: "store_config \<Rightarrow> query \<Rightarrow> bool \<Rightarrow> string + search_plan" where
  "BuildHybridPlan c q available =
     (if \<not> config_Validate c then Inl ''config''
      else if \<not> sc_full_text c then Inl ''full text disabled''
      else if \<not> validateQueryText (qu_text q) then Inl ''query text''
      else if \<not> validateLimit (qu_limit q) (sc_max_limit c) then Inl ''limit''
      else if \<not> validateVector (qu_vector q) then Inl ''query vector''
      else (case chooseVectorMode c q available of
         Inl e \<Rightarrow> Inl e
       | Inr mode \<Rightarrow>
           (case (buildFilters (qu_filter q) True, buildFilters (qu_filter q) False) of
              (Inr (vectorFilters, params), Inr (textFilters, _)) \<Rightarrow>
                Inr \<lparr>sp_statement =
                       \<lparr>st_sql = hybrid_sql c mode vectorFilters textFilters (qu_limit q),
                        st_params = [(''query'', VStr (qu_text q)),
                                     (''query_vector'', VF32s (qu_vector q)),
                                     (''rrf_k'', VFloatOf (sc_rrf_k c))] @ params\<rparr>,
                     sp_mode = mode, sp_type = ''hybrid''\<rparr>
            | (Inl e, _) \<Rightarrow> Inl e
            | (_, Inl e) \<Rightarrow> Inl e)))"

definition BuildBackfillReadPlan :: "store_config \<Rightarrow> string \<Rightarrow> string + statement" where
  "BuildBackfillReadPlan c prefix =
     (if \<not> config_Validate c then Inl ''config''
      else if length prefix \<noteq> 2 \<or> \<not> list_all is_lower_hex prefix then Inl ''prefix''
      else Inr \<lparr>st_sql = backfill_read_sql_0 @ show_int (sc_batch c),
                st_params = [(''prefix'', VStr prefix)]\<rparr>)"

section \<open>Reading rows\<close>

record result =
  re_id :: string
  re_content :: string
  re_type :: string
  re_session :: string
  re_project_path :: string
  re_project_name :: string
  re_time :: instant
  re_file :: string
  re_operation :: string
  re_machine :: string
  re_distance :: dbvalue
  re_search_type :: string

fun requiredRowString :: "dbvalue \<Rightarrow> string option" where
  "requiredRowString (VStr s) = (if s = [] then None else Some s)"
| "requiredRowString _ = None"

fun optionalRowString :: "dbvalue \<Rightarrow> string option" where
  "optionalRowString VNull = Some []"
| "optionalRowString (VStr s) = Some s"
| "optionalRowString _ = None"

fun row_time :: "dbvalue \<Rightarrow> instant option" where
  "row_time (VTime t) = (if is_zero_time t then None else Some t)"
| "row_time _ = None"

text \<open>The distance: a finite \<open>float64\<close>, or a \<open>float32\<close>, kept with its width.\<close>

fun row_distance :: "dbvalue \<Rightarrow> dbvalue option" where
  "row_distance (VF64 w) = (if f64_finite w then Some (VF64 w) else None)"
| "row_distance (VF32 w) = (if f32_finite w then Some (VF32 w) else None)"
| "row_distance _ = None"

definition parse_result_row :: "string \<Rightarrow> dbvalue list \<Rightarrow> result option" where
  "parse_result_row searchType row =
     (case row of
        [v0, v1, v2, v3, v4, v5, v6, v7, v8, v9, v10] \<Rightarrow>
          (case (requiredRowString v0, requiredRowString v1, requiredRowString v2,
                 requiredRowString v3, requiredRowString v4, requiredRowString v5, row_time v6,
                 optionalRowString v7, optionalRowString v8, optionalRowString v9,
                 row_distance v10) of
             (Some a, Some b, Some c, Some d, Some e, Some f, Some t, Some g, Some h, Some i,
              Some j) \<Rightarrow>
               Some \<lparr>re_id = a, re_content = b, re_type = c, re_session = d, re_project_path = e,
                     re_project_name = f, re_time = t, re_file = g, re_operation = h,
                     re_machine = i, re_distance = j, re_search_type = searchType\<rparr>
           | _ \<Rightarrow> None)
      | _ \<Rightarrow> None)"

fun parseResultRows :: "dbvalue list list \<Rightarrow> string \<Rightarrow> result list option" where
  "parseResultRows [] searchType = Some []"
| "parseResultRows (row # rows) searchType =
     (case parse_result_row searchType row of
        None \<Rightarrow> None
      | Some r \<Rightarrow>
          (case parseResultRows rows searchType of None \<Rightarrow> None | Some rs \<Rightarrow> Some (r # rs)))"

definition parseEmbeddingRows :: "dbvalue list list \<Rightarrow> 32 word list option" where
  "parseEmbeddingRows rows =
     (case rows of
        [[VF32s v]] \<Rightarrow> if validateVector v then Some v else None
      | [[VF64s v]] \<Rightarrow>
          if list_ex f64_rejected v then None
          else if validateVector (map f64_to_f32 v) then Some (map f64_to_f32 v) else None
      | _ \<Rightarrow> None)"

section \<open>Lemmas: upserts\<close>

text \<open>What the loop demands of one chunk.\<close>

definition chunk_accepted :: "store_config \<Rightarrow> chunk \<Rightarrow> bool" where
  "chunk_accepted c k \<longleftrightarrow>
     validateChunk k \<and>
     (if ck_vector k = [] then sc_strategy c = EmbeddingDeferred \<longrightarrow> hasLowerHexShardPrefix (ck_id k)
      else validateVector (ck_vector k))"

lemma upsert_counts_Inr:
  "upsert_counts c ks = Inr n \<longleftrightarrow>
     list_all (chunk_accepted c) ks \<and>
     n = (length (List.filter (\<lambda>k. ck_vector k \<noteq> []) ks), length (List.filter (\<lambda>k. ck_vector k = []) ks))"
proof (induction ks arbitrary: n)
  case (Cons k ks)
  show ?case
  proof (cases "upsert_counts c ks")
    case (Inl e)
    with Cons.IH have "\<not> list_all (chunk_accepted c) ks" by (metis sum.distinct(1))
    with Inl show ?thesis by simp
  next
    case (Inr m)
    with Cons.IH have "list_all (chunk_accepted c) ks" "m = (length (List.filter (\<lambda>k. ck_vector k \<noteq> []) ks),
        length (List.filter (\<lambda>k. ck_vector k = []) ks))" by blast+
    with Inr show ?thesis by (auto simp: chunk_accepted_def [of c k])
  qed
qed auto

lemma upsert_unmixed:
  "length (List.filter (\<lambda>k. ck_vector k \<noteq> []) ks) = 0 \<longleftrightarrow> list_all (\<lambda>k. ck_vector k = []) ks"
  "length (List.filter (\<lambda>k. ck_vector k = []) ks) = 0 \<longleftrightarrow> list_all (\<lambda>k. ck_vector k \<noteq> []) ks"
  by (auto simp: list_all_iff filter_empty_conv)

lemma BuildUpsertPlan_Inr:
  "BuildUpsertPlan c ks = Inr p \<longleftrightarrow>
     config_Validate c \<and> ks \<noteq> [] \<and> length ks \<le> 500 \<and> list_all (chunk_accepted c) ks \<and>
     (if list_all (\<lambda>k. ck_vector k \<noteq> []) ks then
        p = PlanMutation \<lparr>mu_table = TableName, mu_columns = allColumns,
                          mu_values = map (\<lambda>k. chunkValues k True) ks\<rparr>
      else list_all (\<lambda>k. ck_vector k = []) ks \<and>
        p = (if sc_strategy c = EmbeddingDeferred
             then PlanMutation \<lparr>mu_table = TableName, mu_columns = columnsWithoutVector,
                                mu_values = map (\<lambda>k. chunkValues k False) ks\<rparr>
             else PlanStatement (buildRemoteModelStatement c ks)))"
proof (cases "upsert_counts c ks")
  case (Inl e)
  then have "\<not> list_all (chunk_accepted c) ks" by (metis upsert_counts_Inr sum.distinct(1))
  with Inl show ?thesis by (simp add: BuildUpsertPlan_def)
next
  case (Inr n)
  then have n: "list_all (chunk_accepted c) ks"
    "n = (length (List.filter (\<lambda>k. ck_vector k \<noteq> []) ks), length (List.filter (\<lambda>k. ck_vector k = []) ks))"
    by (simp_all add: upsert_counts_Inr)
  have "\<not> (list_all (\<lambda>k. ck_vector k \<noteq> []) ks \<and> list_all (\<lambda>k. ck_vector k = []) ks)" if "ks \<noteq> []"
    using that by (cases ks) auto
  with Inr n show ?thesis
    unfolding BuildUpsertPlan_def upsert_unmixed [symmetric] by auto
qed

section \<open>Lemmas: rounding\<close>

lemma round_shift_le: "m \<le> q * 2 ^ k \<Longrightarrow> round_shift m k \<le> q"
proof -
  assume le: "m \<le> q * 2 ^ k"
  have d: "m div 2 ^ k \<le> q" using div_le_mono [OF le, of "2 ^ k"] by simp
  show ?thesis
  proof (cases "m div 2 ^ k = q")
    case True
    with le have "m mod 2 ^ k = 0"
      by (metis add_diff_cancel_left' diff_is_0_eq div_mult_mod_eq)
    with True show ?thesis by (simp add: round_shift_def Let_def)
  next
    case False
    with d show ?thesis by (simp add: round_shift_def Let_def)
  qed
qed

lemma f64_exponent: "(n div 2 ^ 52) mod 2048 = (n mod 2 ^ 63) div 2 ^ 52" for n :: nat
proof -
  have "(n mod (2 ^ 52 * 2 ^ 11)) div 2 ^ 52 = (n div 2 ^ 52) mod 2 ^ 11"
    by (simp only: mod_mult2_eq) simp
  then show ?thesis by simp
qed

text \<open>The bits of the rounded magnitude, for an exponent and a fraction.\<close>

definition f32_bits :: "nat \<Rightarrow> nat \<Rightarrow> nat" where
  "f32_bits e m =
     (if 897 \<le> e then (e - 897) * 2 ^ 23 + round_shift (2 ^ 52 + m) 29
      else if e = 0 then 0 else round_shift (2 ^ 52 + m) (926 - e))"

lemma f32_bits_finite:
  assumes "e * 2 ^ 52 + m \<le> 5183643170566569984" "m < 2 ^ 52"
  shows "f32_bits e m < 2139095040"
proof -
  have "e \<le> 1150"
  proof (rule ccontr)
    assume "\<not> e \<le> 1150"
    then have "1151 * 2 ^ 52 \<le> e * 2 ^ 52" by (intro mult_right_mono) auto
    with assms(1) show False by simp
  qed
  then consider "e < 897" | "897 \<le> e" "e < 1150" | "e = 1150" by linarith
  then show ?thesis
  proof cases
    case 1
    have "(2::nat) ^ 30 \<le> 2 ^ (926 - e)" using 1 by (intro power_increasing) auto
    then have "2 ^ 52 + m \<le> 2 ^ 23 * 2 ^ (926 - e)" using assms(2) by simp
    then have "round_shift (2 ^ 52 + m) (926 - e) \<le> 2 ^ 23" by (rule round_shift_le)
    with 1 show ?thesis by (simp add: f32_bits_def)
  next
    case 2
    have "round_shift (2 ^ 52 + m) 29 \<le> 2 ^ 24" using assms(2) by (intro round_shift_le) simp
    with 2 show ?thesis by (simp add: f32_bits_def)
  next
    case 3
    have "round_shift (2 ^ 52 + m) 29 \<le> 2 ^ 24 - 1" using assms 3 by (intro round_shift_le) simp
    with 3 show ?thesis by (simp add: f32_bits_def)
  qed
qed

lemma unat_word32: "x < 2 ^ 32 \<Longrightarrow> unat (word_of_nat x :: 32 word) = x"
  by (simp add: unsigned_of_nat take_bit_nat_eq_self)

lemma f64_to_f32_bits:
  assumes "\<not> f64_rejected w"
  shows "unat (f64_to_f32 w) mod 2147483648 < 2139095040"
proof -
  let ?n = "unat w"
  let ?e = "(?n div 2 ^ 52) mod 2048" and ?m = "?n mod 2 ^ 52"
  have "?m = (?n mod 2 ^ 63) mod 2 ^ 52" by (simp add: mod_mod_cancel)
  then have "?e * 2 ^ 52 + ?m = ?n mod 2 ^ 63" unfolding f64_exponent by simp
  then have b: "f32_bits ?e ?m < 2139095040"
    using assms by (intro f32_bits_finite) (auto simp: f64_rejected_def)
  have "?n < 2 ^ 64" using unsigned_less [of w] by simp
  then have s: "?n div 2 ^ 63 < 2" by (simp add: less_mult_imp_div_less)
  have "f64_to_f32 w = word_of_nat (?n div 2 ^ 63 * 2 ^ 31 + f32_bits ?e ?m)"
    by (simp only: f64_to_f32_def f32_bits_def Let_def)
  moreover have "?n div 2 ^ 63 * 2 ^ 31 + f32_bits ?e ?m < 2 ^ 32" using b s by simp
  ultimately have "unat (f64_to_f32 w) = ?n div 2 ^ 63 * 2 ^ 31 + f32_bits ?e ?m"
    by (simp only: unat_word32)
  then show ?thesis using b by simp
qed

section \<open>Lemmas: searches\<close>

text \<open>The columns that the text of the search selects, before the distance.\<close>

definition result_columns :: "string list" where
  "result_columns =
     map (List.filter (\<lambda>ch. ch \<noteq> CHR '' '' \<and> ch \<noteq> CHR 0x0A))
       (butlast (split_char (CHR '','') (drop (length ''SELECT '') search_sql_0)))"

lemma result_columns_eq: "result_columns =
   [''Id'', ''Content'', ''ChunkType'', ''SessionId'', ''ProjectPath'', ''ProjectName'',
    ''Timestamp'', ''FilePath'', ''Operation'', ''MachineId'']"
  by code_simp

definition chunk_result :: "string \<Rightarrow> dbvalue \<Rightarrow> chunk \<Rightarrow> result" where
  "chunk_result searchType distance k =
     \<lparr>re_id = ck_id k, re_content = ck_content k, re_type = ck_type k, re_session = ck_session k,
      re_project_path = ck_project_path k, re_project_name = ck_project_name k,
      re_time = ck_timestamp k, re_file = ck_file_path k, re_operation = ck_operation k,
      re_machine = ck_machine k, re_distance = distance, re_search_type = searchType\<rparr>"

lemma optionalRowString_nullable [simp]: "optionalRowString (nullable v) = Some v"
  by (simp add: nullable_def)

lemma stored_values:
  "map (\<lambda>col. map_of (zip allColumns (chunkValues k True)) col) result_columns =
     map Some [VStr (ck_id k), VStr (ck_content k), VStr (ck_type k), VStr (ck_session k),
       VStr (ck_project_path k), VStr (ck_project_name k), VTime (ck_timestamp k),
       nullable (ck_file_path k), nullable (ck_operation k), nullable (ck_machine k)]"
  "map (\<lambda>col. map_of (zip columnsWithoutVector (chunkValues k False)) col) result_columns =
     map Some [VStr (ck_id k), VStr (ck_content k), VStr (ck_type k), VStr (ck_session k),
       VStr (ck_project_path k), VStr (ck_project_name k), VTime (ck_timestamp k),
       nullable (ck_file_path k), nullable (ck_operation k), nullable (ck_machine k)]"
  by (simp_all add: result_columns_eq allColumns_def columnsWithoutVector_def chunkValues_def)

lemma parse_stored_row:
  assumes "validateChunk k" "f64_finite w"
    and "map Some row = map Some [VStr (ck_id k), VStr (ck_content k), VStr (ck_type k),
       VStr (ck_session k), VStr (ck_project_path k), VStr (ck_project_name k),
       VTime (ck_timestamp k), nullable (ck_file_path k), nullable (ck_operation k),
       nullable (ck_machine k)]"
  shows "parse_result_row ty (row @ [VF64 w]) = Some (chunk_result ty (VF64 w) k)"
proof -
  have "row = [VStr (ck_id k), VStr (ck_content k), VStr (ck_type k),
       VStr (ck_session k), VStr (ck_project_path k), VStr (ck_project_name k),
       VTime (ck_timestamp k), nullable (ck_file_path k), nullable (ck_operation k),
       nullable (ck_machine k)]"
    using assms(3) by (simp only: inj_map_eq_map inj_Some)
  with assms(1,2) show ?thesis
    by (simp add: parse_result_row_def chunk_result_def validateChunk_def required_field_def)
qed

lemma buildFilters_ok:
  "(\<exists>x. buildFilters f vector = Inr x) \<longleftrightarrow>
     (is_zero_time (fi_date_from f) \<or> is_zero_time (fi_date_to f) \<or>
      fi_date_from f \<le> fi_date_to f) \<and>
     \<not> list_ex (\<lambda>(_, _, v, limit). limit < length v) (equality_filters f) \<and>
     length (fi_file_path f) \<le> 8192"
  by (auto simp: buildFilters_def Let_def)

text \<open>Two filters restrict the same columns.\<close>

definition same_shape :: "filter \<Rightarrow> filter \<Rightarrow> bool" where
  "same_shape f g \<longleftrightarrow>
     map (\<lambda>(_, _, v, _). v = []) (filter_items f) = map (\<lambda>(_, _, v, _). v = []) (filter_items g) \<and>
     (fi_file_path f = [] \<longleftrightarrow> fi_file_path g = []) \<and>
     (is_zero_time (fi_date_from f) \<longleftrightarrow> is_zero_time (fi_date_from g)) \<and>
     (is_zero_time (fi_date_to f) \<longleftrightarrow> is_zero_time (fi_date_to g))"

lemma same_shape_unstored: "same_shape f g \<Longrightarrow> hasUnstoredFilters f = hasUnstoredFilters g"
  by (simp add: same_shape_def hasUnstoredFilters_def filter_items_def)

lemma same_shape_names:
  assumes "same_shape f g"
  shows "map (\<lambda>(col, par, _, _). (col, par)) (equality_filters f) =
         map (\<lambda>(col, par, _, _). (col, par)) (equality_filters g)"
  using assms by (simp add: same_shape_def equality_filters_def filter_items_def)

lemma same_shape_filters:
  assumes "same_shape f g" "buildFilters f vector = Inr (fs, ps)" "buildFilters g vector = Inr (gs, qs)"
  shows "fs = gs" "map fst ps = map fst qs"
proof -
  let ?names = "map (\<lambda>(col, par, _, _). (col, par))"
  have cols: "map (\<lambda>(col, par, _, _). col @ '' = @'' @ par) (equality_filters h) =
      map (\<lambda>(col, par). col @ '' = @'' @ par) (?names (equality_filters h))"
    and pars: "map (fst \<circ> (\<lambda>(_, par, v, _). (par, VStr v))) (equality_filters h) =
      map snd (?names (equality_filters h))" for h
    by auto
  show "fs = gs" "map fst ps = map fst qs"
    using assms(2,3) same_shape_names [OF assms(1)] assms(1)
    unfolding buildFilters_def cols
    by (auto simp: Let_def pars same_shape_def split: if_splits)
qed

lemma hybrid_plan_sql:
  assumes "BuildHybridPlan c q available = Inr p"
  shows "\<exists>mode vectorFilters params textFilters others.
     chooseVectorMode c q available = Inr mode \<and>
     buildFilters (qu_filter q) True = Inr (vectorFilters, params) \<and>
     buildFilters (qu_filter q) False = Inr (textFilters, others) \<and>
     st_sql (sp_statement p) = hybrid_sql c mode vectorFilters textFilters (qu_limit q) \<and>
     map fst (st_params (sp_statement p)) = [''query'', ''query_vector'', ''rrf_k''] @ map fst params"
  using assms
  by (auto simp: BuildHybridPlan_def split: if_splits sum.splits)

section \<open>An accepted chunk and query\<close>

definition example_chunk :: chunk where
  "example_chunk = zero_chunk\<lparr>ck_id := ''a1'', ck_content := ''hello'', ck_type := ''turn'',
     ck_session := ''s'', ck_project_path := ''/p'', ck_project_name := ''p'', ck_timestamp := 7,
     ck_source_file := ''/t.jsonl''\<rparr>"

lemma example_chunk_accepted: "chunk_accepted example_config example_chunk"
  by (simp add: chunk_accepted_def validateChunk_def required_field_def example_chunk_def
      zero_chunk_def is_zero_time_def zero_time_def hasLowerHexShardPrefix_def is_lower_hex_def
      less_eq_char_byte byte_of_def)

definition example_vector :: "32 word list" where
  "example_vector = replicate 3072 0x3F800000"

lemma example_vector_valid: "validateVector example_vector"
  by (simp add: validateVector_def example_vector_def VectorDimension_def f32_finite_def
      f32_significant_def list_ex_iff list_all_iff)

definition example_query :: "string \<Rightarrow> query" where
  "example_query project = \<lparr>qu_text = ''q'', qu_vector = example_vector, qu_limit = 5, qu_mode = ''auto'',
     qu_filter = \<lparr>fi_project_path = [], fi_chunk_type = [], fi_session = [], fi_project_name = project,
       fi_machine = [], fi_file_path = [], fi_operation = [], fi_date_from = zero_time,
       fi_date_to = zero_time\<rparr>\<rparr>"

lemma example_query_plan:
  assumes "length project \<le> 256"
  shows "\<exists>p. BuildSearchPlan example_config (example_query project) True = Inr p"
proof -
  have v: "validateVector (qu_vector (example_query project))"
    by (simp add: example_query_def example_vector_valid)
  have l: "validateLimit (qu_limit (example_query project)) (sc_max_limit example_config)"
    by (simp add: validateLimit_def example_query_def example_config_def)
  have m: "chooseVectorMode example_config (example_query project) True = Inr SearchANN"
    by (simp add: chooseVectorMode_def example_query_def example_config_def search_modes
        hasUnstoredFilters_def is_zero_time_def)
  obtain x where "buildFilters (qu_filter (example_query project)) True = Inr x"
    using assms buildFilters_ok [of "qu_filter (example_query project)" True]
    by (cases project) (auto simp: example_query_def is_zero_time_def equality_filters_def
        filter_items_def)
  with v l m example_config_valid show ?thesis
    by (cases x) (simp add: BuildSearchPlan_def)
qed

section \<open>Properties\<close>

text \<open>C31: an upsert plan exists exactly for a valid configuration and a batch of 1 to 500
  acceptable chunks that all have an embedding or all lack one.\<close>

theorem upsert_plan_iff:
  "(\<exists>p. BuildUpsertPlan c chunks = Inr p) \<longleftrightarrow>
     config_Validate c \<and> 1 \<le> length chunks \<and> length chunks \<le> 500 \<and>
     list_all (chunk_accepted c) chunks \<and>
     (list_all (\<lambda>k. ck_vector k = []) chunks \<or> list_all (\<lambda>k. ck_vector k \<noteq> []) chunks)"
  by (auto simp: BuildUpsertPlan_Inr Suc_le_eq)

text \<open>What an upsert writes, a search reads back: the columns that the search selects from
  the row of a chunk parse to a result with the fields of that chunk.\<close>

lemma stored_chunk_reads_back:
  assumes "BuildUpsertPlan c chunks = Inr (PlanMutation m)" "i < length chunks" "f64_finite w"
    and "map Some row = map (\<lambda>col. map_of (zip (mu_columns m) (mu_values m ! i)) col) result_columns"
  shows "parse_result_row ty (row @ [VF64 w]) = Some (chunk_result ty (VF64 w) (chunks ! i))"
proof -
  have "validateChunk (chunks ! i)"
    using assms(1,2) by (auto simp: BuildUpsertPlan_Inr list_all_iff chunk_accepted_def
        dest!: nth_mem split: if_splits)
  moreover have "zip (mu_columns m) (mu_values m ! i) = zip allColumns (chunkValues (chunks ! i) True) \<or>
      zip (mu_columns m) (mu_values m ! i) = zip columnsWithoutVector (chunkValues (chunks ! i) False)"
    using assms(1,2) by (auto simp: BuildUpsertPlan_Inr split: if_splits)
  ultimately show ?thesis
    using assms(3,4) parse_stored_row [of "chunks ! i" w row ty] stored_values [of "chunks ! i"]
    by metis
qed



text \<open>C33: no text of a user becomes part of the SQL.  Two queries with the same limit and mode
  that restrict the same columns get the same SQL and the same parameter names, whatever their
  text, vector and filter values are.\<close>

theorem search_sql_fixed:
  assumes "qu_limit q = qu_limit q'" "qu_mode q = qu_mode q'" "same_shape (qu_filter q) (qu_filter q')"
    and "build \<in> {\<lambda>q. BuildSearchPlan c q available, BuildFullTextPlan c,
                  \<lambda>q. BuildHybridPlan c q available}"
    and "build q = Inr p" "build q' = Inr p'"
  shows "st_sql (sp_statement p) = st_sql (sp_statement p') \<and>
         map fst (st_params (sp_statement p)) = map fst (st_params (sp_statement p'))"
proof -
  have mode: "chooseVectorMode c q available = chooseVectorMode c q' available"
    unfolding chooseVectorMode_def assms(2) same_shape_unstored [OF assms(3)] ..
  note shape = same_shape_filters [OF assms(3)]
  show ?thesis
    using assms(4)
  proof (elim insertE emptyE)
    assume "build = (\<lambda>q. BuildSearchPlan c q available)"
    with assms(1,5,6) mode show ?thesis
      by (auto simp: BuildSearchPlan_def dest: shape split: if_splits sum.splits)
  next
    assume "build = BuildFullTextPlan c"
    with assms(1,5,6) show ?thesis
      by (auto simp: BuildFullTextPlan_def dest: shape split: if_splits sum.splits)
  next
    assume "build = (\<lambda>q. BuildHybridPlan c q available)"
    then have "BuildHybridPlan c q available = Inr p" "BuildHybridPlan c q' available = Inr p'"
      using assms(5,6) by simp_all
    then obtain m m' vs vs' ps ps' ts ts' os os' where
      h: "chooseVectorMode c q available = Inr m" "buildFilters (qu_filter q) True = Inr (vs, ps)"
        "buildFilters (qu_filter q) False = Inr (ts, os)"
      and h': "chooseVectorMode c q' available = Inr m'"
        "buildFilters (qu_filter q') True = Inr (vs', ps')"
        "buildFilters (qu_filter q') False = Inr (ts', os')"
      and sql: "st_sql (sp_statement p) = hybrid_sql c m vs ts (qu_limit q)"
        "st_sql (sp_statement p') = hybrid_sql c m' vs' ts' (qu_limit q')"
        "map fst (st_params (sp_statement p)) = [''query'', ''query_vector'', ''rrf_k''] @ map fst ps"
        "map fst (st_params (sp_statement p')) = [''query'', ''query_vector'', ''rrf_k''] @ map fst ps'"
      by (metis hybrid_plan_sql)
    have "m = m'" using h(1) h'(1) mode by simp
    then show ?thesis
      using shape [OF h(2) h'(2)] shape [OF h(3) h'(3)] assms(1) by (simp add: sql)
  qed
qed

theorem search_sql_fixed_witness:
  "\<exists>p p'. BuildSearchPlan example_config (example_query ''demo'') True = Inr p \<and>
     BuildSearchPlan example_config (example_query (CHR 0x27 # ''; DROP TABLE x'')) True = Inr p' \<and>
     st_sql (sp_statement p) = st_sql (sp_statement p')"
proof -
  let ?q = "example_query ''demo''" and ?q' = "example_query (CHR 0x27 # ''; DROP TABLE x'')"
  obtain p p' where p: "BuildSearchPlan example_config ?q True = Inr p"
    "BuildSearchPlan example_config ?q' True = Inr p'"
    using example_query_plan [of "''demo''"] example_query_plan [of "CHR 0x27 # ''; DROP TABLE x''"]
    by auto
  have "qu_limit ?q = qu_limit ?q'" "qu_mode ?q = qu_mode ?q'"
    "same_shape (qu_filter ?q) (qu_filter ?q')"
    by (simp_all add: example_query_def same_shape_def filter_items_def)
  from search_sql_fixed [OF this insertI1 p] p show ?thesis by blast
qed

text \<open>A number of an embedding that is accepted as a \<open>float64\<close> stays finite as a
  \<open>float32\<close>, so the conversion never produces an infinity or not-a-number.\<close>

theorem f64_to_f32_finite: "f64_rejected w \<or> f32_finite (f64_to_f32 w)"
  using f64_to_f32_bits by (auto simp: f32_finite_def)

end
