(* ===== verification/Go_Action.thy ===== *)
theory Go_Action
  imports Go_Prelude
begin

text \<open>
  Errors as Go values, and actions: functions of a state that return an error or a value
  together with the next state.  A Go function that begins \<open>if err := f(); err != nil { return err }\<close>
  is \<open>andThen f\<close> of its rest.  The elimination rules let a proof walk along the calls of a body.
\<close>

section \<open>Errors\<close>

text \<open>The two context errors, an error known by its text, and an error that another one wraps
  (\<open>fmt.Errorf\<close> with \<open>%w\<close>).\<close>

datatype go_error = Canceled | DeadlineExceeded | Err string | Wrap string go_error

text \<open>\<open>errors.Is(err, context.Canceled) || errors.Is(err, context.DeadlineExceeded)\<close>\<close>

fun is_context_error :: "go_error \<Rightarrow> bool" where
  "is_context_error Canceled = True"
| "is_context_error DeadlineExceeded = True"
| "is_context_error (Err t) = False"
| "is_context_error (Wrap t e) = is_context_error e"

text \<open>\<open>errors.Is(err, context.DeadlineExceeded)\<close>\<close>

fun is_deadline :: "go_error \<Rightarrow> bool" where
  "is_deadline (Wrap t e) = is_deadline e"
| "is_deadline e = (e = DeadlineExceeded)"

section \<open>Actions\<close>

type_synonym ('s, 'a) action = "'s \<Rightarrow> (go_error + 'a) \<times> 's"

definition succeed :: "'a \<Rightarrow> ('s, 'a) action" where
  "succeed x s = (Inr x, s)"

definition fail :: "go_error \<Rightarrow> ('s, 'a) action" where
  "fail e s = (Inl e, s)"

definition andThen :: "('s, 'a) action \<Rightarrow> ('a \<Rightarrow> ('s, 'b) action) \<Rightarrow> ('s, 'b) action" where
  "andThen m f s = (case m s of (Inl e, s') \<Rightarrow> (Inl e, s') | (Inr x, s') \<Rightarrow> f x s')"

text \<open>\<open>if !condition { return error }\<close>\<close>

definition ensure :: "bool \<Rightarrow> go_error \<Rightarrow> ('s, unit) action" where
  "ensure b e = (if b then succeed () else fail e)"

text \<open>A pure fallible computation inside an action.\<close>

definition check :: "string + 'a \<Rightarrow> ('s, 'a) action" where
  "check r = (case r of Inl t \<Rightarrow> fail (Err t) | Inr x \<Rightarrow> succeed x)"

definition check_option :: "string \<Rightarrow> 'a option \<Rightarrow> ('s, 'a) action" where
  "check_option t r = (case r of None \<Rightarrow> fail (Err t) | Some x \<Rightarrow> succeed x)"

text \<open>\<open>fmt.Errorf("t: %w", err)\<close> on the error of a call.\<close>

definition wrapping :: "string \<Rightarrow> ('s, 'a) action \<Rightarrow> ('s, 'a) action" where
  "wrapping t m s = (case m s of (Inl e, s') \<Rightarrow> (Inl (Wrap t e), s') | (Inr x, s') \<Rightarrow> (Inr x, s'))"

definition modify :: "('s \<Rightarrow> 's) \<Rightarrow> ('s, unit) action" where
  "modify f s = (Inr (), f s)"

definition reading :: "('s \<Rightarrow> ('s, 'a) action) \<Rightarrow> ('s, 'a) action" where
  "reading f s = f s s"

section \<open>Lemmas\<close>

named_theorems action_simps \<open>one step of an action\<close>
named_theorems action_elims \<open>the calls of an action that succeeded\<close>

lemma action_basics [action_simps]:
  "succeed x s = (Inr x, s)" "fail e s = (Inl e, s)" "modify f s = (Inr (), f s)"
  "reading g s = g s s"
  by (simp_all add: succeed_def fail_def modify_def reading_def)

lemma ensure_simps [action_simps]:
  "ensure True e s = (Inr (), s)" "ensure False e s = (Inl e, s)"
  by (simp_all add: ensure_def action_basics)

lemma check_simps [action_simps]:
  "check (Inl t) s = (Inl (Err t), s)" "check (Inr x) s = (Inr x, s)"
  "check_option t None s = (Inl (Err t), s)" "check_option t (Some x) s = (Inr x, s)"
  by (simp_all add: check_def check_option_def action_basics)

lemma andThen_Inr [action_simps]: "m s = (Inr x, s') \<Longrightarrow> andThen m f s = f x s'"
  by (simp add: andThen_def)

lemma andThen_Inl [action_simps]: "m s = (Inl e, s') \<Longrightarrow> andThen m f s = (Inl e, s')"
  by (simp add: andThen_def)

lemma andThenE:
  assumes "andThen m f s = (r, s')"
  obtains (Inl) e where "m s = (Inl e, s')" "r = Inl e"
  | (Inr) x s1 where "m s = (Inr x, s1)" "f x s1 = (r, s')"
  using assms by (auto simp: andThen_def split: prod.splits sum.splits)

lemma andThen_InrE [action_elims]:
  assumes "andThen m f s = (Inr y, s')"
  obtains x s1 where "m s = (Inr x, s1)" "f x s1 = (Inr y, s')"
  using assms by (rule andThenE) auto

lemma ensure_iff: "ensure b e s = (r, s') \<longleftrightarrow> s' = s \<and> r = (if b then Inr () else Inl e)"
  by (auto simp: ensure_def succeed_def fail_def)

lemma check_iff:
  "check v s = (r, s') \<longleftrightarrow> s' = s \<and> r = (case v of Inl t \<Rightarrow> Inl (Err t) | Inr x \<Rightarrow> Inr x)"
  by (auto simp: check_def succeed_def fail_def split: sum.splits)

lemma check_option_iff:
  "check_option t v s = (r, s') \<longleftrightarrow> s' = s \<and> r = (case v of None \<Rightarrow> Inl (Err t) | Some x \<Rightarrow> Inr x)"
  by (auto simp: check_option_def succeed_def fail_def split: option.splits)

lemma wrapping_Inr: "wrapping t m s = (Inr x, s') \<longleftrightarrow> m s = (Inr x, s')"
  by (auto simp: wrapping_def split: prod.splits sum.splits)

lemma wrapping_Inl: "wrapping t m s = (Inl e, s') \<longleftrightarrow> (\<exists>e'. e = Wrap t e' \<and> m s = (Inl e', s'))"
  by (auto simp: wrapping_def split: prod.splits sum.splits)

lemma wrapping_snd: "snd (wrapping t m s) = snd (m s)"
  by (auto simp: wrapping_def split: prod.splits sum.splits)

text \<open>A property of the state that every call keeps.\<close>

definition keeps :: "('s \<Rightarrow> bool) \<Rightarrow> ('s, 'a) action \<Rightarrow> bool" where
  "keeps P m \<longleftrightarrow> (\<forall>s. P s \<longrightarrow> P (snd (m s)))"

named_theorems keeps_intros \<open>composition of actions that keep a property\<close>

lemma keepsI: "(\<And>s. P s \<Longrightarrow> P (snd (m s))) \<Longrightarrow> keeps P m"
  by (simp add: keeps_def)

lemma keepsD: "keeps P m \<Longrightarrow> P s \<Longrightarrow> P (snd (m s))"
  by (simp add: keeps_def)

lemma keeps_basics [keeps_intros]:
  "keeps P (succeed x)" "keeps P (fail e)" "keeps P (ensure b e)" "keeps P (check r)"
  "keeps P (check_option t v)"
  by (auto simp: keeps_def succeed_def fail_def ensure_def check_def check_option_def
      split: sum.splits option.splits)

lemma keeps_andThen [keeps_intros]:
  assumes "keeps P m" "\<And>x. keeps P (f x)"
  shows "keeps P (andThen m f)"
  using assms by (auto simp: keeps_def andThen_def split: prod.splits sum.splits)

lemma keeps_wrapping [keeps_intros]: "keeps P m \<Longrightarrow> keeps P (wrapping t m)"
  by (simp add: keeps_def wrapping_snd)

lemma keeps_reading [keeps_intros]: "(\<And>s. P s \<Longrightarrow> P (snd (f s s))) \<Longrightarrow> keeps P (reading f)"
  by (simp add: keeps_def reading_def)

lemma keeps_modify: "(\<And>s. P s \<Longrightarrow> P (f s)) \<Longrightarrow> keeps P (modify f)"
  by (simp add: keeps_def modify_def)

end
