(* ===== verification/Spanner_Store.thy ===== *)
theory Spanner_Store
  imports Store_Plans Go_Action
begin

text \<open>
  \<open>store/store.go\<close> and \<open>store/retrieval.go\<close>: the store on top of an executor.  The executor,
  the context and the clock are the record \<open>executor\<close>: every call takes the state \<open>'w\<close> of the
  world and returns the next one, so that a context can be cancelled and the database can change
  between any two calls.  Each operation is an action on the store and the world; the mutexes of
  the source make the accesses to each field atomic, and one operation is modelled at a time.
\<close>

section \<open>The executor\<close>

text \<open>\<open>ReadWrite\<close> takes a function of the transaction; the integer is the variable that function
  captures (\<open>count\<close> of \<open>runBackfillShard\<close>).\<close>

record 'w executor =
  ex_context :: "('w, unit) action"
  ex_now :: "'w \<Rightarrow> instant \<times> 'w"
  ex_query :: "statement \<Rightarrow> ('w, dbvalue list list) action"
  ex_execute :: "statement \<Rightarrow> ('w, int) action"
  ex_apply :: "mutation \<Rightarrow> ('w, unit) action"
  ex_tx_execute :: "statement \<Rightarrow> ('w, int) action"
  ex_read_write :: "(int \<Rightarrow> ('w, int) action) \<Rightarrow> int \<Rightarrow> ('w, int) action"
  ex_update_ddl :: "ddl list \<Rightarrow> ('w, unit) action"
  ex_close :: "('w, unit) action"

section \<open>The state of a store\<close>

text \<open>The rate is the pair of operands of the division in the source, embedded rows and elapsed
  nanoseconds (none: the rate is 0); the estimate adds the rows that wait.\<close>

record stats =
  sa_total :: int
  sa_embedded :: int
  sa_awaiting :: int
  sa_rate :: "(int \<times> int) option"
  sa_eta :: "(int \<times> int \<times> int) option"
  sa_backend :: string
  sa_project :: string
  sa_instance :: string
  sa_database :: string
  sa_dimension :: int
  sa_full_text :: bool
  sa_index :: bool
  sa_mode :: string
  sa_strategy :: string
  sa_model :: string

record spanner_store =
  ss_config :: store_config
  ss_initialized :: bool
  ss_closed :: "(go_error + unit) option"
  ss_index :: bool
  ss_cache :: "(instant \<times> stats) option"
  ss_sample :: "(instant \<times> int) option"

type_synonym ('w, 'a) store_op = "(spanner_store \<times> 'w, 'a) action"

definition on_world :: "('w, 'a) action \<Rightarrow> ('w, 'a) store_op" where
  "on_world m = (\<lambda>(st, w). case m w of (r, w') \<Rightarrow> (r, st, w'))"

definition on_store :: "(spanner_store \<Rightarrow> spanner_store) \<Rightarrow> ('w, unit) store_op" where
  "on_store f = modify (\<lambda>(st, w). (f st, w))"

text \<open>A context is nil or a context whose \<open>Err\<close> the executor record answers.\<close>

datatype ctx = NilContext | Context

definition contextError :: "'w executor \<Rightarrow> ctx \<Rightarrow> ('w, unit) store_op" where
  "contextError E c =
     (case c of NilContext \<Rightarrow> fail (Err ''context is required'') | Context \<Rightarrow> on_world (ex_context E))"

definition store_New :: "store_config \<Rightarrow> bool \<Rightarrow> string + spanner_store" where
  "store_New config executor_given =
     (if \<not> config_Validate config then Inl ''config''
      else if \<not> executor_given then Inl ''executor is required''
      else Inr \<lparr>ss_config = config, ss_initialized = False, ss_closed = None, ss_index = False,
                ss_cache = None, ss_sample = None\<rparr>)"

definition invalidateStats :: "('w, unit) store_op" where
  "invalidateStats = on_store (ss_cache_update (\<lambda>_. None))"

fun toInt64 :: "dbvalue \<Rightarrow> int option" where
  "toInt64 (VInt n) = Some n"
| "toInt64 _ = None"

section \<open>Operations that change the table\<close>

definition store_Initialize :: "'w executor \<Rightarrow> ctx \<Rightarrow> ('w, unit) store_op" where
  "store_Initialize E c =
     andThen (contextError E c) (\<lambda>_. reading (\<lambda>(st, _).
       if ss_initialized st then succeed ()
       else andThen (check (BuildInitializationDDL (ss_config st))) (\<lambda>statements.
         andThen (contextError E c) (\<lambda>_.
         andThen (wrapping ''initialize Spanner schema'' (on_world (ex_update_ddl E statements))) (\<lambda>_.
         on_store (ss_initialized_update (\<lambda>_. True)))))))"

text \<open>The function that \<open>Upsert\<close> runs in the transaction.\<close>

definition upsert_transaction ::
  "'w executor \<Rightarrow> ctx \<Rightarrow> statement \<Rightarrow> nat \<Rightarrow> int \<Rightarrow> ('w, int) action" where
  "upsert_transaction E c statement n captured =
     andThen (case c of NilContext \<Rightarrow> fail (Err ''context is required'') | Context \<Rightarrow> ex_context E) (\<lambda>_.
     andThen (ex_tx_execute E statement) (\<lambda>affected.
     andThen (ensure (affected = int n) (Err ''remote-model affected count'')) (\<lambda>_.
     succeed captured)))"

definition store_Upsert :: "'w executor \<Rightarrow> ctx \<Rightarrow> chunk list \<Rightarrow> ('w, unit) store_op" where
  "store_Upsert E c chunks =
     andThen (contextError E c) (\<lambda>_. reading (\<lambda>(st, _).
       andThen (check (BuildUpsertPlan (ss_config st) chunks)) (\<lambda>plan.
       andThen (contextError E c) (\<lambda>_.
       (case plan of
          PlanMutation m \<Rightarrow>
            andThen (wrapping ''apply chunk mutation'' (on_world (ex_apply E m))) (\<lambda>_.
            invalidateStats)
        | PlanStatement s \<Rightarrow>
            andThen (wrapping ''execute remote-model upsert''
              (on_world (ex_read_write E (upsert_transaction E c s (length chunks)) 0))) (\<lambda>_.
            invalidateStats))))))"

definition delete_machine_statement :: "string \<Rightarrow> statement" where
  "delete_machine_statement machine =
     \<lparr>st_sql = ''DELETE FROM ConversationChunks WHERE MachineId = @machine_id'',
      st_params = [(''machine_id'', VStr machine)]\<rparr>"

definition store_DeleteMachine :: "'w executor \<Rightarrow> ctx \<Rightarrow> string \<Rightarrow> ('w, int) store_op" where
  "store_DeleteMachine E c machineID =
     andThen (contextError E c) (\<lambda>_.
     (let machine = trim_space machineID in
      andThen (ensure (\<not> (machine = [] \<or> 256 < length machine)) (Err ''machine id'')) (\<lambda>_.
      andThen (contextError E c) (\<lambda>_.
      andThen (wrapping ''delete machine chunks''
        (on_world (ex_execute E (delete_machine_statement machine)))) (\<lambda>n.
      andThen (ensure (\<not> n < 0) (Err ''delete machine returned negative affected count'')) (\<lambda>_.
      andThen invalidateStats (\<lambda>_. succeed n)))))))"

definition clear_statement :: statement where
  "clear_statement = \<lparr>st_sql = ''DELETE FROM ConversationChunks WHERE TRUE'', st_params = []\<rparr>"

definition store_Clear :: "'w executor \<Rightarrow> ctx \<Rightarrow> ('w, int) store_op" where
  "store_Clear E c =
     andThen (contextError E c) (\<lambda>_.
     andThen (wrapping ''clear chunks'' (on_world (ex_execute E clear_statement))) (\<lambda>n.
     andThen (ensure (\<not> n < 0) (Err ''clear returned negative affected count'')) (\<lambda>_.
     andThen invalidateStats (\<lambda>_. succeed n))))"

section \<open>Searches\<close>

definition runSearch :: "'w executor \<Rightarrow> ctx \<Rightarrow> search_plan \<Rightarrow> ('w, result list) store_op" where
  "runSearch E c plan =
     andThen (contextError E c) (\<lambda>_.
     andThen (wrapping (''execute '' @ sp_type plan @ '' search'')
       (on_world (ex_query E (sp_statement plan)))) (\<lambda>rows.
     check_option ''result rows'' (parseResultRows rows (sp_type plan))))"

definition runVectorFallback :: "'w executor \<Rightarrow> ctx \<Rightarrow> query \<Rightarrow> ('w, result list) store_op" where
  "runVectorFallback E c q =
     reading (\<lambda>(st, _).
       andThen (check (BuildSearchPlan (ss_config st) q (ss_index st))) (runSearch E c))"

definition ensureQueryVector :: "'w executor \<Rightarrow> query \<Rightarrow> ('w, query) store_op" where
  "ensureQueryVector E q =
     (if qu_vector q \<noteq> [] then succeed q
      else reading (\<lambda>(st, _).
        andThen (check (BuildQueryEmbeddingPlan (ss_config st) (qu_text q))) (\<lambda>statement.
        andThen (wrapping ''execute query-task embedding'' (on_world (ex_query E statement))) (\<lambda>rows.
        andThen (check_option ''embedding rows'' (parseEmbeddingRows rows)) (\<lambda>vector.
        succeed (q\<lparr>qu_vector := vector\<rparr>))))))"

definition store_Search :: "'w executor \<Rightarrow> ctx \<Rightarrow> query \<Rightarrow> ('w, result list) store_op" where
  "store_Search E c q =
     andThen (contextError E c) (\<lambda>_.
     andThen (ensureQueryVector E q) (\<lambda>q'. reading (\<lambda>(st, _).
     andThen (check (BuildSearchPlan (ss_config st) q' (ss_index st))) (runSearch E c))))"

text \<open>The branch on a failed hybrid query: a context error is returned, everything else falls
  back to the vector search.\<close>

definition hybrid_query ::
  "'w executor \<Rightarrow> ctx \<Rightarrow> query \<Rightarrow> search_plan \<Rightarrow> ('w, result list) store_op" where
  "hybrid_query E c q plan s =
     (case on_world (ex_query E (sp_statement plan)) s of
        (Inl e, s') \<Rightarrow>
          if is_context_error e then (Inl e, s')
          else andThen (contextError E c) (\<lambda>_. runVectorFallback E c q) s'
      | (Inr rows, s') \<Rightarrow> check_option ''result rows'' (parseResultRows rows (sp_type plan)) s')"

definition store_HybridSearch :: "'w executor \<Rightarrow> ctx \<Rightarrow> query \<Rightarrow> ('w, result list) store_op" where
  "store_HybridSearch E c q =
     andThen (contextError E c) (\<lambda>_.
     andThen (ensureQueryVector E q) (\<lambda>q'. reading (\<lambda>(st, _).
       if trim_space (qu_text q') = [] \<or> \<not> sc_full_text (ss_config st) then runVectorFallback E c q'
       else andThen (check (BuildHybridPlan (ss_config st) q' (ss_index st))) (hybrid_query E c q'))))"

section \<open>Statistics\<close>

definition stats_statement :: statement where
  "stats_statement =
     \<lparr>st_sql = ''SELECT COUNT('' @ ''*'' @ ''), COUNTIF(Vector IS NOT NULL) FROM ConversationChunks'',
      st_params = []\<rparr>"

text \<open>Reading the single row of two counts.\<close>

definition stats_counts :: "dbvalue list list \<Rightarrow> string + int \<times> int" where
  "stats_counts rows =
     (case rows of
        [[a, b]] \<Rightarrow>
          (case toInt64 a of
             None \<Rightarrow> Inl ''stats total''
           | Some n \<Rightarrow>
               if n < 0 then Inl ''stats total''
               else (case toInt64 b of
                  None \<Rightarrow> Inl ''stats embedded''
                | Some embedded \<Rightarrow>
                    if embedded < 0 \<or> n < embedded then Inl ''stats embedded''
                    else Inr (n, embedded)))
      | _ \<Rightarrow> Inl ''stats row shape'')"

text \<open>The rate since the last sample.\<close>

definition stats_rate :: "(instant \<times> int) option \<Rightarrow> instant \<Rightarrow> int \<Rightarrow> (int \<times> int) option" where
  "stats_rate sample now embedded =
     (case sample of
        None \<Rightarrow> None
      | Some (at, before) \<Rightarrow>
          if at < now \<and> before \<le> embedded then Some (embedded - before, now - at) else None)"

definition stats_eta :: "(int \<times> int) option \<Rightarrow> int \<Rightarrow> (int \<times> int \<times> int) option" where
  "stats_eta rate awaiting =
     (case rate of
        None \<Rightarrow> None
      | Some (delta, elapsed) \<Rightarrow>
          if 0 < delta \<and> 0 < awaiting then Some (awaiting, delta, elapsed) else None)"

definition build_stats :: "spanner_store \<Rightarrow> instant \<Rightarrow> int \<Rightarrow> int \<Rightarrow> stats" where
  "build_stats st now n embedded =
     (let rate = stats_rate (ss_sample st) now embedded in
      \<lparr>sa_total = n, sa_embedded = embedded, sa_awaiting = n - embedded,
       sa_rate = rate, sa_eta = stats_eta rate (n - embedded),
       sa_backend = ''spanner'', sa_project = sc_project (ss_config st), sa_instance = sc_instance (ss_config st),
       sa_database = sc_database (ss_config st), sa_dimension = VectorDimension,
       sa_full_text = sc_full_text (ss_config st),
       sa_index = ss_index st,
       sa_mode = (if sc_use_ann (ss_config st) \<and> ss_index st then SearchANN else SearchExact),
       sa_strategy = sc_strategy (ss_config st), sa_model = EmbeddingModelName\<rparr>)"

definition cached_stats :: "spanner_store \<Rightarrow> instant \<Rightarrow> stats option" where
  "cached_stats st now =
     (case ss_cache st of
        None \<Rightarrow> None
      | Some (at, v) \<Rightarrow>
          if at < now \<and> now - at < sc_stats_ttl (ss_config st) then Some v else None)"

definition store_now :: "'w executor \<Rightarrow> ('w, instant) store_op" where
  "store_now E = (\<lambda>(st, w). case ex_now E w of (now, w') \<Rightarrow> (Inr now, st, w'))"

text \<open>The part of \<open>Stats\<close> after the cache has been consulted.\<close>

definition query_stats :: "'w executor \<Rightarrow> ctx \<Rightarrow> spanner_store \<Rightarrow> instant \<Rightarrow> ('w, stats) store_op" where
  "query_stats E c st now =
     andThen (contextError E c) (\<lambda>_.
     andThen (wrapping ''query store stats'' (on_world (ex_query E stats_statement))) (\<lambda>rows.
     andThen (check (stats_counts rows)) (\<lambda>(n, embedded).
     (let v = build_stats st now n embedded in
      andThen (on_store (\<lambda>st. st\<lparr>ss_sample := Some (now, embedded), ss_cache := Some (now, v)\<rparr>)) (\<lambda>_.
      succeed v)))))"

definition store_Stats :: "'w executor \<Rightarrow> ctx \<Rightarrow> ('w, stats) store_op" where
  "store_Stats E c =
     andThen (contextError E c) (\<lambda>_.
     andThen (store_now E) (\<lambda>now.
     reading (\<lambda>(st, _).
       (case cached_stats st now of Some v \<Rightarrow> succeed v | None \<Rightarrow> query_stats E c st now))))"

section \<open>The other operations\<close>

definition chunk_exists_statement :: "string \<Rightarrow> statement" where
  "chunk_exists_statement ident =
     \<lparr>st_sql = ''SELECT EXISTS(SELECT 1 FROM ConversationChunks WHERE Id = @id)'',
      st_params = [(''id'', VStr ident)]\<rparr>"

text \<open>A single boolean, as two operations read it.\<close>

definition single_bool :: "dbvalue list list \<Rightarrow> string + bool" where
  "single_bool rows =
     (case rows of
        [[v]] \<Rightarrow> (case v of VBool b \<Rightarrow> Inr b | _ \<Rightarrow> Inl ''non-boolean value'')
      | _ \<Rightarrow> Inl ''row shape'')"

definition store_ChunkExists :: "'w executor \<Rightarrow> ctx \<Rightarrow> string \<Rightarrow> ('w, bool) store_op" where
  "store_ChunkExists E c ident =
     andThen (contextError E c) (\<lambda>_.
     andThen (ensure (\<not> (ident = [] \<or> trim_space ident \<noteq> ident \<or> 64 < length ident))
       (Err ''chunk id must be nonempty and at most 64 bytes'')) (\<lambda>_.
     andThen (wrapping ''query chunk existence''
       (on_world (ex_query E (chunk_exists_statement ident)))) (\<lambda>rows.
     check (single_bool rows))))"

definition VectorIndexThreshold :: int where "VectorIndexThreshold = 10000"

definition count_statement :: statement where
  "count_statement =
     \<lparr>st_sql = ''SELECT COUNT('' @ ''*'' @ '') FROM ConversationChunks'', st_params = []\<rparr>"

definition optimize_count :: "dbvalue list list \<Rightarrow> string + int" where
  "optimize_count rows =
     (case rows of
        [[v]] \<Rightarrow>
          (case toInt64 v of
             None \<Rightarrow> Inl ''optimization count''
           | Some n \<Rightarrow> if n < 0 then Inl ''optimization count'' else Inr n)
      | _ \<Rightarrow> Inl ''optimization row shape'')"

definition store_Optimize :: "'w executor \<Rightarrow> ctx \<Rightarrow> ('w, unit) store_op" where
  "store_Optimize E c =
     andThen (contextError E c) (\<lambda>_. reading (\<lambda>(st, _).
       if \<not> sc_enable_ann (ss_config st) \<or> ss_index st then succeed ()
       else
         andThen (wrapping ''count chunks before vector-index optimization''
           (on_world (ex_query E count_statement))) (\<lambda>rows.
         andThen (check (optimize_count rows)) (\<lambda>n.
         if n < VectorIndexThreshold then succeed ()
         else
           andThen (check (BuildVectorIndexDDL (ss_config st))) (\<lambda>ddl.
           andThen (contextError E c) (\<lambda>_.
           andThen (wrapping ''create vector index'' (on_world (ex_update_ddl E [ddl]))) (\<lambda>_.
           on_store (ss_index_update (\<lambda>_. True)))))))))"

text \<open>\<open>closeOnce.Do\<close>: the executor is closed by the first call, whose error every call returns.\<close>

definition store_Close :: "'w executor \<Rightarrow> ('w, unit) store_op" where
  "store_Close E = reading (\<lambda>(st, _).
     (case ss_closed st of
        Some r \<Rightarrow> (\<lambda>s. (r, s))
      | None \<Rightarrow> (\<lambda>s. case on_world (ex_close E) s of
           (r, st', w') \<Rightarrow> (r, st'\<lparr>ss_closed := Some r\<rparr>, w'))))"

definition ready_statement :: statement where
  "ready_statement = \<lparr>st_sql = ''SELECT Id FROM ConversationChunks LIMIT 1'', st_params = []\<rparr>"

definition store_Ready :: "'w executor \<Rightarrow> ctx \<Rightarrow> ('w, unit) store_op" where
  "store_Ready E c =
     andThen (contextError E c) (\<lambda>_.
     andThen (on_world (ex_query E ready_statement)) (\<lambda>_. succeed ()))"

definition discover_statement :: statement where
  "discover_statement =
     \<lparr>st_sql = ''SELECT EXISTS(SELECT 1 FROM INFORMATION_SCHEMA.INDEXES WHERE TABLE_NAME = @table'' @
        '' AND INDEX_NAME = @index AND INDEX_STATE = '' @ [CHR 0x27] @ ''READ_WRITE'' @ [CHR 0x27] @ '')'',
      st_params = [(''table'', VStr TableName), (''index'', VStr VectorIndexName)]\<rparr>"

definition store_DiscoverIndexes :: "'w executor \<Rightarrow> ctx \<Rightarrow> ('w, unit) store_op" where
  "store_DiscoverIndexes E c =
     andThen (contextError E c) (\<lambda>_.
     andThen (on_world (ex_query E discover_statement)) (\<lambda>rows.
     andThen (check (single_bool rows)) (\<lambda>ready.
     on_store (ss_index_update (\<lambda>_. ready)))))"

definition summaries_sql_0 :: string where
  "summaries_sql_0 =
     ''WITH Latest AS ('' @ [CHR 0x0A] @ '' SELECT ARRAY_AGG(STRUCT(Id, Timestamp)'' @ [CHR 0x0A] @
     '' ORDER BY Timestamp DESC, Id LIMIT 1)[OFFSET(0)] AS summary'' @ [CHR 0x0A] @
     '' FROM ConversationChunks WHERE ''"

definition summaries_sql_1 :: string where
  "summaries_sql_1 =
     '' GROUP BY SessionId), Recent AS ('' @ [CHR 0x0A] @
     '' SELECT summary.Id AS Id, summary.Timestamp AS Timestamp FROM Latest'' @ [CHR 0x0A] @
     '' ORDER BY summary.Timestamp DESC, summary.Id LIMIT ''"

definition summaries_sql_2 :: string where
  "summaries_sql_2 =
     '')'' @ [CHR 0x0A] @
     '' SELECT c.Id, c.Content, c.ChunkType, c.SessionId, c.ProjectPath, c.ProjectName,'' @ [CHR 0x0A] @
     '' c.Timestamp, c.FilePath, c.Operation, c.MachineId, CAST(0 AS FLOAT64) AS Distance'' @ [CHR 0x0A] @
     '' FROM Recent r JOIN ConversationChunks c ON c.Id=r.Id'' @ [CHR 0x0A] @
     '' ORDER BY r.Timestamp DESC,r.Id''"

definition summaries_statement :: "filter \<Rightarrow> int \<Rightarrow> string + statement" where
  "summaries_statement f limit =
     (case buildFilters (f\<lparr>fi_chunk_type := ''summary''\<rparr>) False of
        Inl e \<Rightarrow> Inl e
      | Inr (clauses, params) \<Rightarrow>
          Inr \<lparr>st_sql = summaries_sql_0 @ join '' AND '' clauses @ summaries_sql_1 @ show_int limit @
                 summaries_sql_2,
               st_params = params\<rparr>)"

definition store_Summaries :: "'w executor \<Rightarrow> ctx \<Rightarrow> filter \<Rightarrow> int \<Rightarrow> ('w, result list) store_op" where
  "store_Summaries E c f limit =
     andThen (contextError E c) (\<lambda>_.
     andThen (ensure (validateLimit limit 20) (Err ''limit'')) (\<lambda>_.
     andThen (check (summaries_statement f limit)) (\<lambda>statement.
     andThen (on_world (ex_query E statement)) (\<lambda>rows.
     check_option ''result rows'' (parseResultRows rows ''recent'')))))"

text \<open>A new store.\<close>

definition example_store :: spanner_store where
  "example_store = \<lparr>ss_config = example_config, ss_initialized = False, ss_closed = None,
     ss_index = False, ss_cache = None, ss_sample = None\<rparr>"

lemma example_store_new: "store_New example_config True = Inr example_store"
  by (simp add: store_New_def example_store_def example_config_valid)

end
