(* ===== verification/Spanner_Exec.thy ===== *)
theory Spanner_Exec
  imports Spanner_Store
begin

text \<open>
  \<open>spannerexec/executor.go\<close> and \<open>decode.go\<close>: the executor on the Cloud Spanner client, and the
  effect of an upsert on the table.  The client library is the record \<open>client\<close>, a parameter;
  the locale \<open>spanner_table\<close> states what the store relies on of it.
\<close>

section \<open>Column values\<close>

datatype type_code =
    T_STRING | T_INT64 | T_BOOL | T_FLOAT64 | T_FLOAT32 | T_TIMESTAMP | T_BYTES | T_ARRAY
  | T_OTHER nat

text \<open>A type with the type of its elements, and a generic column value: both parts may be
  missing, and the value may be null.\<close>

datatype column_type = ColumnType (ty_code: type_code) (ty_element: "type_code option")

datatype 'v raw_value = RawNull | Raw 'v

record 'v column =
  co_type :: "column_type option"
  co_value :: "'v raw_value option"

text \<open>\<open>GenericColumnValue.Decode\<close> of the client library, by the type of the target.\<close>

record 'v decoder =
  de_string :: "'v \<Rightarrow> go_error + string"
  de_int64 :: "'v \<Rightarrow> go_error + int"
  de_bool :: "'v \<Rightarrow> go_error + bool"
  de_float64 :: "'v \<Rightarrow> go_error + 64 word"
  de_time :: "'v \<Rightarrow> go_error + instant"
  de_bytes :: "'v \<Rightarrow> go_error + string"
  de_strings :: "'v \<Rightarrow> go_error + string list"
  de_float64s :: "'v \<Rightarrow> go_error + 64 word list"
  de_float32s :: "'v \<Rightarrow> go_error + 32 word list"

definition supportedColumnType :: "column_type \<Rightarrow> bool" where
  "supportedColumnType t =
     (case ty_code t of
        T_ARRAY \<Rightarrow>
          ty_element t = Some T_STRING \<or> ty_element t = Some T_FLOAT64 \<or> ty_element t = Some T_FLOAT32
      | T_FLOAT32 \<Rightarrow> False
      | T_OTHER _ \<Rightarrow> False
      | _ \<Rightarrow> True)"

definition decoded :: "(go_error + 'a) \<Rightarrow> ('a \<Rightarrow> dbvalue) \<Rightarrow> go_error + dbvalue" where
  "decoded r f =
     (case r of Inl e \<Rightarrow> Inl (Wrap ''decode Spanner column type'' e) | Inr x \<Rightarrow> Inr (f x))"

definition decodeValue :: "'v decoder \<Rightarrow> 'v column \<Rightarrow> go_error + dbvalue" where
  "decodeValue D c =
     (case (co_type c, co_value c) of
        (Some t, Some raw) \<Rightarrow>
          if \<not> supportedColumnType t then Inl (Err ''decode unsupported Spanner column type'')
          else (case raw of
             RawNull \<Rightarrow> Inr VNull
           | Raw v \<Rightarrow>
               (case ty_code t of
                  T_STRING \<Rightarrow> decoded (de_string D v) VStr
                | T_INT64 \<Rightarrow> decoded (de_int64 D v) VInt
                | T_BOOL \<Rightarrow> decoded (de_bool D v) VBool
                | T_FLOAT64 \<Rightarrow> decoded (de_float64 D v) VF64
                | T_TIMESTAMP \<Rightarrow> decoded (de_time D v) VTime
                | T_BYTES \<Rightarrow> decoded (de_bytes D v) VBytes
                | T_ARRAY \<Rightarrow>
                    (case ty_element t of
                       Some T_STRING \<Rightarrow> decoded (de_strings D v) VStrs
                     | Some T_FLOAT64 \<Rightarrow> decoded (de_float64s D v) VF64s
                     | Some T_FLOAT32 \<Rightarrow> decoded (de_float32s D v) VF32s
                     | _ \<Rightarrow> Inl (Err ''decode unsupported Spanner column type''))
                | _ \<Rightarrow> Inl (Err ''decode unsupported Spanner column type'')))
      | _ \<Rightarrow> Inl (Err ''decode Spanner column: missing type or value''))"

fun decodeRow :: "'v decoder \<Rightarrow> 'v column list \<Rightarrow> go_error + dbvalue list" where
  "decodeRow D [] = Inr []"
| "decodeRow D (c # cs) =
     (case decodeValue D c of
        Inl e \<Rightarrow> Inl e
      | Inr v \<Rightarrow> (case decodeRow D cs of Inl e \<Rightarrow> Inl e | Inr vs \<Rightarrow> Inr (v # vs)))"

section \<open>The client\<close>

text \<open>\<open>spanner.InsertOrUpdate(table, columns, values)\<close>\<close>

record native_mutation =
  nm_table :: string
  nm_columns :: "string list"
  nm_values :: "dbvalue list"

text \<open>What \<open>UpdateDatabaseDdl\<close> and its operation report.\<close>

datatype ddl_outcome = DdlDone | DdlExists go_error | DdlFailed go_error

text \<open>
  The client library.  A query yields the rows that its iterator delivers, each with the answers
  of \<open>Row.Column\<close>, and the error that ends the iteration, if it does not end with \<open>Done\<close>.
\<close>

record ('w, 'v) client =
  cl_context :: "('w, unit) action"
  cl_now :: "'w \<Rightarrow> instant \<times> 'w"
  cl_apply :: "native_mutation list \<Rightarrow> ('w, unit) action"
  cl_query :: "statement \<Rightarrow> 'w \<Rightarrow> ((go_error + 'v column) list list \<times> go_error option) \<times> 'w"
  cl_update :: "statement \<Rightarrow> ('w, int) action"
  cl_read_write :: "(int \<Rightarrow> ('w, int) action) \<Rightarrow> int \<Rightarrow> ('w, int) action"
  cl_close :: "'w \<Rightarrow> 'w"
  cl_ddl :: "string \<Rightarrow> 'w \<Rightarrow> ddl_outcome \<times> 'w"
  cl_admin_close :: "('w, unit) action"
  cl_decoder :: "'v decoder"

definition nativeMutations :: "mutation \<Rightarrow> native_mutation list" where
  "nativeMutations m =
     map (\<lambda>values. \<lparr>nm_table = mu_table m, nm_columns = mu_columns m, nm_values = values\<rparr>) (mu_values m)"

text \<open>The columns of one row, and the rows of an iterator: the first error ends the collection.\<close>

fun row_columns :: "(go_error + 'v column) list \<Rightarrow> go_error + 'v column list" where
  "row_columns [] = Inr []"
| "row_columns (Inl e # cs) = Inl e"
| "row_columns (Inr c # cs) = (case row_columns cs of Inl e \<Rightarrow> Inl e | Inr xs \<Rightarrow> Inr (c # xs))"

fun collect_rows ::
  "'v decoder \<Rightarrow> (go_error + 'v column) list list \<Rightarrow> go_error option \<Rightarrow> go_error + dbvalue list list" where
  "collect_rows D [] failure = (case failure of None \<Rightarrow> Inr [] | Some e \<Rightarrow> Inl e)"
| "collect_rows D (row # rows) failure =
     (case row_columns row of
        Inl e \<Rightarrow> Inl e
      | Inr cs \<Rightarrow>
          (case decodeRow D cs of
             Inl e \<Rightarrow> Inl e
           | Inr vs \<Rightarrow>
               (case collect_rows D rows failure of Inl e \<Rightarrow> Inl e | Inr vss \<Rightarrow> Inr (vs # vss))))"

definition live_query :: "('w, 'v) client \<Rightarrow> statement \<Rightarrow> ('w, dbvalue list list) action" where
  "live_query K s w =
     (case cl_query K s w of ((rows, failure), w') \<Rightarrow> (collect_rows (cl_decoder K) rows failure, w'))"

section \<open>The executor\<close>

definition Executor_Query :: "('w, 'v) client \<Rightarrow> statement \<Rightarrow> ('w, dbvalue list list) action" where
  "Executor_Query K s = andThen (cl_context K) (\<lambda>_. live_query K s)"

definition Executor_Execute :: "('w, 'v) client \<Rightarrow> statement \<Rightarrow> ('w, int) action" where
  "Executor_Execute K s =
     andThen (cl_context K) (\<lambda>_. cl_read_write K (\<lambda>_. cl_update K s) 0)"

definition Executor_Apply :: "('w, 'v) client \<Rightarrow> mutation \<Rightarrow> ('w, unit) action" where
  "Executor_Apply K m = andThen (cl_context K) (\<lambda>_. cl_apply K (nativeMutations m))"

definition Executor_ReadWrite ::
  "('w, 'v) client \<Rightarrow> (int \<Rightarrow> ('w, int) action) \<Rightarrow> int \<Rightarrow> ('w, int) action" where
  "Executor_ReadWrite K operation x = andThen (cl_context K) (\<lambda>_. cl_read_write K operation x)"

fun ddl_loop :: "('w, 'v) client \<Rightarrow> ddl list \<Rightarrow> ('w, unit) action" where
  "ddl_loop K [] w = (Inr (), w)"
| "ddl_loop K (s # ss) w =
     (if dd_sql s = [] then (Inl (Err ''Spanner DDL statement is required''), w)
      else (case cl_ddl K (dd_sql s) w of
         (DdlDone, w') \<Rightarrow> ddl_loop K ss w'
       | (DdlExists e, w') \<Rightarrow>
           if dd_exists_ok s then ddl_loop K ss w' else (Inl (Wrap ''apply Spanner DDL'' e), w')
       | (DdlFailed e, w') \<Rightarrow> (Inl (Wrap ''apply Spanner DDL'' e), w')))"

definition Executor_UpdateDDL :: "('w, 'v) client \<Rightarrow> ddl list \<Rightarrow> ('w, unit) action" where
  "Executor_UpdateDDL K ss = andThen (cl_context K) (\<lambda>_. ddl_loop K ss)"

text \<open>\<open>Close\<close> waits for both clients and reports the error of the administration client.\<close>

definition Executor_Close :: "('w, 'v) client \<Rightarrow> ('w, unit) action" where
  "Executor_Close K w = cl_admin_close K (cl_close K w)"

definition spanner_executor :: "('w, 'v) client \<Rightarrow> 'w executor" where
  "spanner_executor K =
     \<lparr>ex_context = cl_context K, ex_now = cl_now K, ex_query = Executor_Query K,
      ex_execute = Executor_Execute K, ex_apply = Executor_Apply K, ex_tx_execute = cl_update K,
      ex_read_write = Executor_ReadWrite K, ex_update_ddl = Executor_UpdateDDL K,
      ex_close = Executor_Close K\<rparr>"

text \<open>\<open>newWithTokenSource\<close>: the token source is selected before a client is constructed, and an
  incomplete pair of clients is closed again.  The outcome is the number of client constructions
  that were started and what is returned.\<close>

datatype construction = Constructed | ConstructionRefused string

definition newWithTokenSource ::
  "bool \<Rightarrow> string \<Rightarrow> bool \<Rightarrow> (go_error + bool) \<Rightarrow> (go_error + bool \<times> bool) \<Rightarrow> nat \<times> construction" where
  "newWithTokenSource active databaseName factories token clients =
     (if \<not> active then (0, ConstructionRefused ''active context'')
      else if databaseName = [] \<or> \<not> factories then (0, ConstructionRefused ''arguments'')
      else (case token of
         Inl e \<Rightarrow> (0, ConstructionRefused ''credentials'')
       | Inr False \<Rightarrow> (0, ConstructionRefused ''no token source'')
       | Inr True \<Rightarrow>
           (case clients of
              Inl e \<Rightarrow> (1, ConstructionRefused ''clients'')
            | Inr (data, admin) \<Rightarrow>
                if \<not> data \<or> \<not> admin then (1, ConstructionRefused ''incomplete client set'')
                else (1, Constructed))))"

end
