(* ===== verification/Store_Table.thy ===== *)
theory Store_Table
  imports Spanner_Exec
begin

text \<open>
  The effect of the store on the table.  The locale \<open>table_executor\<close> is the contract between
  \<open>store.SpannerStore\<close> and \<open>store.Executor\<close>; \<open>spanner_client\<close> is the documented behaviour of the
  Spanner client library, and the executor of \<open>spannerexec\<close> turns the second into the first.
  Other writers of the table are not modelled: the laws describe a table that changes only through
  this client.
\<close>

section \<open>Tables\<close>

text \<open>A table maps the primary key \<open>Id\<close> to a row; a row maps the names of the written columns to
  their values.\<close>

type_synonym row = "string \<rightharpoonup> dbvalue"
type_synonym table = "string \<rightharpoonup> row"

definition mutation_row :: "native_mutation \<Rightarrow> row" where
  "mutation_row m = map_of (zip (nm_columns m) (nm_values m))"

text \<open>\<open>InsertOrUpdate\<close>: a row with the key is created, or its named columns are replaced; the
  columns that are not named keep their values.\<close>

definition insert_or_update :: "native_mutation \<Rightarrow> table \<Rightarrow> table" where
  "insert_or_update m t =
     (case mutation_row m ''Id'' of
        Some (VStr ident) \<Rightarrow>
          t(ident \<mapsto> (case t ident of None \<Rightarrow> mutation_row m | Some old \<Rightarrow> old ++ mutation_row m))
      | _ \<Rightarrow> t)"

text \<open>A plan has been carried out: all its rows are inserted or updated, or its statement has
  affected exactly as many rows as there are chunks.  \<open>dml\<close> is the effect of a statement.\<close>

definition carried_out ::
  "(statement \<Rightarrow> table \<Rightarrow> int \<times> table) \<Rightarrow> upsert_plan \<Rightarrow> nat \<Rightarrow> table \<Rightarrow> table \<Rightarrow> bool" where
  "carried_out dml p n t t' \<longleftrightarrow>
     (case p of
        PlanMutation m \<Rightarrow> t' = fold insert_or_update (nativeMutations m) t
      | PlanStatement s \<Rightarrow> dml s t = (int n, t'))"

section \<open>The contract of the executor\<close>

locale table_executor =
  fixes E :: "'w executor"
    and table :: "'w \<Rightarrow> table"
    and dml :: "statement \<Rightarrow> table \<Rightarrow> int \<times> table"
  assumes context_table: "table (snd (ex_context E w)) = table w"
    and query_table: "table (snd (ex_query E s w)) = table w"
    and apply_done: "ex_apply E m w = (Inr (), w') \<Longrightarrow>
          table w' = fold insert_or_update (nativeMutations m) (table w)"
    and apply_error: "ex_apply E m w = (Inl e, w') \<Longrightarrow>
          table w' = table w \<or> table w' = fold insert_or_update (nativeMutations m) (table w)"
    and tx_execute: "ex_tx_execute E s w = (Inr n, w') \<Longrightarrow> dml s (table w) = (n, table w')"
    and read_write: "ex_read_write E f x w = (r, w') \<Longrightarrow>
          (\<exists>e. r = Inl e) \<and> table w' = table w \<or>
          (\<exists>x0 y v v'. table v = table w \<and> f x0 v = (Inr y, v') \<and> table w' = table v' \<and>
             (r = Inr y \<or> (\<exists>e. r = Inl e)))"
begin

lemma context_snd: "contextError E c (st, w) = (r, st', w') \<Longrightarrow> st' = st \<and> table w' = table w"
  using context_table [of w]
  by (cases c) (auto simp: contextError_def on_world_def fail_def split: prod.splits)

lemma transaction_done:
  assumes "upsert_transaction E c s n x v = (Inr y, v')"
  shows "dml s (table v) = (int n, table v')"
proof -
  obtain u1 k u2 where
    c: "(case c of NilContext \<Rightarrow> fail (Err ''context is required'') | Context \<Rightarrow> ex_context E) v = (Inr (), u1)"
    and k: "ex_tx_execute E s u1 = (Inr k, u2)" and e: "k = int n" "v' = u2"
    using assms unfolding upsert_transaction_def
    by (auto elim!: andThen_InrE simp: ensure_iff succeed_def split: if_splits)
  have "table u1 = table v"
    using c context_table [of v] by (auto simp: fail_def split: ctx.splits)
  with tx_execute [OF k] e show ?thesis by simp
qed

lemma invalidate_snd: "invalidateStats (st, w) = (r, st', w') \<longleftrightarrow> r = Inr () \<and> w' = w \<and> st' = st\<lparr>ss_cache := None\<rparr>"
  by (auto simp: invalidateStats_def on_store_def modify_def)

lemma upsert_send:
  assumes "(case p of
          PlanMutation m \<Rightarrow>
            andThen (wrapping ''apply chunk mutation'' (on_world (ex_apply E m))) (\<lambda>_. invalidateStats)
        | PlanStatement s \<Rightarrow>
            andThen (wrapping ''execute remote-model upsert''
              (on_world (ex_read_write E (upsert_transaction E c s n) 0))) (\<lambda>_. invalidateStats))
      (st, w) = (r, st', w')"
  shows "(r = Inr () \<longrightarrow> carried_out dml p n (table w) (table w') \<and> ss_cache st' = None) \<and>
    (table w' = table w \<or> carried_out dml p n (table w) (table w'))"
proof (cases p)
  case (PlanMutation m)
  note p = this
  show ?thesis
  proof (cases "ex_apply E m w")
    case (Pair r1 w1)
    show ?thesis
    proof (cases r1)
      case (Inl e)
      with Pair p assms apply_error [of m w e w1] show ?thesis
        by (auto simp: andThen_def wrapping_def on_world_def carried_out_def)
    next
      case (Inr x)
      with Pair p assms apply_done [of m w w1] show ?thesis
        by (auto simp: andThen_def wrapping_def on_world_def carried_out_def invalidate_snd)
    qed
  qed
next
  case (PlanStatement s)
  note p = this
  show ?thesis
  proof (cases "ex_read_write E (upsert_transaction E c s n) 0 w")
    case (Pair r1 w1)
    have eff: "(\<exists>e. r1 = Inl e) \<and> table w1 = table w \<or> dml s (table w) = (int n, table w1)"
      using read_write [OF Pair] transaction_done by fastforce
    show ?thesis
    proof (cases r1)
      case (Inl e)
      with Pair p assms eff show ?thesis
        by (auto simp: andThen_def wrapping_def on_world_def carried_out_def)
    next
      case (Inr x)
      with Pair p assms eff show ?thesis
        by (auto simp: andThen_def wrapping_def on_world_def carried_out_def invalidate_snd)
    qed
  qed
qed

lemma upsert_atomic:
  assumes "store_Upsert E c chunks (st, w) = (r, st', w')"
  shows "(r = Inr () \<longrightarrow> (\<exists>p. BuildUpsertPlan (ss_config st) chunks = Inr p \<and>
             carried_out dml p (length chunks) (table w) (table w')) \<and> ss_cache st' = None) \<and>
         (table w' = table w \<or> (\<exists>p. BuildUpsertPlan (ss_config st) chunks = Inr p \<and>
             carried_out dml p (length chunks) (table w) (table w')))"
  using assms unfolding store_Upsert_def
proof (cases rule: andThenE)
  case (Inl e)
  then show ?thesis using context_snd by auto
next
  case (Inr x s1)
  obtain w1 where s1: "s1 = (st, w1)" "table w1 = table w"
    using Inr(1) context_snd [of c st w] by (cases s1) auto
  show ?thesis
  proof (cases "BuildUpsertPlan (ss_config st) chunks")
    case (Inl t)
    with Inr(2) s1 show ?thesis by (auto simp: reading_def andThen_def check_def fail_def)
  next
    case (Inr p)
    note plan = this
    from \<open>reading _ s1 = (r, st', w')\<close> [unfolded s1 reading_def] plan
    have rest: "andThen (contextError E c) (\<lambda>_. case p of
          PlanMutation m \<Rightarrow>
            andThen (wrapping ''apply chunk mutation'' (on_world (ex_apply E m))) (\<lambda>_. invalidateStats)
        | PlanStatement s \<Rightarrow>
            andThen (wrapping ''execute remote-model upsert''
              (on_world (ex_read_write E (upsert_transaction E c s (length chunks)) 0))) (\<lambda>_. invalidateStats))
        (st, w1) = (r, st', w')"
      by (simp add: andThen_def [of "check _"] check_simps)
    then show ?thesis
    proof (cases rule: andThenE)
      case (Inl e)
      with context_snd [of c st w1] s1 show ?thesis by auto
    next
      case (Inr x s2)
      then obtain w2 where "s2 = (st, w2)" "table w2 = table w"
        using context_snd [of c st w1] s1 by (cases s2) auto
      with Inr(2) upsert_send [where p = p and c = c and n = "length chunks" and st = st and w = w2] plan show ?thesis by auto
    qed
  qed
qed

end

section \<open>The executor on the client library\<close>

text \<open>Documented behaviour of the client: a mutation list is applied as a whole, an error leaves
  its outcome open, a transaction has the effect of one successful run of its function on the
  state before it, and a query, the context and the clock leave the table alone.\<close>

locale spanner_client =
  fixes K :: "('w, 'v) client"
    and table :: "'w \<Rightarrow> table"
    and dml :: "statement \<Rightarrow> table \<Rightarrow> int \<times> table"
  assumes client_context: "table (snd (cl_context K w)) = table w"
    and client_query: "table (snd (cl_query K s w)) = table w"
    and client_apply: "cl_apply K ms w = (a, w') \<Longrightarrow>
          table w' = fold insert_or_update ms (table w) \<or> (\<exists>e. a = Inl e) \<and> table w' = table w"
    and client_update: "cl_update K s w = (Inr n, w') \<Longrightarrow> dml s (table w) = (n, table w')"
    and client_read_write: "cl_read_write K f x w = (r, w') \<Longrightarrow>
          (\<exists>e. r = Inl e) \<and> table w' = table w \<or>
          (\<exists>x0 y v v'. table v = table w \<and> f x0 v = (Inr y, v') \<and> table w' = table v' \<and>
             (r = Inr y \<or> (\<exists>e. r = Inl e)))"
begin

lemma live_query_table: "table (snd (live_query K s w)) = table w"
  using client_query [of s w] by (auto simp: live_query_def split: prod.splits)

lemma after_context:
  assumes "andThen (cl_context K) (\<lambda>_. m) w = (r, w')"
  shows "(\<exists>e. r = Inl e) \<and> table w' = table w \<or> (\<exists>w1. table w1 = table w \<and> m w1 = (r, w'))"
  using assms by (rule andThenE) (use client_context [of w] in auto)

end

sublocale spanner_client \<subseteq> table_executor "spanner_executor K" table dml
proof (unfold_locales, goal_cases)
  case (1 w)
  then show ?case by (simp add: spanner_executor_def client_context)
next
  case (2 s w)
  obtain r w' where "Executor_Query K s w = (r, w')" by fastforce
  with after_context [of "live_query K s" w r w'] live_query_table [of s]
  show ?case by (auto simp: spanner_executor_def Executor_Query_def) (metis snd_conv)
next
  case (3 m w w')
  then have "Executor_Apply K m w = (Inr (), w')" by (simp add: spanner_executor_def)
  from after_context [OF this [unfolded Executor_Apply_def]] client_apply show ?case by fastforce
next
  case (4 m w e w')
  then have "Executor_Apply K m w = (Inl e, w')" by (simp add: spanner_executor_def)
  from after_context [OF this [unfolded Executor_Apply_def]] client_apply show ?case by fastforce
next
  case (5 s w n w')
  then show ?case by (simp add: spanner_executor_def client_update)
next
  case (6 f x w r w')
  then have "Executor_ReadWrite K f x w = (r, w')" by (simp add: spanner_executor_def)
  from after_context [OF this [unfolded Executor_ReadWrite_def]]
  show ?case
  proof
    assume "\<exists>w1. table w1 = table w \<and> cl_read_write K f x w1 = (r, w')"
    then obtain w1 where "table w1 = table w" "cl_read_write K f x w1 = (r, w')" by blast
    with client_read_write [of f x w1 r w'] show ?thesis by simp
  qed blast
qed

context spanner_client
begin

lemmas client_upsert = upsert_atomic

end

section \<open>A client that keeps the table in memory\<close>

definition memory_client :: "(table, unit) client" where
  "memory_client =
     \<lparr>cl_context = (\<lambda>t. (Inr (), t)), cl_now = (\<lambda>t. (0, t)),
      cl_apply = (\<lambda>ms t. (Inr (), fold insert_or_update ms t)),
      cl_query = (\<lambda>s t. (([], None), t)), cl_update = (\<lambda>s t. (Inr 0, t)),
      cl_read_write = (\<lambda>f x t. case f x t of (Inr y, t') \<Rightarrow> (Inr y, t') | (Inl e, _) \<Rightarrow> (Inl e, t)),
      cl_close = (\<lambda>t. t), cl_ddl = (\<lambda>s t. (DdlDone, t)), cl_admin_close = (\<lambda>t. (Inr (), t)),
      cl_decoder = \<lparr>de_string = (\<lambda>_. Inr []), de_int64 = (\<lambda>_. Inr 0), de_bool = (\<lambda>_. Inr True),
        de_float64 = (\<lambda>_. Inr 0), de_time = (\<lambda>_. Inr 0), de_bytes = (\<lambda>_. Inr []),
        de_strings = (\<lambda>_. Inr []), de_float64s = (\<lambda>_. Inr []), de_float32s = (\<lambda>_. Inr [])\<rparr>\<rparr>"

lemma memory_client_laws: "spanner_client memory_client (\<lambda>t. t) (\<lambda>s t. (0, t))"
  by unfold_locales (auto simp: memory_client_def split: prod.splits sum.splits)

interpretation memory: spanner_client memory_client "\<lambda>t. t" "\<lambda>s t. (0, t)"
  by (rule memory_client_laws)

section \<open>What an upsert leaves in the table\<close>

text \<open>The row of a chunk, and what a search reads from a stored row.\<close>

definition chunk_row :: "chunk \<Rightarrow> row" where
  "chunk_row k =
     (if ck_vector k = [] then map_of (zip columnsWithoutVector (chunkValues k False))
      else map_of (zip allColumns (chunkValues k True)))"

definition reads_as :: "row \<Rightarrow> chunk \<Rightarrow> bool" where
  "reads_as row k \<longleftrightarrow>
     (\<forall>ty w. f64_finite w \<longrightarrow>
        parse_result_row ty (map (\<lambda>col. the (row col)) result_columns @ [VF64 w]) =
        Some (chunk_result ty (VF64 w) k))"

lemma chunk_row_Id: "chunk_row k ''Id'' = Some (VStr (ck_id k))"
  by (simp add: chunk_row_def allColumns_def columnsWithoutVector_def chunkValues_def)

lemma chunk_row_columns: "col \<in> set result_columns \<Longrightarrow> chunk_row k col \<noteq> None"
  by (auto simp: result_columns_eq chunk_row_def allColumns_def columnsWithoutVector_def chunkValues_def)

lemma reads_asI:
  assumes "validateChunk k" "\<And>col. col \<in> set result_columns \<Longrightarrow> row col = chunk_row k col"
  shows "reads_as row k"
proof -
  have "map row result_columns = map (chunk_row k) result_columns"
    using assms(2) by simp
  moreover have "map (chunk_row k) result_columns = map Some
      [VStr (ck_id k), VStr (ck_content k), VStr (ck_type k), VStr (ck_session k),
       VStr (ck_project_path k), VStr (ck_project_name k), VTime (ck_timestamp k),
       nullable (ck_file_path k), nullable (ck_operation k), nullable (ck_machine k)]"
    using stored_values [of k] by (simp add: chunk_row_def)
  moreover have "map Some (map (\<lambda>col. the (row col)) result_columns) = map row result_columns"
    using chunk_row_columns [of _ k] assms(2) by fastforce
  ultimately show ?thesis
    using parse_stored_row [OF assms(1)] by (simp only: reads_as_def) blast
qed

text \<open>The table after the rows of a list of chunks have been written one after the other.\<close>

definition write_chunk :: "chunk \<Rightarrow> table \<Rightarrow> table" where
  "write_chunk k t =
     t(ck_id k \<mapsto> (case t (ck_id k) of None \<Rightarrow> chunk_row k | Some old \<Rightarrow> old ++ chunk_row k))"

lemma write_chunks_other: "i \<notin> ck_id ` set ks \<Longrightarrow> fold write_chunk ks t i = t i"
  by (induction ks arbitrary: t) (auto simp: write_chunk_def)

lemma write_chunks_stored:
  assumes "ks = xs @ k # ys" "ck_id k \<notin> ck_id ` set ys"
  obtains row where "fold write_chunk ks t (ck_id k) = Some row"
    "\<And>col. chunk_row k col \<noteq> None \<Longrightarrow> row col = chunk_row k col"
proof -
  let ?t = "fold write_chunk xs t"
  let ?row = "case ?t (ck_id k) of None \<Rightarrow> chunk_row k | Some old \<Rightarrow> old ++ chunk_row k"
  have "fold write_chunk ks t (ck_id k) = Some ?row"
    using assms write_chunks_other [of "ck_id k" ys "write_chunk k ?t"]
    by (simp add: write_chunk_def)
  moreover have "?row col = chunk_row k col" if "chunk_row k col \<noteq> None" for col
    using that by (auto simp: map_add_def split: option.splits)
  ultimately show thesis using that by blast
qed

lemma plan_mutation_fold:
  assumes "BuildUpsertPlan config ks = Inr (PlanMutation m)"
  shows "fold insert_or_update (nativeMutations m) t = fold write_chunk ks t"
proof -
  have rows: "map mutation_row (nativeMutations m) = map chunk_row ks"
    using assms
    by (auto simp: BuildUpsertPlan_Inr nativeMutations_def mutation_row_def chunk_row_def list_all_iff
        split: if_splits)
  have "fold insert_or_update ms t = fold write_chunk ks t"
    if "map mutation_row ms = map chunk_row ks" for ms
    using that
  proof (induction ks arbitrary: ms t)
    case (Cons k ks)
    then obtain n ms' where ms: "ms = n # ms'" "mutation_row n = chunk_row k"
      "map mutation_row ms' = map chunk_row ks" by auto
    have "insert_or_update n t = write_chunk k t"
      unfolding insert_or_update_def write_chunk_def ms(2) chunk_row_Id by simp
    with ms(1) Cons.IH [OF ms(3)] show ?case by simp
  qed simp
  with rows show ?thesis by blast
qed

text \<open>The batch is in the table: the last chunk of each identity reads back, nothing else has
  changed.\<close>

definition batch_stored :: "chunk list \<Rightarrow> table \<Rightarrow> table \<Rightarrow> bool" where
  "batch_stored ks t t' \<longleftrightarrow>
     (\<forall>i. i \<notin> ck_id ` set ks \<longrightarrow> t' i = t i) \<and>
     (\<forall>xs k ys. ks = xs @ k # ys \<longrightarrow> ck_id k \<notin> ck_id ` set ys \<longrightarrow>
        (\<exists>row. t' (ck_id k) = Some row \<and> reads_as row k))"

lemma batch_stored_write:
  assumes "list_all validateChunk ks"
  shows "batch_stored ks t (fold write_chunk ks t)"
  unfolding batch_stored_def
proof (intro conjI allI impI)
  fix xs k ys assume split: "ks = xs @ k # ys" "ck_id k \<notin> ck_id ` set ys"
  obtain row where row: "fold write_chunk ks t (ck_id k) = Some row"
    "\<And>col. chunk_row k col \<noteq> None \<Longrightarrow> row col = chunk_row k col"
    by (rule write_chunks_stored [OF split, of t]) blast
  have "validateChunk k" using assms split(1) by simp
  then have "reads_as row k"
    by (rule reads_asI) (rule row(2), rule chunk_row_columns)
  with row(1) show "\<exists>row. fold write_chunk ks t (ck_id k) = Some row \<and> reads_as row k" by blast
qed (rule write_chunks_other)

lemma carried_out_stored:
  assumes "BuildUpsertPlan config ks = Inr p" "carried_out dml p (length ks) t t'"
  shows "batch_stored ks t t' \<or> dml (buildRemoteModelStatement config ks) t = (int (length ks), t')"
proof (cases p)
  case (PlanMutation m)
  have "list_all validateChunk ks"
    using assms(1) by (auto simp: BuildUpsertPlan_Inr list_all_iff chunk_accepted_def)
  moreover have "t' = fold write_chunk ks t"
    using assms plan_mutation_fold [of config ks m t] PlanMutation by (simp add: carried_out_def)
  ultimately show ?thesis using batch_stored_write by blast
next
  case (PlanStatement s)
  with assms show ?thesis by (auto simp: carried_out_def BuildUpsertPlan_Inr split: if_splits)
qed

section \<open>Properties\<close>



end
