(* ===== verification/Store_Backfill.thy ===== *)
theory Store_Backfill
  imports Spanner_Store "HOL-Library.Multiset"
begin

text \<open>
  \<open>store/backfill.go\<close>: the embedding of rows that were stored without a vector.  One shard is an
  action on the world; the pool of workers, the feeder and the collector of \<open>Backfill\<close> are a step
  relation, so that the lemmas hold for every schedule and every number of workers.
\<close>

section \<open>Shards\<close>

definition BackfillShards :: "string list" where
  "BackfillShards = map (hex_pad 2) [0..<256]"

section \<open>Rows\<close>

fun row_strings :: "dbvalue \<Rightarrow> string list option" where
  "row_strings VNull = Some []"
| "row_strings (VStrs xs) = Some xs"
| "row_strings _ = None"

fun any_time :: "dbvalue \<Rightarrow> instant option" where
  "any_time (VTime t) = Some t"
| "any_time _ = None"

text \<open>The body of the loop of \<open>backfillRows\<close>: seventeen columns in the order of the read plan.\<close>

definition backfill_row :: "dbvalue list \<Rightarrow> chunk option" where
  "backfill_row row =
     (if length row \<noteq> 17 then None
      else Option.bind (requiredRowString (row ! 0)) (\<lambda>ident.
        Option.bind (requiredRowString (row ! 1)) (\<lambda>content.
        Option.bind (requiredRowString (row ! 2)) (\<lambda>chunk_type.
        Option.bind (requiredRowString (row ! 3)) (\<lambda>session.
        Option.bind (requiredRowString (row ! 4)) (\<lambda>project_path.
        Option.bind (requiredRowString (row ! 5)) (\<lambda>project_name.
        Option.bind (any_time (row ! 6)) (\<lambda>timestamp.
        Option.bind (optionalRowString (row ! 7)) (\<lambda>user_uuid.
        Option.bind (optionalRowString (row ! 8)) (\<lambda>assistant_uuid.
        Option.bind (optionalRowString (row ! 9)) (\<lambda>file_path.
        Option.bind (optionalRowString (row ! 10)) (\<lambda>operation.
        Option.bind (optionalRowString (row ! 11)) (\<lambda>model.
        Option.bind (requiredRowString (row ! 12)) (\<lambda>source_file.
        Option.bind (toInt64 (row ! 13)) (\<lambda>source_line.
        Option.bind (optionalRowString (row ! 14)) (\<lambda>parent.
        Option.bind (row_strings (row ! 15)) (\<lambda>children.
        Option.bind (optionalRowString (row ! 16)) (\<lambda>machine.
        (let k = \<lparr>ck_id = ident, ck_content = content, ck_vector = [], ck_type = chunk_type,
                  ck_session = session, ck_project_path = project_path,
                  ck_project_name = project_name, ck_timestamp = timestamp,
                  ck_user_uuid = user_uuid, ck_assistant_uuid = assistant_uuid,
                  ck_file_path = file_path, ck_operation = operation, ck_model = model,
                  ck_source_file = source_file, ck_source_line = source_line, ck_parent = parent,
                  ck_children = children, ck_machine = machine\<rparr>
         in if \<not> validateChunk k \<or> \<not> hasLowerHexShardPrefix (ck_id k) then None
            else Some k)))))))))))))))))))"

fun backfillRows :: "dbvalue list list \<Rightarrow> chunk list option" where
  "backfillRows [] = Some []"
| "backfillRows (row # rows) =
     (case backfill_row row of
        None \<Rightarrow> None
      | Some k \<Rightarrow> (case backfillRows rows of None \<Rightarrow> None | Some ks \<Rightarrow> Some (k # ks)))"

section \<open>One shard\<close>

definition backfill_transaction :: "'w executor \<Rightarrow> statement \<Rightarrow> int \<Rightarrow> ('w, int) action" where
  "backfill_transaction E s captured = ex_tx_execute E s"

text \<open>One round of the loop: no rows are left, or a batch of this size has been embedded.\<close>

definition backfill_round ::
  "'w executor \<Rightarrow> store_config \<Rightarrow> string \<Rightarrow> ('w, nat option) action" where
  "backfill_round E config prefix =
     andThen (ex_context E) (\<lambda>_.
     andThen (check (BuildBackfillReadPlan config prefix)) (\<lambda>s.
     andThen (wrapping ''read NULL-vector batch'' (ex_query E s)) (\<lambda>rows.
     if rows = [] then succeed None
     else
       andThen (check_option ''backfill row'' (backfillRows rows)) (\<lambda>chunks.
       andThen (check (BuildUpsertPlan (config\<lparr>sc_strategy := EmbeddingRemoteModel\<rparr>) chunks)) (\<lambda>plan.
       (case plan of
          PlanMutation _ \<Rightarrow> fail (Err ''backfill remote-model plan is missing'')
        | PlanStatement s \<Rightarrow>
            andThen (wrapping ''embed NULL-vector batch''
              (ex_read_write E (backfill_transaction E s) 0)) (\<lambda>n.
            andThen (ensure (n = int (length chunks)) (Err ''remote-model affected count'')) (\<lambda>_.
            succeed (Some (length chunks)))))))))) "

text \<open>\<open>runBackfillShard\<close>: the rows embedded so far are returned with every error.\<close>

fun backfill_rounds ::
  "'w executor \<Rightarrow> store_config \<Rightarrow> string \<Rightarrow> nat \<Rightarrow> int \<Rightarrow> 'w \<Rightarrow> (int \<times> go_error option) \<times> 'w" where
  "backfill_rounds E config prefix 0 embedded w =
     ((embedded, Some (Err ''backfill shard exceeded batches'')), w)"
| "backfill_rounds E config prefix (Suc n) embedded w =
     (case backfill_round E config prefix w of
        (Inl e, w') \<Rightarrow> ((embedded, Some e), w')
      | (Inr None, w') \<Rightarrow> ((embedded, None), w')
      | (Inr (Some k), w') \<Rightarrow> backfill_rounds E config prefix n (embedded + int k) w')"

definition runBackfillShard ::
  "'w executor \<Rightarrow> store_config \<Rightarrow> string \<Rightarrow> 'w \<Rightarrow> (int \<times> go_error option) \<times> 'w" where
  "runBackfillShard E config prefix =
     backfill_rounds E config prefix (nat (sc_max_batches config)) 0"

section \<open>The workers\<close>

type_synonym shard_result = "string \<times> int \<times> go_error option"

text \<open>What the feeder still has to send, the shards that a worker has received and not yet
  answered, the results in the order in which they were sent, and whether the context is done.\<close>

record backfill_state =
  bf_feed :: "string list"
  bf_running :: "string list"
  bf_results :: "shard_result list"
  bf_cancelled :: bool

definition backfill_start :: backfill_state where
  "backfill_start =
     \<lparr>bf_feed = BackfillShards, bf_running = [], bf_results = [], bf_cancelled = False\<rparr>"

text \<open>
  The steps: a free worker receives the next shard; a worker answers with the outcome of the shard
  or, when the context is done, with its error; the context is done; the feeder notices it and
  closes the channel.  \<open>outcome\<close> says which results a shard may have.
\<close>

inductive backfill_step ::
  "(string \<Rightarrow> int \<times> go_error option \<Rightarrow> bool) \<Rightarrow> nat \<Rightarrow> backfill_state \<Rightarrow> backfill_state \<Rightarrow> bool"
  for outcome workers where
  receive: "bf_feed s = p # ps \<Longrightarrow> length (bf_running s) < workers \<Longrightarrow>
     backfill_step outcome workers s (s\<lparr>bf_feed := ps, bf_running := p # bf_running s\<rparr>)"
| answer: "bf_running s = xs @ p # ys \<Longrightarrow> outcome p (n, e) \<Longrightarrow>
     backfill_step outcome workers s
       (s\<lparr>bf_running := xs @ ys, bf_results := bf_results s @ [(p, n, e)]\<rparr>)"
| refuse: "bf_running s = xs @ p # ys \<Longrightarrow> bf_cancelled s \<Longrightarrow> is_context_error e \<Longrightarrow>
     backfill_step outcome workers s
       (s\<lparr>bf_running := xs @ ys, bf_results := bf_results s @ [(p, 0, Some e)]\<rparr>)"
| cancel: "\<not> bf_cancelled s \<Longrightarrow> backfill_step outcome workers s (s\<lparr>bf_cancelled := True\<rparr>)"
| stop: "bf_cancelled s \<Longrightarrow> bf_feed s \<noteq> [] \<Longrightarrow>
     backfill_step outcome workers s (s\<lparr>bf_feed := []\<rparr>)"

text \<open>The results channel is closed when the feeder and all workers have returned.\<close>

definition backfill_done :: "backfill_state \<Rightarrow> bool" where
  "backfill_done s \<longleftrightarrow> bf_feed s = [] \<and> bf_running s = []"

record backfill_report =
  br_embedded :: int
  br_failures :: "(string \<times> go_error) list"

fun backfill_add :: "shard_result \<Rightarrow> backfill_report \<Rightarrow> backfill_report" where
  "backfill_add (p, n, None) report = report\<lparr>br_embedded := br_embedded report + n\<rparr>"
| "backfill_add (p, n, Some e) report =
     report\<lparr>br_embedded := br_embedded report + n,
            br_failures := (p, e) # List.filter (\<lambda>x. fst x \<noteq> p) (br_failures report)\<rparr>"

definition backfill_collect :: "shard_result list \<Rightarrow> backfill_report" where
  "backfill_collect rs = fold backfill_add rs \<lparr>br_embedded = 0, br_failures = []\<rparr>"

text \<open>The end of \<open>Backfill\<close>: the report with an error, the cached statistics dropped when rows were
  embedded.\<close>

definition backfill_finish ::
  "spanner_store \<Rightarrow> backfill_state \<Rightarrow> (backfill_report \<times> string option) \<times> spanner_store" where
  "backfill_finish st s =
     (let report = backfill_collect (bf_results s) in
      if bf_cancelled s then ((report, Some ''context''), st)
      else if length (bf_results s) \<noteq> 256 then ((report, Some ''completed''), st)
      else ((report, None),
            if 0 < br_embedded report then st\<lparr>ss_cache := None\<rparr> else st))"

definition store_Backfill ::
  "spanner_store \<Rightarrow> backfill_state \<Rightarrow> (backfill_report \<times> string option) \<times> spanner_store" where
  "store_Backfill st s =
     (if sc_strategy (ss_config st) \<noteq> EmbeddingDeferred
      then ((\<lparr>br_embedded = 0, br_failures = []\<rparr>, Some ''strategy''), st)
      else backfill_finish st s)"

section \<open>Lemmas: shards\<close>

lemma lower_hex_iff: "is_lower_hex c \<longleftrightarrow> (\<exists>n < 16. c = hex_digit n)"
proof
  assume c: "is_lower_hex c"
  define b where "b = byte_of c"
  have chr: "c = char_of b" by (simp add: b_def byte_of_def)
  from c have "48 \<le> b \<and> b \<le> 57 \<or> 97 \<le> b \<and> b \<le> 102"
    by (auto simp: is_lower_hex_def less_eq_char_byte b_def byte_of_def)
  then show "\<exists>n < 16. c = hex_digit n"
  proof
    assume "48 \<le> b \<and> b \<le> 57"
    then show ?thesis by (intro exI [of _ "b - 48"]) (auto simp: hex_digit_def chr)
  next
    assume "97 \<le> b \<and> b \<le> 102"
    then show ?thesis by (intro exI [of _ "b - 87"]) (auto simp: hex_digit_def chr)
  qed
qed (auto intro: hex_digit_lower)

lemma hex_pad_two: "m < 16 \<Longrightarrow> n < 16 \<Longrightarrow> hex_pad 2 (16 * m + n) = [hex_digit m, hex_digit n]"
  by (simp add: numeral_2_eq_2)

lemma set_BackfillShards: "set BackfillShards = {p. length p = 2 \<and> list_all is_lower_hex p}"
proof (intro set_eqI iffI)
  fix p assume "p \<in> set BackfillShards"
  then show "p \<in> {p. length p = 2 \<and> list_all is_lower_hex p}"
    by (auto simp: BackfillShards_def hex_pad_lower)
next
  fix p assume "p \<in> {p. length p = 2 \<and> list_all is_lower_hex p}"
  then obtain a b where "p = [a, b]" "is_lower_hex a" "is_lower_hex b"
    by (auto simp: length_Suc_conv numeral_2_eq_2)
  then obtain m n where mn: "m < 16" "n < 16" "p = [hex_digit m, hex_digit n]"
    by (auto simp: lower_hex_iff)
  then have "p = hex_pad 2 (16 * m + n)" "16 * m + n < 256"
    by (simp_all add: hex_pad_two)
  then show "p \<in> set BackfillShards" by (auto simp: BackfillShards_def)
qed

lemma distinct_BackfillShards: "distinct BackfillShards"
  unfolding BackfillShards_def distinct_map
  by (auto simp: inj_on_def intro: hex_pad_inj [where k = 2])

lemma length_BackfillShards [simp]: "length BackfillShards = 256"
  by (simp add: BackfillShards_def)

lemma shard_of:
  "hasLowerHexShardPrefix ident \<longleftrightarrow> (\<exists>!p. p \<in> set BackfillShards \<and> has_prefix p ident)"
proof
  assume "hasLowerHexShardPrefix ident"
  then show "\<exists>!p. p \<in> set BackfillShards \<and> has_prefix p ident"
    by (intro ex1I [of _ "take 2 ident"])
       (auto simp: hasLowerHexShardPrefix_def set_BackfillShards has_prefix_def)
next
  assume "\<exists>!p. p \<in> set BackfillShards \<and> has_prefix p ident"
  then obtain p where "length p = 2" "list_all is_lower_hex p" "has_prefix p ident"
    by (auto simp: set_BackfillShards)
  then show "hasLowerHexShardPrefix ident"
    by (auto simp: hasLowerHexShardPrefix_def has_prefix_iff)
qed

section \<open>Lemmas: rows\<close>

text \<open>The columns that the text of the read plan selects.\<close>

definition backfill_columns :: "string list" where
  "backfill_columns =
     map (List.filter (\<lambda>ch. ch \<noteq> CHR '' '' \<and> ch \<noteq> CHR 0x0A))
       (split_char (CHR '','') (drop (length ''SELECT '')
          (take (length backfill_read_sql_0 - length (concat
             [''FROM ConversationChunks'', [CHR 0x0A],
              ''WHERE Vector IS NULL AND STARTS_WITH(Id, @prefix)'', [CHR 0x0A], ''LIMIT '']))
             backfill_read_sql_0)))"

lemma backfill_columns_eq: "backfill_columns = columnsWithoutVector"
  by code_simp

lemma backfill_row_values:
  assumes "validateChunk k" "hasLowerHexShardPrefix (ck_id k)" "ck_vector k = []"
  shows "backfill_row (chunkValues k False) = Some k"
proof -
  have req: "requiredRowString (VStr v) = Some v" if "v \<noteq> []" for v using that by simp
  have ne: "ck_id k \<noteq> []" "ck_content k \<noteq> []" "ck_type k \<noteq> []" "ck_session k \<noteq> []"
    "ck_project_path k \<noteq> []" "ck_project_name k \<noteq> []" "ck_source_file k \<noteq> []"
    using assms(1) by (auto simp: validateChunk_def required_field_def)
  have "k = \<lparr>ck_id = ck_id k, ck_content = ck_content k, ck_vector = [], ck_type = ck_type k,
      ck_session = ck_session k, ck_project_path = ck_project_path k,
      ck_project_name = ck_project_name k, ck_timestamp = ck_timestamp k,
      ck_user_uuid = ck_user_uuid k, ck_assistant_uuid = ck_assistant_uuid k,
      ck_file_path = ck_file_path k, ck_operation = ck_operation k, ck_model = ck_model k,
      ck_source_file = ck_source_file k, ck_source_line = ck_source_line k, ck_parent = ck_parent k,
      ck_children = ck_children k, ck_machine = ck_machine k\<rparr>"
    using assms(3) by simp
  note eq = this [symmetric]
  show ?thesis
    using assms ne by (simp add: backfill_row_def chunkValues_def req Let_def eq)
qed

lemma backfillRows_length: "backfillRows rows = Some ks \<Longrightarrow> length ks = length rows"
  by (induction rows arbitrary: ks) (auto split: option.splits)

text \<open>A batch above the limit of an upsert plan is never embedded.\<close>

lemma backfill_round_too_many:
  assumes "BuildBackfillReadPlan config prefix = Inr s" "ex_context E w = (Inr (), w1)"
    and "ex_query E s w1 = (Inr rows, w2)" "500 < length rows"
  shows "\<exists>e. backfill_round E config prefix w = (Inl e, w2)"
proof (cases "backfillRows rows")
  case None
  with assms show ?thesis
    by (auto simp: backfill_round_def andThen_def check_simps wrapping_def)
next
  case (Some ks)
  then have "\<exists>t. BuildUpsertPlan (config\<lparr>sc_strategy := EmbeddingRemoteModel\<rparr>) ks = Inl t"
    using assms(4) backfillRows_length [OF Some]
    by (cases "BuildUpsertPlan (config\<lparr>sc_strategy := EmbeddingRemoteModel\<rparr>) ks")
       (auto simp: BuildUpsertPlan_Inr)
  with Some assms show ?thesis
    by (auto simp: backfill_round_def andThen_def check_simps wrapping_def)
qed

lemma backfill_rounds_grow: "embedded \<le> fst (fst (backfill_rounds E config prefix n embedded w))"
proof (induction n arbitrary: embedded w)
  case (Suc n)
  show ?case
  proof (cases "backfill_round E config prefix w")
    case (Pair r w')
    show ?thesis
    proof (cases r)
      case (Inr v)
      with Pair Suc.IH [of "embedded + int (the v)" w'] show ?thesis by (cases v) auto
    qed (use Pair in auto)
  qed
qed simp

section \<open>Lemmas: schedules\<close>

definition backfill_reachable ::
  "(string \<Rightarrow> int \<times> go_error option \<Rightarrow> bool) \<Rightarrow> nat \<Rightarrow> backfill_state \<Rightarrow> bool" where
  "backfill_reachable outcome workers s \<longleftrightarrow> (backfill_step outcome workers)\<^sup>*\<^sup>* backfill_start s"

inductive_cases backfill_stepE: "backfill_step outcome workers s s'"

text \<open>No shard is lost or doubled, unless the feeder stopped; and none is answered with a foreign
  outcome.\<close>

definition backfill_accounted :: "backfill_state \<Rightarrow> bool" where
  "backfill_accounted s \<longleftrightarrow>
     (\<exists>dropped. mset BackfillShards =
        mset (bf_feed s) + mset (bf_running s) + mset (map fst (bf_results s)) + dropped \<and>
        (\<not> bf_cancelled s \<longrightarrow> dropped = {#}))"

definition backfill_honest :: "(string \<Rightarrow> int \<times> go_error option \<Rightarrow> bool) \<Rightarrow> backfill_state \<Rightarrow> bool" where
  "backfill_honest outcome s \<longleftrightarrow>
     bf_cancelled s \<or> list_all (\<lambda>r. outcome (fst r) (snd r)) (bf_results s)"

lemma backfill_accounted_step:
  assumes "backfill_step outcome workers s s'" "backfill_accounted s"
  shows "backfill_accounted s'"
proof -
  obtain d where d: "mset BackfillShards =
      mset (bf_feed s) + mset (bf_running s) + mset (map fst (bf_results s)) + d"
    and clean: "\<not> bf_cancelled s \<longrightarrow> d = {#}"
    using assms(2) by (auto simp: backfill_accounted_def)
  show ?thesis
    using assms(1)
  proof cases
    case stop
    have "mset BackfillShards =
        {#} + mset (bf_running s) + mset (map fst (bf_results s)) + (d + mset (bf_feed s))"
      unfolding d by (simp add: add_ac)
    with stop show ?thesis by (auto simp: backfill_accounted_def)
  qed (use d clean in \<open>auto simp: backfill_accounted_def intro!: exI [of _ d]\<close>)
qed

lemma backfill_honest_step:
  "backfill_step outcome workers s s' \<Longrightarrow> backfill_honest outcome s \<Longrightarrow> backfill_honest outcome s'"
  by (erule backfill_step.cases) (auto simp: backfill_honest_def)

lemma backfill_inv_reachable:
  "backfill_reachable outcome workers s \<Longrightarrow> backfill_accounted s \<and> backfill_honest outcome s"
  unfolding backfill_reachable_def
proof (induction rule: rtranclp_induct)
  case base
  then show ?case by (simp add: backfill_accounted_def backfill_honest_def backfill_start_def)
next
  case (step s s')
  then show ?case using backfill_accounted_step backfill_honest_step by blast
qed

lemma backfill_step_decreases:
  "backfill_step outcome workers s s' \<Longrightarrow>
   2 * length (bf_feed s') + length (bf_running s') + of_bool (\<not> bf_cancelled s') <
   2 * length (bf_feed s) + length (bf_running s) + of_bool (\<not> bf_cancelled s)"
  by (induction rule: backfill_step.induct) (auto simp: neq_Nil_conv)

lemma backfill_steps_bounded:
  "(backfill_step outcome workers ^^ n) s s' \<Longrightarrow>
   n + (2 * length (bf_feed s') + length (bf_running s') + of_bool (\<not> bf_cancelled s')) \<le>
   2 * length (bf_feed s) + length (bf_running s) + of_bool (\<not> bf_cancelled s)"
proof (induction n arbitrary: s')
  case (Suc n)
  then obtain t where "(backfill_step outcome workers ^^ n) s t" "backfill_step outcome workers t s'"
    by auto
  with Suc.IH [of t] backfill_step_decreases [of outcome workers t s'] show ?case by simp
qed simp

lemma backfill_not_stuck:
  assumes "\<not> backfill_done s" "0 < workers" "\<And>p. \<exists>r. outcome p r"
  shows "\<exists>s'. backfill_step outcome workers s s' \<and> bf_cancelled s' = bf_cancelled s"
proof (cases "bf_running s")
  case Nil
  with assms(1) obtain p ps where "bf_feed s = p # ps"
    by (auto simp: backfill_done_def neq_Nil_conv)
  with Nil assms(2) backfill_step.receive [of s p ps workers outcome] show ?thesis by fastforce
next
  case (Cons p ps)
  obtain n e where "outcome p (n, e)" using assms(3) [of p] by auto
  with Cons backfill_step.answer [of s "[]" p ps outcome n e workers] show ?thesis by fastforce
qed

text \<open>One schedule: a single worker takes the shards one after the other.\<close>

lemma backfill_one_by_one:
  assumes "0 < workers"
  shows "(backfill_step (\<lambda>p r. r = f p) workers)\<^sup>*\<^sup>*
      \<lparr>bf_feed = ps, bf_running = [], bf_results = rs, bf_cancelled = False\<rparr>
      \<lparr>bf_feed = [], bf_running = [], bf_results = rs @ map (\<lambda>p. (p, f p)) ps, bf_cancelled = False\<rparr>"
proof (induction ps arbitrary: rs)
  case (Cons p ps)
  let ?s = "\<lparr>bf_feed = p # ps, bf_running = [], bf_results = rs, bf_cancelled = False\<rparr>"
  let ?t = "\<lparr>bf_feed = ps, bf_running = [p], bf_results = rs, bf_cancelled = False\<rparr>"
  let ?u = "\<lparr>bf_feed = ps, bf_running = [], bf_results = rs @ [(p, f p)], bf_cancelled = False\<rparr>"
  have "backfill_step (\<lambda>p r. r = f p) workers ?s ?t"
    using backfill_step.receive [of ?s p ps workers "\<lambda>p r. r = f p"] assms by simp
  moreover have "backfill_step (\<lambda>p r. r = f p) workers ?t ?u"
    using backfill_step.answer [of ?t "[]" p "[]" "\<lambda>p r. r = f p" "fst (f p)" "snd (f p)" workers]
    by simp
  ultimately show ?case
    using Cons.IH [of "rs @ [(p, f p)]"] by (simp add: converse_rtranclp_into_rtranclp)
qed simp

section \<open>Lemmas: the report\<close>

lemma backfill_add_embedded: "br_embedded (backfill_add r report) = br_embedded report + fst (snd r)"
  by (cases "(r, report)" rule: backfill_add.cases) auto

lemma backfill_add_failures:
  "map_of (br_failures (backfill_add r report)) p =
     (if p = fst r \<and> snd (snd r) \<noteq> None then snd (snd r) else map_of (br_failures report) p)"
  by (cases "(r, report)" rule: backfill_add.cases) (auto simp: map_of_filter_neq)

lemma fold_add_embedded:
  "br_embedded (fold backfill_add rs report) = br_embedded report + sum_list (map (\<lambda>r. fst (snd r)) rs)"
  by (induction rs arbitrary: report) (auto simp: backfill_add_embedded)

lemma fold_add_failures:
  assumes "distinct (map fst rs)"
  shows "map_of (br_failures (fold backfill_add rs report)) p =
     (case map_of rs p of
        None \<Rightarrow> map_of (br_failures report) p
      | Some v \<Rightarrow> if snd v = None then map_of (br_failures report) p else snd v)"
  using assms
proof (induction rs arbitrary: report)
  case (Cons r rs)
  then have "map_of rs (fst r) = None" by (simp add: map_of_eq_None_iff)
  with Cons show ?case by (cases r) (auto simp: backfill_add_failures split: option.splits)
qed simp

lemma backfill_collect_spec:
  assumes "distinct (map fst rs)"
  shows "br_embedded (backfill_collect rs) = sum_list (map (\<lambda>r. fst (snd r)) rs)"
    and "map_of rs p = Some v \<Longrightarrow> map_of (br_failures (backfill_collect rs)) p = snd v"
  using fold_add_embedded fold_add_failures [OF assms, where p = p]
  by (auto simp: backfill_collect_def)

lemma backfill_complete:
  assumes "backfill_reachable (\<lambda>p r. r = f p) workers s" "backfill_done s" "\<not> bf_cancelled s"
  shows "mset (map fst (bf_results s)) = mset BackfillShards"
    and "bf_results s = map (\<lambda>p. (p, f p)) (map fst (bf_results s))"
proof -
  have inv: "backfill_accounted s" "backfill_honest (\<lambda>p r. r = f p) s"
    using backfill_inv_reachable [OF assms(1)] by blast+
  then show "mset (map fst (bf_results s)) = mset BackfillShards"
    using assms(2,3) by (auto simp: backfill_accounted_def backfill_done_def)
  have "\<forall>x \<in> set (bf_results s). x = (fst x, f (fst x))"
    using inv(2) assms(3) by (auto simp: backfill_honest_def list_all_iff prod_eq_iff)
  then show "bf_results s = map (\<lambda>p. (p, f p)) (map fst (bf_results s))"
    by (simp add: map_idI comp_def)
qed

section \<open>Properties\<close>

text \<open>C22: \<open>Backfill\<close> under every schedule.  For any number of workers and any order in which they
  take and answer shards: a run has at most 513 steps; until it is done some worker or the feeder
  can go on; and when it is done without a cancelled context, the report has no error, counts the
  rows of all 256 shards and lists exactly the shards that failed, so it does not depend on the
  schedule.\<close>

theorem backfill_any_schedule:
  assumes "backfill_reachable (\<lambda>p r. r = f p) workers s" "0 < workers"
  shows "(\<forall>n s'. (backfill_step (\<lambda>p r. r = f p) workers ^^ n) backfill_start s' \<longrightarrow> n \<le> 513) \<and>
     (\<not> backfill_done s \<longrightarrow>
        (\<exists>s'. backfill_step (\<lambda>p r. r = f p) workers s s' \<and> bf_cancelled s' = bf_cancelled s)) \<and>
     (backfill_done s \<and> \<not> bf_cancelled s \<longrightarrow>
        (\<exists>report st'. backfill_finish st s = ((report, None), st') \<and>
           br_embedded report = sum_list (map (fst \<circ> f) BackfillShards) \<and>
           (\<forall>p \<in> set BackfillShards. map_of (br_failures report) p = snd (f p)) \<and>
           (0 < br_embedded report \<longrightarrow> ss_cache st' = None)))"
proof (intro conjI impI allI)
  fix n s' assume "(backfill_step (\<lambda>p r. r = f p) workers ^^ n) backfill_start s'"
  from backfill_steps_bounded [OF this] show "n \<le> 513" by (simp add: backfill_start_def)
next
  assume "\<not> backfill_done s"
  then show "\<exists>s'. backfill_step (\<lambda>p r. r = f p) workers s s' \<and> bf_cancelled s' = bf_cancelled s"
    using assms(2) by (rule backfill_not_stuck) auto
next
  assume fin: "backfill_done s \<and> \<not> bf_cancelled s"
  note c = backfill_complete [OF assms(1) fin [THEN conjunct1] fin [THEN conjunct2]]
  let ?ps = "map fst (bf_results s)"
  have dist: "distinct ?ps" using c(1) distinct_BackfillShards mset_eq_imp_distinct_iff by blast
  have set_eq: "set ?ps = set BackfillShards" using c(1) mset_eq_setD by blast
  have len: "length (bf_results s) = 256" using mset_eq_length [OF c(1)] by simp
  have "sum_list (map (\<lambda>r. fst (snd r)) (bf_results s)) = sum_list (map (fst \<circ> f) ?ps)"
    by (subst c(2)) (simp add: comp_def)
  also have "\<dots> = sum_list (map (fst \<circ> f) BackfillShards)"
    using c(1) by (metis mset_map sum_mset_sum_list)
  finally have embedded: "br_embedded (backfill_collect (bf_results s)) =
      sum_list (map (fst \<circ> f) BackfillShards)"
    using backfill_collect_spec(1) [OF dist] by simp
  have failures: "map_of (br_failures (backfill_collect (bf_results s))) p = snd (f p)"
    if "p \<in> set BackfillShards" for p
  proof (rule backfill_collect_spec(2) [OF dist])
    have "(p, f p) \<in> set (bf_results s)"
      using that set_eq c(2) by (metis (no_types, lifting) image_eqI list.set_map)
    then show "map_of (bf_results s) p = Some (f p)" using dist by simp
  qed
  show "\<exists>report st'. backfill_finish st s = ((report, None), st') \<and>
      br_embedded report = sum_list (map (fst \<circ> f) BackfillShards) \<and>
      (\<forall>p \<in> set BackfillShards. map_of (br_failures report) p = snd (f p)) \<and>
      (0 < br_embedded report \<longrightarrow> ss_cache st' = None)"
    using fin len embedded failures by (simp add: backfill_finish_def Let_def)
qed

theorem backfill_any_schedule_witness:
  "\<exists>s report st'. backfill_reachable (\<lambda>p r. r = (1, None)) 8 s \<and>
     backfill_finish example_store s = ((report, None), st') \<and> br_embedded report = 256"
proof -
  let ?s = "\<lparr>bf_feed = [], bf_running = [], bf_results = map (\<lambda>p. (p, 1, None)) BackfillShards,
             bf_cancelled = False\<rparr>"
  have r: "backfill_reachable (\<lambda>p r. r = (1, None)) 8 ?s"
    using backfill_one_by_one [of 8 "\<lambda>p. (1, None)" BackfillShards "[]"]
    by (simp add: backfill_reachable_def backfill_start_def)
  have fin: "backfill_done ?s \<and> \<not> bf_cancelled ?s" by (simp add: backfill_done_def)
  have sum: "sum_list (map (fst \<circ> (\<lambda>p. (1, None))) BackfillShards) = (256 :: int)"
    by (simp add: sum_list_triv comp_def)
  from backfill_any_schedule [where f = "\<lambda>p. (1, None)" and workers = 8 and s = ?s and st = example_store,
      OF r, THEN conjunct2, THEN conjunct2, THEN mp, OF _ fin]
  obtain report st' where "backfill_finish example_store ?s = ((report, None), st')"
    "br_embedded report = 256"
    unfolding sum by auto
  with r show ?thesis by blast
qed

text \<open>C38: a chunk that the deferred strategy stores without a vector is reached by the backfill:
  exactly one shard is a prefix of its identity, and the columns that the read plan selects from
  its row parse to the chunk itself.\<close>

theorem backfill_reaches_deferred:
  assumes "BuildUpsertPlan config chunks = Inr (PlanMutation m)" "i < length chunks"
    and "ck_vector (chunks ! i) = []"
  shows "(\<exists>!p. p \<in> set BackfillShards \<and> has_prefix p (ck_id (chunks ! i))) \<and>
     mu_columns m = backfill_columns \<and> backfill_row (mu_values m ! i) = Some (chunks ! i)"
proof -
  let ?k = "chunks ! i"
  have k: "?k \<in> set chunks" using assms(2) by simp
  with assms(1,3) have plan: "chunk_accepted config ?k" "sc_strategy config = EmbeddingDeferred"
      "m = \<lparr>mu_table = TableName, mu_columns = columnsWithoutVector,
            mu_values = map (\<lambda>k. chunkValues k False) chunks\<rparr>"
    by (auto simp: BuildUpsertPlan_Inr list_all_iff split: if_splits)
  then have "validateChunk ?k" "hasLowerHexShardPrefix (ck_id ?k)"
    using assms(3) by (simp_all add: chunk_accepted_def)
  with plan(3) assms(2,3) show ?thesis
    by (simp add: backfill_row_values backfill_columns_eq flip: shard_of)
qed

theorem backfill_reaches_deferred_witness:
  "(\<exists>!p. p \<in> set BackfillShards \<and> has_prefix p ''a1'') \<and>
   backfill_row (chunkValues example_chunk False) = Some example_chunk"
proof -
  have plan: "BuildUpsertPlan example_config [example_chunk] = Inr (PlanMutation
      \<lparr>mu_table = TableName, mu_columns = columnsWithoutVector,
       mu_values = [chunkValues example_chunk False]\<rparr>)"
    using example_config_valid example_chunk_accepted
    by (auto simp: BuildUpsertPlan_Inr example_chunk_def zero_chunk_def example_config_def
        EmbeddingDeferred_def)
  have "ck_id example_chunk = ''a1''" "ck_vector example_chunk = []"
    by (simp_all add: example_chunk_def zero_chunk_def)
  with backfill_reaches_deferred [OF plan, of 0] show ?thesis by simp
qed

end
