(* ===== verification/Store_Stats.thy ===== *)
theory Store_Stats
  imports Store_Backfill
begin

text \<open>
  Runs of a store: any sequence of its operations, with the statistics they cache.
\<close>

section \<open>Runs\<close>

inductive store_run :: "'w executor \<Rightarrow> spanner_store \<times> 'w \<Rightarrow> spanner_store \<times> 'w \<Rightarrow> bool"
  for E where
  start: "store_run E s s"
| initialize: "store_run E s t \<Longrightarrow> store_run E s (snd (store_Initialize E c t))"
| upsert: "store_run E s t \<Longrightarrow> store_run E s (snd (store_Upsert E c chunks t))"
| delete: "store_run E s t \<Longrightarrow> store_run E s (snd (store_DeleteMachine E c machine t))"
| clear: "store_run E s t \<Longrightarrow> store_run E s (snd (store_Clear E c t))"
| search: "store_run E s t \<Longrightarrow> store_run E s (snd (store_Search E c q t))"
| hybrid: "store_run E s t \<Longrightarrow> store_run E s (snd (store_HybridSearch E c q t))"
| summaries: "store_run E s t \<Longrightarrow> store_run E s (snd (store_Summaries E c f n t))"
| stats: "store_run E s t \<Longrightarrow> store_run E s (snd (store_Stats E c t))"
| chunk_exists: "store_run E s t \<Longrightarrow> store_run E s (snd (store_ChunkExists E c ident t))"
| optimize: "store_run E s t \<Longrightarrow> store_run E s (snd (store_Optimize E c t))"
| ready: "store_run E s t \<Longrightarrow> store_run E s (snd (store_Ready E c t))"
| discover: "store_run E s t \<Longrightarrow> store_run E s (snd (store_DiscoverIndexes E c t))"
| close: "store_run E s t \<Longrightarrow> store_run E s (snd (store_Close E t))"
| backfill: "store_run E s (st, w) \<Longrightarrow> store_run E s (snd (store_Backfill st b), w')"

section \<open>The invariant\<close>

definition stats_consistent :: "store_config \<Rightarrow> stats \<Rightarrow> bool" where
  "stats_consistent config v \<longleftrightarrow>
     0 \<le> sa_embedded v \<and> sa_embedded v \<le> sa_total v \<and> sa_awaiting v = sa_total v - sa_embedded v \<and>
     (\<forall>d t. sa_rate v = Some (d, t) \<longrightarrow> 0 \<le> d \<and> 0 < t) \<and>
     (\<forall>a d t. sa_eta v = Some (a, d, t) \<longrightarrow> a = sa_awaiting v \<and> sa_rate v = Some (d, t) \<and> 0 < a \<and> 0 < d) \<and>
     (sa_mode v = SearchANN \<longleftrightarrow> sc_use_ann config \<and> sa_index v) \<and>
     sa_project v = sc_project config \<and> sa_database v = sc_database config \<and>
     sa_strategy v = sc_strategy config"

definition store_inv :: "store_config \<Rightarrow> spanner_store \<Rightarrow> bool" where
  "store_inv config st \<longleftrightarrow>
     ss_config st = config \<and> (\<forall>at v. ss_cache st = Some (at, v) \<longrightarrow> stats_consistent config v)"

definition inv_of :: "store_config \<Rightarrow> spanner_store \<times> 'w \<Rightarrow> bool" where
  "inv_of config s = store_inv config (fst s)"

lemma store_inv_simps [simp]:
  "store_inv config (st\<lparr>ss_initialized := b\<rparr>) = store_inv config st"
  "store_inv config (st\<lparr>ss_index := b\<rparr>) = store_inv config st"
  "store_inv config (st\<lparr>ss_closed := x\<rparr>) = store_inv config st"
  "store_inv config (st\<lparr>ss_sample := y\<rparr>) = store_inv config st"
  "store_inv config (st\<lparr>ss_cache := None\<rparr>) \<longleftrightarrow> ss_config st = config"
  by (simp_all add: store_inv_def)

lemma store_inv_config: "store_inv config st \<Longrightarrow> ss_config st = config"
  by (simp add: store_inv_def)

lemma keeps_on_world [keeps_intros]: "keeps (inv_of config) (on_world m)"
  by (auto simp: keeps_def inv_of_def on_world_def split: prod.splits)

lemma keeps_on_store: "(\<And>st. store_inv config st \<Longrightarrow> store_inv config (f st)) \<Longrightarrow> keeps (inv_of config) (on_store f)"
  by (auto simp: keeps_def inv_of_def on_store_def modify_def)

lemma keeps_contextError [keeps_intros]: "keeps (inv_of config) (contextError E c)"
  by (cases c) (auto simp: contextError_def intro: keeps_intros)

lemma keeps_invalidate [keeps_intros]: "keeps (inv_of config) invalidateStats"
  unfolding invalidateStats_def by (rule keeps_on_store) (simp add: store_inv_config)

lemma keeps_updates [keeps_intros]:
  "keeps (inv_of config) (on_store (ss_initialized_update f))"
  "keeps (inv_of config) (on_store (ss_index_update f))"
  by (rule keeps_on_store; simp add: store_inv_def)+

lemma keeps_reading_op [keeps_intros]:
  "(\<And>st. store_inv config st \<Longrightarrow> keeps (inv_of config) (f st)) \<Longrightarrow>
   keeps (inv_of config) (reading (\<lambda>(st, _). f st))"
  by (auto simp: keeps_def inv_of_def reading_def)

lemma keeps_if [keeps_intros]:
  "(b \<Longrightarrow> keeps P m) \<Longrightarrow> (\<not> b \<Longrightarrow> keeps P n) \<Longrightarrow> keeps P (if b then m else n)"
  by simp

section \<open>Every operation keeps it\<close>

lemma keeps_Initialize: "keeps (inv_of config) (store_Initialize E c)"
  unfolding store_Initialize_def by (intro keeps_intros)

lemma keeps_Upsert: "keeps (inv_of config) (store_Upsert E c chunks)"
proof -
  have "keeps (inv_of config) (case p of
      PlanMutation m \<Rightarrow> andThen (wrapping t (on_world (ex_apply E m))) (\<lambda>_. invalidateStats)
    | PlanStatement s \<Rightarrow> andThen (wrapping t' (on_world (ex_read_write E (g s) 0))) (\<lambda>_. invalidateStats))"
    for p t t' g
    by (cases p) (auto intro!: keeps_intros)
  then show ?thesis unfolding store_Upsert_def by (intro keeps_intros)
qed

lemma keeps_DeleteMachine: "keeps (inv_of config) (store_DeleteMachine E c machine)"
  unfolding store_DeleteMachine_def Let_def by (intro keeps_intros)

lemma keeps_Clear: "keeps (inv_of config) (store_Clear E c)"
  unfolding store_Clear_def by (intro keeps_intros)

lemma keeps_runSearch [keeps_intros]: "keeps (inv_of config) (runSearch E c plan)"
  unfolding runSearch_def by (intro keeps_intros)

lemma keeps_fallback [keeps_intros]: "keeps (inv_of config) (runVectorFallback E c q)"
  unfolding runVectorFallback_def by (intro keeps_intros)

lemma keeps_ensure [keeps_intros]: "keeps (inv_of config) (ensureQueryVector E q)"
  unfolding ensureQueryVector_def by (intro keeps_intros)

lemma keeps_Search: "keeps (inv_of config) (store_Search E c q)"
  unfolding store_Search_def by (intro keeps_intros)

lemma keeps_hybrid_query [keeps_intros]:
  fixes E :: "'w executor"
  shows "keeps (inv_of config) (hybrid_query E c q plan)"
proof (rule keepsI)
  fix s :: "spanner_store \<times> 'w"
  assume s: "inv_of config s"
  obtain r s' where call: "on_world (ex_query E (sp_statement plan)) s = (r, s')"
    by (cases "on_world (ex_query E (sp_statement plan)) s")
  have s': "inv_of config s'"
    using keepsD [OF keeps_on_world s] call by (metis snd_conv)
  have "inv_of config (snd (andThen (contextError E c) (\<lambda>_. runVectorFallback E c q) s'))"
    using s' by (rule keepsD [rotated]) (intro keeps_intros)
  with s' show "inv_of config (snd (hybrid_query E c q plan s))"
    unfolding hybrid_query_def call
    by (cases r) (auto simp: check_option_def succeed_def fail_def split: option.splits)
qed

lemma keeps_HybridSearch: "keeps (inv_of config) (store_HybridSearch E c q)"
  unfolding store_HybridSearch_def by (intro keeps_intros)

lemma keeps_Summaries: "keeps (inv_of config) (store_Summaries E c f n)"
  unfolding store_Summaries_def by (intro keeps_intros)

lemma keeps_ChunkExists: "keeps (inv_of config) (store_ChunkExists E c ident)"
  unfolding store_ChunkExists_def by (intro keeps_intros)

lemma keeps_Optimize: "keeps (inv_of config) (store_Optimize E c)"
  unfolding store_Optimize_def by (intro keeps_intros)

lemma keeps_Ready: "keeps (inv_of config) (store_Ready E c)"
  unfolding store_Ready_def by (intro keeps_intros)

lemma keeps_DiscoverIndexes: "keeps (inv_of config) (store_DiscoverIndexes E c)"
  unfolding store_DiscoverIndexes_def by (intro keeps_intros)

lemma keeps_Close: "keeps (inv_of config) (store_Close E)"
  by (auto simp: keeps_def inv_of_def store_Close_def reading_def on_world_def
      split: option.splits prod.splits)

lemma store_Backfill_inv: "store_inv config st \<Longrightarrow> store_inv config (snd (store_Backfill st b))"
  by (auto simp: store_Backfill_def backfill_finish_def Let_def store_inv_config)

section \<open>Statistics\<close>

lemma stats_counts_Inr: "stats_counts rows = Inr (n, embedded) \<Longrightarrow> 0 \<le> embedded \<and> embedded \<le> n"
  by (auto simp: stats_counts_def split: list.splits option.splits if_splits)

lemma build_stats_consistent:
  assumes "0 \<le> embedded" "embedded \<le> n"
  shows "stats_consistent (ss_config st) (build_stats st now n embedded)"
  using assms
  by (auto simp: stats_consistent_def build_stats_def Let_def stats_rate_def stats_eta_def search_modes
      split: option.splits if_splits)

text \<open>A result of \<open>Stats\<close> is cached, or built from the counts of a query.\<close>

lemma store_StatsE:
  assumes "store_Stats E c (st, w) = (r, st', w')"
  obtains (error) e where "r = Inl e" "st' = st"
  | (cached) v at where "r = Inr v" "st' = st" "ss_cache st = Some (at, v)"
  | (fresh) rows n embedded now w1 w2 where "ex_query E stats_statement w1 = (Inr rows, w2)"
      "stats_counts rows = Inr (n, embedded)" "r = Inr (build_stats st now n embedded)"
      "st' = st\<lparr>ss_sample := Some (now, embedded), ss_cache := Some (now, build_stats st now n embedded)\<rparr>"
proof -
  have ctx: "st'' = st" if "contextError E c (st, v) = (q, st'', v')" for v q st'' v'
    using that by (cases c) (auto simp: contextError_def on_world_def fail_def split: prod.splits)
  have query: "st'' = st \<and> (q = Inr rows \<longrightarrow> (\<exists>v1 v2. ex_query E stats_statement v1 = (Inr rows, v2)))"
    if "wrapping t (on_world (ex_query E stats_statement)) (st, v) = (q, st'', v')" for t v q st'' v' rows
    using that by (auto simp: wrapping_def on_world_def split: prod.splits sum.splits)
  from assms [unfolded store_Stats_def] show thesis
  proof (cases rule: andThenE)
    case (Inl e)
    with ctx error show thesis by blast
  next
    case (Inr x s1)
    obtain w1 where s1: "s1 = (st, w1)" using ctx Inr(1) by (cases s1) auto
    obtain now w2 where now: "ex_now E w1 = (now, w2)" by fastforce
    show thesis
    proof (cases "cached_stats st now")
      case (Some v)
      with Inr(2) s1 now cached show thesis
        by (auto simp: andThen_def store_now_def reading_def succeed_def cached_stats_def
            split: option.splits if_splits)
    next
      case None
      from Inr(2) s1 now None have "query_stats E c st now (st, w2) = (r, st', w')"
        by (simp add: andThen_def store_now_def reading_def)
      then show thesis
        unfolding query_stats_def
      proof (elim andThenE, goal_cases)
        case (1 e)
        with ctx error show ?case by blast
      next
        case (2 y s2 e)
        with ctx query error show ?case by (cases s2) blast
      next
        case (3 y s2 rows s3 e)
        obtain v2 v3 where "s2 = (st, v2)" "s3 = (st, v3)"
          using 3 ctx query by (cases s2; cases s3) blast
        with 3 error show ?case by (auto simp: check_iff)
      next
        case (4 y s2 rows s3 counts s4)
        obtain v2 v3 where "s2 = (st, v2)" "s3 = (st, v3)"
          using 4 ctx query by (cases s2; cases s3) blast
        moreover obtain n embedded where "counts = (n, embedded)" by fastforce
        ultimately have "stats_counts rows = Inr (n, embedded)"
          "r = Inr (build_stats st now n embedded)"
          "st' = st\<lparr>ss_sample := Some (now, embedded), ss_cache := Some (now, build_stats st now n embedded)\<rparr>"
          using 4 by (auto simp: check_iff on_store_def modify_def succeed_def andThen_def Let_def
              split: sum.splits)
        moreover obtain v1 v4 where "ex_query E stats_statement v1 = (Inr rows, v4)"
          using 4 query \<open>s2 = (st, v2)\<close> by (cases s3) blast
        ultimately show ?case using fresh by blast
      qed
    qed
  qed
qed

lemma keeps_Stats:
  fixes E :: "'w executor"
  shows "keeps (inv_of config) (store_Stats E c)"
proof (rule keepsI)
  fix s :: "spanner_store \<times> 'w"
  assume "inv_of config s"
  then obtain st w where s: "s = (st, w)" and inv: "store_inv config st"
    by (cases s) (simp add: inv_of_def)
  obtain r st' w' where run: "store_Stats E c (st, w) = (r, st', w')" by (metis prod_cases3)
  then have "store_inv config st'"
  proof (cases rule: store_StatsE)
    case (fresh rows n embedded now w1 w2)
    with build_stats_consistent [of embedded n st now] stats_counts_Inr [OF fresh(2)] inv show ?thesis by (auto simp: store_inv_def)
  qed (use inv in auto)
  with s run show "inv_of config (snd (store_Stats E c s))" by (simp add: inv_of_def)
qed

lemmas keeps_ops = keeps_Initialize keeps_Upsert keeps_DeleteMachine keeps_Clear keeps_Search
  keeps_HybridSearch keeps_Summaries keeps_Stats keeps_ChunkExists keeps_Optimize keeps_Ready
  keeps_DiscoverIndexes keeps_Close

lemma store_run_inv: "store_run E s t \<Longrightarrow> inv_of config s \<Longrightarrow> inv_of config t"
  by (induction rule: store_run.induct)
     (simp_all add: keeps_ops [THEN keepsD] inv_of_def [of config "(_, _)"] store_Backfill_inv)

section \<open>Properties\<close>

text \<open>A successful write leaves no cached statistics.\<close>

lemma write_drops_cache:
  "store_Upsert E c chunks s = (Inr u, st', w') \<Longrightarrow> ss_cache st' = None"
  "store_DeleteMachine E c machine s = (Inr n, st', w') \<Longrightarrow> ss_cache st' = None"
  "store_Clear E c s = (Inr n, st', w') \<Longrightarrow> ss_cache st' = None"
  unfolding store_Upsert_def store_DeleteMachine_def store_Clear_def Let_def
  by (auto elim!: andThen_InrE simp: invalidateStats_def on_store_def modify_def succeed_def reading_def
      split: prod.splits upsert_plan.splits)

text \<open>C39: over any sequence of operations of a new store, every result of \<open>Stats\<close> is
  consistent: the embedded rows are part of all rows, the others wait, rate and estimate have
  nonnegative operands, and the reported search mode is approximate exactly when it is configured
  and the index is available.  A successful write drops the cached value, and without a cached
  value the counts are those of a query.\<close>

theorem stats_always_consistent:
  assumes "store_New config given = Inr st0" "store_run E (st0, w0) (st, w)"
    and "store_Stats E c (st, w) = (Inr v, st', w')"
  shows "stats_consistent config v \<and>
     (ss_cache st = None \<longrightarrow> (\<exists>rows w1 w2. ex_query E stats_statement w1 = (Inr rows, w2) \<and>
        stats_counts rows = Inr (sa_total v, sa_embedded v))) \<and>
     (\<forall>chunks u st1 w1. store_Upsert E c chunks (st, w) = (Inr u, st1, w1) \<longrightarrow> ss_cache st1 = None) \<and>
     (\<forall>machine n st1 w1. store_DeleteMachine E c machine (st, w) = (Inr n, st1, w1) \<longrightarrow>
        ss_cache st1 = None) \<and>
     (\<forall>n st1 w1. store_Clear E c (st, w) = (Inr n, st1, w1) \<longrightarrow> ss_cache st1 = None)"
proof -
  have "inv_of config (st0, w0)"
    using assms(1) by (auto simp: store_New_def inv_of_def store_inv_def split: if_splits)
  with store_run_inv [OF assms(2)] have inv: "store_inv config st" by (simp add: inv_of_def)
  from assms(3) have "stats_consistent config v \<and>
     (ss_cache st = None \<longrightarrow> (\<exists>rows w1 w2. ex_query E stats_statement w1 = (Inr rows, w2) \<and>
        stats_counts rows = Inr (sa_total v, sa_embedded v)))"
  proof (cases rule: store_StatsE)
    case (cached v' at)
    with inv show ?thesis by (auto simp: store_inv_def)
  next
    case (fresh rows n embedded now w1 w2)
    with build_stats_consistent [of embedded n st now] stats_counts_Inr [OF fresh(2)] inv
    show ?thesis by (auto simp: store_inv_def build_stats_def Let_def)
  qed simp
  then show ?thesis by (auto dest: write_drops_cache)
qed

definition example_executor :: "unit executor" where
  "example_executor =
     \<lparr>ex_context = succeed (), ex_now = (\<lambda>w. (7, w)), ex_query = (\<lambda>s. succeed [[VInt 3, VInt 2]]),
      ex_execute = (\<lambda>s. succeed 0), ex_apply = (\<lambda>m. succeed ()), ex_tx_execute = (\<lambda>s. succeed 0),
      ex_read_write = (\<lambda>f x. f x), ex_update_ddl = (\<lambda>d. succeed ()), ex_close = succeed ()\<rparr>"

theorem stats_always_consistent_witness:
  "\<exists>v s'. store_Stats example_executor Context (example_store, ()) = (Inr v, s') \<and>
     sa_awaiting v = 1 \<and> stats_consistent example_config v"
proof -
  let ?v = "build_stats example_store 7 3 2"
  have run: "store_Stats example_executor Context (example_store, ()) =
      (Inr ?v, example_store\<lparr>ss_sample := Some (7, 2), ss_cache := Some (7, ?v)\<rparr>, ())"
    by (simp add: store_Stats_def query_stats_def andThen_def contextError_def on_world_def
        example_executor_def succeed_def store_now_def reading_def cached_stats_def example_store_def
        wrapping_def check_def stats_counts_def on_store_def modify_def Let_def)
  from stats_always_consistent [OF example_store_new store_run.start run] run show ?thesis
    by (auto simp: build_stats_def Let_def)
qed

end
