(* ===== verification/Json_Canonical.thy ===== *)
theory Json_Canonical
  imports Go_Text
begin

text \<open>
  The text that \<open>encoding/json\<close> writes for a struct (fields in the order of their declaration),
  and the proof that without HTML escaping it determines the value: a code in which strings,
  numbers, arrays and objects delimit themselves.
\<close>

section \<open>Printing\<close>

text \<open>An object of already printed values.\<close>

definition json_object :: "(string \<times> string) list \<Rightarrow> string" where
  "json_object kts =
     CHR ''{'' # join '','' (map (\<lambda>(k, t). json_string False k @ '':'' @ t) kts) @ ''}''"

fun json_print :: "bool \<Rightarrow> json \<Rightarrow> string" where
  "json_print html JNull = ''null''"
| "json_print html (JBool b) = (if b then ''true'' else ''false'')"
| "json_print html (JNum t) = t"
| "json_print html (JStr s) = json_string html s"
| "json_print html (JArr xs) = CHR ''['' # join '','' (map (json_print html) xs) @ '']''"
| "json_print html (JObj kvs) =
     CHR ''{'' # join '','' (map (\<lambda>kv. json_string html (fst kv) @ '':'' @ json_print html (snd kv)) kvs) @ ''}''"

abbreviation json_ordered :: "json \<Rightarrow> string" where
  "json_ordered \<equiv> json_print False"

lemma json_ordered_object:
  "json_ordered (JObj kvs) = json_object (map (\<lambda>kv. (fst kv, json_ordered (snd kv))) kvs)"
  by (simp add: json_object_def comp_def)

section \<open>Texts that are printed faithfully\<close>

text \<open>Valid UTF-8 without control characters other than the three that have a short escape.\<close>

definition clean_rune :: "nat \<times> nat \<Rightarrow> bool" where
  "clean_rune st \<longleftrightarrow> st \<noteq> (rune_error, 1) \<and> (fst st < 32 \<longrightarrow> fst st \<in> {9, 10, 13})"

definition clean_text :: "string \<Rightarrow> bool" where
  "clean_text s \<longleftrightarrow> list_all clean_rune (rune_steps s)"

lemma rune_steps_Nil [simp]: "rune_steps [] = []"
  by (simp add: rune_steps.simps [of "[]"])

lemma rune_steps_step: "s \<noteq> [] \<Longrightarrow> rune_steps s = decode_rune s # rune_steps (drop (snd (decode_rune s)) s)"
  by (simp add: rune_steps.simps [of s])

lemma clean_text_Nil [simp]: "clean_text []"
  by (simp add: clean_text_def)

text \<open>The shape of a rune that is not an error.\<close>

lemma decode_rune_ascii: "byte_of c < 128 \<Longrightarrow> decode_rune (c # s) = (byte_of c, 1)"
  by (simp add: decode_rune_def)

lemma lead_infoE:
  assumes "lead_info b = Some (width, lo, hi)"
  obtains "width = 2" "194 \<le> b" "b \<le> 223" "128 \<le> lo" "hi \<le> 191"
  | "width = 3" "224 \<le> b" "b \<le> 239" "128 \<le> lo" "hi \<le> 191"
  | "width = 4" "240 \<le> b" "b \<le> 244" "128 \<le> lo" "hi \<le> 191"
  using assms by (simp add: lead_info_def split: if_splits)

lemma decode_rune_lead:
  assumes "128 \<le> byte_of c" "decode_rune (c # s) \<noteq> (rune_error, 1)"
  obtains width lo hi where "lead_info (byte_of c) = Some (width, lo, hi)" "width \<le> Suc (length (take 3 s))"
    "lo \<le> byte_of (s ! 0)" "byte_of (s ! 0) \<le> hi"
proof -
  have take4: "map byte_of (take 4 (c # s)) = byte_of c # map byte_of (take 3 s)" by simp
  obtain width lo hi where l: "lead_info (byte_of c) = Some (width, lo, hi)"
    using assms take4 by (cases "lead_info (byte_of c)") (auto simp: decode_rune_def)
  then have w: "width \<le> Suc (length (take 3 s))"
    using assms take4 by (simp add: decode_rune_def split: if_splits)
  with l have "s \<noteq> []" by (auto elim!: lead_infoE)
  then have "map byte_of (take 3 s) ! 0 = byte_of (s ! 0)" by (cases s) auto
  with l w assms take4 that show thesis by (simp add: decode_rune_def split: if_splits)
qed

text \<open>The three forms of a sequence that is not an error.\<close>

lemma decode_rune_wideE:
  assumes "128 \<le> byte_of c" "decode_rune (c # s) \<noteq> (rune_error, 1)"
  obtains (two) b1 t where "s = b1 # t" "194 \<le> byte_of c" "byte_of c \<le> 223" "128 \<le> byte_of b1"
      "byte_of b1 \<le> 191" "decode_rune (c # s) = ((byte_of c - 192) * 64 + (byte_of b1 - 128), 2)"
  | (three) b1 b2 t where "s = b1 # b2 # t" "224 \<le> byte_of c" "byte_of c \<le> 239" "128 \<le> byte_of b1"
      "byte_of b1 \<le> 191" "128 \<le> byte_of b2" "byte_of b2 \<le> 191" "decode_rune (c # s) =
       ((byte_of c - 224) * 4096 + (byte_of b1 - 128) * 64 + (byte_of b2 - 128), 3)"
  | (four) b1 b2 b3 t where "s = b1 # b2 # b3 # t" "240 \<le> byte_of c" "byte_of c \<le> 244"
      "128 \<le> byte_of b1" "byte_of b1 \<le> 191" "128 \<le> byte_of b2" "byte_of b2 \<le> 191"
      "128 \<le> byte_of b3" "byte_of b3 \<le> 191" "decode_rune (c # s) =
       ((byte_of c - 240) * 262144 + (byte_of b1 - 128) * 4096 + (byte_of b2 - 128) * 64 +
        (byte_of b3 - 128), 4)"
proof -
  obtain width lo hi where l: "lead_info (byte_of c) = Some (width, lo, hi)"
    "width \<le> Suc (length (take 3 s))" "lo \<le> byte_of (s ! 0)" "byte_of (s ! 0) \<le> hi"
    using decode_rune_lead [OF assms] .
  from l(1) show thesis
  proof (cases rule: lead_infoE)
    case 1
    with l(2) obtain b1 t where s: "s = b1 # t" by (cases s) auto
    with 1 l assms show thesis by (intro two [OF s]) (auto simp: decode_rune_def)
  next
    case 2
    with l(2) obtain b1 b2 t where s: "s = b1 # b2 # t" by (cases s; cases "tl s") auto
    with 2 l assms show thesis
      by (intro three [OF s]) (auto simp: decode_rune_def continuation_def split: if_splits)
  next
    case 3
    with l(2) obtain b1 b2 b3 t where s: "s = b1 # b2 # b3 # t"
      by (cases s; cases "tl s"; cases "tl (tl s)") auto
    with 3 l assms show thesis
      by (intro four [OF s]) (auto simp: decode_rune_def continuation_def split: if_splits)
  qed
qed

lemma decode_rune_wide:
  assumes "128 \<le> byte_of c" "decode_rune (c # s) \<noteq> (rune_error, 1)"
  shows "snd (decode_rune (c # s)) \<le> length (c # s)"
    and "list_all (\<lambda>x. 128 \<le> byte_of x) (take (snd (decode_rune (c # s))) (c # s))"
    and "2 \<le> snd (decode_rune (c # s))"
proof -
  have "snd (decode_rune (c # s)) \<le> length (c # s) \<and>
    list_all (\<lambda>x. 128 \<le> byte_of x) (take (snd (decode_rune (c # s))) (c # s)) \<and>
    2 \<le> snd (decode_rune (c # s))"
    using assms by (cases rule: decode_rune_wideE) (simp_all add: assms(1))
  then show "snd (decode_rune (c # s)) \<le> length (c # s)"
    and "list_all (\<lambda>x. 128 \<le> byte_of x) (take (snd (decode_rune (c # s))) (c # s))"
    and "2 \<le> snd (decode_rune (c # s))"
    by blast+
qed

text \<open>The line and paragraph separators have one encoding each.\<close>

lemma separator_bytes:
  fixes a b c k :: nat
  assumes "(c - 224) * 4096 + (a - 128) * 64 + (b - 128) = 8232 + k" "k < 2" "224 \<le> c"
    "128 \<le> a" "a \<le> 191" "128 \<le> b" "b \<le> 191"
  shows "c = 226 \<and> a = 128 \<and> b = 168 + k"
proof -
  define x where "x = c - 224"
  define y where "y = a - 128"
  define z where "z = b - 128"
  have c: "c = 224 + x" and a: "a = 128 + y" and b: "b = 128 + z"
    using assms(3,4,6) by (simp_all add: x_def y_def z_def)
  have e: "x * 4096 + y * 64 + z = 8232 + k" "y \<le> 63" "z \<le> 63"
    using assms(1,5,7) by (simp_all add: x_def y_def z_def)
  with assms(2) have "x = 2" by linarith
  with e assms(2) have "y = 0" by linarith
  with e \<open>x = 2\<close> show ?thesis by (simp add: c a b)
qed

lemma decode_rune_separator:
  assumes "decode_rune (c # s) = (8232 + k, n)" "k < 2"
  shows "n = 3 \<and> take 3 (c # s) = [CHR 0xE2, CHR 0x80, char_of (168 + k)]"
proof -
  have wide: "128 \<le> byte_of c"
    using assms decode_rune_ascii [of c s] by (cases "byte_of c < 128") auto
  have ok: "decode_rune (c # s) \<noteq> (rune_error, 1)" using assms by (simp add: rune_error_def)
  show ?thesis
    using wide ok
  proof (cases rule: decode_rune_wideE)
    case (two b1 t)
    then have "(byte_of c - 192) * 64 + (byte_of b1 - 128) \<le> 31 * 64 + 63"
      by (intro add_mono mult_mono) auto
    with two assms show ?thesis by simp
  next
    case (three b1 b2 t)
    then have "byte_of c = 226 \<and> byte_of b1 = 128 \<and> byte_of b2 = 168 + k"
      using assms by (intro separator_bytes) auto
    then have "c = CHR 0xE2" "b1 = CHR 0x80" "b2 = char_of (168 + k)"
      using assms(2) by (simp_all flip: byte_of_inj add: byte_of_def)
    with three assms show ?thesis by simp
  next
    case (four b1 b2 b3 t)
    obtain width lo hi where "lead_info (byte_of c) = Some (width, lo, hi)" "lo \<le> byte_of (s ! 0)"
      by (rule decode_rune_lead [OF wide ok])
    then have "byte_of c = 240 \<longrightarrow> 144 \<le> byte_of b1"
      using four(1) by (auto simp: lead_info_def)
    then have "65536 \<le> (byte_of c - 240) * 262144 + (byte_of b1 - 128) * 4096"
      using four(2,4) by (cases "byte_of c = 240") auto
    moreover have "(byte_of c - 240) * 262144 + (byte_of b1 - 128) * 4096 + (byte_of b2 - 128) * 64 +
        (byte_of b3 - 128) = 8232 + k"
      using four(10) assms(1) by simp
    ultimately have False using assms(2) by linarith
    then show ?thesis ..
  qed
qed

section \<open>Reading strings back\<close>

text \<open>The inverse of the string encoder up to the closing quote: the text and what follows it.\<close>

fun unescape :: "string \<Rightarrow> (string \<times> string) option" where
  "unescape [] = None"
| "unescape (c # cs) =
     (if c = CHR 0x22 then Some ([], cs)
      else if c \<noteq> CHR 0x5C then map_option (\<lambda>(t, r). (c # t, r)) (unescape cs)
      else (case cs of
         [] \<Rightarrow> None
       | e # ds \<Rightarrow>
           if e = CHR ''n'' then map_option (\<lambda>(t, r). (CHR 0x0A # t, r)) (unescape ds)
           else if e = CHR ''r'' then map_option (\<lambda>(t, r). (CHR 0x0D # t, r)) (unescape ds)
           else if e = CHR ''t'' then map_option (\<lambda>(t, r). (CHR 0x09 # t, r)) (unescape ds)
           else if e \<noteq> CHR ''u'' then map_option (\<lambda>(t, r). (e # t, r)) (unescape ds)
           else map_option (\<lambda>(t, r). ([CHR 0xE2, CHR 0x80,
               if take 4 ds = ''2028'' then CHR 0xA8 else CHR 0xA9] @ t, r)) (unescape (drop 4 ds))))"

declare unescape.simps [simp del]

lemma char_of_bytes:
  "char_of (34 :: nat) = CHR 0x22" "char_of (92 :: nat) = CHR 0x5C" "char_of (10 :: nat) = CHR 0x0A"
  "char_of (13 :: nat) = CHR 0x0D" "char_of (9 :: nat) = CHR 0x09" "char_of (168 :: nat) = CHR 0xA8"
  "char_of (169 :: nat) = CHR 0xA9"
  by code_simp+

lemma unescape_quote: "unescape (CHR 0x22 # r) = Some ([], r)"
  by (simp add: unescape.simps)

lemma unescape_plain:
  "c \<noteq> CHR 0x22 \<Longrightarrow> c \<noteq> CHR 0x5C \<Longrightarrow> unescape (c # cs) = map_option (\<lambda>(t, r). (c # t, r)) (unescape cs)"
  by (simp add: unescape.simps)

lemma unescape_wide:
  "list_all (\<lambda>x. 128 \<le> byte_of x) u \<Longrightarrow>
   unescape (u @ cs) = map_option (\<lambda>(t, r). (u @ t, r)) (unescape cs)"
proof (induction u)
  case (Cons c u)
  then have "c \<noteq> CHR 0x22" "c \<noteq> CHR 0x5C" by (auto simp: byte_of_def)
  with Cons show ?case by (auto simp: unescape_plain option.map_comp comp_def split_def)
qed (simp add: option.map_id0 case_prod_beta)

text \<open>An ASCII character that a clean text may contain.\<close>

lemma unescape_ascii:
  assumes "byte_of c < 128" "byte_of c < 32 \<Longrightarrow> byte_of c \<in> {9, 10, 13}"
  shows "unescape (json_escape_ascii False (byte_of c) @ cs) =
    map_option (\<lambda>(t, r). (c # t, r)) (unescape cs)"
proof -
  have c: "c = char_of (byte_of c)" by (simp add: byte_of_def)
  consider "byte_of c = 34" | "byte_of c = 92" | "byte_of c = 10" | "byte_of c = 13" | "byte_of c = 9"
    | "byte_of c \<notin> {34, 92, 10, 13, 9, 8, 12}" "32 \<le> byte_of c"
    using assms(2) by (cases "byte_of c < 32") auto
  then show ?thesis
  proof cases
    case 6
    then have "c \<noteq> CHR 0x22" "c \<noteq> CHR 0x5C" by (auto simp: byte_of_def)
    moreover have "json_escape_ascii False (byte_of c) = [c]"
      using 6 c by (simp add: json_escape_ascii_def)
    ultimately show ?thesis by (simp add: unescape_plain)
  qed (use c in \<open>simp_all add: json_escape_ascii_def unescape.simps char_of_bytes\<close>)
qed

lemma hex_pad_4:
  "hex_pad 4 n = [hex_digit (n div 16 div 16 div 16 mod 16), hex_digit (n div 16 div 16 mod 16),
     hex_digit (n div 16 mod 16), hex_digit (n mod 16)]"
proof -
  have four: "(4 :: nat) = Suc (Suc (Suc (Suc 0)))" by simp
  show ?thesis unfolding four hex_pad.simps by simp
qed

lemma hex_digits:
  "hex_digit 0 = CHR ''0''" "hex_digit 2 = CHR ''2''" "hex_digit 8 = CHR ''8''" "hex_digit 9 = CHR ''9''"
  by code_simp+

lemma hex_separators: "hex_pad 4 8232 = ''2028''" "hex_pad 4 8233 = ''2029''"
  by (simp_all add: hex_pad_4 hex_digits)

lemma unescape_separator:
  assumes "k < 2"
  shows "unescape ((CHR 0x5C # ''u'' @ hex_pad 4 (8232 + k)) @ cs) =
    map_option (\<lambda>(t, r). ([CHR 0xE2, CHR 0x80, char_of (168 + k)] @ t, r)) (unescape cs)"
proof -
  from assms consider "k = 0" | "k = 1" by linarith
  then show ?thesis
  proof cases
    case 1
    then show ?thesis
      by (simp add: hex_separators unescape.simps(2) [of "CHR 0x5C"] char_of_bytes)
  next
    case 2
    then show ?thesis
      by (simp add: hex_separators unescape.simps(2) [of "CHR 0x5C"] char_of_bytes)
  qed
qed

lemma unescape_steps:
  "clean_text s \<Longrightarrow>
   unescape (json_escape_steps False (rune_steps s) s @ CHR 0x22 # r) = Some (s, r)"
proof (induction s rule: length_induct)
  case (1 s)
  show ?case
  proof (cases s)
    case Nil
    then show ?thesis by (simp add: unescape_quote)
  next
    case (Cons c u)
    let ?n = "snd (decode_rune s)" and ?rune = "fst (decode_rune s)"
    have steps: "rune_steps s = decode_rune s # rune_steps (drop ?n s)"
      using Cons by (simp add: rune_steps_step)
    with 1(2) have ok: "clean_rune (decode_rune s)" and rest: "clean_text (drop ?n s)"
      by (simp_all add: clean_text_def)
    have "length (drop ?n s) < length s" using decode_rune_pos [of s] Cons by simp
    with 1(1) rest have IH: "unescape (json_escape_steps False (rune_steps (drop ?n s)) (drop ?n s) @ CHR 0x22 # r) =
        Some (drop ?n s, r)" by blast
    have split: "take ?n s @ drop ?n s = s" by simp
    show ?thesis
    proof (cases "byte_of c < 128")
      case True
      then have d: "decode_rune s = (byte_of c, 1)" using Cons by (simp add: decode_rune_ascii)
      with ok have "byte_of c < 32 \<Longrightarrow> byte_of c \<in> {9, 10, 13}" by (simp add: clean_rune_def)
      from unescape_ascii [OF True this] show ?thesis
        using IH True Cons unfolding steps d by simp
    next
      case False
      then have wide: "?n \<le> length s" "list_all (\<lambda>x. 128 \<le> byte_of x) (take ?n s)" "2 \<le> ?n"
        using decode_rune_wide [of c u] ok Cons by (simp_all add: clean_rune_def)
      obtain rn n where d: "decode_rune s = (rn, n)" by fastforce
      show ?thesis
      proof (cases "rn = 8232 \<or> rn = 8233")
        case True
        then obtain k where k: "rn = 8232 + k" "k < 2"
          by (cases "rn = 8232") (auto intro: that [of 0] that [of 1])
        then have "n = 3" "take 3 s = [CHR 0xE2, CHR 0x80, char_of (168 + k)]"
          using decode_rune_separator [of c u k n] d Cons by auto
        moreover have "json_escape_steps False (rune_steps s) s =
            (CHR 0x5C # ''u'' @ hex_pad 4 (8232 + k)) @
            json_escape_steps False (rune_steps (drop n s)) (drop n s)"
          using k True \<open>n = 3\<close> unfolding steps d by (simp add: rune_error_def)
        moreover have "s = take 3 s @ drop 3 s" by simp
        ultimately show ?thesis
          using unescape_separator [OF k(2)] IH d by (metis (no_types, lifting) append.assoc
              case_prod_conv option.simps(9) snd_conv)
      next
        case False
        with wide d unescape_wide [OF wide(2)] IH split ok show ?thesis
          by (simp add: steps clean_rune_def)
      qed
    qed
  qed
qed

lemma json_string_inj:
  assumes "clean_text s" "clean_text t" "json_string False s @ r = json_string False t @ r'"
  shows "s = t \<and> r = r'"
proof -
  have "unescape (json_escape_steps False (rune_steps s) s @ CHR 0x22 # r) =
      unescape (json_escape_steps False (rune_steps t) t @ CHR 0x22 # r')"
    using assms(3) by (simp add: json_string_def)
  then show ?thesis using unescape_steps assms(1,2) by simp
qed

section \<open>The whole text determines the value\<close>

definition decimal :: "char \<Rightarrow> bool" where
  "decimal c \<longleftrightarrow> 48 \<le> byte_of c \<and> byte_of c \<le> 57"

text \<open>Values built from clean texts, decimal numbers, arrays and objects.\<close>

fun json_clean :: "json \<Rightarrow> bool" where
  "json_clean (JNum t) \<longleftrightarrow> t \<noteq> [] \<and> list_all decimal t"
| "json_clean (JStr s) \<longleftrightarrow> clean_text s"
| "json_clean (JArr xs) \<longleftrightarrow> list_all json_clean xs"
| "json_clean (JObj kvs) \<longleftrightarrow> list_all (\<lambda>kv. clean_text (fst kv) \<and> json_clean (snd kv)) kvs"
| "json_clean _ \<longleftrightarrow> False"

text \<open>What may follow a value inside a text.\<close>

definition follows :: "string \<Rightarrow> bool" where
  "follows r \<longleftrightarrow> r = [] \<or> hd r \<in> {CHR '','', CHR '']'', CHR ''}''}"

lemma follows_simps [simp]:
  "follows []" "follows (CHR '','' # r)" "follows (CHR '']'' # r)" "follows (CHR ''}'' # r)"
  by (simp_all add: follows_def)

definition delimits :: "('a \<Rightarrow> string) \<Rightarrow> 'a set \<Rightarrow> 'a \<Rightarrow> bool" where
  "delimits p A x \<longleftrightarrow>
     (\<forall>y \<in> A. \<forall>r r'. follows r \<longrightarrow> follows r' \<longrightarrow> p x @ r = p y @ r' \<longrightarrow> x = y \<and> r = r')"

lemma join_Cons: "join sep (x # xs) = x @ (if xs = [] then [] else sep @ join sep xs)"
  by (cases xs) auto

lemma join_delimits:
  assumes "\<forall>x \<in> set xs. delimits p A x" "set ys \<subseteq> A"
    and "\<forall>x \<in> set xs \<union> set ys. p x \<noteq> [] \<and> hd (p x) \<noteq> e" "e = CHR '']'' \<or> e = CHR ''}''"
    and "join '','' (map p xs) @ e # r = join '','' (map p ys) @ e # r'"
  shows "xs = ys \<and> r = r'"
  using assms
proof (induction xs arbitrary: ys)
  case Nil
  then show ?case by (cases ys) (auto simp: join_Cons hd_append neq_Nil_conv)
next
  case (Cons x xs)
  define tl_text where "tl_text zs q = (if zs = [] then e # q else CHR '','' # join '','' (map p zs) @ e # q)"
    for zs q
  have follows: "follows (tl_text zs q)" for zs q using Cons.prems(4) by (auto simp: tl_text_def)
  have shown: "join '','' (map p (z # zs)) @ e # q = p z @ tl_text zs q" for z zs q
    by (simp add: join_Cons tl_text_def)
  obtain y ys' where ys: "ys = y # ys'"
    using Cons.prems(3,5) by (cases ys) (auto simp: join_Cons hd_append neq_Nil_conv)
  from Cons.prems(5) have "p x @ tl_text xs r = p y @ tl_text ys' r'" unfolding ys shown .
  then have eq: "x = y" "tl_text xs r = tl_text ys' r'"
    using Cons.prems(1,2) follows unfolding delimits_def ys by (metis insertI1 list.simps(15) subsetD)+
  have "xs = ys' \<and> r = r'"
  proof (cases "xs = [] \<or> ys' = []")
    case True
    with eq(2) Cons.prems(4) show ?thesis by (auto simp: tl_text_def split: if_splits)
  next
    case False
    with eq(2) have "join '','' (map p xs) @ e # r = join '','' (map p ys') @ e # r'"
      by (simp add: tl_text_def)
    with Cons.prems ys show ?thesis by (intro Cons.IH) auto
  qed
  with eq ys show ?case by simp
qed

lemma decimal_delimits:
  assumes "list_all decimal t" "list_all decimal u" "follows r" "follows r'" "t @ r = u @ r'"
  shows "t = u \<and> r = r'"
proof -
  have stop: "takeWhile decimal (v @ q) = v" if "list_all decimal v" "follows q" for v q
    using that by (cases q) (auto simp: follows_def list_all_iff takeWhile_append decimal_def byte_of_def)
  from assms have "t = u" using stop by metis
  with assms(5) show ?thesis by simp
qed

text \<open>The first character of a clean value tells its kind.\<close>

lemma json_ordered_hd:
  "json_clean v \<Longrightarrow> json_ordered v \<noteq> [] \<and>
     hd (json_ordered v) =
       (case v of JStr _ \<Rightarrow> CHR 0x22 | JArr _ \<Rightarrow> CHR ''['' | JObj _ \<Rightarrow> CHR ''{''
        | _ \<Rightarrow> hd (json_ordered v)) \<and>
     (case v of JNum _ \<Rightarrow> decimal (hd (json_ordered v)) | _ \<Rightarrow> True)"
  by (cases v) (auto simp: json_string_def neq_Nil_conv)

lemma json_ordered_kind:
  assumes "json_clean v" "json_clean u" "json_ordered v @ r = json_ordered u @ r'"
  shows "(case v of JNum _ \<Rightarrow> \<exists>t. u = JNum t | JStr _ \<Rightarrow> \<exists>t. u = JStr t | JArr _ \<Rightarrow> \<exists>t. u = JArr t
    | JObj _ \<Rightarrow> \<exists>t. u = JObj t | _ \<Rightarrow> False)"
proof -
  have "hd (json_ordered v) = hd (json_ordered u)"
    using assms json_ordered_hd by (metis hd_append2)
  then have "decimal (hd (json_ordered v)) = decimal (hd (json_ordered u))"
    "(hd (json_ordered v) = CHR 0x22) = (hd (json_ordered u) = CHR 0x22)"
    "(hd (json_ordered v) = CHR ''['') = (hd (json_ordered u) = CHR ''['')"
    "(hd (json_ordered v) = CHR ''{'') = (hd (json_ordered u) = CHR ''{'')"
    by simp_all
  then show ?thesis
    using json_ordered_hd [OF assms(1)] json_ordered_hd [OF assms(2)] assms(1,2)
    by (cases v; cases u) (auto simp: decimal_def byte_of_def)
qed

lemma json_ordered_not_closing:
  "json_clean v \<Longrightarrow> json_ordered v \<noteq> [] \<and> hd (json_ordered v) \<noteq> CHR '']'' \<and> hd (json_ordered v) \<noteq> CHR ''}''"
  using json_ordered_hd [of v] by (cases v) (auto simp: decimal_def byte_of_def)

lemma json_ordered_delimits: "json_clean v \<Longrightarrow> delimits json_ordered (Collect json_clean) v"
proof (induction v)
  case (JNum t)
  show ?case
    unfolding delimits_def
  proof (intro ballI allI impI)
    fix u r r'
    assume u: "u \<in> Collect json_clean" "follows r" "follows r'"
      and eq: "json_ordered (JNum t) @ r = json_ordered u @ r'"
    then obtain t' where "u = JNum t'" using json_ordered_kind [OF JNum _ eq] by auto
    with u eq JNum decimal_delimits [of t t' r r'] show "JNum t = u \<and> r = r'" by simp
  qed
next
  case (JStr s)
  show ?case
    unfolding delimits_def
  proof (intro ballI allI impI)
    fix u r r'
    assume u: "u \<in> Collect json_clean" and eq: "json_ordered (JStr s) @ r = json_ordered u @ r'"
    then obtain t where "u = JStr t" using json_ordered_kind [OF JStr _ eq] by auto
    with u eq JStr json_string_inj [of s t r r'] show "JStr s = u \<and> r = r'" by simp
  qed
next
  case (JArr xs)
  have items: "\<forall>x \<in> set xs. delimits json_ordered (Collect json_clean) x"
    using JArr by (auto simp: list_all_iff)
  show ?case
    unfolding delimits_def
  proof (intro ballI allI impI)
    fix u r r'
    assume u: "u \<in> Collect json_clean" and eq: "json_ordered (JArr xs) @ r = json_ordered u @ r'"
    then obtain ys where ys: "u = JArr ys"
      using json_ordered_kind [OF JArr.prems _ eq] by auto
    have "xs = ys \<and> r = r'"
      by (rule join_delimits [OF items, where e = "CHR '']''"])
         (use u eq ys JArr.prems json_ordered_not_closing in \<open>auto simp: list_all_iff\<close>)
    with ys show "JArr xs = u \<and> r = r'" by simp
  qed
next
  case (JObj kvs)
  let ?p = "\<lambda>kv. json_string False (fst kv) @ '':'' @ json_ordered (snd kv)"
  let ?A = "{kv. clean_text (fst kv) \<and> json_clean (snd kv)}"
  have items: "\<forall>x \<in> set kvs. delimits ?p ?A x"
  proof
    fix x assume x: "x \<in> set kvs"
    with JObj have "delimits json_ordered (Collect json_clean) (snd x)" "clean_text (fst x)"
      by (auto simp: list_all_iff snds.simps intro!: JObj.IH [of x]) 
    note x = this
    show "delimits ?p ?A x"
      unfolding delimits_def
    proof (intro ballI allI impI)
      fix y r r'
      assume y: "y \<in> ?A" "follows r" "follows r'" and eq: "?p x @ r = ?p y @ r'"
      from eq have "json_string False (fst x) @ ('':'' @ json_ordered (snd x) @ r) =
          json_string False (fst y) @ ('':'' @ json_ordered (snd y) @ r')" by simp
      with x(2) y(1) have "fst x = fst y" "json_ordered (snd x) @ r = json_ordered (snd y) @ r'"
        using json_string_inj by auto
      with x(1) y show "x = y \<and> r = r'" by (auto simp: delimits_def prod_eq_iff)
    qed
  qed
  show ?case
    unfolding delimits_def
  proof (intro ballI allI impI)
    fix u r r'
    assume u: "u \<in> Collect json_clean" and eq: "json_ordered (JObj kvs) @ r = json_ordered u @ r'"
    then obtain ys where ys: "u = JObj ys"
      using json_ordered_kind [OF JObj.prems _ eq] by auto
    have "kvs = ys \<and> r = r'"
      by (rule join_delimits [OF items, where e = "CHR ''}''"])
         (use u eq ys JObj.prems in \<open>auto simp: list_all_iff json_string_def\<close>)
    with ys show "JObj kvs = u \<and> r = r'" by simp
  qed
qed auto

lemma json_ordered_inj:
  assumes "json_clean v" "json_clean u" "json_ordered v = json_ordered u"
  shows "v = u"
  using json_ordered_delimits [OF assms(1)] assms(2,3) unfolding delimits_def
  by (metis append_Nil2 follows_simps(1) mem_Collect_eq)

section \<open>Decimal numbers\<close>

lemma show_nat_step: "\<not> n < 10 \<Longrightarrow> show_nat n = show_nat (n div 10) @ [digit (n mod 10)]"
  "n < 10 \<Longrightarrow> show_nat n = [digit n]"
  by (simp_all add: show_nat.simps [of n])

lemma digit_inj: "m < 10 \<Longrightarrow> n < 10 \<Longrightarrow> digit m = digit n \<Longrightarrow> m = n"
proof -
  assume lt: "m < 10" "n < 10" and eq: "digit m = digit n"
  then have "byte_of (digit m) = byte_of (digit n)" by simp
  with lt show "m = n" by (simp add: digit_def)
qed

lemma show_nat_decimal: "show_nat n \<noteq> [] \<and> list_all decimal (show_nat n)"
proof (induction n rule: less_induct)
  case (less n)
  have "decimal (digit (n mod 10))" by (simp add: decimal_def digit_def)
  then show ?case
    using less [of "n div 10"] by (cases "n < 10") (auto simp: show_nat_step)
qed

lemma show_nat_inj: "show_nat m = show_nat n \<Longrightarrow> m = n"
proof (induction m arbitrary: n rule: less_induct)
  case (less m)
  have one: "length (show_nat k) = 1 \<longleftrightarrow> k < 10" for k
    using show_nat_decimal [of "k div 10"] by (cases "k < 10") (auto simp: show_nat_step)
  show ?case
  proof (cases "m < 10")
    case True
    then have "n < 10" using less.prems one by metis
    with True less.prems show ?thesis by (simp add: show_nat_step digit_inj)
  next
    case False
    then have n: "\<not> n < 10" using less.prems one by metis
    with False less.prems have "show_nat (m div 10) = show_nat (n div 10)"
      "digit (m mod 10) = digit (n mod 10)" by (simp_all add: show_nat_step)
    with False have "m div 10 = n div 10" "m mod 10 = n mod 10"
      by (auto intro: less.IH digit_inj)
    then show ?thesis by (metis div_mult_mod_eq)
  qed
qed

section \<open>Texts that need no escape\<close>

definition plain_char :: "char \<Rightarrow> bool" where
  "plain_char c \<longleftrightarrow> 32 < byte_of c \<and> byte_of c < 127 \<and> byte_of c \<notin> {34, 38, 60, 62, 92}"

lemmas plain_eval = plain_char_def byte_of_def

lemma plain_steps: "list_all plain_char s \<Longrightarrow> rune_steps s = map (\<lambda>c. (byte_of c, 1)) s"
  by (induction s) (simp_all add: rune_steps_step decode_rune_ascii plain_char_def)

lemma plain_escape:
  "list_all plain_char s \<Longrightarrow> json_escape_steps html (map (\<lambda>c. (byte_of c, 1)) s) s = s"
  by (induction s) (auto simp: json_escape_ascii_def plain_eval)

lemma plain_string: "list_all plain_char s \<Longrightarrow> json_string html s = CHR 0x22 # s @ [CHR 0x22]"
  using plain_escape [of s html] by (simp add: json_string_def plain_steps)

lemma length_show_nat: "n < 10 ^ Suc k \<Longrightarrow> length (show_nat n) \<le> Suc k"
proof (induction k arbitrary: n)
  case (Suc k)
  have "n div 10 < 10 ^ Suc k" using Suc.prems by (simp add: less_mult_imp_div_less mult.commute)
  from Suc.IH [OF this] show ?case by (cases "n < 10") (simp_all add: show_nat_step)
qed (simp add: show_nat_step)

lemma plain_parts: "list_all plain_char (hex_pad k n)" "list_all plain_char (show_nat n)"
  "plain_char c \<Longrightarrow> list_all plain_char (replicate k c)"
proof -
  have "list_all plain_char s" if "list_all is_lower_hex s" for s
    using that by (auto simp: list_all_iff is_lower_hex_def less_eq_char_byte plain_eval)
  then show "list_all plain_char (hex_pad k n)" by (simp add: hex_pad_lower)
  show "list_all plain_char (show_nat n)"
    using show_nat_decimal [of n] by (auto simp: list_all_iff decimal_def plain_char_def)
qed (simp add: list_all_iff)

lemma length_plain: "list_all plain_char s \<Longrightarrow> length (json_string html s) = length s + 2"
  by (simp add: plain_string)

end
