(* ===== verification/Ingest.thy ===== *)
theory Ingest
  imports Json_Canonical Go_Path "HOL-Library.Word"
begin

text \<open>
  \<open>ingest/encode.go\<close>: validation of ingestion requests, their canonical JSON encoding and the
  identities derived from it.  SHA-256 and the RFC 3339 text of an instant are the parameters of
  the record \<open>ingest_lib\<close>.  The lemmas show that the encoding determines the request, so that a
  record identity stands for one request unless SHA-256 collides.
\<close>

section \<open>Data\<close>

record ingest_lib =
  il_sha256 :: "string \<Rightarrow> string"     \<comment> \<open>\<open>sha256.Sum256\<close>, the 32 bytes\<close>
  il_rfc3339 :: "instant \<Rightarrow> string"   \<comment> \<open>\<open>UTC().Format(time.RFC3339Nano)\<close>\<close>

datatype ingest_error =
    ErrInvalidRequest string | ErrInvalidSource | ErrInvalidCursor | ErrInvalidChunk
  | ErrChunkLimit | ErrRequestLimit

record source_key =
  sk_format :: string
  sk_volume :: "64 word"
  sk_object :: "64 word"
  sk_path :: string
  sk_item :: string

record ingest_cursor =
  ir_kind :: string
  ir_start :: "64 word"
  ir_end :: "64 word"
  ir_prefix :: string
  ir_previous :: string
  ir_revision :: string

record ingest_chunk =
  ih_id :: string
  ih_content :: string
  ih_type :: string
  ih_session :: string
  ih_project_path :: string
  ih_project_name :: string
  ih_time :: instant
  ih_user :: string
  ih_assistant :: string
  ih_file :: string
  ih_operation :: string
  ih_model :: string
  ih_source_file :: string
  ih_source_line :: "64 word"
  ih_parent :: string
  ih_children :: "string list"

record ingest_request =
  iq_machine :: string
  iq_client :: string
  iq_source :: source_key
  iq_cursor :: ingest_cursor
  iq_generation :: "64 word"
  iq_chunks :: "ingest_chunk list"

record chunk_identity =
  id_machine :: string
  id_source :: source_key
  id_type :: string
  id_session :: string
  id_line :: "64 word"
  id_ordinal :: "32 word"
  id_content :: string

record encoded_request =
  en_body :: string
  en_payload :: string
  en_request_digest :: string
  en_payload_digest :: string
  en_record :: string
  en_count :: nat

definition MaxChunksPerRequest :: nat where "MaxChunksPerRequest = 500"
definition MaxRequestBytes :: nat where "MaxRequestBytes = 1048576"

definition recordIdentityDomain :: string where
  "recordIdentityDomain = ''history-rag/outbox-record/v1'' @ [CHR 0x00]"

definition chunkIdentityDomain :: string where
  "chunkIdentityDomain = ''history-rag/chunk/v1'' @ [CHR 0x00]"

definition MaxInt64 :: nat where "MaxInt64 = 9223372036854775807"

section \<open>Validation\<close>

definition validText :: "string \<Rightarrow> nat \<Rightarrow> bool \<Rightarrow> bool" where
  "validText v maximum allowLineBreaks \<longleftrightarrow>
     \<not> (trim_space v = [] \<or> maximum < length v \<or> \<not> valid_utf8 v) \<and>
     list_all (\<lambda>r. \<not> is_control r \<or> allowLineBreaks \<and> (r = 10 \<or> r = 13 \<or> r = 9)) (runes v)"

definition validOptionalText :: "string \<Rightarrow> nat \<Rightarrow> bool" where
  "validOptionalText v maximum \<longleftrightarrow> v = [] \<or> validText v maximum False"

definition validSHA256 :: "string \<Rightarrow> bool" where
  "validSHA256 v \<longleftrightarrow> length v = 64 \<and> list_all is_lower_hex v"

definition machine_char :: "char \<Rightarrow> bool" where
  "machine_char c \<longleftrightarrow>
     c \<in> {CHR ''a''..CHR ''z''} \<or> c \<in> {CHR ''A''..CHR ''Z''} \<or> c \<in> {CHR ''0''..CHR ''9''} \<or>
     c \<in> set ''_.:-''"

definition validMachineID :: "string \<Rightarrow> bool" where
  "validMachineID v \<longleftrightarrow> v \<noteq> [] \<and> length v \<le> 128 \<and> list_all machine_char v"

text \<open>The years 1 to 9999: from \<open>time.Time{}\<close> to the first instant of the year 10000.\<close>

definition validTimestamp :: "instant \<Rightarrow> bool" where
  "validTimestamp t \<longleftrightarrow> \<not> is_zero_time t \<and> zero_time \<le> t \<and> t < 253402300800000000000"

definition source_formats :: "string list" where
  "source_formats = [''claude_code_jsonl'', ''codex_jsonl'', ''gemini_cli_json'',
     ''antigravity_transcript_or_protobuf'', ''chatgpt_export_json'', ''claude_app_export_json'']"

definition validSourceFormat :: "string \<Rightarrow> bool" where
  "validSourceFormat f \<longleftrightarrow> f \<in> set source_formats"

definition validRelativePath :: "string \<Rightarrow> bool" where
  "validRelativePath v \<longleftrightarrow>
     validText v 4096 False \<and> v \<noteq> ''.'' \<and> \<not> is_abs v \<and> path_clean v = v \<and> CHR 0x5C \<notin> set v"

section \<open>Wire values\<close>

text \<open>Fields of a struct: a string, an unsigned number, and a string with \<open>omitempty\<close>.\<close>

type_synonym fields = "(string \<times> json) list"

definition str :: "string \<Rightarrow> string \<Rightarrow> fields" where
  "str k v = [(k, JStr v)]"

definition omit :: "string \<Rightarrow> string \<Rightarrow> fields" where
  "omit k v = (if v = [] then [] else [(k, JStr v)])"

definition num :: "string \<Rightarrow> nat \<Rightarrow> fields" where
  "num k n = [(k, JNum (show_nat n))]"

definition hex64 :: "64 word \<Rightarrow> string" where
  "hex64 w = hex_pad 16 (unat w)"

definition source_fields :: "source_key \<Rightarrow> fields" where
  "source_fields s =
     str ''format'' (sk_format s) @ str ''root_volume'' (hex64 (sk_volume s)) @
     str ''root_object'' (hex64 (sk_object s)) @ str ''relative_path'' (sk_path s) @
     omit ''item_id'' (sk_item s)"

definition source_wire :: "source_key \<Rightarrow> ingest_error + json" where
  "source_wire s =
     (if \<not> validSourceFormat (sk_format s) \<or> sk_volume s = 0 \<and> sk_object s = 0
      then Inl ErrInvalidSource
      else if \<not> validRelativePath (sk_path s) then Inl ErrInvalidSource
      else if sk_item s \<noteq> [] \<and> \<not> validText (sk_item s) 512 False then Inl ErrInvalidSource
      else Inr (JObj (source_fields s)))"

definition physical_fields :: "ingest_cursor \<Rightarrow> fields" where
  "physical_fields c =
     str ''kind'' (ir_kind c) @ num ''start_exclusive'' (unat (ir_start c)) @
     num ''end_inclusive'' (unat (ir_end c)) @ omit ''prefix_sha256'' (ir_prefix c)"

definition snapshot_fields :: "ingest_cursor \<Rightarrow> fields" where
  "snapshot_fields c =
     str ''kind'' (ir_kind c) @ omit ''previous_revision_sha256'' (ir_previous c) @
     omit ''revision_sha256'' (ir_revision c)"

definition cursor_wire :: "ingest_cursor \<Rightarrow> ingest_error + json" where
  "cursor_wire c =
     (if ir_kind c = ''physical_lines'' then
        (if MaxInt64 < unat (ir_start c) \<or> MaxInt64 < unat (ir_end c) \<or> ir_end c < ir_start c \<or>
            \<not> validSHA256 (ir_prefix c) \<or> ir_previous c \<noteq> [] \<or> ir_revision c \<noteq> []
         then Inl ErrInvalidCursor else Inr (JObj (physical_fields c)))
      else if ir_kind c = ''snapshot_revision'' then
        (if ir_start c \<noteq> 0 \<or> ir_end c \<noteq> 0 \<or> ir_prefix c \<noteq> [] \<or> \<not> validSHA256 (ir_revision c) \<or>
            ir_previous c \<noteq> [] \<and> \<not> validSHA256 (ir_previous c) \<or> ir_previous c = ir_revision c
         then Inl ErrInvalidCursor else Inr (JObj (snapshot_fields c)))
      else Inl ErrInvalidCursor)"

definition chunk_fields :: "ingest_lib \<Rightarrow> ingest_chunk \<Rightarrow> fields" where
  "chunk_fields L c =
     str ''id'' (ih_id c) @ str ''content'' (ih_content c) @ str ''chunk_type'' (ih_type c) @
     str ''session_id'' (ih_session c) @ str ''project_path'' (ih_project_path c) @
     str ''project_name'' (ih_project_name c) @ str ''timestamp'' (il_rfc3339 L (ih_time c)) @
     omit ''user_uuid'' (ih_user c) @ omit ''assistant_uuid'' (ih_assistant c) @
     omit ''file_path'' (ih_file c) @ omit ''operation'' (ih_operation c) @
     omit ''model'' (ih_model c) @ str ''source_file'' (ih_source_file c) @
     num ''source_line'' (unat (ih_source_line c)) @ omit ''parent_chunk_id'' (ih_parent c) @
     (if ih_children c = [] then [] else [(''child_chunk_ids'', JArr (map JStr (ih_children c)))])"

text \<open>The loop over the children: valid digests, none of them the chunk itself, no repetition.\<close>

definition children_valid :: "ingest_chunk \<Rightarrow> bool" where
  "children_valid c \<longleftrightarrow>
     list_all (\<lambda>child. validSHA256 child \<and> child \<noteq> ih_id c) (ih_children c) \<and> distinct (ih_children c)"

definition chunk_valid :: "ingest_chunk \<Rightarrow> bool" where
  "chunk_valid c \<longleftrightarrow>
     \<not> (\<not> validSHA256 (ih_id c) \<or> \<not> validText (ih_content c) MaxRequestBytes True \<or>
        \<not> validText (ih_type c) 128 False \<or> \<not> validText (ih_session c) 512 False \<or>
        \<not> validText (ih_project_path c) 4096 False \<or> \<not> validText (ih_project_name c) 512 False \<or>
        \<not> validTimestamp (ih_time c) \<or> \<not> validText (ih_source_file c) 4096 False \<or>
        MaxInt64 < unat (ih_source_line c)) \<and>
     \<not> (\<not> validOptionalText (ih_user c) 512 \<or> \<not> validOptionalText (ih_assistant c) 512 \<or>
        \<not> validOptionalText (ih_file c) 4096 \<or> \<not> validOptionalText (ih_operation c) 128 \<or>
        \<not> validOptionalText (ih_model c) 512) \<and>
     \<not> (ih_parent c \<noteq> [] \<and> (\<not> validSHA256 (ih_parent c) \<or> ih_parent c = ih_id c)) \<and>
     children_valid c"

definition chunk_wire :: "ingest_lib \<Rightarrow> ingest_chunk \<Rightarrow> ingest_error + json" where
  "chunk_wire L c = (if chunk_valid c then Inr (JObj (chunk_fields L c)) else Inl ErrInvalidChunk)"

section \<open>Encoding\<close>

definition marshalCanonical :: "json \<Rightarrow> string" where
  "marshalCanonical v = json_ordered v"

text \<open>The loop over the chunks; \<open>seen\<close> are the identities so far, \<open>origin\<close> the source file of the
  first chunk.\<close>

fun encode_chunks ::
  "ingest_lib \<Rightarrow> string list \<Rightarrow> string option \<Rightarrow> ingest_chunk list \<Rightarrow> ingest_error + json list" where
  "encode_chunks L seen first [] = Inr []"
| "encode_chunks L seen first (c # cs) =
     (case chunk_wire L c of
        Inl e \<Rightarrow> Inl ErrInvalidChunk
      | Inr wire \<Rightarrow>
          if ih_id c \<in> set seen then Inl ErrInvalidChunk
          else if first \<noteq> None \<and> first \<noteq> Some (ih_source_file c) then Inl ErrInvalidChunk
          else (case encode_chunks L (ih_id c # seen) (Some (ih_source_file c)) cs of
             Inl e \<Rightarrow> Inl e
           | Inr wires \<Rightarrow> Inr (wire # wires)))"

text \<open>The fields of the request before its chunks, whose text is inserted as it is.\<close>

definition request_fields :: "ingest_request \<Rightarrow> json \<Rightarrow> json \<Rightarrow> fields" where
  "request_fields q source cursor =
     num ''schema_version'' 1 @ str ''machine_id'' (iq_machine q) @ omit ''client_name'' (iq_client q) @
     [(''source'', source), (''cursor'', cursor)] @ num ''generation'' (unat (iq_generation q))"

definition request_body :: "ingest_request \<Rightarrow> json \<Rightarrow> json \<Rightarrow> string \<Rightarrow> string" where
  "request_body q source cursor payload =
     json_object (map (\<lambda>kv. (fst kv, json_ordered (snd kv))) (request_fields q source cursor) @
       [(''chunks'', payload)])"

definition hex_encode :: "string \<Rightarrow> string" where
  "hex_encode s = concat (map (\<lambda>c. hex_pad 2 (byte_of c)) s)"

definition EncodeRequest :: "ingest_lib \<Rightarrow> ingest_request \<Rightarrow> ingest_error + encoded_request" where
  "EncodeRequest L q =
     (if MaxChunksPerRequest < length (iq_chunks q) then Inl ErrChunkLimit
      else if \<not> validMachineID (iq_machine q) then Inl (ErrInvalidRequest ''machine_id'')
      else if iq_client q \<noteq> [] \<and> \<not> validText (iq_client q) 256 False
      then Inl (ErrInvalidRequest ''client_name'')
      else (case source_wire (iq_source q) of
         Inl e \<Rightarrow> Inl e
       | Inr source \<Rightarrow>
           (case cursor_wire (iq_cursor q) of
              Inl e \<Rightarrow> Inl e
            | Inr cursor \<Rightarrow>
                (case encode_chunks L [] None (iq_chunks q) of
                   Inl e \<Rightarrow> Inl e
                 | Inr chunks \<Rightarrow>
                     (let payload = marshalCanonical (JArr chunks);
                          body = request_body q source cursor payload
                      in if MaxRequestBytes < length body then Inl ErrRequestLimit
                         else Inr \<lparr>en_body = body, en_payload = payload,
                                   en_request_digest = il_sha256 L body,
                                   en_payload_digest = il_sha256 L payload,
                                   en_record = hex_encode (il_sha256 L
                                     (recordIdentityDomain @ il_sha256 L body)),
                                   en_count = length chunks\<rparr>)))))"

definition identity_fields :: "chunk_identity \<Rightarrow> json \<Rightarrow> fields" where
  "identity_fields i source =
     num ''schema_version'' 1 @ str ''machine_id'' (id_machine i) @ [(''source'', source)] @
     str ''chunk_type'' (id_type i) @ str ''session_id'' (id_session i) @
     num ''source_line'' (unat (id_line i)) @ num ''ordinal'' (unat (id_ordinal i)) @
     str ''content_sha256'' (hex_encode (id_content i))"

text \<open>\<open>id_content\<close> is an array of 32 bytes.\<close>

definition DeriveChunkID :: "ingest_lib \<Rightarrow> chunk_identity \<Rightarrow> ingest_error + string" where
  "DeriveChunkID L i =
     (if \<not> validMachineID (id_machine i) then Inl ErrInvalidChunk
      else (case source_wire (id_source i) of
         Inl e \<Rightarrow> Inl e
       | Inr source \<Rightarrow>
           if \<not> validText (id_type i) 128 False then Inl ErrInvalidChunk
           else if \<not> validText (id_session i) 512 False then Inl ErrInvalidChunk
           else if MaxInt64 < unat (id_line i) \<or> id_content i = replicate 32 (CHR 0x00)
           then Inl ErrInvalidChunk
           else Inr (hex_encode (il_sha256 L
                  (chunkIdentityDomain @ marshalCanonical (JObj (identity_fields i source)))))))"

section \<open>Lemmas: clean texts\<close>

lemma ascii_clean: "list_all (\<lambda>c. 32 \<le> byte_of c \<and> byte_of c < 128) s \<Longrightarrow> clean_text s"
proof (induction s)
  case (Cons c s)
  then have "decode_rune (c # s) = (byte_of c, 1)" by (simp add: decode_rune_ascii)
  with Cons show ?case
    by (auto simp: clean_text_def clean_rune_def rune_steps_step rune_error_def)
qed simp

lemma validText_clean: "validText v maximum breaks \<Longrightarrow> clean_text v"
  by (auto simp: validText_def clean_text_def clean_rune_def valid_utf8_def runes_def list_all_iff
      is_control_def)

lemma validOptionalText_clean: "validOptionalText v maximum \<Longrightarrow> clean_text v"
  by (auto simp: validOptionalText_def validText_clean)

lemma lower_hex_clean: "list_all is_lower_hex v \<Longrightarrow> clean_text v"
  by (rule ascii_clean) (auto simp: list_all_iff is_lower_hex_def less_eq_char_byte byte_of_def)

lemma validSHA256_clean: "validSHA256 v \<Longrightarrow> clean_text v"
  by (simp add: validSHA256_def lower_hex_clean)

lemma validMachineID_clean: "validMachineID v \<Longrightarrow> clean_text v"
  by (rule ascii_clean)
     (auto simp: validMachineID_def machine_char_def list_all_iff less_eq_char_byte byte_of_def)

lemma hex_encode_lower: "list_all is_lower_hex (hex_encode s)"
  by (induction s) (auto simp: hex_encode_def hex_pad_lower)

lemma hex64_clean: "clean_text (hex64 w)"
  by (simp add: hex64_def hex_pad_lower lower_hex_clean)

lemma formats_clean: "validSourceFormat f \<Longrightarrow> clean_text f"
  by (auto simp: validSourceFormat_def source_formats_def byte_of_def intro!: ascii_clean)

lemmas clean_intros = validText_clean validOptionalText_clean validSHA256_clean validMachineID_clean
  hex64_clean formats_clean hex_encode_lower [THEN lower_hex_clean]

section \<open>Lemmas: numbers\<close>

lemma hex64_inj: "hex64 v = hex64 w \<longleftrightarrow> v = w"
proof
  assume "hex64 v = hex64 w"
  moreover have "unat u < 16 ^ 16" for u :: "64 word" using unsigned_less [of u] by simp
  ultimately have "unat v = unat w" unfolding hex64_def by (intro hex_pad_inj) auto
  then show "v = w" by (rule word_unat_eq_iff [THEN iffD2])
qed simp

section \<open>Lemmas: fields\<close>

text \<open>Looking a field up in a list of fields.\<close>

lemma map_of_fields [simp]:
  "map_of (str k v @ kvs) k' = (if k' = k then Some (JStr v) else map_of kvs k')"
  "map_of (omit k v @ kvs) k' = (if k' = k \<and> v \<noteq> [] then Some (JStr v) else map_of kvs k')"
  "map_of (num k n @ kvs) k' = (if k' = k then Some (JNum (show_nat n)) else map_of kvs k')"
  "map_of (str k v) k' = (if k' = k then Some (JStr v) else None)"
  "map_of (omit k v) k' = (if k' = k \<and> v \<noteq> [] then Some (JStr v) else None)"
  "map_of (num k n) k' = (if k' = k then Some (JNum (show_nat n)) else None)"
  by (auto simp: str_def omit_def num_def)

fun number_text :: "json option \<Rightarrow> string" where
  "number_text (Some (JNum t)) = t"
| "number_text _ = []"

lemma source_access:
  "sk_format s = string_value (map_of (source_fields s) ''format'')"
  "hex64 (sk_volume s) = string_value (map_of (source_fields s) ''root_volume'')"
  "hex64 (sk_object s) = string_value (map_of (source_fields s) ''root_object'')"
  "sk_path s = string_value (map_of (source_fields s) ''relative_path'')"
  "sk_item s = string_value (map_of (source_fields s) ''item_id'')"
  by (simp_all add: source_fields_def del: map_of_append)

lemma source_fields_inj:
  assumes "source_fields s = source_fields t"
  shows "s = t"
proof (rule source_key.equality)
  show "sk_volume s = sk_volume t" "sk_object s = sk_object t"
    by (metis source_access(2) assms hex64_inj, metis source_access(3) assms hex64_inj)
  show "sk_format s = sk_format t" "sk_path s = sk_path t" "sk_item s = sk_item t"
    by (metis source_access(1) assms, metis source_access(4) assms, metis source_access(5) assms)
qed simp

lemma unat_access: "show_nat (unat v) = show_nat (unat w) \<longleftrightarrow> v = w"
  using show_nat_inj [of "unat v" "unat w"] by (auto simp: word_unat_eq_iff)

lemma physical_access:
  "show_nat (unat (ir_start c)) = number_text (map_of (physical_fields c) ''start_exclusive'')"
  "show_nat (unat (ir_end c)) = number_text (map_of (physical_fields c) ''end_inclusive'')"
  "ir_prefix c = string_value (map_of (physical_fields c) ''prefix_sha256'')"
  "ir_kind c = string_value (map_of (physical_fields c) ''kind'')"
  by (simp_all add: physical_fields_def del: map_of_append)

lemma snapshot_access:
  "ir_previous c = string_value (map_of (snapshot_fields c) ''previous_revision_sha256'')"
  "ir_revision c = string_value (map_of (snapshot_fields c) ''revision_sha256'')"
  "ir_kind c = string_value (map_of (snapshot_fields c) ''kind'')"
  by (simp_all add: snapshot_fields_def del: map_of_append)

lemma cursor_wire_Inr:
  assumes "cursor_wire c = Inr j"
  obtains (physical) "j = JObj (physical_fields c)" "ir_kind c = ''physical_lines''"
      "validSHA256 (ir_prefix c)" "ir_previous c = []" "ir_revision c = []"
  | (snapshot) "j = JObj (snapshot_fields c)" "ir_kind c = ''snapshot_revision''"
      "ir_start c = 0" "ir_end c = 0" "ir_prefix c = []" "validSHA256 (ir_revision c)"
      "ir_previous c = [] \<or> validSHA256 (ir_previous c)"
  using assms by (auto simp: cursor_wire_def split: if_splits)

lemma cursor_wire_inj:
  assumes "cursor_wire c = Inr j" "cursor_wire d = Inr j"
  shows "c = d"
  using assms(1)
proof (cases rule: cursor_wire_Inr)
  case physical
  note c = this
  from assms(2) show ?thesis
  proof (cases rule: cursor_wire_Inr)
    case physical
    with c have eq: "physical_fields c = physical_fields d" by simp
    have "ir_start c = ir_start d" "ir_end c = ir_end d" "ir_prefix c = ir_prefix d"
      by (metis physical_access(1) eq unat_access, metis physical_access(2) eq unat_access,
          metis physical_access(3) eq)
    with c physical show ?thesis by simp
  next
    case snapshot
    with c have "physical_fields c = snapshot_fields d" by simp
    then have "ir_kind c = ir_kind d" by (metis physical_access(4) snapshot_access(3))
    with c snapshot show ?thesis by simp
  qed
next
  case snapshot
  note c = this
  from assms(2) show ?thesis
  proof (cases rule: cursor_wire_Inr)
    case snapshot
    with c have eq: "snapshot_fields c = snapshot_fields d" by simp
    have "ir_previous c = ir_previous d" "ir_revision c = ir_revision d"
      by (metis snapshot_access(1) eq, metis snapshot_access(2) eq)
    with c snapshot show ?thesis by simp
  next
    case physical
    with c have "physical_fields d = snapshot_fields c" by simp
    then have "ir_kind c = ir_kind d" by (metis physical_access(4) snapshot_access(3))
    with c physical show ?thesis by simp
  qed
qed

text \<open>What the text of an instant must satisfy: it is clean and tells the instant.\<close>

definition rfc3339_ok :: "ingest_lib \<Rightarrow> bool" where
  "rfc3339_ok L \<longleftrightarrow>
     (\<forall>t. validTimestamp t \<longrightarrow> clean_text (il_rfc3339 L t)) \<and>
     inj_on (il_rfc3339 L) {t. validTimestamp t}"

fun string_list :: "json option \<Rightarrow> string list" where
  "string_list (Some (JArr xs)) = map (\<lambda>x. string_value (Some x)) xs"
| "string_list _ = []"

lemma chunk_access:
  "ih_id c = string_value (map_of (chunk_fields L c) ''id'')"
  "ih_content c = string_value (map_of (chunk_fields L c) ''content'')"
  "ih_type c = string_value (map_of (chunk_fields L c) ''chunk_type'')"
  "ih_session c = string_value (map_of (chunk_fields L c) ''session_id'')"
  "ih_project_path c = string_value (map_of (chunk_fields L c) ''project_path'')"
  "ih_project_name c = string_value (map_of (chunk_fields L c) ''project_name'')"
  "il_rfc3339 L (ih_time c) = string_value (map_of (chunk_fields L c) ''timestamp'')"
  "ih_user c = string_value (map_of (chunk_fields L c) ''user_uuid'')"
  "ih_assistant c = string_value (map_of (chunk_fields L c) ''assistant_uuid'')"
  "ih_file c = string_value (map_of (chunk_fields L c) ''file_path'')"
  "ih_operation c = string_value (map_of (chunk_fields L c) ''operation'')"
  "ih_model c = string_value (map_of (chunk_fields L c) ''model'')"
  "ih_source_file c = string_value (map_of (chunk_fields L c) ''source_file'')"
  "show_nat (unat (ih_source_line c)) = number_text (map_of (chunk_fields L c) ''source_line'')"
  "ih_parent c = string_value (map_of (chunk_fields L c) ''parent_chunk_id'')"
  "ih_children c = string_list (map_of (chunk_fields L c) ''child_chunk_ids'')"
  by (simp_all add: chunk_fields_def comp_def del: map_of_append)

lemma chunk_wire_inj:
  assumes "rfc3339_ok L" "chunk_wire L c = Inr j" "chunk_wire L d = Inr j"
  shows "c = d"
proof -
  have eq: "chunk_fields L c = chunk_fields L d" and valid: "chunk_valid c" "chunk_valid d"
    using assms(2,3) by (auto simp: chunk_wire_def split: if_splits)
  have same: "ih_time c = ih_time d" if "il_rfc3339 L (ih_time c) = il_rfc3339 L (ih_time d)"
    using that assms(1) valid by (auto simp: rfc3339_ok_def chunk_valid_def inj_on_def)
  show ?thesis
  proof (rule ingest_chunk.equality)
    show "ih_time c = ih_time d" by (rule same) (metis chunk_access(7) eq)
    show "ih_source_line c = ih_source_line d" by (metis chunk_access(14) eq unat_access)
    show "ih_children c = ih_children d" by (metis chunk_access(16) eq)
    show "ih_id c = ih_id d" by (metis chunk_access(1) eq)
    show "ih_content c = ih_content d" by (metis chunk_access(2) eq)
    show "ih_type c = ih_type d" by (metis chunk_access(3) eq)
    show "ih_session c = ih_session d" by (metis chunk_access(4) eq)
    show "ih_project_path c = ih_project_path d" by (metis chunk_access(5) eq)
    show "ih_project_name c = ih_project_name d" by (metis chunk_access(6) eq)
    show "ih_user c = ih_user d" by (metis chunk_access(8) eq)
    show "ih_assistant c = ih_assistant d" by (metis chunk_access(9) eq)
    show "ih_file c = ih_file d" by (metis chunk_access(10) eq)
    show "ih_operation c = ih_operation d" by (metis chunk_access(11) eq)
    show "ih_model c = ih_model d" by (metis chunk_access(12) eq)
    show "ih_source_file c = ih_source_file d" by (metis chunk_access(13) eq)
    show "ih_parent c = ih_parent d" by (metis chunk_access(15) eq)
  qed simp
qed

section \<open>Lemmas: the wire values are clean\<close>

definition fields_clean :: "fields \<Rightarrow> bool" where
  "fields_clean kvs \<longleftrightarrow> list_all (\<lambda>kv. clean_text (fst kv) \<and> json_clean (snd kv)) kvs"

lemma json_clean_fields: "json_clean (JObj kvs) \<longleftrightarrow> fields_clean kvs"
  by (simp add: fields_clean_def)

lemma fields_clean_simps [simp]:
  "fields_clean []" "fields_clean (kvs @ kws) \<longleftrightarrow> fields_clean kvs \<and> fields_clean kws"
  "fields_clean (str k v) \<longleftrightarrow> clean_text k \<and> clean_text v"
  "fields_clean (omit k v) \<longleftrightarrow> v = [] \<or> clean_text k \<and> clean_text v"
  "fields_clean (num k n) \<longleftrightarrow> clean_text k"
  "fields_clean ((k, j) # kvs) \<longleftrightarrow> clean_text k \<and> json_clean j \<and> fields_clean kvs"
  by (auto simp: fields_clean_def str_def omit_def num_def show_nat_decimal)

text \<open>The names of the fields are plain ASCII.\<close>

definition ascii_text :: "string \<Rightarrow> bool" where
  "ascii_text s \<longleftrightarrow> list_all (\<lambda>c. 32 \<le> byte_of c \<and> byte_of c < 128) s"

lemma ascii_text_clean: "ascii_text s \<Longrightarrow> clean_text s"
  by (simp add: ascii_text_def ascii_clean)

lemma names_clean:
  "list_all clean_text [''format'', ''root_volume'', ''root_object'', ''relative_path'', ''item_id'',
    ''kind'', ''start_exclusive'', ''end_inclusive'', ''prefix_sha256'', ''previous_revision_sha256'',
    ''revision_sha256'', ''id'', ''content'', ''chunk_type'', ''session_id'', ''project_path'',
    ''project_name'', ''timestamp'', ''user_uuid'', ''assistant_uuid'', ''file_path'', ''operation'',
    ''model'', ''source_file'', ''source_line'', ''parent_chunk_id'', ''child_chunk_ids'',
    ''schema_version'', ''machine_id'', ''client_name'', ''source'', ''cursor'', ''generation'',
    ''chunks'', ''ordinal'', ''content_sha256'']"
proof -
  have lift: "list_all ascii_text ns \<Longrightarrow> list_all clean_text ns" for ns
    by (auto simp: list_all_iff ascii_text_clean)
  show ?thesis by (rule lift) (simp add: ascii_text_def byte_of_def)
qed

lemma source_wire_clean:
  assumes "source_wire s = Inr j"
  shows "json_clean j \<and> j = JObj (source_fields s)"
proof -
  from assms have j: "j = JObj (source_fields s)" "validSourceFormat (sk_format s)"
    "validRelativePath (sk_path s)" "sk_item s = [] \<or> validText (sk_item s) 512 False"
    by (auto simp: source_wire_def split: if_splits)
  then have "fields_clean (source_fields s)"
    using names_clean by (auto simp: source_fields_def validRelativePath_def intro: clean_intros)
  with j show ?thesis by (simp only: json_clean_fields)
qed

lemma kinds_clean: "clean_text ''physical_lines''" "clean_text ''snapshot_revision''"
  by (rule ascii_clean; simp add: byte_of_def)+

lemma cursor_wire_clean: "cursor_wire c = Inr j \<Longrightarrow> json_clean j"
proof (erule cursor_wire_Inr)
  assume j: "j = JObj (physical_fields c)" "ir_kind c = ''physical_lines''" "validSHA256 (ir_prefix c)"
  then have "fields_clean (physical_fields c)"
    using names_clean kinds_clean by (simp add: physical_fields_def clean_intros)
  with j show "json_clean j" by (simp only: json_clean_fields)
next
  assume j: "j = JObj (snapshot_fields c)" "ir_kind c = ''snapshot_revision''" "validSHA256 (ir_revision c)"
    "ir_previous c = [] \<or> validSHA256 (ir_previous c)"
  then have "fields_clean (snapshot_fields c)"
    using names_clean kinds_clean by (auto simp: snapshot_fields_def intro: clean_intros)
  with j show "json_clean j" by (simp only: json_clean_fields)
qed

lemma chunk_wire_clean:
  assumes "rfc3339_ok L" "chunk_wire L c = Inr j"
  shows "json_clean j"
proof -
  have v: "chunk_valid c" "j = JObj (chunk_fields L c)"
    using assms(2) by (auto simp: chunk_wire_def split: if_splits)
  have "list_all clean_text (ih_children c)"
    using v(1) by (auto simp: chunk_valid_def children_valid_def list_all_iff validSHA256_clean)
  moreover have "clean_text (il_rfc3339 L (ih_time c))"
    using assms(1) v(1) by (auto simp: rfc3339_ok_def chunk_valid_def)
  moreover have "clean_text (ih_user c)" "clean_text (ih_assistant c)" "clean_text (ih_file c)"
    "clean_text (ih_operation c)" "clean_text (ih_model c)" "clean_text (ih_id c)"
    "clean_text (ih_content c)" "clean_text (ih_type c)" "clean_text (ih_session c)"
    "clean_text (ih_project_path c)" "clean_text (ih_project_name c)" "clean_text (ih_source_file c)"
    "ih_parent c = [] \<or> clean_text (ih_parent c)"
    using v(1) unfolding chunk_valid_def by (blast intro: clean_intros)+
  ultimately have "fields_clean (chunk_fields L c)"
    using names_clean by (simp add: chunk_fields_def list.pred_map comp_def)
  with v(2) show ?thesis by (simp only: json_clean_fields)
qed

lemma encode_chunks_Cons_Inr:
  assumes "encode_chunks L seen first (c # cs) = Inr js"
  obtains j js' where "chunk_wire L c = Inr j" "ih_id c \<notin> set seen"
    "first = None \<or> first = Some (ih_source_file c)"
    "encode_chunks L (ih_id c # seen) (Some (ih_source_file c)) cs = Inr js'" "js = j # js'"
proof -
  obtain j where j: "chunk_wire L c = Inr j" using assms by (cases "chunk_wire L c") simp_all
  have seen: "ih_id c \<notin> set seen" using assms j by (cases "ih_id c \<in> set seen") simp_all
  have first: "first = None \<or> first = Some (ih_source_file c)"
    using assms j seen by (cases "first \<noteq> None \<and> first \<noteq> Some (ih_source_file c)") auto
  obtain js' where "encode_chunks L (ih_id c # seen) (Some (ih_source_file c)) cs = Inr js'"
    using assms j seen first
    by (cases "encode_chunks L (ih_id c # seen) (Some (ih_source_file c)) cs") auto
  then show thesis using that assms j seen first by auto
qed

lemma encode_chunks_Inr:
  assumes "encode_chunks L seen first cs = Inr js"
  shows "list_all2 (\<lambda>c j. chunk_wire L c = Inr j) cs js" (is ?wire)
    and "distinct (map ih_id cs) \<and> set (map ih_id cs) \<inter> set seen = {}" (is ?ids)
    and "\<exists>f. \<forall>c \<in> set cs. ih_source_file c = f \<and> (first = None \<or> first = Some f)" (is ?one)
proof -
  show ?wire using assms
  proof (induction cs arbitrary: seen first js)
    case (Cons c cs)
    then show ?case by (elim encode_chunks_Cons_Inr) simp
  qed simp
  show ?ids using assms
  proof (induction cs arbitrary: seen first js)
    case (Cons c cs)
    from Cons.prems obtain js' where w: "ih_id c \<notin> set seen"
      "encode_chunks L (ih_id c # seen) (Some (ih_source_file c)) cs = Inr js'"
      by (rule encode_chunks_Cons_Inr)
    from Cons.IH [OF w(2)] w(1) show ?case by simp
  qed simp
  show ?one using assms
  proof (induction cs arbitrary: seen first js)
    case (Cons c cs)
    from Cons.prems obtain js' where w: "first = None \<or> first = Some (ih_source_file c)"
      "encode_chunks L (ih_id c # seen) (Some (ih_source_file c)) cs = Inr js'"
      by (rule encode_chunks_Cons_Inr)
    from Cons.IH [OF w(2)] have "\<forall>d \<in> set cs. ih_source_file d = ih_source_file c" by force
    with w(1) show ?case by (intro exI [of _ "ih_source_file c"]) simp
  qed simp
qed

lemma encode_chunks_clean:
  assumes "rfc3339_ok L" "encode_chunks L seen first cs = Inr js"
  shows "json_clean (JArr js)"
proof -
  have "list_all2 (\<lambda>c j. chunk_wire L c = Inr j) cs js" using assms(2) by (rule encode_chunks_Inr)
  then have "list_all json_clean js"
  proof (induction rule: list_all2_induct)
    case (Cons c cs j js)
    then show ?case using chunk_wire_clean [OF assms(1) Cons.hyps(1)] by simp
  qed simp
  then show ?thesis by simp
qed

lemma encode_chunks_inj:
  assumes "rfc3339_ok L" "encode_chunks L seen first cs = Inr js" "encode_chunks L seen' first' ds = Inr js"
  shows "cs = ds"
proof -
  have "list_all2 (\<lambda>c j. chunk_wire L c = Inr j) cs js" "list_all2 (\<lambda>c j. chunk_wire L c = Inr j) ds js"
    using encode_chunks_Inr(1) [OF assms(2)] encode_chunks_Inr(1) [OF assms(3)] by simp_all
  then show ?thesis
  proof (intro nth_equalityI)
    fix i assume "i < length cs"
    with \<open>list_all2 _ cs js\<close> \<open>list_all2 _ ds js\<close>
    have "chunk_wire L (cs ! i) = Inr (js ! i)" "chunk_wire L (ds ! i) = Inr (js ! i)"
      by (auto simp: list_all2_conv_all_nth)
    then show "cs ! i = ds ! i" by (rule chunk_wire_inj [OF assms(1)])
  qed (auto dest!: list_all2_lengthD)
qed

section \<open>Lemmas: requests and identities\<close>

lemma hex_byte_inj: "hex_pad 2 (byte_of c) = hex_pad 2 (byte_of d) \<Longrightarrow> c = d"
proof -
  assume "hex_pad 2 (byte_of c) = hex_pad 2 (byte_of d)"
  then have "byte_of c = byte_of d"
    by (intro hex_pad_inj [of _ 2]) (simp_all add: byte_of_def)
  then show "c = d" by simp
qed

lemma hex_encode_inj: "hex_encode s = hex_encode t \<Longrightarrow> s = t"
proof (induction s arbitrary: t)
  case Nil
  then show ?case by (cases t) (auto simp: hex_encode_def dest: arg_cong [where f = length])
next
  case (Cons c s)
  then obtain d u where t: "t = d # u"
    by (cases t) (auto simp: hex_encode_def dest: arg_cong [where f = length])
  with Cons.prems have "hex_pad 2 (byte_of c) = hex_pad 2 (byte_of d)" "hex_encode s = hex_encode u"
    by (simp_all add: hex_encode_def append_eq_append_conv)
  with t Cons.IH show ?case by (simp add: hex_byte_inj)
qed

lemma hex_encode_length: "length (hex_encode s) = 2 * length s"
  by (induction s) (simp_all add: hex_encode_def)

lemma hex_encode_valid: "length s = 32 \<Longrightarrow> validSHA256 (hex_encode s)"
  by (simp add: validSHA256_def hex_encode_length hex_encode_lower)

text \<open>The whole request as one wire value.\<close>

definition request_wire :: "ingest_request \<Rightarrow> json \<Rightarrow> json \<Rightarrow> json list \<Rightarrow> json" where
  "request_wire q source cursor chunks =
     JObj (request_fields q source cursor @ [(''chunks'', JArr chunks)])"

lemma request_body_wire:
  "request_body q source cursor (marshalCanonical (JArr chunks)) =
     json_ordered (request_wire q source cursor chunks)"
  by (simp add: request_body_def request_wire_def marshalCanonical_def json_object_def comp_def)

text \<open>What an accepted request looks like.\<close>

definition accepted :: "ingest_lib \<Rightarrow> ingest_request \<Rightarrow> json \<Rightarrow> json \<Rightarrow> json list \<Rightarrow> bool" where
  "accepted L q source cursor chunks \<longleftrightarrow>
     length (iq_chunks q) \<le> MaxChunksPerRequest \<and> validMachineID (iq_machine q) \<and>
     validOptionalText (iq_client q) 256 \<and> source_wire (iq_source q) = Inr source \<and>
     cursor_wire (iq_cursor q) = Inr cursor \<and> encode_chunks L [] None (iq_chunks q) = Inr chunks"

lemma EncodeRequest_Inr:
  assumes "EncodeRequest L q = Inr e"
  obtains source cursor chunks where
    "accepted L q source cursor chunks"
    "en_body e = json_ordered (request_wire q source cursor chunks)"
    "en_payload e = json_ordered (JArr chunks)"
    "length (en_body e) \<le> MaxRequestBytes"
    "en_request_digest e = il_sha256 L (en_body e)"
    "en_payload_digest e = il_sha256 L (en_payload e)"
    "en_record e = hex_encode (il_sha256 L (recordIdentityDomain @ il_sha256 L (en_body e)))"
    "en_count e = length chunks"
proof -
  have guards: "length (iq_chunks q) \<le> MaxChunksPerRequest" "validMachineID (iq_machine q)"
    "validOptionalText (iq_client q) 256"
    using assms by (auto simp: EncodeRequest_def validOptionalText_def split: if_splits)
  obtain source where source: "source_wire (iq_source q) = Inr source"
    using assms guards by (cases "source_wire (iq_source q)")
      (auto simp: EncodeRequest_def validOptionalText_def)
  obtain cursor where cursor: "cursor_wire (iq_cursor q) = Inr cursor"
    using assms guards source by (cases "cursor_wire (iq_cursor q)")
      (auto simp: EncodeRequest_def validOptionalText_def)
  obtain chunks where chunks: "encode_chunks L [] None (iq_chunks q) = Inr chunks"
    using assms guards source cursor by (cases "encode_chunks L [] None (iq_chunks q)")
      (auto simp: EncodeRequest_def validOptionalText_def)
  define payload where "payload = marshalCanonical (JArr chunks)"
  define body where "body = request_body q source cursor payload"
  have "\<not> MaxRequestBytes < length body \<and>
      e = \<lparr>en_body = body, en_payload = payload, en_request_digest = il_sha256 L body,
           en_payload_digest = il_sha256 L payload,
           en_record = hex_encode (il_sha256 L (recordIdentityDomain @ il_sha256 L body)),
           en_count = length chunks\<rparr>"
    using assms guards source cursor chunks
    by (auto simp: EncodeRequest_def validOptionalText_def body_def payload_def Let_def split: if_splits)
  moreover have "body = json_ordered (request_wire q source cursor chunks)"
    by (simp only: body_def payload_def request_body_wire)
  moreover have "payload = json_ordered (JArr chunks)" by (simp only: payload_def marshalCanonical_def)
  ultimately show thesis
    using that [of source cursor chunks] guards source cursor chunks by (simp add: accepted_def)
qed

lemma request_wire_clean:
  assumes "rfc3339_ok L" "accepted L q source cursor chunks"
  shows "json_clean (request_wire q source cursor chunks)"
proof -
  have "json_clean source" "json_clean cursor" "json_clean (JArr chunks)"
    using assms source_wire_clean cursor_wire_clean encode_chunks_clean
    by (auto simp: accepted_def simp del: json_clean.simps)
  moreover have "clean_text (iq_machine q)" "clean_text (iq_client q)"
    using assms(2) by (auto simp: accepted_def intro: clean_intros)
  ultimately have "fields_clean (request_fields q source cursor @ [(''chunks'', JArr chunks)])"
    using names_clean by (simp add: request_fields_def del: json_clean.simps)
  then show ?thesis by (simp only: request_wire_def json_clean_fields)
qed

lemma request_access:
  fixes q source cursor chunks
  defines "kvs \<equiv> request_fields q source cursor @ [(''chunks'', JArr chunks)]"
  shows "iq_machine q = string_value (map_of kvs ''machine_id'')"
    "iq_client q = string_value (map_of kvs ''client_name'')"
    "Some source = map_of kvs ''source''" "Some cursor = map_of kvs ''cursor''"
    "show_nat (unat (iq_generation q)) = number_text (map_of kvs ''generation'')"
    "Some (JArr chunks) = map_of kvs ''chunks''"
  by (simp_all add: kvs_def request_fields_def append_assoc del: map_of_append)

lemma source_wire_inj: "source_wire s = Inr j \<Longrightarrow> source_wire t = Inr j \<Longrightarrow> s = t"
  using source_wire_clean source_fields_inj by (metis json.inject(5))

lemma request_wire_inj:
  assumes "rfc3339_ok L" "accepted L q s c cs" "accepted L r t d ds"
    and "request_wire q s c cs = request_wire r t d ds"
  shows "q = r"
proof -
  have eq: "request_fields q s c @ [(''chunks'', JArr cs)] = request_fields r t d @ [(''chunks'', JArr ds)]"
    using assms(4) by (simp add: request_wire_def)
  have st: "s = t" "c = d" "cs = ds"
    by (metis request_access(3) eq option.inject, metis request_access(4) eq option.inject,
        metis request_access(6) eq option.inject json.inject(4))
  show ?thesis
  proof (rule ingest_request.equality)
    show "iq_machine q = iq_machine r" by (metis request_access(1) eq)
    show "iq_client q = iq_client r" by (metis request_access(2) eq)
    show "iq_generation q = iq_generation r" by (metis request_access(5) eq unat_access)
    show "iq_source q = iq_source r" using assms(2,3) st by (auto simp: accepted_def source_wire_inj)
    show "iq_cursor q = iq_cursor r" using assms(2,3) st by (auto simp: accepted_def cursor_wire_inj)
    show "iq_chunks q = iq_chunks r"
      using assms(2,3) st encode_chunks_inj [OF assms(1)] by (auto simp: accepted_def)
  qed simp
qed

lemma body_identifies:
  assumes "rfc3339_ok L" "EncodeRequest L q = Inr e" "EncodeRequest L r = Inr f" "en_body e = en_body f"
  shows "q = r"
proof -
  obtain s c cs where q: "accepted L q s c cs" "en_body e = json_ordered (request_wire q s c cs)"
    using EncodeRequest_Inr [OF assms(2)] by metis
  obtain t d ds where r: "accepted L r t d ds" "en_body f = json_ordered (request_wire r t d ds)"
    using EncodeRequest_Inr [OF assms(3)] by metis
  have "request_wire q s c cs = request_wire r t d ds"
    using json_ordered_inj request_wire_clean [OF assms(1)] q r assms(4) by metis
  then show ?thesis by (rule request_wire_inj [OF assms(1) q(1) r(1)])
qed

definition collision :: "ingest_lib \<Rightarrow> string \<Rightarrow> string \<Rightarrow> bool" where
  "collision L x y \<longleftrightarrow> x \<noteq> y \<and> il_sha256 L x = il_sha256 L y"

lemma DeriveChunkID_Inr:
  assumes "DeriveChunkID L i = Inr cid"
  obtains source where "source_wire (id_source i) = Inr source" "validMachineID (id_machine i)"
    "validText (id_type i) 128 False" "validText (id_session i) 512 False"
    "cid = hex_encode (il_sha256 L
       (chunkIdentityDomain @ json_ordered (JObj (identity_fields i source))))"
proof -
  obtain source where source: "source_wire (id_source i) = Inr source"
    using assms by (cases "source_wire (id_source i)") (auto simp: DeriveChunkID_def split: if_splits)
  then show thesis
    using assms that [OF source]
    by (auto simp: DeriveChunkID_def marshalCanonical_def simp del: json_print.simps split: if_splits)
qed

lemma identity_access:
  fixes i source
  defines "kvs \<equiv> identity_fields i source"
  shows "id_machine i = string_value (map_of kvs ''machine_id'')" "Some source = map_of kvs ''source''"
    "id_type i = string_value (map_of kvs ''chunk_type'')"
    "id_session i = string_value (map_of kvs ''session_id'')"
    "show_nat (unat (id_line i)) = number_text (map_of kvs ''source_line'')"
    "show_nat (unat (id_ordinal i)) = number_text (map_of kvs ''ordinal'')"
    "hex_encode (id_content i) = string_value (map_of kvs ''content_sha256'')"
  by (simp_all add: kvs_def identity_fields_def append_assoc del: map_of_append)

lemma identity_fields_inj:
  assumes "source_wire (id_source i) = Inr s" "source_wire (id_source k) = Inr t"
    and eq: "identity_fields i s = identity_fields k t"
  shows "i = k"
proof (rule chunk_identity.equality)
  have "s = t" by (metis identity_access(2) eq option.inject)
  with assms(1,2) show "id_source i = id_source k" by (auto intro: source_wire_inj)
  show "id_machine i = id_machine k" by (metis identity_access(1) eq)
  show "id_type i = id_type k" by (metis identity_access(3) eq)
  show "id_session i = id_session k" by (metis identity_access(4) eq)
  show "id_line i = id_line k" by (metis identity_access(5) eq unat_access)
  show "id_ordinal i = id_ordinal k" by (metis identity_access(6) eq show_nat_inj word_unat_eq_iff)
  show "id_content i = id_content k" by (metis identity_access(7) eq hex_encode_inj)
qed simp

lemma identity_clean:
  assumes "source_wire (id_source i) = Inr source" "validMachineID (id_machine i)"
    "validText (id_type i) 128 False" "validText (id_session i) 512 False"
  shows "json_clean (JObj (identity_fields i source))"
proof -
  have "json_clean source" using source_wire_clean [OF assms(1)] by blast
  then have "fields_clean (identity_fields i source)"
    using assms names_clean clean_intros by (auto simp: identity_fields_def)
  then show ?thesis by (simp only: json_clean_fields)
qed

text \<open>The text that is hashed into the identity of a chunk.\<close>

definition identity_text :: "chunk_identity \<Rightarrow> string" where
  "identity_text i = (case source_wire (id_source i) of
     Inl _ \<Rightarrow> [] | Inr source \<Rightarrow> chunkIdentityDomain @ marshalCanonical (JObj (identity_fields i source)))"

lemma identity_text_inj:
  assumes "DeriveChunkID L i = Inr c" "DeriveChunkID L k = Inr d" "identity_text i = identity_text k"
  shows "i = k"
  using assms(1,2)
proof (elim DeriveChunkID_Inr)
  fix s t
  assume a: "source_wire (id_source i) = Inr s" "validMachineID (id_machine i)"
    "validText (id_type i) 128 False" "validText (id_session i) 512 False"
    and b: "source_wire (id_source k) = Inr t" "validMachineID (id_machine k)"
    "validText (id_type k) 128 False" "validText (id_session k) 512 False"
  have "json_ordered (JObj (identity_fields i s)) = json_ordered (JObj (identity_fields k t))"
    using assms(3) a(1) b(1) by (simp add: identity_text_def marshalCanonical_def del: json_print.simps)
  then have "identity_fields i s = identity_fields k t"
    using json_ordered_inj [OF identity_clean [OF a] identity_clean [OF b]] by simp
  then show "i = k" by (rule identity_fields_inj [OF a(1) b(1)])
qed

lemma domains_separate:
  "recordIdentityDomain @ x \<noteq> chunkIdentityDomain @ y"
  by (simp add: recordIdentityDomain_def chunkIdentityDomain_def)

lemma chunk_id_identifies:
  assumes "DeriveChunkID L i = Inr c" "DeriveChunkID L k = Inr c"
  shows "i = k \<or> collision L (identity_text i) (identity_text k)"
proof -
  have "hex_encode (il_sha256 L (identity_text j)) = c" if "DeriveChunkID L j = Inr c" for j
    using that by (elim DeriveChunkID_Inr)
      (simp add: identity_text_def marshalCanonical_def del: json_print.simps)
  with assms show ?thesis
    using identity_text_inj hex_encode_inj unfolding collision_def by metis
qed

lemma EncodeRequest_bounds:
  assumes "EncodeRequest L q = Inr e"
  shows "length (en_body e) \<le> MaxRequestBytes" "en_count e = length (iq_chunks q)"
    "en_count e \<le> MaxChunksPerRequest" "distinct (map ih_id (iq_chunks q))"
    "\<exists>f. \<forall>c \<in> set (iq_chunks q). ih_source_file c = f"
proof -
  obtain s c cs where a: "accepted L q s c cs" "length (en_body e) \<le> MaxRequestBytes" "en_count e = length cs"
    using EncodeRequest_Inr [OF assms] by metis
  then have chunks: "encode_chunks L [] None (iq_chunks q) = Inr cs" by (simp add: accepted_def)
  from encode_chunks_Inr [OF this] a show "length (en_body e) \<le> MaxRequestBytes"
    "en_count e = length (iq_chunks q)" "en_count e \<le> MaxChunksPerRequest" "distinct (map ih_id (iq_chunks q))"
    "\<exists>f. \<forall>c \<in> set (iq_chunks q). ih_source_file c = f"
    by (auto simp: accepted_def dest: list_all2_lengthD)
qed

section \<open>Properties\<close>

text \<open>C12: The record identity of an ingestion request stands for that request: if two requests that
  \<open>EncodeRequest\<close> accepts get the same record identity, they are the same request in every field,
  or SHA-256 collides on the two request bodies or on the two domain-separated digests of them.
  So the outbox never takes one request for another.\<close>

theorem record_id_identifies:
  assumes "rfc3339_ok L" "EncodeRequest L q = Inr e" "EncodeRequest L r = Inr f"
    and "en_record e = en_record f"
  shows "q = r \<or> collision L (en_body e) (en_body f) \<or>
    collision L (recordIdentityDomain @ en_request_digest e) (recordIdentityDomain @ en_request_digest f)"
proof -
  have "en_request_digest e = il_sha256 L (en_body e)" "en_request_digest f = il_sha256 L (en_body f)"
    "en_record e = hex_encode (il_sha256 L (recordIdentityDomain @ en_request_digest e))"
    "en_record f = hex_encode (il_sha256 L (recordIdentityDomain @ en_request_digest f))"
    using EncodeRequest_Inr [OF assms(2)] EncodeRequest_Inr [OF assms(3)] by metis+
  then show ?thesis
    using body_identifies [OF assms(1-3)] assms(4) hex_encode_inj
    by (auto simp: collision_def)
qed

definition example_lib :: ingest_lib where
  "example_lib = \<lparr>il_sha256 = \<lambda>_. replicate 32 (CHR 0x01),
     il_rfc3339 = \<lambda>t. show_nat (nat (t - zero_time))\<rparr>"

lemma example_lib_ok: "rfc3339_ok example_lib"
proof -
  have "clean_text (show_nat n)" for n
    using show_nat_decimal [of n]
    by (intro ascii_clean) (auto simp: list_all_iff decimal_def)
  then show ?thesis
    by (auto simp: rfc3339_ok_def example_lib_def inj_on_def validTimestamp_def dest!: show_nat_inj)
qed

text \<open>Two requests that differ only in their generation.\<close>

definition example_ingest_chunk :: ingest_chunk where
  "example_ingest_chunk = \<lparr>ih_id = replicate 64 (CHR ''a''), ih_content = ''hello'', ih_type = ''conversation'',
     ih_session = ''s1'', ih_project_path = ''/p'', ih_project_name = ''p'', ih_time = 1,
     ih_user = [], ih_assistant = [], ih_file = [], ih_operation = [], ih_model = [],
     ih_source_file = ''a.jsonl'', ih_source_line = 1, ih_parent = [], ih_children = []\<rparr>"

definition example_request :: "64 word \<Rightarrow> ingest_request" where
  "example_request g = \<lparr>iq_machine = ''m1'', iq_client = [],
     iq_source = \<lparr>sk_format = ''codex_jsonl'', sk_volume = 1, sk_object = 2, sk_path = ''a.jsonl'', sk_item = []\<rparr>,
     iq_cursor = \<lparr>ir_kind = ''physical_lines'', ir_start = 0, ir_end = 1,
       ir_prefix = replicate 64 (CHR ''b''), ir_previous = [], ir_revision = []\<rparr>,
     iq_generation = g, iq_chunks = [example_ingest_chunk]\<rparr>"

lemma example_hex: "validSHA256 (replicate 64 (CHR ''a''))" "validSHA256 (replicate 64 (CHR ''b''))"
  by (simp_all add: validSHA256_def list_all_iff is_lower_hex_def less_eq_char_byte byte_of_def)

lemma plain_text:
  assumes "s \<noteq> []" "list_all plain_char s" "length s \<le> n"
  shows "validText s n b"
proof -
  have "plain_char (hd s)" "plain_char (last s)"
    using assms(1,2) by (simp_all add: list_all_iff)
  then have "solid (hd s)" "solid (last s)" by (simp_all add: solid_def plain_char_def)
  then have "trim_space s \<noteq> []" using assms(1) by (simp add: trim_space_solid)
  with assms show ?thesis
    by (auto simp: validText_def valid_utf8_def runes_def plain_steps list_all_iff plain_char_def
        is_control_def rune_error_def)
qed

lemma example_path: "validRelativePath ''a.jsonl''"
proof -
  have "path_clean ''a.jsonl'' = ''a.jsonl''" by code_simp
  then show ?thesis
    by (simp add: validRelativePath_def is_abs_def has_prefix_def plain_text plain_eval)
qed

lemma example_ingest_chunk_valid: "chunk_valid example_ingest_chunk"
  using example_hex
  by (simp add: chunk_valid_def example_ingest_chunk_def validOptionalText_def validTimestamp_def
      is_zero_time_def zero_time_def children_valid_def MaxInt64_def MaxRequestBytes_def
      plain_text plain_eval)

lemma example_request_parts:
  "encode_chunks L [] None (iq_chunks (example_request g)) = Inr [JObj (chunk_fields L example_ingest_chunk)]"
  "source_wire (iq_source (example_request g)) = Inr (JObj (source_fields (iq_source (example_request g))))"
  "cursor_wire (iq_cursor (example_request g)) = Inr (JObj (physical_fields (iq_cursor (example_request g))))"
  "validMachineID (iq_machine (example_request g))" "iq_client (example_request g) = []"
  "length (iq_chunks (example_request g)) \<le> MaxChunksPerRequest"
  using example_hex
  by (simp_all add: example_request_def chunk_wire_def example_ingest_chunk_valid source_wire_def example_path
      validSourceFormat_def source_formats_def cursor_wire_def MaxInt64_def validMachineID_def
      machine_char_def less_eq_char_byte byte_of_def MaxChunksPerRequest_def)

definition example_body :: "64 word \<Rightarrow> string" where
  "example_body g = request_body (example_request g)
    (JObj (source_fields (iq_source (example_request g))))
    (JObj (physical_fields (iq_cursor (example_request g))))
    (marshalCanonical (JArr [JObj (chunk_fields example_lib example_ingest_chunk)]))"

lemma example_bodies:
  assumes "g \<in> {1, 2}"
  shows "length (example_body g) \<le> MaxRequestBytes"
proof -
  have "length (show_nat (nat (1 - zero_time))) \<le> 20"
    using length_show_nat [of "nat (1 - zero_time)" 19] by (simp add: zero_time_def)
  with assms show ?thesis
    by (auto simp: example_body_def request_body_def request_fields_def json_object_def length_plain
        plain_eval source_fields_def physical_fields_def chunk_fields_def example_request_def
        example_ingest_chunk_def example_lib_def marshalCanonical_def str_def num_def omit_def hex64_def
        show_nat_step plain_parts join_Cons MaxRequestBytes_def)
qed

definition example_encoded :: "64 word \<Rightarrow> encoded_request" where
  "example_encoded g = \<lparr>en_body = example_body g,
     en_payload = marshalCanonical (JArr [JObj (chunk_fields example_lib example_ingest_chunk)]),
     en_request_digest = replicate 32 (CHR 0x01), en_payload_digest = replicate 32 (CHR 0x01),
     en_record = hex_encode (replicate 32 (CHR 0x01)), en_count = 1\<rparr>"

lemma example_encodes: "g \<in> {1, 2} \<Longrightarrow> EncodeRequest example_lib (example_request g) = Inr (example_encoded g)"
  using example_bodies [of g] example_request_parts(6) [of g]
  by (simp add: EncodeRequest_def example_request_parts(1-5) Let_def example_encoded_def flip: example_body_def)
     (simp add: example_lib_def)

text \<open>With a hash that is constant, two different requests share a record identity and the theorem
  names the collision.\<close>

theorem record_id_identifies_witness:
  "EncodeRequest example_lib (example_request 1) = Inr (example_encoded 1) \<and>
   EncodeRequest example_lib (example_request 2) = Inr (example_encoded 2) \<and>
   (collision example_lib (example_body 1) (example_body 2) \<or>
    collision example_lib (recordIdentityDomain @ replicate 32 (CHR 0x01))
      (recordIdentityDomain @ replicate 32 (CHR 0x01)))"
proof -
  have "example_request 1 \<noteq> example_request 2" by (simp add: example_request_def)
  with record_id_identifies [OF example_lib_ok example_encodes [of 1] example_encodes [of 2]]
  show ?thesis using example_encodes by (simp add: example_encoded_def)
qed

end
