(* ===== verification/Json_Read.thy ===== *)
theory Json_Read
  imports Json_Canonical
begin

text \<open>
  The reader of \<open>encoding/json\<close>: the scanner's grammar, \<open>unquote\<close>, and the way in which a struct
  is filled (\<open>DisallowUnknownFields\<close>, keys compared after folding, \<open>null\<close> leaves a field alone).
  The members of an object are kept as they stand in the text, repetitions included.
  The lemmas give the round trip for the values that the program writes into its own files.
\<close>

section \<open>White space and numbers\<close>

definition is_ws :: "char \<Rightarrow> bool" where
  "is_ws c \<longleftrightarrow> c = CHR '' '' \<or> c = CHR 0x09 \<or> c = CHR 0x0A \<or> c = CHR 0x0D"

definition skip_ws :: "string \<Rightarrow> string" where
  "skip_ws s = dropWhile is_ws s"

definition digit_byte :: "char \<Rightarrow> bool" where
  "digit_byte c \<longleftrightarrow> 48 \<le> byte_of c \<and> byte_of c \<le> 57"

definition digits1 :: "string \<Rightarrow> (string \<times> string) option" where
  "digits1 s = (if takeWhile digit_byte s = [] then None else Some (takeWhile digit_byte s, dropWhile digit_byte s))"

text \<open>A leading zero ends the integer part.\<close>

definition read_integer :: "string \<Rightarrow> (string \<times> string) option" where
  "read_integer s = (case s of CHR ''0'' # r \<Rightarrow> Some (''0'', r) | _ \<Rightarrow> digits1 s)"

definition read_fraction :: "string \<Rightarrow> (string \<times> string) option" where
  "read_fraction s =
     (case s of CHR ''.'' # r \<Rightarrow> map_option (\<lambda>(d, r'). (CHR ''.'' # d, r')) (digits1 r) | _ \<Rightarrow> Some ([], s))"

definition read_exponent :: "string \<Rightarrow> (string \<times> string) option" where
  "read_exponent s =
     (case s of
        [] \<Rightarrow> Some ([], s)
      | e # r \<Rightarrow>
          if e \<noteq> CHR ''e'' \<and> e \<noteq> CHR ''E'' then Some ([], s)
          else if r \<noteq> [] \<and> (hd r = CHR ''+'' \<or> hd r = CHR ''-'')
          then map_option (\<lambda>(d, r'). (e # hd r # d, r')) (digits1 (tl r))
          else map_option (\<lambda>(d, r'). (e # d, r')) (digits1 r))"

definition read_number :: "string \<Rightarrow> (string \<times> string) option" where
  "read_number s =
     (let (sign, s0) = (case s of CHR ''-'' # r \<Rightarrow> (''-'', r) | _ \<Rightarrow> ([], s)) in
      case read_integer s0 of
        None \<Rightarrow> None
      | Some (i, s1) \<Rightarrow>
          (case read_fraction s1 of
             None \<Rightarrow> None
           | Some (f, s2) \<Rightarrow> map_option (\<lambda>(x, s3). (sign @ i @ f @ x, s3)) (read_exponent s2)))"

lemma length_skip_ws: "length (skip_ws s) \<le> length s"
  by (simp add: skip_ws_def length_dropWhile_le)

section \<open>Strings\<close>

definition encode_rune :: "nat \<Rightarrow> string" where
  "encode_rune r =
     (if r < 128 then [char_of r]
      else if r < 2048 then [char_of (192 + r div 64), char_of (128 + r mod 64)]
      else if r < 65536
      then [char_of (224 + r div 4096), char_of (128 + r div 64 mod 64), char_of (128 + r mod 64)]
      else [char_of (240 + r div 262144), char_of (128 + r div 4096 mod 64),
            char_of (128 + r div 64 mod 64), char_of (128 + r mod 64)])"

definition hex_value :: "char \<Rightarrow> nat option" where
  "hex_value c =
     (let b = byte_of c in
      if 48 \<le> b \<and> b \<le> 57 then Some (b - 48)
      else if 97 \<le> b \<and> b \<le> 102 then Some (b - 87)
      else if 65 \<le> b \<and> b \<le> 70 then Some (b - 55)
      else None)"

text \<open>\<open>getu4\<close> after the letter \<open>u\<close>: four hexadecimal digits.\<close>

fun hex4 :: "string \<Rightarrow> nat option" where
  "hex4 (a # b # c # d # _) =
     (case (hex_value a, hex_value b, hex_value c, hex_value d) of
        (Some w, Some x, Some y, Some z) \<Rightarrow> Some (((w * 16 + x) * 16 + y) * 16 + z)
      | _ \<Rightarrow> None)"
| "hex4 _ = None"

definition surrogate :: "nat \<Rightarrow> bool" where
  "surrogate r \<longleftrightarrow> 55296 \<le> r \<and> r < 57344"

text \<open>The rune of an escape whose digits are \<open>r\<close> and after which \<open>s\<close> follows, and how many further
  bytes it takes: six when \<open>s\<close> starts with the other half of a pair.\<close>

definition pair_rune :: "nat \<Rightarrow> string \<Rightarrow> nat \<times> nat" where
  "pair_rune r s =
     (if \<not> surrogate r then (r, 0)
      else (case (take 2 s = [CHR 0x5C, CHR ''u''], hex4 (drop 2 s)) of
         (True, Some r2) \<Rightarrow>
           if r < 56320 \<and> 56320 \<le> r2 \<and> r2 < 57344
           then ((r - 55296) * 1024 + (r2 - 56320) + 65536, 6) else (rune_error, 0)
       | _ \<Rightarrow> (rune_error, 0)))"

definition simple_escape :: "char \<Rightarrow> char option" where
  "simple_escape c =
     (if c = CHR 0x22 \<or> c = CHR 0x5C \<or> c = CHR ''/'' then Some c
      else if c = CHR ''b'' then Some (CHR 0x08)
      else if c = CHR ''f'' then Some (CHR 0x0C)
      else if c = CHR ''n'' then Some (CHR 0x0A)
      else if c = CHR ''r'' then Some (CHR 0x0D)
      else if c = CHR ''t'' then Some (CHR 0x09)
      else None)"

definition prepend :: "string \<Rightarrow> (string \<times> 'a) option \<Rightarrow> (string \<times> 'a) option" where
  "prepend u res = map_option (\<lambda>(t, r). (u @ t, r)) res"

text \<open>After the opening quote: the text and what follows the closing quote.\<close>

function read_string :: "string \<Rightarrow> (string \<times> string) option" where
  "read_string s =
     (case s of
        [] \<Rightarrow> None
      | c # cs \<Rightarrow>
          if c = CHR 0x22 then Some ([], cs)
          else if c = CHR 0x5C then
            (case cs of
               [] \<Rightarrow> None
             | e # ds \<Rightarrow>
                 if e = CHR ''u'' then
                   (case hex4 ds of
                      None \<Rightarrow> None
                    | Some r \<Rightarrow>
                        (case pair_rune r (drop 4 ds) of
                           (rune, extra) \<Rightarrow> prepend (encode_rune rune) (read_string (drop (4 + extra) ds))))
                 else (case simple_escape e of
                    None \<Rightarrow> None
                  | Some x \<Rightarrow> prepend [x] (read_string ds)))
          else if byte_of c < 32 then None
          else if byte_of c < 128 then prepend [c] (read_string cs)
          else if decode_rune s = (rune_error, 1) then prepend (encode_rune rune_error) (read_string cs)
          else prepend (take (snd (decode_rune s)) s) (read_string (drop (snd (decode_rune s)) s)))"
  by pat_completeness auto
termination
  by (relation "measure length") (use decode_rune_pos in auto)

declare read_string.simps [simp del]

section \<open>Values\<close>

definition max_nesting :: nat where "max_nesting = 10000"

text \<open>\<open>d\<close> is how much deeper values may nest.  The text that follows a value is always shorter; the
  tests that say so make the recursion well-founded.\<close>

definition read_literal :: "string \<Rightarrow> (json \<times> string) option" where
  "read_literal s =
     (if has_prefix ''null'' s then Some (JNull, drop 4 s)
      else if has_prefix ''true'' s then Some (JBool True, drop 4 s)
      else if has_prefix ''false'' s then Some (JBool False, drop 5 s)
      else map_option (\<lambda>(t, r). (JNum t, r)) (read_number s))"

function (sequential) read_value :: "nat \<Rightarrow> string \<Rightarrow> (json \<times> string) option"
  and read_members :: "nat \<Rightarrow> string \<Rightarrow> ((string \<times> json) list \<times> string) option"
  and read_elements :: "nat \<Rightarrow> string \<Rightarrow> (json list \<times> string) option" where
  "read_value d s =
     (case s of
        [] \<Rightarrow> None
      | c # cs \<Rightarrow>
          if is_ws c then read_value d cs
          else if c = CHR 0x22 then map_option (\<lambda>(t, r). (JStr t, r)) (read_string cs)
          else if c = CHR ''{'' then
            (if d = 0 then None
             else if take 1 (skip_ws cs) = ''}'' then Some (JObj [], drop 1 (skip_ws cs))
             else map_option (\<lambda>(kvs, r). (JObj kvs, r)) (read_members (d - 1) cs))
          else if c = CHR ''['' then
            (if d = 0 then None
             else if take 1 (skip_ws cs) = '']'' then Some (JArr [], drop 1 (skip_ws cs))
             else map_option (\<lambda>(xs, r). (JArr xs, r)) (read_elements (d - 1) cs))
          else read_literal s)"
| "read_members d s =
     (case skip_ws s of
        [] \<Rightarrow> None
      | q # cs \<Rightarrow>
          if q \<noteq> CHR 0x22 then None
          else (case read_string cs of
             None \<Rightarrow> None
           | Some (k, r) \<Rightarrow>
               (case skip_ws r of
                  [] \<Rightarrow> None
                | colon # r1 \<Rightarrow>
                    if colon \<noteq> CHR '':'' \<or> length s \<le> length r1 then None
                    else (case read_value d r1 of
                       None \<Rightarrow> None
                     | Some (v, r2) \<Rightarrow>
                         (case skip_ws r2 of
                            [] \<Rightarrow> None
                          | e # r3 \<Rightarrow>
                              if e = CHR ''}'' then Some ([(k, v)], r3)
                              else if e \<noteq> CHR '','' \<or> length s \<le> length r3 then None
                              else map_option (\<lambda>(kvs, r4). ((k, v) # kvs, r4)) (read_members d r3))))))"
| "read_elements d s =
     (case read_value d (skip_ws s) of
        None \<Rightarrow> None
      | Some (v, r) \<Rightarrow>
          (case skip_ws r of
             [] \<Rightarrow> None
           | e # r1 \<Rightarrow>
               if e = CHR '']'' then Some ([v], r1)
               else if e \<noteq> CHR '','' \<or> length s \<le> length r1 then None
               else map_option (\<lambda>(vs, r2). (v # vs, r2)) (read_elements d r1)))"
  by pat_completeness auto
termination
  by (relation "measure (\<lambda>x. case x of Inl (d, s) \<Rightarrow> 2 * length s | Inr (Inl (d, s)) \<Rightarrow> 2 * length s + 1
        | Inr (Inr (d, s)) \<Rightarrow> 2 * length s + 1)")
     (auto simp: length_skip_ws le_imp_less_Suc)

declare read_value.simps [simp del] read_members.simps [simp del] read_elements.simps [simp del]

text \<open>\<open>Decode\<close> of a value and a second \<open>Decode\<close> that reports \<open>io.EOF\<close>.\<close>

definition json_single :: "string \<Rightarrow> json option" where
  "json_single s =
     (case read_value max_nesting s of
        None \<Rightarrow> None
      | Some (v, r) \<Rightarrow> if skip_ws r = [] then Some v else None)"

section \<open>Filling a struct\<close>

text \<open>Keys are compared after \<open>foldName\<close>; the long s and the Kelvin sign fold to ASCII letters.\<close>

definition fold_rune :: "nat \<Rightarrow> nat" where
  "fold_rune r = (if 97 \<le> r \<and> r \<le> 122 then r - 32 else if r = 383 then 83 else if r = 8490 then 75 else r)"

definition fold_key :: "string \<Rightarrow> nat list" where
  "fold_key s = map fold_rune (runes s)"

text \<open>How a member is stored into the value that is being filled.\<close>

type_synonym 'a setter = "json \<Rightarrow> 'a \<Rightarrow> 'a option"

fun decode_members :: "bool \<Rightarrow> (string \<times> 'a setter) list \<Rightarrow> (string \<times> json) list \<Rightarrow> 'a \<Rightarrow> 'a option" where
  "decode_members strict specs [] x = Some x"
| "decode_members strict specs ((k, v) # kvs) x =
     (case find (\<lambda>nf. fold_key (fst nf) = fold_key k) specs of
        None \<Rightarrow> if strict then None else decode_members strict specs kvs x
      | Some (n, f) \<Rightarrow>
          (case f v x of None \<Rightarrow> None | Some y \<Rightarrow> decode_members strict specs kvs y))"

definition decode_struct :: "bool \<Rightarrow> (string \<times> 'a setter) list \<Rightarrow> 'a setter" where
  "decode_struct strict specs v x =
     (case v of JNull \<Rightarrow> Some x | JObj kvs \<Rightarrow> decode_members strict specs kvs x | _ \<Rightarrow> None)"

definition set_string :: "(string \<Rightarrow> 'a \<Rightarrow> 'a) \<Rightarrow> 'a setter" where
  "set_string upd v x = (case v of JNull \<Rightarrow> Some x | JStr s \<Rightarrow> Some (upd s x) | _ \<Rightarrow> None)"

text \<open>An integer literal that fits into 64 bits.\<close>

definition digits_value :: "string \<Rightarrow> int" where
  "digits_value ds = foldl (\<lambda>n c. 10 * n + int (byte_of c - 48)) 0 ds"

definition json_int :: "string \<Rightarrow> int option" where
  "json_int t =
     (let neg = has_prefix ''-'' t; ds = trim_prefix ''-'' t;
          n = (if neg then - digits_value ds else digits_value ds)
      in if ds \<noteq> [] \<and> list_all digit_byte ds \<and> - (2 ^ 63) \<le> n \<and> n < 2 ^ 63 then Some n else None)"

definition set_int :: "(int \<Rightarrow> 'a \<Rightarrow> 'a) \<Rightarrow> 'a setter" where
  "set_int upd v x =
     (case v of
        JNull \<Rightarrow> Some x
      | JNum t \<Rightarrow> (case json_int t of None \<Rightarrow> None | Some n \<Rightarrow> Some (upd n x))
      | _ \<Rightarrow> None)"

text \<open>Pointer fields: \<open>null\<close> makes them nil.\<close>

definition set_string_ptr :: "(string option \<Rightarrow> 'a \<Rightarrow> 'a) \<Rightarrow> 'a setter" where
  "set_string_ptr upd v x =
     (case v of JNull \<Rightarrow> Some (upd None x) | JStr s \<Rightarrow> Some (upd (Some s) x) | _ \<Rightarrow> None)"

definition set_int_ptr :: "(int option \<Rightarrow> 'a \<Rightarrow> 'a) \<Rightarrow> 'a setter" where
  "set_int_ptr upd v x =
     (case v of
        JNull \<Rightarrow> Some (upd None x)
      | JNum t \<Rightarrow> (case json_int t of None \<Rightarrow> None | Some n \<Rightarrow> Some (upd (Some n) x))
      | _ \<Rightarrow> None)"

definition set_bool_ptr :: "(bool option \<Rightarrow> 'a \<Rightarrow> 'a) \<Rightarrow> 'a setter" where
  "set_bool_ptr upd v x =
     (case v of JNull \<Rightarrow> Some (upd None x) | JBool b \<Rightarrow> Some (upd (Some b) x) | _ \<Rightarrow> None)"

definition set_bool :: "(bool \<Rightarrow> 'a \<Rightarrow> 'a) \<Rightarrow> 'a setter" where
  "set_bool upd v x = (case v of JNull \<Rightarrow> Some x | JBool b \<Rightarrow> Some (upd b x) | _ \<Rightarrow> None)"

text \<open>The elements of a \<open>[]string\<close> are decoded into the backing array; a \<open>null\<close> leaves what is there.\<close>

fun decode_strings :: "json list \<Rightarrow> string list \<Rightarrow> string list option" where
  "decode_strings [] old = Some old"
| "decode_strings (JStr s # vs) old = map_option ((#) s) (decode_strings vs (drop 1 old))"
| "decode_strings (JNull # vs) old =
     map_option ((#) (case old of [] \<Rightarrow> [] | x # _ \<Rightarrow> x)) (decode_strings vs (drop 1 old))"
| "decode_strings (_ # vs) old = None"

text \<open>No object inside the value repeats a key.\<close>

fun no_duplicates :: "json \<Rightarrow> bool" where
  "no_duplicates (JObj kvs) \<longleftrightarrow> distinct (map fst kvs) \<and> list_all (\<lambda>kv. no_duplicates (snd kv)) kvs"
| "no_duplicates (JArr xs) \<longleftrightarrow> list_all no_duplicates xs"
| "no_duplicates _ \<longleftrightarrow> True"

section \<open>Round trip\<close>

text \<open>Values whose texts need no escape and whose numbers are decimal without a leading zero.\<close>

definition plain_number :: "string \<Rightarrow> bool" where
  "plain_number t \<longleftrightarrow> t \<noteq> [] \<and> list_all digit_byte t \<and> (hd t = CHR ''0'' \<longrightarrow> t = ''0'')"

fun json_plain :: "json \<Rightarrow> bool" where
  "json_plain (JNum t) \<longleftrightarrow> plain_number t"
| "json_plain (JStr s) \<longleftrightarrow> list_all plain_char s"
| "json_plain (JObj kvs) \<longleftrightarrow> list_all (\<lambda>kv. list_all plain_char (fst kv) \<and> json_plain (snd kv)) kvs"
| "json_plain (JArr xs) \<longleftrightarrow> list_all json_plain xs"
| "json_plain _ \<longleftrightarrow> True"

fun nesting :: "json \<Rightarrow> nat" where
  "nesting (JObj kvs) = Suc (Max (insert 0 (set (map (\<lambda>kv. nesting (snd kv)) kvs))))"
| "nesting (JArr xs) = Suc (Max (insert 0 (set (map nesting xs))))"
| "nesting _ = 0"

lemma plain_byte: "plain_char c \<Longrightarrow> c \<noteq> CHR 0x22 \<and> c \<noteq> CHR 0x5C \<and> 32 \<le> byte_of c \<and> byte_of c < 128"
  by (auto simp: plain_eval)

lemma read_string_plain: "list_all plain_char s \<Longrightarrow> read_string (s @ CHR 0x22 # r) = Some (s, r)"
proof (induction s)
  case Nil
  then show ?case by (simp add: read_string.simps)
next
  case (Cons c s)
  then have "c \<noteq> CHR 0x22" "c \<noteq> CHR 0x5C" "\<not> byte_of c < 32" "byte_of c < 128"
    using plain_byte [of c] by auto
  with Cons show ?case by (subst read_string.simps) (simp add: prepend_def)
qed

text \<open>What may follow a value.\<close>

definition closes :: "string \<Rightarrow> bool" where
  "closes r \<longleftrightarrow> r = [] \<or> hd r \<in> {CHR '','', CHR ''}'', CHR '']''}"

lemma closes_simps [simp]: "closes []" "closes (c # r) \<longleftrightarrow> c \<in> {CHR '','', CHR ''}'', CHR '']''}"
  by (simp_all add: closes_def)

lemma digits1_plain:
  assumes "list_all digit_byte t" "t \<noteq> []" "r = [] \<or> \<not> digit_byte (hd r)"
  shows "digits1 (t @ r) = Some (t, r)"
proof -
  have "takeWhile digit_byte r = []" "dropWhile digit_byte r = r" using assms(3) by (cases r; simp)+
  moreover have "takeWhile digit_byte (t @ r) = t @ takeWhile digit_byte r"
    "dropWhile digit_byte (t @ r) = dropWhile digit_byte r"
    using assms(1) by (auto simp: takeWhile_append2 dropWhile_append2 list_all_iff)
  ultimately show ?thesis using assms(2) by (simp add: digits1_def)
qed

lemma read_number_plain:
  assumes "plain_number t" "closes r"
  shows "read_number (t @ r) = Some (t, r)"
proof -
  obtain c cs where t: "t = c # cs" "digit_byte c" using assms(1) by (cases t) (auto simp: plain_number_def)
  then have c: "c \<noteq> CHR ''-''" by (auto simp: digit_byte_def byte_of_def)
  have stop: "r = [] \<or> \<not> digit_byte (hd r)" using assms(2) by (auto simp: closes_def digit_byte_def byte_of_def)
  have "read_integer (t @ r) = Some (t, r)"
  proof (cases "c = CHR ''0''")
    case True
    then show ?thesis using assms(1) t by (simp add: plain_number_def read_integer_def)
  next
    case False
    then have "read_integer (t @ r) = digits1 (t @ r)" using t by (auto simp: read_integer_def split: char.splits bool.splits)
    then show ?thesis using digits1_plain stop assms(1) by (simp add: plain_number_def)
  qed
  moreover have "read_fraction r = Some ([], r)" "read_exponent r = Some ([], r)"
    using assms(2) by (auto simp: read_fraction_def read_exponent_def closes_def split: list.splits)
  moreover have "(case t @ r of CHR ''-'' # x \<Rightarrow> (''-'', x) | _ \<Rightarrow> ([], t @ r)) = ([], t @ r)"
    using c t by (auto split: char.splits bool.splits)
  ultimately show ?thesis by (simp add: read_number_def)
qed

lemma json_print_hd:
  assumes "json_plain v"
  obtains c cs where "json_print html v = c # cs" "\<not> is_ws c" "c \<noteq> CHR '']''" "c \<noteq> CHR ''}''"
proof (cases v)
  case (JNum t)
  then obtain c cs where "t = c # cs" "digit_byte c" using assms by (cases t) (auto simp: plain_number_def)
  moreover have "\<not> is_ws c \<and> c \<noteq> CHR '']'' \<and> c \<noteq> CHR ''}''"
    using \<open>digit_byte c\<close> by (auto simp: digit_byte_def is_ws_def byte_of_def)
  ultimately show thesis using that [of c cs] JNum by simp
next
  case (JBool b)
  then show thesis using that by (cases b) (auto simp: is_ws_def)
qed (use that in \<open>auto simp: is_ws_def json_string_def\<close>)

lemma skip_ws_stuck: "\<not> is_ws c \<Longrightarrow> skip_ws (c # s) = c # s"
  by (simp add: skip_ws_def)

lemma not_ws [simp]: "\<not> is_ws (CHR 0x22)" "\<not> is_ws (CHR '','')" "\<not> is_ws (CHR '':'')"
  "\<not> is_ws (CHR ''}'')" "\<not> is_ws (CHR '']'')" "\<not> is_ws (CHR ''{'')" "\<not> is_ws (CHR ''['')"
  by (simp_all add: is_ws_def)

definition member_text :: "bool \<Rightarrow> string \<times> json \<Rightarrow> string" where
  "member_text html kv = json_string html (fst kv) @ '':'' @ json_print html (snd kv)"

lemma read_members_plain:
  assumes "kvs \<noteq> []" "list_all (\<lambda>kv. list_all plain_char (fst kv)) kvs"
    and "\<And>kv u. kv \<in> set kvs \<Longrightarrow> closes u \<Longrightarrow>
      read_value d (json_print html (snd kv) @ u) = Some (snd kv, u)"
  shows "read_members d (join '','' (map (member_text html) kvs) @ CHR ''}'' # r) = Some (kvs, r)"
  using assms
proof (induction kvs)
  case (Cons kv kvs)
  obtain k v where kv: "kv = (k, v)" by fastforce
  define rest where "rest = (if kvs = [] then CHR ''}'' # r
    else CHR '','' # join '','' (map (member_text html) kvs) @ CHR ''}'' # r)"
  have k: "list_all plain_char k" using Cons.prems(2) kv by simp
  have eq: "join '','' (map (member_text html) (kv # kvs)) @ CHR ''}'' # r =
      CHR 0x22 # k @ CHR 0x22 # CHR '':'' # json_print html v @ rest"
    using k by (simp add: join_Cons rest_def kv member_text_def plain_string)
  have v: "read_value d (json_print html v @ rest) = Some (v, rest)"
    using Cons.prems(3) [of kv rest] kv by (simp add: rest_def)
  have tail: "read_members d (join '','' (map (member_text html) kvs) @ CHR ''}'' # r) = Some (kvs, r)"
    if "kvs \<noteq> []"
    using Cons that by simp
  show ?case
    unfolding eq
    by (subst read_members.simps)
       (use v tail in \<open>auto simp: skip_ws_stuck read_string_plain [OF k] kv rest_def\<close>)
qed simp

lemma read_elements_plain:
  assumes "xs \<noteq> []" "list_all json_plain xs"
    and "\<And>x u. x \<in> set xs \<Longrightarrow> closes u \<Longrightarrow> read_value d (json_print html x @ u) = Some (x, u)"
  shows "read_elements d (join '','' (map (json_print html) xs) @ CHR '']'' # r) = Some (xs, r)"
  using assms
proof (induction xs)
  case (Cons x xs)
  define rest where "rest = (if xs = [] then CHR '']'' # r
    else CHR '','' # join '','' (map (json_print html) xs) @ CHR '']'' # r)"
  have eq: "join '','' (map (json_print html) (x # xs)) @ CHR '']'' # r = json_print html x @ rest"
    by (simp add: join_Cons rest_def)
  have v: "read_value d (json_print html x @ rest) = Some (x, rest)"
    using Cons.prems(3) [of x rest] by (simp add: rest_def)
  obtain c cs where hd: "json_print html x = c # cs" "\<not> is_ws c"
    by (rule json_print_hd [of x html]) (use Cons.prems(2) in auto)
  then have ws: "skip_ws (json_print html x @ rest) = json_print html x @ rest"
    by (simp add: skip_ws_stuck)
  have tail: "read_elements d (join '','' (map (json_print html) xs) @ CHR '']'' # r) = Some (xs, r)"
    if "xs \<noteq> []"
    using Cons that by simp
  show ?case
    unfolding eq
    by (subst read_elements.simps)
       (use v tail ws hd in \<open>auto simp: skip_ws_stuck rest_def\<close>)
qed simp

lemma nesting_le:
  "x \<in> set xs \<Longrightarrow> nesting (JArr xs) \<le> Suc d \<Longrightarrow> nesting x \<le> d"
  "kv \<in> set kvs \<Longrightarrow> nesting (JObj kvs) \<le> Suc d \<Longrightarrow> nesting (snd kv) \<le> d"
  by auto

lemma read_value_plain:
  "json_plain v \<Longrightarrow> nesting v \<le> d \<Longrightarrow> closes r \<Longrightarrow>
   read_value d (json_print html v @ r) = Some (v, r)"
proof (induction v arbitrary: d r)
  case JNull
  then show ?case by (simp add: read_value.simps [of d] read_literal_def has_prefix_def is_ws_def)
next
  case (JBool b)
  then show ?case
    by (cases b) (simp_all add: read_value.simps [of d] read_literal_def has_prefix_def is_ws_def)
next
  case (JNum t)
  then obtain c cs where t: "t = c # cs" "digit_byte c" by (cases t) (auto simp: plain_number_def)
  then have "\<not> is_ws c" "c \<notin> {CHR 0x22, CHR ''{'', CHR ''['', CHR ''n'', CHR ''t'', CHR ''f''}"
    by (auto simp: digit_byte_def is_ws_def byte_of_def)
  with t JNum read_number_plain [of t r] show ?case
    by (simp add: read_value.simps [of d] read_literal_def has_prefix_def)
next
  case (JStr s)
  then show ?case by (simp add: read_value.simps [of d] plain_string read_string_plain)
next
  case (JArr xs)
  then obtain e where d: "d = Suc e" by (cases d) auto
  show ?case
  proof (cases "xs = []")
    case True
    then show ?thesis by (simp add: read_value.simps [of "Suc e"] d skip_ws_stuck)
  next
    case False
    then obtain x ys where xs: "xs = x # ys" by (cases xs) auto
    obtain c cs where hd: "json_print html x = c # cs" "\<not> is_ws c" "c \<noteq> CHR '']''"
      by (rule json_print_hd [of x html]) (use JArr.prems(1) xs in auto)
    have "read_elements e (join '','' (map (json_print html) xs) @ CHR '']'' # r) = Some (xs, r)"
      using JArr False d nesting_le(1) by (intro read_elements_plain) (auto simp: list_all_iff)
    moreover have "take 1 (skip_ws (join '','' (map (json_print html) xs) @ CHR '']'' # r)) \<noteq> '']''"
      using xs hd by (simp add: join_Cons skip_ws_stuck)
    ultimately show ?thesis by (simp add: read_value.simps [of "Suc e"] d)
  qed
next
  case (JObj kvs)
  then obtain e where d: "d = Suc e" by (cases d) auto
  have print: "json_print html (JObj kvs) = CHR ''{'' # join '','' (map (member_text html) kvs) @ ''}''"
    by (simp add: member_text_def [abs_def])
  show ?case
  proof (cases "kvs = []")
    case True
    then show ?thesis by (simp add: read_value.simps [of "Suc e"] d skip_ws_stuck)
  next
    case False
    have "read_members e (join '','' (map (member_text html) kvs) @ CHR ''}'' # r) = Some (kvs, r)"
    proof (intro read_members_plain)
      fix kv u
      assume kv: "kv \<in> set kvs" and u: "closes u"
      have "json_plain (snd kv)" using JObj.prems(1) kv by (auto simp: list_all_iff)
      moreover have "nesting (snd kv) \<le> e" using JObj.prems(2) kv d by (intro nesting_le(2)) auto
      moreover have "snd kv \<in> Basic_BNFs.snds kv" by (cases kv) simp
      ultimately show "read_value e (json_print html (snd kv) @ u) = Some (snd kv, u)"
        using JObj.IH [OF kv] u by blast
    qed (use JObj.prems(1) False in \<open>auto simp: list_all_iff\<close>)
    moreover have "take 1 (skip_ws (join '','' (map (member_text html) kvs) @ CHR ''}'' # r)) \<noteq> ''}''"
      using False by (cases kvs) (simp_all add: join_Cons member_text_def json_string_def skip_ws_stuck)
    ultimately show ?thesis unfolding print by (simp add: read_value.simps [of "Suc e"] d)
  qed
qed

lemma json_single_print:
  "json_plain v \<Longrightarrow> nesting v \<le> max_nesting \<Longrightarrow> json_single (json_print html v) = Some v"
  using read_value_plain [of v max_nesting "[]" html] by (simp add: json_single_def skip_ws_def)

lemma fold_key_plain: "list_all plain_char s \<Longrightarrow> fold_key s = map (\<lambda>c. fold_rune (byte_of c)) s"
  by (simp add: fold_key_def runes_def plain_steps)

lemma plain_number_show: "plain_number (show_nat n)"
proof -
  have "show_nat n = ''0''" if "hd (show_nat n) = CHR ''0''" for n
    using that
  proof (induction n rule: less_induct)
    case (less n)
    show ?case
    proof (cases "n < 10")
      case True
      then have "byte_of (digit n) = 48" using less.prems by (simp add: show_nat_step byte_of_def)
      with True have "n = 0" by (simp add: digit_def)
      moreover have "show_nat 0 = ''0''" by code_simp
      ultimately show ?thesis by simp
    next
      case False
      have "show_nat (n div 10) = ''0''"
        using less False show_nat_decimal [of "n div 10"] by (simp add: show_nat_step(1))
      moreover have "show_nat 0 = ''0''" by code_simp
      ultimately have "n div 10 = 0" using show_nat_inj by metis
      then show ?thesis using False by simp
    qed
  qed
  then show ?thesis
    using show_nat_decimal [of n] by (auto simp: plain_number_def list_all_iff digit_byte_def decimal_def)
qed

lemma digits_value_show: "digits_value (show_nat n) = int n"
proof (induction n rule: less_induct)
  case (less n)
  show ?case
  proof (cases "n < 10")
    case True
    then show ?thesis by (simp add: show_nat_step digits_value_def digit_def)
  next
    case False
    then have "digits_value (show_nat (n div 10)) = int (n div 10)" by (intro less.IH) simp
    with False show ?thesis by (simp add: show_nat_step(1) digits_value_def digit_def zdiv_int zmod_int)
  qed
qed

lemma json_int_show:
  assumes "n < 2 ^ 63"
  shows "json_int (show_nat n) = Some (int n)"
proof -
  have "show_nat n \<noteq> []" "list_all digit_byte (show_nat n)" "\<not> has_prefix ''-'' (show_nat n)"
    using show_nat_decimal [of n]
    by (auto simp: list_all_iff digit_byte_def decimal_def has_prefix_def byte_of_def neq_Nil_conv)
  with assms show ?thesis by (simp add: json_int_def trim_prefix_def digits_value_show)
qed

end
