(* ===== verification/Go_Base64.thy ===== *)
theory Go_Base64
  imports Json_Canonical
begin

text \<open>
  The unpadded codecs of \<open>encoding/base64\<close>: \<open>RawStdEncoding\<close> and \<open>RawURLEncoding\<close>.  The decoder
  skips line breaks and ignores the unused bits of the last character, as Go's does.
\<close>

text \<open>The two alphabets share the capital letters, the small letters and the digits.\<close>

definition base64_common :: string where
  "base64_common = map char_of ([65..<91] @ [97..<123] @ [48..<58] :: nat list)"

definition std_alphabet :: string where
  "std_alphabet = base64_common @ ''+/''"

definition url_alphabet :: string where
  "url_alphabet = base64_common @ ''-_''"

fun b64_encode :: "string \<Rightarrow> string \<Rightarrow> string" where
  "b64_encode al (x # y # z # r) =
     (let a = byte_of x; b = byte_of y; c = byte_of z in
      [al ! (a div 4), al ! (a mod 4 * 16 + b div 16), al ! (b mod 16 * 4 + c div 64), al ! (c mod 64)] @
      b64_encode al r)"
| "b64_encode al [x, y] =
     (let a = byte_of x; b = byte_of y in
      [al ! (a div 4), al ! (a mod 4 * 16 + b div 16), al ! (b mod 16 * 4)])"
| "b64_encode al [x] = [al ! (byte_of x div 4), al ! (byte_of x mod 4 * 16)]"
| "b64_encode al [] = []"

fun index_of :: "'a \<Rightarrow> 'a list \<Rightarrow> nat option" where
  "index_of c [] = None"
| "index_of c (x # xs) = (if c = x then Some 0 else map_option Suc (index_of c xs))"

text \<open>The six-bit values of the characters; \<open>None\<close> when one is not in the alphabet.\<close>

fun sextets :: "string \<Rightarrow> string \<Rightarrow> nat list option" where
  "sextets al [] = Some []"
| "sextets al (c # s) =
     (if c = CHR 0x0A \<or> c = CHR 0x0D then sextets al s
      else (case index_of c al of
         None \<Rightarrow> None | Some n \<Rightarrow> map_option ((#) n) (sextets al s)))"

fun quanta :: "nat list \<Rightarrow> string option" where
  "quanta (w # x # y # z # r) =
     map_option ((@) [char_of (w * 4 + x div 16), char_of (x mod 16 * 16 + y div 4), char_of (y mod 4 * 64 + z)])
       (quanta r)"
| "quanta [w, x, y] = Some [char_of (w * 4 + x div 16), char_of (x mod 16 * 16 + y div 4)]"
| "quanta [w, x] = Some [char_of (w * 4 + x div 16)]"
| "quanta [w] = None"
| "quanta [] = Some []"

definition b64_decode :: "string \<Rightarrow> string \<Rightarrow> string option" where
  "b64_decode al s = Option.bind (sextets al s) quanta"

section \<open>Round trip\<close>

definition alphabet_ok :: "string \<Rightarrow> bool" where
  "alphabet_ok al \<longleftrightarrow> length al = 64 \<and> list_all plain_char al \<and>
     list_all (\<lambda>n. index_of (al ! n) al = Some n) [0..<64]"

lemma alphabets_ok: "alphabet_ok std_alphabet" "alphabet_ok url_alphabet"
  by code_simp+

lemma alphabet_char:
  assumes "alphabet_ok al" "n < 64"
  shows "index_of (al ! n) al = Some n" "plain_char (al ! n)" "al ! n \<noteq> CHR 0x0A" "al ! n \<noteq> CHR 0x0D"
proof -
  show "index_of (al ! n) al = Some n" using assms by (auto simp: alphabet_ok_def list_all_iff)
  show p: "plain_char (al ! n)" using assms by (auto simp: alphabet_ok_def list_all_iff)
  then show "al ! n \<noteq> CHR 0x0A" "al ! n \<noteq> CHR 0x0D" by (auto simp: plain_eval)
qed

lemma byte_bounds: "byte_of c < 256" "byte_of c div 4 < 64" "byte_of c mod 64 < 64"
  "byte_of c mod 16 * 4 + byte_of d div 64 < 64" "byte_of c mod 4 * 16 + byte_of d div 16 < 64"
  "byte_of c mod 16 * 4 < 64" "byte_of c mod 4 * 16 < 64"
proof -
  have b: "byte_of x < 256" for x by (simp add: byte_of_def)
  show "byte_of c < 256" "byte_of c div 4 < 64" "byte_of c mod 64 < 64"
    using b [of c] by simp_all
  have "byte_of d div 64 < 4" "byte_of d div 16 < 16" using b [of d] by simp_all
  moreover have "byte_of c mod 16 \<le> 15" "byte_of c mod 4 \<le> 3" by simp_all
  ultimately show "byte_of c mod 16 * 4 + byte_of d div 64 < 64" "byte_of c mod 4 * 16 + byte_of d div 16 < 64"
    "byte_of c mod 16 * 4 < 64" "byte_of c mod 4 * 16 < 64" by linarith+
qed

lemma quantum_bytes:
  "char_of (byte_of x div 4 * 4 + (byte_of x mod 4 * 16 + byte_of y div 16) div 16) = x"
  "char_of ((byte_of x mod 4 * 16 + byte_of y div 16) mod 16 * 16 + (byte_of y mod 16 * 4 + byte_of z div 64) div 4) = y"
  "char_of ((byte_of y mod 16 * 4 + byte_of z div 64) mod 4 * 64 + byte_of z mod 64) = z"
proof -
  have b: "byte_of x < 256" "byte_of y < 256" "byte_of z < 256" by (simp_all add: byte_of_def)
  have c: "char_of (byte_of v) = v" for v by (simp add: byte_of_def)
  have "byte_of y div 16 < 16" "byte_of z div 64 < 4" using b by simp_all
  then have e: "(byte_of x mod 4 * 16 + byte_of y div 16) div 16 = byte_of x mod 4"
    "(byte_of x mod 4 * 16 + byte_of y div 16) mod 16 = byte_of y div 16"
    "(byte_of y mod 16 * 4 + byte_of z div 64) div 4 = byte_of y mod 16"
    "(byte_of y mod 16 * 4 + byte_of z div 64) mod 4 = byte_of z div 64"
    by simp_all
  show "char_of (byte_of x div 4 * 4 + (byte_of x mod 4 * 16 + byte_of y div 16) div 16) = x"
    "char_of ((byte_of x mod 4 * 16 + byte_of y div 16) mod 16 * 16 + (byte_of y mod 16 * 4 + byte_of z div 64) div 4) = y"
    "char_of ((byte_of y mod 16 * 4 + byte_of z div 64) mod 4 * 64 + byte_of z mod 64) = z"
    unfolding e by (simp_all add: c)
qed

lemma quantum_last:
  "char_of (byte_of x div 4 * 4 + byte_of x mod 4 * 16 div 16) = x"
  "char_of ((byte_of x mod 4 * 16 + byte_of y div 16) mod 16 * 16 + byte_of y mod 16 * 4 div 4) = y"
  using quantum_bytes(1) [of x "CHR 0x00"] quantum_bytes(2) [of x y "CHR 0x00"] by (simp_all add: byte_of_def)

lemma sextets_alphabet:
  "alphabet_ok al \<Longrightarrow> n < 64 \<Longrightarrow> sextets al (al ! n # s) = map_option ((#) n) (sextets al s)"
  by (simp add: alphabet_char)

lemma b64_round_trip: "alphabet_ok al \<Longrightarrow> b64_decode al (b64_encode al s) = Some s"
proof (induction al s rule: b64_encode.induct)
  case (1 al x y z r)
  then have "b64_decode al (b64_encode al r) = Some r" by blast
  then obtain ns where "sextets al (b64_encode al r) = Some ns" "quanta ns = Some r"
    by (auto simp: b64_decode_def bind_eq_Some_conv)
  then show ?case
    using 1 quantum_bytes(1) [of x y] quantum_bytes(2) [of x y z] quantum_bytes(3) [of y z]
    by (simp add: b64_decode_def sextets_alphabet byte_bounds Let_def del: sextets.simps(2))
next
  case (2 al x y)
  then show ?case
    using quantum_bytes(1) [of x y] quantum_last(2) [of x y]
    by (simp add: b64_decode_def sextets_alphabet byte_bounds Let_def del: sextets.simps(2))
next
  case (3 al x)
  then show ?case
    using quantum_last(1) [of x]
    by (simp add: b64_decode_def sextets_alphabet byte_bounds del: sextets.simps(2))
qed (simp add: b64_decode_def)

lemma b64_plain: "alphabet_ok al \<Longrightarrow> list_all plain_char (b64_encode al s)"
  by (induction al s rule: b64_encode.induct) (simp_all add: alphabet_char byte_bounds Let_def)

lemma b64_length: "length (b64_encode al s) \<le> 2 * length s"
proof (induction al s rule: b64_encode.induct)
  case (1 al x y z r)
  then have "length (b64_encode al r) \<le> 2 * length r" by blast
  then show ?case by (simp add: Let_def)
qed (simp_all add: Let_def)

lemma b64_nonempty: "s \<noteq> [] \<Longrightarrow> b64_encode al s \<noteq> []"
  by (cases "(al, s)" rule: b64_encode.cases) (simp_all add: Let_def)

end
