(* ===== verification/Auth.thy ===== *)
theory Auth
  imports Durable Json_Read Go_Base64
begin

text \<open>
  Package \<open>auth\<close> (\<open>auth.go\<close>, \<open>google_selector.go\<close>): the file of credential digests, bearer
  verification and the rotation of the key.  PBKDF2 and SHA-256 are the parameters of
  \<open>auth_lib\<close>; an operation gets what the environment decides about its system calls and its
  random bytes.  The mutex makes operations sequential.
\<close>

section \<open>Data\<close>

record auth_lib =
  al_pbkdf2 :: "string \<Rightarrow> string \<Rightarrow> string option"   \<comment> \<open>\<open>pbkdf2.Key(sha256.New, secret, salt, 200000, 32)\<close>\<close>
  al_sha256 :: "string \<Rightarrow> string"

datatype auth_error =
    InvalidCredential | MalformedBearer | StateInvalid | RotationPending | NoPendingKey
  | AuthIO string durable_error | DeriveFailed string

datatype key_kind = ActiveKey | PendingKey

definition PBKDF2Rounds :: int where "PBKDF2Rounds = 200000"
definition MaxCredentialBytes :: nat where "MaxCredentialBytes = 256"
definition maxStateBytes :: int where "maxStateBytes = 16384"
definition derivedKeyBytes :: nat where "derivedKeyBytes = 32"
definition saltBytes :: nat where "saltBytes = 16"

record credential =
  cr_id :: string
  cr_salt :: string
  cr_digest :: string
  cr_rounds :: int

record auth_state =
  as_version :: int
  as_active :: credential
  as_pending :: "credential option"

record manager =
  mg_root :: root
  mg_name :: string

record rotation_state =
  rs_active :: string
  rs_pending :: string

definition filepathBase :: "string \<Rightarrow> string" where
  "filepathBase name =
     (if contains_any name [CHR ''/'', CHR 0x5C] \<or> name = ''.'' \<or> name = ''..'' then [] else name)"

text \<open>\<open>random\<close> says whether a reader was given.\<close>

definition NewManager :: "root option \<Rightarrow> string \<Rightarrow> bool \<Rightarrow> auth_error + manager" where
  "NewManager rt name random =
     (case rt of
        None \<Rightarrow> Inl StateInvalid
      | Some r \<Rightarrow>
          if \<not> random \<or> name = [] \<or> name \<noteq> filepathBase name then Inl StateInvalid
          else Inr \<lparr>mg_root = r, mg_name = name\<rparr>)"

section \<open>Secrets\<close>

definition validateSecret :: "string \<Rightarrow> auth_error option" where
  "validateSecret secret =
     (if length secret < 16 \<or> MaxCredentialBytes < length secret \<or> \<not> valid_utf8 secret \<or>
         trim_space secret \<noteq> secret \<or> contains_any secret [CHR 0x0D, CHR 0x0A, CHR 0x09, CHR '' '']
      then Some InvalidCredential
      else if list_all (\<lambda>r. \<not> (r < 33 \<or> 126 < r)) (runes secret) then None
      else Some InvalidCredential)"

definition parseBearer :: "string \<Rightarrow> auth_error + string" where
  "parseBearer header =
     (if length ''Bearer '' + MaxCredentialBytes < length header \<or> \<not> has_prefix ''Bearer '' header
      then Inl MalformedBearer
      else
        let secret = trim_prefix ''Bearer '' header in
        if validateSecret secret \<noteq> None \<or> contains '' '' secret then Inl MalformedBearer
        else Inr secret)"

definition validateCredential :: "credential \<Rightarrow> auth_error option" where
  "validateCredential v =
     (if cr_rounds v \<noteq> PBKDF2Rounds \<or> cr_id v = [] then Some StateInvalid
      else (case b64_decode std_alphabet (cr_salt v) of
         None \<Rightarrow> Some StateInvalid
       | Some salt \<Rightarrow>
           if length salt \<noteq> saltBytes then Some StateInvalid
           else (case b64_decode std_alphabet (cr_digest v) of
              None \<Rightarrow> Some StateInvalid
            | Some digest \<Rightarrow> if length digest \<noteq> derivedKeyBytes then Some StateInvalid else None)))"

text \<open>The decoders return the bytes before an error, here none.\<close>

definition std_decoded :: "string \<Rightarrow> string" where
  "std_decoded t = (case b64_decode std_alphabet t of None \<Rightarrow> [] | Some b \<Rightarrow> b)"

definition auth_verify :: "auth_lib \<Rightarrow> string \<Rightarrow> credential \<Rightarrow> auth_error + bool" where
  "auth_verify L secret v =
     (case validateCredential v of
        Some e \<Rightarrow> Inl e
      | None \<Rightarrow>
          (case al_pbkdf2 L secret (std_decoded (cr_salt v)) of
             None \<Rightarrow> Inl (DeriveFailed ''pbkdf2'')
           | Some got \<Rightarrow> Inr (got = std_decoded (cr_digest v))))"

text \<open>\<open>random\<close> is what the reader still yields; \<open>io.ReadFull\<close> needs 16 bytes of it.\<close>

definition auth_derive :: "auth_lib \<Rightarrow> string \<Rightarrow> string \<Rightarrow> auth_error + credential" where
  "auth_derive L random secret =
     (if length random < saltBytes then Inl (DeriveFailed ''random'')
      else
        let salt = take saltBytes random in
        (case al_pbkdf2 L secret salt of
           None \<Rightarrow> Inl (DeriveFailed ''pbkdf2'')
         | Some digest \<Rightarrow>
             Inr \<lparr>cr_id = b64_encode url_alphabet (take 9 (al_sha256 L (salt @ digest))),
                  cr_salt = b64_encode std_alphabet salt,
                  cr_digest = b64_encode std_alphabet digest,
                  cr_rounds = PBKDF2Rounds\<rparr>))"

section \<open>The file\<close>

definition credential_json :: "credential \<Rightarrow> json" where
  "credential_json v = JObj [(''id'', JStr (cr_id v)), (''salt'', JStr (cr_salt v)),
     (''digest'', JStr (cr_digest v)), (''rounds'', JNum (show_int (cr_rounds v)))]"

definition state_json :: "auth_state \<Rightarrow> json" where
  "state_json st = JObj ([(''version'', JNum (show_int (as_version st))),
      (''active'', credential_json (as_active st))] @
      (case as_pending st of None \<Rightarrow> [] | Some p \<Rightarrow> [(''pending'', credential_json p)]))"

definition state_text :: "auth_state \<Rightarrow> string" where
  "state_text st = json_print True (state_json st)"

definition zero_credential :: credential where
  "zero_credential = \<lparr>cr_id = [], cr_salt = [], cr_digest = [], cr_rounds = 0\<rparr>"

definition credential_specs :: "(string \<times> credential setter) list" where
  "credential_specs = [(''id'', set_string (\<lambda>v c. c\<lparr>cr_id := v\<rparr>)), (''salt'', set_string (\<lambda>v c. c\<lparr>cr_salt := v\<rparr>)),
     (''digest'', set_string (\<lambda>v c. c\<lparr>cr_digest := v\<rparr>)), (''rounds'', set_int (\<lambda>n c. c\<lparr>cr_rounds := n\<rparr>))]"

definition set_active :: "auth_state setter" where
  "set_active v st = map_option (\<lambda>c. st\<lparr>as_active := c\<rparr>) (decode_struct True credential_specs v (as_active st))"

text \<open>A pointer: \<open>null\<close> makes it nil, another value is decoded into what it points to or into a new
  zero value.\<close>

definition set_pending :: "auth_state setter" where
  "set_pending v st =
     (if v = JNull then Some (st\<lparr>as_pending := None\<rparr>)
      else map_option (\<lambda>c. st\<lparr>as_pending := Some c\<rparr>)
        (decode_struct True credential_specs v
           (case as_pending st of None \<Rightarrow> zero_credential | Some c \<Rightarrow> c)))"

definition state_specs :: "(string \<times> auth_state setter) list" where
  "state_specs = [(''version'', set_int (\<lambda>n st. st\<lparr>as_version := n\<rparr>)), (''active'', set_active),
     (''pending'', set_pending)]"

definition zero_state :: auth_state where
  "zero_state = \<lparr>as_version = 0, as_active = zero_credential, as_pending = None\<rparr>"

text \<open>\<open>rejectDuplicateJSONKeys\<close>\<close>

definition rejectDuplicateJSONKeys :: "string \<Rightarrow> json option" where
  "rejectDuplicateJSONKeys payload =
     (case json_single payload of None \<Rightarrow> None | Some v \<Rightarrow> if no_duplicates v then Some v else None)"

text \<open>From the bytes of the file to the state.\<close>

definition decode_state :: "string \<Rightarrow> auth_error + auth_state" where
  "decode_state payload =
     (case rejectDuplicateJSONKeys payload of
        None \<Rightarrow> Inl StateInvalid
      | Some v \<Rightarrow>
          (case decode_struct True state_specs v zero_state of
             None \<Rightarrow> Inl StateInvalid
           | Some current \<Rightarrow>
               if as_version current \<noteq> 1 \<or> validateCredential (as_active current) \<noteq> None
               then Inl StateInvalid
               else if (case as_pending current of None \<Rightarrow> False | Some p \<Rightarrow> validateCredential p \<noteq> None)
               then Inl StateInvalid
               else Inr current))"

definition loadLocked :: "manager \<Rightarrow> faults \<Rightarrow> fs \<Rightarrow> auth_error + auth_state" where
  "loadLocked m ft s =
     (case durable_Read (mg_root m) ft (\<lambda>_. s) (mg_name m) maxStateBytes of
        Inl e \<Rightarrow> Inl (AuthIO ''read authentication state'' e)
      | Inr payload \<Rightarrow> decode_state payload)"

text \<open>The result of an operation: its error, the directory after it and the states in between.\<close>

record auth_result =
  ar_error :: "auth_error option"
  ar_fs :: fs
  ar_trace :: "fs list"

definition unchanged :: "auth_error option \<Rightarrow> fs \<Rightarrow> auth_result" where
  "unchanged e s = \<lparr>ar_error = e, ar_fs = s, ar_trace = [s]\<rparr>"

definition saveLocked :: "manager \<Rightarrow> faults \<Rightarrow> fs \<Rightarrow> auth_state \<Rightarrow> auth_result" where
  "saveLocked m ft s current =
     (let payload = state_text current in
      if maxStateBytes < int (length payload) then unchanged (Some StateInvalid) s
      else
        let oc = durable_WriteAtomic (mg_root m) ft s (mg_name m) payload in
        \<lparr>ar_error = map_option (AuthIO ''write authentication state'') (oc_error oc),
         ar_fs = oc_fs oc, ar_trace = oc_trace oc\<rparr>)"

section \<open>Operations\<close>

record auth_env =
  ae_exists :: faults
  ae_read :: faults
  ae_write :: faults
  ae_random :: string

definition RotationState :: "manager \<Rightarrow> auth_env \<Rightarrow> fs \<Rightarrow> auth_error + rotation_state" where
  "RotationState m env s =
     (case loadLocked m (ae_read env) s of
        Inl e \<Rightarrow> Inl e
      | Inr current \<Rightarrow>
          Inr \<lparr>rs_active = cr_id (as_active current),
               rs_pending = (case as_pending current of None \<Rightarrow> [] | Some p \<Rightarrow> cr_id p)\<rparr>)"

definition auth_Initialize :: "auth_lib \<Rightarrow> manager \<Rightarrow> auth_env \<Rightarrow> string \<Rightarrow> fs \<Rightarrow> auth_result" where
  "auth_Initialize L m env secret s =
     (case validateSecret secret of
        Some e \<Rightarrow> unchanged (Some e) s
      | None \<Rightarrow>
          (case durable_Exists (mg_root m) (ae_exists env) s (mg_name m) of
             Inl e \<Rightarrow> unchanged (Some (AuthIO ''inspect authentication state'' e)) s
           | Inr True \<Rightarrow>
               (case loadLocked m (ae_read env) s of
                  Inl e \<Rightarrow> unchanged (Some e) s
                | Inr current \<Rightarrow>
                    (case auth_verify L secret (as_active current) of
                       Inr True \<Rightarrow> unchanged None s
                     | _ \<Rightarrow> unchanged (Some InvalidCredential) s))
           | Inr False \<Rightarrow>
               (case auth_derive L (ae_random env) secret of
                  Inl e \<Rightarrow> unchanged (Some e) s
                | Inr active \<Rightarrow>
                    saveLocked m (ae_write env) s
                      \<lparr>as_version = 1, as_active = active, as_pending = None\<rparr>)))"

definition VerifyBearer :: "auth_lib \<Rightarrow> manager \<Rightarrow> auth_env \<Rightarrow> string \<Rightarrow> fs \<Rightarrow> auth_error + key_kind" where
  "VerifyBearer L m env header s =
     (case parseBearer header of
        Inl e \<Rightarrow> Inl e
      | Inr secret \<Rightarrow>
          (case loadLocked m (ae_read env) s of
             Inl e \<Rightarrow> Inl e
           | Inr current \<Rightarrow>
               let active = auth_verify L secret (as_active current);
                   pending = (case as_pending current of
                      Some p \<Rightarrow> auth_verify L secret p
                    | None \<Rightarrow>
                        (case al_pbkdf2 L secret (replicate saltBytes (CHR 0x00)) of
                           None \<Rightarrow> Inl (DeriveFailed ''pbkdf2'') | Some _ \<Rightarrow> Inr False))
               in (case (active, pending) of
                     (Inr a, Inr p) \<Rightarrow>
                       if a then Inr ActiveKey else if p then Inr PendingKey else Inl InvalidCredential
                   | _ \<Rightarrow> Inl StateInvalid)))"

definition BeginRotation :: "auth_lib \<Rightarrow> manager \<Rightarrow> auth_env \<Rightarrow> string \<Rightarrow> fs \<Rightarrow> auth_result" where
  "BeginRotation L m env secret s =
     (case validateSecret secret of
        Some e \<Rightarrow> unchanged (Some e) s
      | None \<Rightarrow>
          (case loadLocked m (ae_read env) s of
             Inl e \<Rightarrow> unchanged (Some e) s
           | Inr current \<Rightarrow>
               if as_pending current \<noteq> None then unchanged (Some RotationPending) s
               else (case auth_derive L (ae_random env) secret of
                  Inl e \<Rightarrow> unchanged (Some e) s
                | Inr pending \<Rightarrow> saveLocked m (ae_write env) s (current\<lparr>as_pending := Some pending\<rparr>))))"

definition PromotePending :: "manager \<Rightarrow> auth_env \<Rightarrow> fs \<Rightarrow> auth_result" where
  "PromotePending m env s =
     (case loadLocked m (ae_read env) s of
        Inl e \<Rightarrow> unchanged (Some e) s
      | Inr current \<Rightarrow>
          (case as_pending current of
             None \<Rightarrow> unchanged (Some NoPendingKey) s
           | Some p \<Rightarrow> saveLocked m (ae_write env) s (current\<lparr>as_active := p, as_pending := None\<rparr>)))"

section \<open>Google carrier documents\<close>

definition GoogleCloudPlatformScope :: string where
  "GoogleCloudPlatformScope = ''https://www.googleapis.com/auth/cloud-platform''"

definition GoogleADCType :: string where "GoogleADCType = ''google_adc''"

definition MaxGoogleCarrierDocumentBytes :: nat where "MaxGoogleCarrierDocumentBytes = 4096"

text \<open>A selector is its scope, a carrier document its type and its selector; \<open>None\<close> is
  \<open>ErrGoogleScopeContract\<close>.\<close>

definition NewGoogleSelector :: "string list \<Rightarrow> string option" where
  "NewGoogleSelector scopes =
     (if length scopes \<noteq> 1 \<or> scopes ! 0 \<noteq> GoogleCloudPlatformScope then None
      else Some GoogleCloudPlatformScope)"

definition selector_Scopes :: "string \<Rightarrow> string list" where
  "selector_Scopes scope = (if scope \<noteq> GoogleCloudPlatformScope then [] else [GoogleCloudPlatformScope])"

text \<open>The scopes are a slice: its backing array and its length.\<close>

record carrier_wire =
  gw_type :: string
  gw_backing :: "string list"
  gw_len :: nat

definition set_scopes :: "carrier_wire setter" where
  "set_scopes v w =
     (case v of
        JNull \<Rightarrow> Some (w\<lparr>gw_backing := [], gw_len := 0\<rparr>)
      | JArr [] \<Rightarrow> Some (w\<lparr>gw_backing := [], gw_len := 0\<rparr>)
      | JArr vs \<Rightarrow> map_option (\<lambda>ss. w\<lparr>gw_backing := ss, gw_len := length vs\<rparr>)
                    (decode_strings vs (gw_backing w))
      | _ \<Rightarrow> None)"

definition carrier_specs :: "(string \<times> carrier_wire setter) list" where
  "carrier_specs = [(''type'', set_string (\<lambda>v w. w\<lparr>gw_type := v\<rparr>)), (''scopes'', set_scopes)]"

definition ParseGoogleCarrierDocument :: "string \<Rightarrow> (string \<times> string) option" where
  "ParseGoogleCarrierDocument payload =
     (if payload = [] \<or> MaxGoogleCarrierDocumentBytes < length payload then None
      else (case rejectDuplicateJSONKeys payload of
         None \<Rightarrow> None
       | Some v \<Rightarrow>
           (case decode_struct True carrier_specs v \<lparr>gw_type = [], gw_backing = [], gw_len = 0\<rparr> of
              None \<Rightarrow> None
            | Some wire \<Rightarrow>
                if gw_type wire \<noteq> GoogleADCType then None
                else map_option (\<lambda>selector. (GoogleADCType, selector)) (NewGoogleSelector (take (gw_len wire) (gw_backing wire))))))"

end
