(* ===== verification/Auth_Rotation.thy ===== *)
theory Auth_Rotation
  imports Auth
begin

text \<open>
  What package \<open>auth\<close> guarantees: the file holds what was saved, a derived credential verifies its
  secret, the rotation refines a two-state machine at every instant, crashes included, and
  \<open>VerifyBearer\<close> accepts exactly the stored keys.
\<close>

section \<open>States that the manager writes\<close>

definition cred_ok :: "credential \<Rightarrow> bool" where
  "cred_ok c \<longleftrightarrow> validateCredential c = None \<and>
     list_all plain_char (cr_id c) \<and> list_all plain_char (cr_salt c) \<and> list_all plain_char (cr_digest c) \<and>
     length (cr_id c) \<le> 64 \<and> length (cr_salt c) \<le> 64 \<and> length (cr_digest c) \<le> 64"

definition state_ok :: "auth_state \<Rightarrow> bool" where
  "state_ok st \<longleftrightarrow> as_version st = 1 \<and> cred_ok (as_active st) \<and>
     (case as_pending st of None \<Rightarrow> True | Some p \<Rightarrow> cred_ok p)"

lemma cred_rounds: "cred_ok c \<Longrightarrow> cr_rounds c = 200000"
  by (auto simp: cred_ok_def validateCredential_def PBKDF2Rounds_def split: if_splits)

lemma show_rounds: "length (show_int 200000) \<le> 6" "length (show_int 1) \<le> 6"
  using length_show_nat [of 200000 5] length_show_nat [of 1 5] by (simp_all add: show_int_def)

lemma field_names_plain:
  "list_all (list_all plain_char) [''version'', ''active'', ''pending'', ''id'', ''salt'', ''digest'', ''rounds'']"
  by (simp add: plain_eval)

lemma credential_json_plain: "cred_ok c \<Longrightarrow> json_plain (credential_json c)"
  using field_names_plain plain_number_show
  by (simp add: credential_json_def cred_rounds show_int_def) (simp add: cred_ok_def)

lemma state_json_plain: "state_ok st \<Longrightarrow> json_plain (state_json st)"
  using field_names_plain plain_number_show credential_json_plain
  by (auto simp: state_json_def state_ok_def show_int_def split: option.splits)

lemma state_json_nesting: "nesting (state_json st) \<le> max_nesting"
  by (cases "as_pending st") (simp_all add: state_json_def credential_json_def max_nesting_def)

lemma state_json_keys: "no_duplicates (state_json st)"
  by (auto simp: state_json_def credential_json_def split: option.splits)

lemma field_folds:
  "fold_key ''version'' = [86, 69, 82, 83, 73, 79, 78]" "fold_key ''active'' = [65, 67, 84, 73, 86, 69]"
  "fold_key ''pending'' = [80, 69, 78, 68, 73, 78, 71]" "fold_key ''id'' = [73, 68]"
  "fold_key ''salt'' = [83, 65, 76, 84]" "fold_key ''digest'' = [68, 73, 71, 69, 83, 84]"
  "fold_key ''rounds'' = [82, 79, 85, 78, 68, 83]"
  by (simp_all add: fold_key_plain plain_eval fold_rune_def)

lemma json_int_rounds: "json_int (show_int 200000) = Some 200000" "json_int (show_int 1) = Some 1"
  using json_int_show [of 200000] json_int_show [of 1] by (simp_all add: show_int_def)

lemma decode_credential:
  assumes "cred_ok c"
  shows "decode_struct True credential_specs (credential_json c) x = Some c"
  using assms cred_rounds [OF assms]
  by (simp add: decode_struct_def credential_json_def credential_specs_def field_folds set_string_def
      set_int_def json_int_rounds)

lemma decode_object: "decode_struct strict specs (JObj kvs) x = decode_members strict specs kvs x"
  by (simp add: decode_struct_def)

lemma decode_state_text:
  assumes "state_ok st"
  shows "decode_state (state_text st) = Inr st"
proof -
  have j: "rejectDuplicateJSONKeys (state_text st) = Some (state_json st)"
    using json_single_print [OF state_json_plain [OF assms] state_json_nesting]
    by (simp add: rejectDuplicateJSONKeys_def state_text_def state_json_keys)
  have ok: "as_version st = 1" "cred_ok (as_active st)" "\<And>p. as_pending st = Some p \<Longrightarrow> cred_ok p"
    using assms by (auto simp: state_ok_def)
  have not_null: "credential_json c \<noteq> JNull" for c by (simp add: credential_json_def)
  have "decode_struct True state_specs (state_json st) zero_state = Some st"
    using ok not_null
    by (cases "as_pending st")
       (simp_all add: decode_object state_json_def state_specs_def field_folds
         set_int_def json_int_rounds set_active_def set_pending_def decode_credential zero_state_def)
  with j ok show ?thesis
    by (cases "as_pending st") (simp_all add: decode_state_def cred_ok_def)
qed

lemma credential_text_length:
  assumes "cred_ok c"
  shows "length (json_print True (credential_json c)) \<le> 300"
proof -
  have "length (cr_id c) \<le> 64" "length (cr_salt c) \<le> 64" "length (cr_digest c) \<le> 64"
    "list_all plain_char (cr_id c)" "list_all plain_char (cr_salt c)" "list_all plain_char (cr_digest c)"
    using assms by (simp_all add: cred_ok_def)
  with cred_rounds [OF assms] field_names_plain show_rounds(1) show ?thesis
    by (simp add: credential_json_def length_plain)
qed

lemma state_text_length:
  assumes "state_ok st"
  shows "\<not> maxStateBytes < int (length (state_text st))"
proof -
  have ok: "as_version st = 1" "cred_ok (as_active st)" "\<And>p. as_pending st = Some p \<Longrightarrow> cred_ok p"
    using assms by (auto simp: state_ok_def)
  have "length (state_text st) \<le> 1000"
    using ok credential_text_length [OF ok(2)] credential_text_length [OF ok(3)] field_names_plain
      show_rounds(2)
    by (cases "as_pending st") (fastforce simp: state_text_def state_json_def length_plain)+
  then show ?thesis by (simp add: maxStateBytes_def)
qed

section \<open>Derived credentials\<close>

text \<open>The lengths that \<open>pbkdf2.Key\<close> and SHA-256 promise.\<close>

definition kdf_ok :: "auth_lib \<Rightarrow> bool" where
  "kdf_ok L \<longleftrightarrow> (\<forall>secret salt d. al_pbkdf2 L secret salt = Some d \<longrightarrow> length d = 32) \<and>
     (\<forall>x. length (al_sha256 L x) = 32)"

lemma auth_derive_Inr:
  assumes "auth_derive L random secret = Inr c"
  obtains salt digest where "length salt = 16" "al_pbkdf2 L secret salt = Some digest"
    "c = \<lparr>cr_id = b64_encode url_alphabet (take 9 (al_sha256 L (salt @ digest))),
          cr_salt = b64_encode std_alphabet salt, cr_digest = b64_encode std_alphabet digest,
          cr_rounds = PBKDF2Rounds\<rparr>"
proof -
  have n: "\<not> length random < 16" using assms by (auto simp: auth_derive_def saltBytes_def split: if_splits)
  moreover obtain digest where "al_pbkdf2 L secret (take 16 random) = Some digest"
    using assms n by (cases "al_pbkdf2 L secret (take 16 random)") (auto simp: auth_derive_def saltBytes_def)
  ultimately show thesis
    using assms that [of "take 16 random" digest] by (simp add: auth_derive_def saltBytes_def Let_def)
qed

lemma derive_ok:
  assumes "kdf_ok L" "auth_derive L random secret = Inr c"
  shows "cred_ok c"
  using assms(2)
proof (rule auth_derive_Inr)
  fix salt digest
  assume salt: "length salt = 16" and digest: "al_pbkdf2 L secret salt = Some digest"
    and c: "c = \<lparr>cr_id = b64_encode url_alphabet (take 9 (al_sha256 L (salt @ digest))),
          cr_salt = b64_encode std_alphabet salt, cr_digest = b64_encode std_alphabet digest,
          cr_rounds = PBKDF2Rounds\<rparr>"
  have d: "length digest = 32" and i: "length (al_sha256 L (salt @ digest)) = 32"
    using assms(1) digest by (auto simp: kdf_ok_def)
  then have "take 9 (al_sha256 L (salt @ digest)) \<noteq> []" by auto
  moreover have "length (b64_encode url_alphabet (take 9 (al_sha256 L (salt @ digest)))) \<le> 64"
    "length (b64_encode std_alphabet salt) \<le> 64" "length (b64_encode std_alphabet digest) \<le> 64"
    using b64_length [of url_alphabet "take 9 (al_sha256 L (salt @ digest))"]
      b64_length [of std_alphabet salt] b64_length [of std_alphabet digest] salt d i by simp_all
  ultimately show "cred_ok c"
    using salt d by (simp add: cred_ok_def c validateCredential_def b64_nonempty alphabets_ok
      b64_round_trip b64_plain saltBytes_def derivedKeyBytes_def)
qed

text \<open>The secret of a credential.\<close>

definition key_matches :: "auth_lib \<Rightarrow> string \<Rightarrow> credential \<Rightarrow> bool" where
  "key_matches L secret c \<longleftrightarrow>
     al_pbkdf2 L secret (std_decoded (cr_salt c)) = Some (std_decoded (cr_digest c))"

lemma derive_matches: "auth_derive L random secret = Inr c \<Longrightarrow> key_matches L secret c"
  by (erule auth_derive_Inr)
     (simp add: key_matches_def std_decoded_def b64_round_trip alphabets_ok)

section \<open>Reading and writing\<close>

lemma Read_content: "durable_Read r ft (\<lambda>_. s) name n = Inr p \<Longrightarrow> fs_content s name = Some p"
  by (auto simp: durable_Read_def fs_content_def fs_lookup_def stat_at_Some
      split: if_splits option.splits)

lemma load_content:
  assumes "loadLocked m ft s = Inr st'" "fs_content s (mg_name m) = Some (state_text st)" "state_ok st"
  shows "st' = st"
  using assms Read_content decode_state_text
  by (fastforce simp: loadLocked_def split: sum.splits)

text \<open>What a save may leave behind at any instant.\<close>

definition saves :: "string \<Rightarrow> fs \<Rightarrow> auth_state \<Rightarrow> auth_result \<Rightarrow> bool" where
  "saves name s st res \<longleftrightarrow>
     (\<forall>t. t \<in> set (ar_fs res # ar_trace res) \<longrightarrow>
        durable_views name t \<subseteq> insert (Some (state_text st)) (durable_views name s) \<and>
        fs_content t name \<in> {fs_content s name, Some (state_text st)}) \<and>
     (ar_error res = None \<longrightarrow> durable_views name (ar_fs res) = {Some (state_text st)}) \<and> fs_wf (ar_fs res)"

lemma saveLocked_saves:
  assumes "fs_wf s" "state_ok st"
  shows "saves (mg_name m) s st (saveLocked m ft s st)"
  using WriteAtomic_replaced [OF assms(1), of "mg_name m" "state_text st" "mg_root m" ft]
  by (auto simp: saves_def saveLocked_def state_text_length [OF assms(2)] Let_def replaced_def
      durable_views_def list_all_iff)

lemma unchanged_saves: "fs_wf s \<Longrightarrow> e \<noteq> None \<Longrightarrow> saves name s st (unchanged e s)"
  by (auto simp: saves_def unchanged_def)

section \<open>Bearer headers\<close>

lemma contains_char: "contains [c] s \<longleftrightarrow> c \<in> set s"
  by (induction s) (auto simp: has_prefix_def)

lemma parseBearer_Inr:
  "parseBearer header = Inr secret \<longleftrightarrow> header = ''Bearer '' @ secret \<and> validateSecret secret = None"
proof -
  have len: "length ''Bearer '' = 7" by simp
  have v: "validateSecret secret = None \<Longrightarrow> \<not> contains '' '' secret \<and> length secret \<le> MaxCredentialBytes"
    by (auto simp: validateSecret_def contains_char contains_any_def split: if_splits)
  have split: "has_prefix ''Bearer '' header \<Longrightarrow> header = ''Bearer '' @ drop 7 header"
    unfolding has_prefix_def len by (metis append_take_drop_id)
  show ?thesis
  proof
    assume "parseBearer header = Inr secret"
    then have p: "has_prefix ''Bearer '' header" "validateSecret (trim_prefix ''Bearer '' header) = None"
      "secret = trim_prefix ''Bearer '' header"
      by (auto simp: parseBearer_def Let_def split: if_splits)
    then have "trim_prefix ''Bearer '' header = drop 7 header" unfolding trim_prefix_def len by simp
    with p split show "header = ''Bearer '' @ secret \<and> validateSecret secret = None" by metis
  next
    assume h: "header = ''Bearer '' @ secret \<and> validateSecret secret = None"
    then show "parseBearer header = Inr secret"
      using v by (simp add: parseBearer_def has_prefix_def trim_prefix_def)
  qed
qed

lemma load_valid:
  assumes "loadLocked m ft s = Inr st"
  shows "validateCredential (as_active st) = None" "as_pending st = Some p \<Longrightarrow> validateCredential p = None"
  using assms
  by (auto simp: loadLocked_def decode_state_def split: sum.splits option.splits if_splits)

lemma verify_valid:
  "validateCredential c = None \<Longrightarrow> al_pbkdf2 L secret (std_decoded (cr_salt c)) \<noteq> None \<Longrightarrow>
   auth_verify L secret c = Inr (key_matches L secret c)"
  by (auto simp: auth_verify_def key_matches_def)

lemma plain_secret:
  assumes "16 \<le> length s" "length s \<le> 256" "list_all plain_char s"
  shows "validateSecret s = None"
proof -
  have "s \<noteq> []" using assms(1) by auto
  then have "plain_char (hd s)" "plain_char (last s)" using assms(3) by (simp_all add: list_all_iff)
  then have "trim_space s = s"
    using \<open>s \<noteq> []\<close> by (intro trim_space_solid) (simp_all add: solid_def plain_char_def)
  moreover have "\<not> contains_any s [CHR 0x0D, CHR 0x0A, CHR 0x09, CHR '' '']"
    using assms(3) by (auto simp: contains_any_def list_all_iff plain_eval)
  moreover have "valid_utf8 s" "list_all (\<lambda>r. \<not> (r < 33 \<or> 126 < r)) (runes s)"
    using assms(3)
    by (auto simp: valid_utf8_def runes_def plain_steps list_all_iff plain_char_def rune_error_def)
  ultimately show ?thesis using assms(1,2) by (simp add: validateSecret_def MaxCredentialBytes_def)
qed

section \<open>The rotation as a machine\<close>

datatype rotation = Stable credential | Rotating credential credential

definition rotation_of :: "auth_state \<Rightarrow> rotation" where
  "rotation_of st = (case as_pending st of None \<Rightarrow> Stable (as_active st) | Some p \<Rightarrow> Rotating (as_active st) p)"

datatype rotation_op = Begin string | Promote

inductive rotation_step :: "auth_lib \<Rightarrow> rotation_op \<Rightarrow> rotation \<Rightarrow> rotation \<Rightarrow> bool" for L where
  begins: "validateSecret secret = None \<Longrightarrow> key_matches L secret p \<Longrightarrow>
    rotation_step L (Begin secret) (Stable a) (Rotating a p)"
| promotes: "rotation_step L Promote (Rotating a p) (Stable p)"

definition rotate :: "auth_lib \<Rightarrow> manager \<Rightarrow> auth_env \<Rightarrow> rotation_op \<Rightarrow> fs \<Rightarrow> auth_result" where
  "rotate L m env op s =
     (case op of Begin secret \<Rightarrow> BeginRotation L m env secret s | Promote \<Rightarrow> PromotePending m env s)"

text \<open>An operation changes nothing, or saves the next state of the machine.\<close>

lemma rotate_saves:
  assumes "kdf_ok L" "fs_content s (mg_name m) = Some (state_text st)" "state_ok st"
  shows "(\<exists>e. rotate L m env op s = unchanged (Some e) s) \<or>
    (\<exists>st'. rotate L m env op s = saveLocked m (ae_write env) s st' \<and> state_ok st' \<and>
       rotation_step L op (rotation_of st) (rotation_of st'))"
proof (cases "loadLocked m (ae_read env) s")
  case (Inl e)
  then show ?thesis
    by (cases op) (auto simp: rotate_def BeginRotation_def PromotePending_def split: option.splits)
next
  case (Inr cur)
  then have cur: "loadLocked m (ae_read env) s = Inr st" using load_content [OF _ assms(2,3)] by blast
  show ?thesis
  proof (cases op)
    case (Begin secret)
    show ?thesis
    proof (cases "validateSecret secret = None \<and> as_pending st = None \<and> (\<exists>p. auth_derive L (ae_random env) secret = Inr p)")
      case True
      then obtain p where p: "auth_derive L (ae_random env) secret = Inr p" by blast
      have "rotate L m env op s = saveLocked m (ae_write env) s (st\<lparr>as_pending := Some p\<rparr>)"
        using True Begin cur p by (simp add: rotate_def BeginRotation_def)
      moreover have "state_ok (st\<lparr>as_pending := Some p\<rparr>)"
        using assms(3) derive_ok [OF assms(1) p] by (simp add: state_ok_def)
      moreover have "rotation_step L op (rotation_of st) (rotation_of (st\<lparr>as_pending := Some p\<rparr>))"
        using True Begin derive_matches [OF p] by (auto simp: rotation_of_def intro: begins)
      ultimately show ?thesis by blast
    next
      case False
      then show ?thesis
        using Begin cur by (cases "auth_derive L (ae_random env) secret")
          (auto simp: rotate_def BeginRotation_def split: option.splits)
    qed
  next
    case Promote
    show ?thesis
    proof (cases "as_pending st")
      case None
      then show ?thesis using Promote cur by (auto simp: rotate_def PromotePending_def)
    next
      case (Some p)
      have "rotate L m env op s = saveLocked m (ae_write env) s (st\<lparr>as_active := p, as_pending := None\<rparr>)"
        using Promote cur Some by (simp add: rotate_def PromotePending_def)
      moreover have "state_ok (st\<lparr>as_active := p, as_pending := None\<rparr>)"
        using assms(3) Some by (simp add: state_ok_def)
      moreover have "rotation_step L op (rotation_of st) (rotation_of (st\<lparr>as_active := p, as_pending := None\<rparr>))"
        using Promote Some by (simp add: rotation_of_def promotes)
      ultimately show ?thesis by blast
    qed
  qed
qed

section \<open>Properties\<close>

text \<open>C6: \<open>BeginRotation\<close> and \<open>PromotePending\<close> refine a machine with the states \<open>Stable\<close> and \<open>Rotating\<close>.
  Whatever system calls fail and wherever the process crashes, the file holds at every
  instant, and after every crash, the state before the call or one next state \<open>st'\<close> of the machine, whole and
  readable; a call that reports success has made the step durable, and the new pending key
  verifies the secret that was given.  So a rotation never locks out the active key, and never leaves
  a state that the manager refuses to read.\<close>

theorem rotation_refines:
  assumes "kdf_ok L" "fs_wf s" "fs_content s (mg_name m) = Some (state_text st)" "state_ok st"
    and "res = rotate L m env op s"
  shows "\<exists>st'. (st' = st \<or> rotation_step L op (rotation_of st) (rotation_of st')) \<and>
    decode_state (state_text st) = Inr st \<and> decode_state (state_text st') = Inr st' \<and>
    (\<forall>t. t \<in> set (ar_fs res # ar_trace res) \<longrightarrow>
       fs_content t (mg_name m) \<in> {Some (state_text st), Some (state_text st')} \<and>
       (\<forall>written. fs_content (fs_crash written t) (mg_name m)
          \<in> insert (Some (state_text st')) (durable_views (mg_name m) s))) \<and>
    (ar_error res = None \<longrightarrow> rotation_step L op (rotation_of st) (rotation_of st') \<and>
       durable_views (mg_name m) (ar_fs res) = {Some (state_text st')})"
proof -
  have crash: "fs_content (fs_crash w t) n \<in> durable_views n t" for w t n
    using fs_crash_content by (simp add: durable_views_def)
  obtain st' where ok: "state_ok st'" and sv: "saves (mg_name m) s st' res"
    and step: "st' = st \<or> rotation_step L op (rotation_of st) (rotation_of st')"
    and ends: "ar_error res = None \<Longrightarrow> rotation_step L op (rotation_of st) (rotation_of st')"
  proof (rule disjE [OF rotate_saves [OF assms(1,3,4), of env op]])
    assume "\<exists>e. rotate L m env op s = unchanged (Some e) s"
    then obtain e where e: "res = unchanged (Some e) s" using assms(5) by blast
    show thesis
      by (rule that [of st]) (use e assms(4) unchanged_saves [OF assms(2)] in \<open>auto simp: unchanged_def\<close>)
  next
    assume "\<exists>st'. rotate L m env op s = saveLocked m (ae_write env) s st' \<and> state_ok st' \<and>
       rotation_step L op (rotation_of st) (rotation_of st')"
    then show thesis using that saveLocked_saves [OF assms(2)] assms(5) by metis
  qed
  have inst: "fs_content t (mg_name m) \<in> {Some (state_text st), Some (state_text st')}"
    "fs_content (fs_crash w t) (mg_name m) \<in> insert (Some (state_text st')) (durable_views (mg_name m) s)"
    if t: "t \<in> set (ar_fs res # ar_trace res)" for t w
  proof -
    have views: "durable_views (mg_name m) t \<subseteq> insert (Some (state_text st')) (durable_views (mg_name m) s)"
      and now: "fs_content t (mg_name m) \<in> {fs_content s (mg_name m), Some (state_text st')}"
      using sv t unfolding saves_def by blast+
    from now show "fs_content t (mg_name m) \<in> {Some (state_text st), Some (state_text st')}"
      by (simp add: assms(3))
    show "fs_content (fs_crash w t) (mg_name m)
        \<in> insert (Some (state_text st')) (durable_views (mg_name m) s)"
      by (rule subsetD [OF views crash])
  qed
  have "ar_error res = None \<Longrightarrow> durable_views (mg_name m) (ar_fs res) = {Some (state_text st')}"
    using sv by (simp add: saves_def)
  with ends step inst show ?thesis
    by (intro exI [of _ st'] conjI allI impI decode_state_text ok assms(4)) simp_all
qed

text \<open>C7: \<open>VerifyBearer\<close> accepts exactly the stored keys: a header is accepted as the active key if and only
  if it is \<open>Bearer\<close> and a well-formed secret that PBKDF2 maps to the digest of the active
  credential of a valid state file, as the pending key if and only if the secret is that of the pending
  credential and not of the active one, and it is refused in every other case (an unreadable
  or invalid file included).\<close>

theorem verify_bearer_exact:
  assumes "\<forall>secret salt. al_pbkdf2 L secret salt \<noteq> None"
  shows "VerifyBearer L m env header s = Inr k \<longleftrightarrow>
    (\<exists>secret st. header = ''Bearer '' @ secret \<and> validateSecret secret = None \<and>
       loadLocked m (ae_read env) s = Inr st \<and>
       (if key_matches L secret (as_active st) then k = ActiveKey
        else k = PendingKey \<and> (\<exists>p. as_pending st = Some p \<and> key_matches L secret p)))"
proof (cases "parseBearer header")
  case (Inl e)
  then have "\<not> (header = ''Bearer '' @ secret \<and> validateSecret secret = None)" for secret
    using parseBearer_Inr [of header secret] by simp
  with Inl show ?thesis by (auto simp: VerifyBearer_def)
next
  case (Inr secret)
  then have h: "header = ''Bearer '' @ secret" "validateSecret secret = None"
    by (simp_all add: parseBearer_Inr)
  show ?thesis
  proof (cases "loadLocked m (ae_read env) s")
    case (Inl e)
    then show ?thesis using Inr by (simp add: VerifyBearer_def)
  next
    case load: (Inr st)
    have v: "auth_verify L secret (as_active st) = Inr (key_matches L secret (as_active st))"
      "as_pending st = Some p \<Longrightarrow> auth_verify L secret p = Inr (key_matches L secret p)" for p
      using load_valid [OF load] assms by (simp_all add: verify_valid)
    obtain y where dummy: "al_pbkdf2 L secret (replicate saltBytes (CHR 0x00)) = Some y"
      using assms by blast
    have "VerifyBearer L m env header s = Inr k \<longleftrightarrow>
        (if key_matches L secret (as_active st) then k = ActiveKey
         else k = PendingKey \<and> (\<exists>p. as_pending st = Some p \<and> key_matches L secret p))"
      using Inr load v dummy by (cases "as_pending st") (auto simp: VerifyBearer_def Let_def)
    then show ?thesis using h load by auto
  qed
qed

section \<open>An example\<close>

definition example_auth_lib :: auth_lib where
  "example_auth_lib = \<lparr>al_pbkdf2 = \<lambda>secret salt. Some (take 32 (secret @ replicate 32 (CHR ''x''))),
     al_sha256 = \<lambda>_. replicate 32 (CHR ''h'')\<rparr>"

definition example_secret :: string where "example_secret = ''correct-horse-battery''"

definition example_credential :: credential where
  "example_credential = \<lparr>cr_id = b64_encode url_alphabet (replicate 9 (CHR ''h'')),
     cr_salt = b64_encode std_alphabet (replicate 16 (CHR ''s'')),
     cr_digest = b64_encode std_alphabet (take 32 (example_secret @ replicate 32 (CHR ''x''))),
     cr_rounds = 200000\<rparr>"

definition example_auth_state :: auth_state where
  "example_auth_state = \<lparr>as_version = 1, as_active = example_credential, as_pending = None\<rparr>"

definition example_manager :: manager where
  "example_manager = \<lparr>mg_root = example_root, mg_name = ''auth''\<rparr>"

definition example_auth_env :: auth_env where
  "example_auth_env = \<lparr>ae_exists = no_faults, ae_read = no_faults, ae_write = no_faults,
     ae_random = replicate 16 (CHR ''r'')\<rparr>"

lemma example_auth_lib_ok: "kdf_ok example_auth_lib" "\<forall>secret salt. al_pbkdf2 example_auth_lib secret salt \<noteq> None"
  by (auto simp: kdf_ok_def example_auth_lib_def)

lemma example_credential_derived:
  "auth_derive example_auth_lib (replicate 16 (CHR ''s'')) example_secret = Inr example_credential"
  by (simp add: auth_derive_def saltBytes_def example_auth_lib_def example_credential_def PBKDF2Rounds_def
      del: b64_encode.simps)

lemma example_auth_state_ok: "state_ok example_auth_state"
  using derive_ok [OF example_auth_lib_ok(1) example_credential_derived]
  by (simp add: state_ok_def example_auth_state_def)

definition example_auth_fs :: fs where
  "example_auth_fs = example_fs ''auth'' (state_text example_auth_state)"

theorem rotation_refines_witness:
  "\<exists>st'. (st' = example_auth_state \<or>
      rotation_step example_auth_lib (Begin ''a-second-long-secret'') (Stable example_credential) (rotation_of st')) \<and>
    fs_content (fs_crash True (ar_fs (rotate example_auth_lib example_manager example_auth_env
      (Begin ''a-second-long-secret'') example_auth_fs))) ''auth''
    \<in> {Some (state_text st'), Some (state_text example_auth_state)}"
proof -
  have "fs_wf example_auth_fs" and v: "durable_views ''auth'' example_auth_fs = {Some (state_text example_auth_state)}"
    and "fs_content example_auth_fs (mg_name example_manager) = Some (state_text example_auth_state)"
    by (simp_all add: example_auth_fs_def example_manager_def durable_views_def)
  moreover have "rotation_of example_auth_state = Stable example_credential"
    by (simp add: rotation_of_def example_auth_state_def)
  moreover have "mg_name example_manager = ''auth''" by (simp add: example_manager_def)
  ultimately show ?thesis
    using rotation_refines [OF example_auth_lib_ok(1) _ _ example_auth_state_ok refl, where s = example_auth_fs and
      m = example_manager and env = example_auth_env and op = "Begin ''a-second-long-secret''"]
    by (metis list.set_intros(1))
qed

lemma example_stat:
  "stat_at example_auth_fs ''auth'' =
     Some \<lparr>st_dev = 0, st_ino = 0, st_kind = Regular, st_perm = 384, st_nlink = 1\<rparr>"
  by (simp add: stat_at_def example_auth_fs_def example_fs_def stat_of_def)

lemma example_loads: "loadLocked example_manager (ae_read example_auth_env) example_auth_fs = Inr example_auth_state"
proof -
  note example_stat
  moreover have "durable_validateName ''auth''" "durable_verify example_root no_faults = None" by code_simp+
  moreover have "fs_content example_auth_fs ''auth'' = Some (state_text example_auth_state)"
    by (simp add: example_auth_fs_def)
  ultimately have "durable_Read example_root no_faults (\<lambda>_. example_auth_fs) ''auth'' maxStateBytes =
      Inr (state_text example_auth_state)"
    using Read_stable [of "''auth''" maxStateBytes] state_text_length [OF example_auth_state_ok]
    by (simp add: maxStateBytes_def no_faults_def durable_validateFile_def)
  then show ?thesis
    using decode_state_text [OF example_auth_state_ok]
    by (simp add: loadLocked_def example_manager_def example_auth_env_def)
qed

theorem verify_bearer_exact_witness:
  "loadLocked example_manager no_faults example_auth_fs = Inr example_auth_state \<and>
   VerifyBearer example_auth_lib example_manager example_auth_env (''Bearer '' @ example_secret) example_auth_fs =
     Inr ActiveKey"
proof -
  have secret: "validateSecret example_secret = None"
    by (rule plain_secret) (simp_all add: example_secret_def plain_eval)
  have "key_matches example_auth_lib example_secret (as_active example_auth_state)"
    using derive_matches [OF example_credential_derived] by (simp add: example_auth_state_def)
  with example_loads secret verify_bearer_exact [OF example_auth_lib_ok(2)] show ?thesis
    by (auto simp: example_auth_env_def)
qed

end
