(* ===== verification/Process.thy ===== *)
theory Process
  imports Durable Json_Read Go_Action
begin

text \<open>
  Package \<open>process\<close> (\<open>process.go\<close>, \<open>system_unix.go\<close>): the PID record, the decision whether a
  daemon may start or replace another one, and the identity of a process.  The operating
  system is the record \<open>proc_ops\<close> over an arbitrary world; the state of a run also has the log of the
  calls, newest first.  \<open>waitForExit\<close> may wait forever, so its result is an option.
\<close>

section \<open>Data\<close>

datatype os_signal = SIGTERM | Kill

definition ErrProcessNotFound :: go_error where "ErrProcessNotFound = Err ''process not found''"
definition ErrUncertainTarget :: go_error where
  "ErrUncertainTarget = Err ''process target identity is uncertain''"
definition ErrTerminationUnproven :: go_error where
  "ErrTerminationUnproven = Err ''process termination could not be proven''"
definition ErrPIDRecordInvalid :: go_error where "ErrPIDRecordInvalid = Err ''pid record invalid''"

text \<open>\<open>errors.Is(err, ErrProcessNotFound)\<close>\<close>

fun is_not_found :: "go_error \<Rightarrow> bool" where
  "is_not_found (Wrap t e) = is_not_found e"
| "is_not_found e = (e = ErrProcessNotFound)"

definition maxPIDRecordBytes :: int where "maxPIDRecordBytes = 8192"

datatype proc_mode = Start | Supervise | OtherMode

record proc_record =
  pr_pid :: int
  pr_exe :: string
  pr_checkout :: string
  pr_start :: string

type_synonym proc_snapshot = proc_record

text \<open>\<open>Ops\<close>, \<open>Sleep\<close> and the clock.\<close>

record 'w proc_ops =
  po_snapshot :: "int \<Rightarrow> 'w \<Rightarrow> (go_error + proc_snapshot) \<times> 'w"
  po_signal :: "int \<Rightarrow> os_signal \<Rightarrow> 'w \<Rightarrow> go_error option \<times> 'w"
  po_sleep :: "int \<Rightarrow> 'w \<Rightarrow> go_error option \<times> 'w"
  po_now :: "'w \<Rightarrow> int \<times> 'w"

datatype proc_event =
    Snapshotted int "go_error + proc_snapshot"
  | Signalled int os_signal "go_error option"
  | Slept int

record 'w proc_state =
  ps_world :: 'w
  ps_fs :: fs
  ps_log :: "proc_event list"

record 'w controller =
  ct_root :: root
  ct_name :: string
  ct_ops :: "'w proc_ops"
  ct_term :: os_signal

record proc_faults =
  pf_exists :: faults
  pf_read :: faults
  pf_remove :: faults

definition NewController ::
  "root option \<Rightarrow> string \<Rightarrow> 'w proc_ops option \<Rightarrow> bool \<Rightarrow> os_signal \<Rightarrow> go_error + 'w controller" where
  "NewController rt name ops sleep term =
     (case (rt, ops) of
        (Some r, Some o') \<Rightarrow>
          if \<not> sleep \<or> path_base name \<noteq> name \<or> name = ''.'' \<or> name = ''..'' then Inl ErrPIDRecordInvalid
          else Inr \<lparr>ct_root = r, ct_name = name, ct_ops = o', ct_term = term\<rparr>
      | _ \<Rightarrow> Inl ErrPIDRecordInvalid)"

section \<open>Calls\<close>

definition call_snapshot :: "'w proc_ops \<Rightarrow> int \<Rightarrow> 'w proc_state \<Rightarrow> (go_error + proc_snapshot) \<times> 'w proc_state" where
  "call_snapshot ops pid s =
     (case po_snapshot ops pid (ps_world s) of
        (r, w) \<Rightarrow> (r, s\<lparr>ps_world := w, ps_log := Snapshotted pid r # ps_log s\<rparr>))"

definition call_signal :: "'w proc_ops \<Rightarrow> int \<Rightarrow> os_signal \<Rightarrow> 'w proc_state \<Rightarrow> go_error option \<times> 'w proc_state" where
  "call_signal ops pid sig s =
     (case po_signal ops pid sig (ps_world s) of
        (r, w) \<Rightarrow> (r, s\<lparr>ps_world := w, ps_log := Signalled pid sig r # ps_log s\<rparr>))"

definition call_sleep :: "'w proc_ops \<Rightarrow> int \<Rightarrow> 'w proc_state \<Rightarrow> go_error option \<times> 'w proc_state" where
  "call_sleep ops d s =
     (case po_sleep ops d (ps_world s) of
        (r, w) \<Rightarrow> (r, s\<lparr>ps_world := w, ps_log := Slept d # ps_log s\<rparr>))"

definition call_now :: "'w proc_ops \<Rightarrow> 'w proc_state \<Rightarrow> int \<times> 'w proc_state" where
  "call_now ops s = (case po_now ops (ps_world s) of (t, w) \<Rightarrow> (t, s\<lparr>ps_world := w\<rparr>))"

section \<open>Records\<close>

definition validateRecord :: "proc_record \<Rightarrow> go_error option" where
  "validateRecord r =
     (if pr_pid r \<le> 1 \<or> pr_start r = [] \<or> \<not> is_abs (pr_exe r) \<or> path_clean (pr_exe r) \<noteq> pr_exe r \<or>
         \<not> is_abs (pr_checkout r) \<or> path_clean (pr_checkout r) \<noteq> pr_checkout r
      then Some ErrPIDRecordInvalid
      else (case path_rel (pr_checkout r) (pr_exe r) of
         None \<Rightarrow> Some ErrPIDRecordInvalid
       | Some relative \<Rightarrow>
           if relative = ''.'' \<or> relative = ''..'' \<or> is_abs relative \<or>
              3 \<le> length relative \<and> take 3 relative = ''../''
           then Some ErrPIDRecordInvalid else None))"

definition proc_matches :: "proc_record \<Rightarrow> proc_snapshot \<Rightarrow> bool" where
  "proc_matches r s \<longleftrightarrow>
     pr_pid r = pr_pid s \<and> pr_exe r = pr_exe s \<and> pr_checkout r = pr_checkout s \<and> pr_start r = pr_start s"

definition record_text :: "proc_record \<Rightarrow> string" where
  "record_text r = json_print True (JObj [(''pid'', JNum (show_int (pr_pid r))), (''executable'', JStr (pr_exe r)),
     (''checkout_root'', JStr (pr_checkout r)), (''start_identity'', JStr (pr_start r))])"

definition record_specs :: "(string \<times> proc_record setter) list" where
  "record_specs = [(''pid'', set_int (\<lambda>n r. r\<lparr>pr_pid := n\<rparr>)), (''executable'', set_string (\<lambda>v r. r\<lparr>pr_exe := v\<rparr>)),
     (''checkout_root'', set_string (\<lambda>v r. r\<lparr>pr_checkout := v\<rparr>)),
     (''start_identity'', set_string (\<lambda>v r. r\<lparr>pr_start := v\<rparr>))]"

definition hasDuplicateTopLevelKey :: "json \<Rightarrow> bool" where
  "hasDuplicateTopLevelKey v = (case v of JObj kvs \<Rightarrow> \<not> distinct (map fst kvs) | _ \<Rightarrow> True)"

definition decode_record :: "string \<Rightarrow> go_error + proc_record" where
  "decode_record payload =
     (case json_single payload of
        None \<Rightarrow> Inl ErrPIDRecordInvalid
      | Some v \<Rightarrow>
          if hasDuplicateTopLevelKey v then Inl ErrPIDRecordInvalid
          else (case decode_struct True record_specs v \<lparr>pr_pid = 0, pr_exe = [], pr_checkout = [], pr_start = []\<rparr> of
             None \<Rightarrow> Inl ErrPIDRecordInvalid
           | Some r \<Rightarrow> (case validateRecord r of Some e \<Rightarrow> Inl e | None \<Rightarrow> Inr r)))"

definition durable_failure :: "durable_error \<Rightarrow> go_error" where
  "durable_failure e = Err (case e of UnsafePath \<Rightarrow> ''unsafe path'' | RootChanged \<Rightarrow> ''root changed''
     | NotOwnerOnly \<Rightarrow> ''not owner only'' | ReadLimit \<Rightarrow> ''read limit'' | IdentityChanged \<Rightarrow> ''identity changed''
     | RootClosed \<Rightarrow> ''root closed'' | SysError \<Rightarrow> ''system error'' | Unconfirmed \<Rightarrow> ''unconfirmed'')"

text \<open>The record with its bytes; \<open>Inr None\<close> when there is no file.\<close>

definition readRecord :: "'w controller \<Rightarrow> proc_faults \<Rightarrow> fs \<Rightarrow> go_error + (proc_record \<times> string) option" where
  "readRecord c pf s =
     (case durable_Exists (ct_root c) (pf_exists pf) s (ct_name c) of
        Inl e \<Rightarrow> Inl (durable_failure e)
      | Inr False \<Rightarrow> Inr None
      | Inr True \<Rightarrow>
          (case durable_Read (ct_root c) (pf_read pf) (\<lambda>_. s) (ct_name c) maxPIDRecordBytes of
             Inl e \<Rightarrow> Inl (durable_failure e)
           | Inr payload \<Rightarrow>
               (case decode_record payload of Inl e \<Rightarrow> Inl e | Inr r \<Rightarrow> Inr (Some (r, payload)))))"

definition WriteRecord :: "'w controller \<Rightarrow> faults \<Rightarrow> proc_record \<Rightarrow> fs \<Rightarrow> go_error option \<times> fs" where
  "WriteRecord c ft r s =
     (case validateRecord r of
        Some e \<Rightarrow> (Some e, s)
      | None \<Rightarrow>
          let oc = durable_WriteAtomic (ct_root c) ft s (ct_name c) (record_text r)
          in (map_option durable_failure (oc_error oc), oc_fs oc))"

definition RemoveRecord :: "golib \<Rightarrow> 'w controller \<Rightarrow> faults \<Rightarrow> proc_record \<Rightarrow> fs \<Rightarrow> go_error option \<times> fs" where
  "RemoveRecord L c ft r s =
     (case durable_Remove L (ct_root c) ft s (ct_name c) (sha256_hex L (record_text r)) of
        (_, oc) \<Rightarrow> (map_option durable_failure (oc_error oc), oc_fs oc))"

section \<open>Waiting\<close>

definition poll_interval :: int where "poll_interval = 50000000"

partial_function (option) wait_loop ::
  "'w proc_ops \<Rightarrow> proc_record \<Rightarrow> int \<Rightarrow> int \<Rightarrow> 'w proc_state \<Rightarrow> ((go_error + bool) \<times> 'w proc_state) option" where
  "wait_loop ops target timeout deadline s =
     (case call_snapshot ops (pr_pid target) s of
        (Inl e, s1) \<Rightarrow> Some (if is_not_found e then Inr True else Inl ErrUncertainTarget, s1)
      | (Inr snap, s1) \<Rightarrow>
          if \<not> proc_matches target snap then Some (Inl ErrUncertainTarget, s1)
          else if timeout \<le> 0 then Some (Inr False, s1)
          else (case call_now ops s1 of
             (now, s2) \<Rightarrow>
               if \<not> now < deadline then Some (Inr False, s2)
               else (case call_now ops s2 of
                  (now', s3) \<Rightarrow>
                    (case call_sleep ops (min (deadline - now') poll_interval) s3 of
                       (Some e, s4) \<Rightarrow> Some (Inl e, s4)
                     | (None, s4) \<Rightarrow> wait_loop ops target timeout deadline s4))))"

definition waitForExit ::
  "'w proc_ops \<Rightarrow> proc_record \<Rightarrow> int \<Rightarrow> 'w proc_state \<Rightarrow> ((go_error + bool) \<times> 'w proc_state) option" where
  "waitForExit ops target timeout s =
     (case call_now ops s of (now, s1) \<Rightarrow> wait_loop ops target timeout (now + timeout) s1)"

text \<open>\<open>DefaultSleep\<close> on a clock: when the context ends and with which error; \<open>tie\<close> is the choice of
  \<open>select\<close> when the timer and the context are ready together.\<close>

definition DefaultSleep :: "(int \<times> go_error) option \<Rightarrow> bool \<Rightarrow> int \<Rightarrow> int \<Rightarrow> go_error option \<times> int" where
  "DefaultSleep ctx tie d now =
     (let fire = now + max d 0 in
      case ctx of
        None \<Rightarrow> (None, fire)
      | Some (t, e) \<Rightarrow>
          let ended = max now t in
          if ended < fire \<or> ended = fire \<and> tie then (Some e, ended) else (None, fire))"

section \<open>Prepare\<close>

definition retire ::
  "golib \<Rightarrow> 'w controller \<Rightarrow> proc_faults \<Rightarrow> string \<Rightarrow> string \<Rightarrow> 'w proc_state \<Rightarrow> (go_error + bool) \<times> 'w proc_state" where
  "retire L c pf what payload s =
     (case durable_Remove L (ct_root c) (pf_remove pf) (ps_fs s) (ct_name c) (sha256_hex L payload) of
        (_, oc) \<Rightarrow>
          (case oc_error oc of
             Some e \<Rightarrow> (Inl (Wrap what (durable_failure e)), s\<lparr>ps_fs := oc_fs oc\<rparr>)
           | None \<Rightarrow> (Inr True, s\<lparr>ps_fs := oc_fs oc\<rparr>)))"

text \<open>The end of \<open>Prepare\<close>, once it is known whether the process has exited.\<close>

definition finish ::
  "golib \<Rightarrow> 'w controller \<Rightarrow> proc_faults \<Rightarrow> string \<Rightarrow> (go_error + bool) \<times> 'w proc_state \<Rightarrow>
   (go_error + bool) \<times> 'w proc_state" where
  "finish L c pf payload r =
     (case r of
        (Inl e, s) \<Rightarrow> (Inl e, s)
      | (Inr False, s) \<Rightarrow> (Inl ErrTerminationUnproven, s)
      | (Inr True, s) \<Rightarrow> retire L c pf ''retire replaced pid record'' payload s)"

text \<open>The kill signal and the wait after it; \<open>gone\<close> says what a signal to a vanished process means.\<close>

definition kill_and_wait ::
  "'w proc_ops \<Rightarrow> bool \<Rightarrow> proc_record \<Rightarrow> int \<Rightarrow> 'w proc_state \<Rightarrow> ((go_error + bool) \<times> 'w proc_state) option" where
  "kill_and_wait ops gone existing killTimeout s =
     (case call_signal ops (pr_pid existing) Kill s of
        (None, s1) \<Rightarrow> waitForExit ops existing killTimeout s1
      | (Some e, s1) \<Rightarrow>
          Some (if gone \<and> is_not_found e then Inr True else Inl (Wrap ''kill supervised process'' e), s1))"

text \<open>After the first signal did not end the process: inspect it again, then kill it.\<close>

definition escalate ::
  "'w proc_ops \<Rightarrow> proc_record \<Rightarrow> int \<Rightarrow> 'w proc_state \<Rightarrow> ((go_error + bool) \<times> 'w proc_state) option" where
  "escalate ops existing killTimeout s =
     (case call_snapshot ops (pr_pid existing) s of
        (Inl e, s1) \<Rightarrow> Some (Inl ErrUncertainTarget, s1)
      | (Inr snap, s1) \<Rightarrow>
          if \<not> proc_matches existing snap then Some (Inl ErrUncertainTarget, s1)
          else kill_and_wait ops False existing killTimeout s1)"

definition supervise ::
  "'w controller \<Rightarrow> proc_record \<Rightarrow> int \<Rightarrow> int \<Rightarrow> 'w proc_state \<Rightarrow> ((go_error + bool) \<times> 'w proc_state) option" where
  "supervise c existing termTimeout killTimeout s =
     (let ops = ct_ops c in
      if ct_term c = Kill then kill_and_wait ops True existing killTimeout s
      else (case call_signal ops (pr_pid existing) (ct_term c) s of
         (Some e, s1) \<Rightarrow>
           if is_not_found e then Some (Inr True, s1) else escalate ops existing killTimeout s1
       | (None, s1) \<Rightarrow>
           (case waitForExit ops existing termTimeout s1 of
              None \<Rightarrow> None
            | Some (Inr False, s2) \<Rightarrow> escalate ops existing killTimeout s2
            | Some r \<Rightarrow> Some r)))"

definition Prepare ::
  "golib \<Rightarrow> 'w controller \<Rightarrow> proc_faults \<Rightarrow> proc_mode \<Rightarrow> proc_record \<Rightarrow> int \<Rightarrow> int \<Rightarrow> 'w proc_state \<Rightarrow>
   ((go_error + bool) \<times> 'w proc_state) option" where
  "Prepare L c pf mode current termTimeout killTimeout s =
     (if mode \<noteq> Start \<and> mode \<noteq> Supervise then Some (Inl ErrPIDRecordInvalid, s)
      else (case validateRecord current of
         Some e \<Rightarrow> Some (Inl e, s)
       | None \<Rightarrow>
           (case readRecord c pf (ps_fs s) of
              Inl e \<Rightarrow> Some (Inl e, s)
            | Inr None \<Rightarrow> Some (Inr True, s)
            | Inr (Some (existing, payload)) \<Rightarrow>
                (case call_snapshot (ct_ops c) (pr_pid existing) s of
                   (Inl e, s1) \<Rightarrow>
                     Some (if is_not_found e then retire L c pf ''retire stale pid record'' payload s1
                           else (Inl ErrUncertainTarget, s1))
                 | (Inr snap, s1) \<Rightarrow>
                     if \<not> proc_matches existing snap then Some (Inl ErrUncertainTarget, s1)
                     else if mode = Start then Some (Inr False, s1)
                     else map_option (finish L c pf payload) (supervise c existing termTimeout killTimeout s1)))))"

end
