(* ===== verification/Process_Safety.thy ===== *)
theory Process_Safety
  imports Process
begin

text \<open>
  What \<open>Prepare\<close> guarantees: a signal goes only to a process whose whole identity was seen to match
  just before, the record of another daemon is retired only after that daemon was seen
  to be gone, and the call returns whenever the clock advances.
\<close>

section \<open>Reading the log\<close>

text \<open>Every signal follows directly on a matching snapshot of the same process.\<close>

fun careful :: "proc_record \<Rightarrow> proc_event list \<Rightarrow> bool" where
  "careful r [] \<longleftrightarrow> True"
| "careful r (Signalled pid sig res # log) \<longleftrightarrow>
     pid = pr_pid r \<and> careful r log \<and>
     (case log of Snapshotted p (Inr snap) # _ \<Rightarrow> p = pid \<and> proc_matches r snap | _ \<Rightarrow> False)"
| "careful r (_ # log) \<longleftrightarrow> careful r log"

text \<open>The last call reported that the process does not exist.\<close>

fun exit_seen :: "int \<Rightarrow> proc_event list \<Rightarrow> bool" where
  "exit_seen pid (Snapshotted p (Inl e) # _) \<longleftrightarrow> p = pid \<and> is_not_found e"
| "exit_seen pid (Signalled p sig (Some e) # _) \<longleftrightarrow> p = pid \<and> is_not_found e"
| "exit_seen pid _ \<longleftrightarrow> False"

definition signal_free :: "proc_event list \<Rightarrow> bool" where
  "signal_free log \<longleftrightarrow> list_all (\<lambda>e. case e of Signalled _ _ _ \<Rightarrow> False | _ \<Rightarrow> True) log"

definition snapshots :: "'w proc_state \<Rightarrow> nat" where
  "snapshots s = length (filter (\<lambda>e. case e of Snapshotted _ _ \<Rightarrow> True | _ \<Rightarrow> False) (ps_log s))"

lemma signal_free_simps [simp]:
  "signal_free []" "signal_free (Snapshotted p r # log) = signal_free log"
  "signal_free (Slept d # log) = signal_free log" "\<not> signal_free (Signalled p sig res # log)"
  by (simp_all add: signal_free_def)

lemma call_fields:
  "call_snapshot ops pid s = (r, t) \<Longrightarrow> ps_fs t = ps_fs s \<and> ps_log t = Snapshotted pid r # ps_log s"
  "call_signal ops pid sig s = (res, t) \<Longrightarrow> ps_fs t = ps_fs s \<and> ps_log t = Signalled pid sig res # ps_log s"
  "call_sleep ops d s = (res, t) \<Longrightarrow> ps_fs t = ps_fs s \<and> ps_log t = Slept d # ps_log s"
  "call_now ops s = (now, t) \<Longrightarrow> ps_fs t = ps_fs s \<and> ps_log t = ps_log s"
  by (auto simp: call_snapshot_def call_signal_def call_sleep_def call_now_def split: prod.splits)

section \<open>Waiting sends nothing\<close>

text \<open>What a wait leaves alone and what its answer means.\<close>

definition waited :: "proc_record \<Rightarrow> 'w proc_state \<Rightarrow> (go_error + bool) \<times> 'w proc_state \<Rightarrow> bool" where
  "waited target s res \<longleftrightarrow>
     (case res of (r, t) \<Rightarrow>
        ps_fs t = ps_fs s \<and> (careful target (ps_log s) \<longrightarrow> careful target (ps_log t)) \<and>
        (r = Inr True \<longrightarrow> exit_seen (pr_pid target) (ps_log t)))"

lemma wait_loop_waited:
  assumes "wait_loop ops target timeout deadline s = Some res"
  shows "waited target s res"
proof (rule wait_loop.raw_induct
    [where P = "\<lambda>ops target timeout deadline s res. waited target s res", OF _ assms], goal_cases)
  case 1: (1 f ops target timeout deadline s res)
  obtain r s1 where c1: "call_snapshot ops (pr_pid target) s = (r, s1)" by fastforce
  show ?case
  proof (cases r)
    case (Inl e)
    then show ?thesis using 1(2) c1 call_fields(1) [OF c1] by (auto simp: waited_def split: if_splits)
  next
    case (Inr snap)
    obtain now s2 now' s3 where c2: "call_now ops s1 = (now, s2)" and c3: "call_now ops s2 = (now', s3)" by fastforce
    obtain e s4 where c4: "call_sleep ops (min (deadline - now') poll_interval) s3 = (e, s4)" by fastforce
    have fields: "ps_fs s4 = ps_fs s" "careful target (ps_log s4) = careful target (ps_log s)"
      "ps_fs s2 = ps_fs s" "careful target (ps_log s2) = careful target (ps_log s)"
      using call_fields(1) [OF c1] call_fields(4) [OF c2] call_fields(4) [OF c3] call_fields(3) [OF c4] Inr by simp_all
    show ?thesis
    proof (cases "proc_matches target snap \<and> \<not> timeout \<le> 0 \<and> now < deadline \<and> e = None")
      case True
      then have "f ops target timeout deadline s4 = Some res" using 1(2) Inr c1 c2 c3 c4 by simp
      from 1(1) [OF this] show ?thesis by (simp add: waited_def fields split: prod.splits)
    next
      case False
      then show ?thesis
        using 1(2) Inr c1 c2 c3 c4 fields call_fields(1) [OF c1]
        by (auto simp: waited_def split: if_splits option.splits)
    qed
  qed
qed

lemma waitForExit_waited: "waitForExit ops target timeout s = Some res \<Longrightarrow> waited target s res"
proof -
  assume w: "waitForExit ops target timeout s = Some res"
  obtain now s1 where c: "call_now ops s = (now, s1)" by fastforce
  then have "waited target s1 res" using w by (auto simp: waitForExit_def intro: wait_loop_waited)
  then show ?thesis using call_fields(4) [OF c] by (simp add: waited_def split: prod.splits)
qed

lemma waited_trans:
  "waited target s (Inr False, t) \<Longrightarrow> waited target t res \<Longrightarrow> waited target s res"
  by (auto simp: waited_def split: prod.splits)

section \<open>Signals\<close>

text \<open>A matching snapshot was the last call.\<close>

definition just_seen :: "proc_record \<Rightarrow> 'w proc_state \<Rightarrow> bool" where
  "just_seen target s \<longleftrightarrow>
     (case ps_log s of Snapshotted p (Inr snap) # _ \<Rightarrow> p = pr_pid target \<and> proc_matches target snap | _ \<Rightarrow> False)"

lemma kill_and_wait_waited:
  assumes "kill_and_wait ops gone target kt s = Some res" "just_seen target s"
  shows "waited target s res"
proof -
  obtain e s1 where c: "call_signal ops (pr_pid target) Kill s = (e, s1)" by fastforce
  have s1: "ps_fs s1 = ps_fs s" "careful target (ps_log s) \<longrightarrow> careful target (ps_log s1)"
    "ps_log s1 = Signalled (pr_pid target) Kill e # ps_log s"
    using call_fields(2) [OF c] assms(2) by (auto simp: just_seen_def split: list.splits proc_event.splits sum.splits)
  show ?thesis
  proof (cases e)
    case None
    then have "waited target s1 res" using assms(1) c by (simp add: kill_and_wait_def waitForExit_waited)
    with s1 show ?thesis by (auto simp: waited_def split: prod.splits)
  next
    case (Some x)
    with s1 assms(1) c show ?thesis by (auto simp: kill_and_wait_def waited_def split: if_splits)
  qed
qed

lemma escalate_waited:
  assumes "escalate ops target kt s = Some res"
  shows "waited target s res"
proof -
  obtain r s1 where c: "call_snapshot ops (pr_pid target) s = (r, s1)" by fastforce
  have s1: "ps_fs s1 = ps_fs s" "careful target (ps_log s1) = careful target (ps_log s)"
    "ps_log s1 = Snapshotted (pr_pid target) r # ps_log s"
    using call_fields(1) [OF c] by simp_all
  show ?thesis
  proof (cases "\<exists>snap. r = Inr snap \<and> proc_matches target snap")
    case True
    then have "kill_and_wait ops False target kt s1 = Some res" "just_seen target s1"
      using assms c s1 by (auto simp: escalate_def just_seen_def)
    from kill_and_wait_waited [OF this] s1 show ?thesis by (auto simp: waited_def split: prod.splits)
  next
    case False
    with assms c s1 show ?thesis
      by (cases r) (auto simp: escalate_def waited_def split: if_splits)
  qed
qed

lemma supervise_waited:
  assumes "supervise c target tt kt s = Some res" "just_seen target s"
  shows "waited target s res"
proof (cases "ct_term c = Kill")
  case True
  then show ?thesis using assms by (simp add: supervise_def kill_and_wait_waited)
next
  case False
  obtain e s1 where c: "call_signal (ct_ops c) (pr_pid target) (ct_term c) s = (e, s1)" by fastforce
  have s1: "ps_fs s1 = ps_fs s" "careful target (ps_log s) \<longrightarrow> careful target (ps_log s1)"
    "ps_log s1 = Signalled (pr_pid target) (ct_term c) e # ps_log s"
    using call_fields(2) [OF c] assms(2) by (auto simp: just_seen_def split: list.splits proc_event.splits sum.splits)
  have lift: "waited target s1 res \<Longrightarrow> waited target s res" for res
    using s1 by (auto simp: waited_def split: prod.splits)
  show ?thesis
  proof (cases e)
    case (Some x)
    show ?thesis
    proof (cases "is_not_found x")
      case True
      then have "res = (Inr True, s1)" using assms(1) False c Some by (simp add: supervise_def)
      with True Some s1 show ?thesis by (simp add: waited_def)
    next
      case no: False
      then have "escalate (ct_ops c) target kt s1 = Some res" using assms(1) False c Some by (simp add: supervise_def)
      then show ?thesis by (intro lift escalate_waited)
    qed
  next
    case None
    then obtain r s2 where w: "waitForExit (ct_ops c) target tt s1 = Some (r, s2)"
      using assms(1) False c by (cases "waitForExit (ct_ops c) target tt s1") (auto simp: supervise_def)
    have "waited target s1 (r, s2)" using w by (rule waitForExit_waited)
    moreover have "waited target s1 res" if "r = Inr False"
      using that calculation assms(1) False c None w escalate_waited [of "ct_ops c" target kt s2 res]
      by (auto simp: supervise_def intro: waited_trans)
    moreover have "res = (r, s2)" if "r \<noteq> Inr False"
      using that assms(1) False c None w by (cases r) (auto simp: supervise_def split: if_splits bool.splits)
    ultimately show ?thesis using lift by blast
  qed
qed

lemma retire_fields:
  "retire L c pf what payload s = (r, t) \<Longrightarrow> ps_log t = ps_log s"
  by (auto simp: retire_def split: prod.splits option.splits)

section \<open>Properties\<close>

text \<open>C10: a run of \<open>Prepare\<close> that starts with an empty log touches a process and its record only with proof.
  Without a readable record it makes no call and changes no file.  With a record, every signal
  goes to the recorded PID and follows directly on a snapshot whose executable, checkout and
  start identity are those of the record; the record file is changed, or the caller told to go on, only
  after the operating system reported that the process does not exist; and \<open>Start\<close> sends no signal.\<close>

theorem prepare_careful:
  assumes "Prepare L c pf mode current tt kt s = Some (r, t)" "ps_log s = []"
  shows "case readRecord c pf (ps_fs s) of
      Inr (Some (existing, payload)) \<Rightarrow>
        careful existing (ps_log t) \<and> (mode = Start \<longrightarrow> signal_free (ps_log t)) \<and>
        (r = Inr True \<or> ps_fs t \<noteq> ps_fs s \<longrightarrow> exit_seen (pr_pid existing) (ps_log t))
    | _ \<Rightarrow> ps_log t = [] \<and> ps_fs t = ps_fs s"
proof (cases "mode = OtherMode \<or> validateRecord current \<noteq> None")
  case True
  then have "t = s" "r \<noteq> Inr True" using assms(1) by (cases mode; auto simp: Prepare_def)+
  then show ?thesis using assms(2) by (auto split: sum.splits option.splits)
next
  case False
  then have ok: "mode = Start \<or> mode = Supervise" "validateRecord current = None" by (cases mode; simp)+
  show ?thesis
  proof (cases "\<exists>existing payload. readRecord c pf (ps_fs s) = Inr (Some (existing, payload))")
    case False
    then have "t = s" using assms(1) ok by (auto simp: Prepare_def split: sum.splits option.splits)
    then show ?thesis using False assms(2) by (auto split: sum.splits option.splits)
  next
    case True
    then obtain existing payload where read: "readRecord c pf (ps_fs s) = Inr (Some (existing, payload))" by blast
    obtain x s1 where snap: "call_snapshot (ct_ops c) (pr_pid existing) s = (x, s1)" by fastforce
    have s1: "ps_fs s1 = ps_fs s" "ps_log s1 = [Snapshotted (pr_pid existing) x]"
      using call_fields(1) [OF snap] assms(2) by simp_all
    have "careful existing (ps_log t) \<and> (mode = Start \<longrightarrow> signal_free (ps_log t)) \<and>
        (r = Inr True \<or> ps_fs t \<noteq> ps_fs s \<longrightarrow> exit_seen (pr_pid existing) (ps_log t))"
    proof (cases "mode = Supervise \<and> (\<exists>y. x = Inr y \<and> proc_matches existing y)")
      case True
      then have seen: "just_seen existing s1" using s1 by (auto simp: just_seen_def)
      obtain q u where sup: "supervise c existing tt kt s1 = Some (q, u)" and fin: "finish L c pf payload (q, u) = (r, t)"
        using assms(1) ok True read snap by (auto simp: Prepare_def)
      have "waited existing s1 (q, u)" using sup seen by (rule supervise_waited)
      then have u: "ps_fs u = ps_fs s" "careful existing (ps_log u)" "q = Inr True \<longrightarrow> exit_seen (pr_pid existing) (ps_log u)"
        using s1 by (auto simp: waited_def)
      have "ps_log t = ps_log u \<and> (q \<noteq> Inr True \<longrightarrow> t = u \<and> r \<noteq> Inr True)"
        using fin retire_fields by (auto simp: finish_def split: sum.splits bool.splits)
      with u True show ?thesis by auto
    next
      case False
      then show ?thesis
        using assms(1) ok read snap s1 retire_fields
        by (cases x) (fastforce simp: Prepare_def split: if_splits)+
    qed
    then show ?thesis by (simp add: read)
  qed
qed

section \<open>Termination\<close>

text \<open>What is documented of the clock and of \<open>Sleep\<close>: time does not run backwards, a reading lies
  within the call, and a sleep that reports no error has lasted at least as long as asked.
  \<open>clock w\<close> is the time of the world \<open>w\<close>.\<close>

definition clock_ok :: "'w proc_ops \<Rightarrow> ('w \<Rightarrow> int) \<Rightarrow> bool" where
  "clock_ok ops clock \<longleftrightarrow>
     (\<forall>w pid. clock w \<le> clock (snd (po_snapshot ops pid w))) \<and>
     (\<forall>w. clock w \<le> fst (po_now ops w) \<and> fst (po_now ops w) \<le> clock (snd (po_now ops w))) \<and>
     (\<forall>w d. clock w \<le> clock (snd (po_sleep ops d w)) \<and>
        (fst (po_sleep ops d w) = None \<longrightarrow> clock w + d \<le> clock (snd (po_sleep ops d w))))"

text \<open>Polls of one wait: one more than the intervals that the timeout covers.\<close>

definition polls :: "int \<Rightarrow> nat" where
  "polls timeout = nat ((timeout + poll_interval - 1) div poll_interval) + 1"

lemma call_clock:
  assumes "clock_ok ops clock"
  shows "call_snapshot ops pid s = (r, t) \<Longrightarrow> clock (ps_world s) \<le> clock (ps_world t) \<and> snapshots t = Suc (snapshots s)"
    and "call_now ops s = (now, t) \<Longrightarrow>
      clock (ps_world s) \<le> now \<and> now \<le> clock (ps_world t) \<and> snapshots t = snapshots s"
    and "call_sleep ops d s = (e, t) \<Longrightarrow> snapshots t = snapshots s \<and>
      (e = None \<longrightarrow> clock (ps_world s) + d \<le> clock (ps_world t)) \<and> clock (ps_world s) \<le> clock (ps_world t)"
    and "call_signal ops pid sig s = (e, t) \<Longrightarrow> snapshots t = snapshots s"
  using assms
  by (auto simp: call_snapshot_def call_now_def call_sleep_def call_signal_def clock_ok_def snapshots_def
      split: prod.splits) (metis fst_conv snd_conv)+

lemma wait_loop_returns:
  assumes "clock_ok ops clock"
  shows "deadline - clock (ps_world s) \<le> int n * poll_interval \<Longrightarrow>
    \<exists>r t. wait_loop ops target timeout deadline s = Some (r, t) \<and> snapshots t \<le> snapshots s + n + 1"
proof (induction n arbitrary: s)
  case (0 s)
  obtain r s1 now s2 where c1: "call_snapshot ops (pr_pid target) s = (r, s1)" and c2: "call_now ops s1 = (now, s2)"
    by fastforce
  have "\<not> now < deadline"
    using 0 call_clock(1) [OF assms c1] call_clock(2) [OF assms c2] by simp
  then show ?case
    using call_clock(1) [OF assms c1] call_clock(2) [OF assms c2] c1 c2
    by (subst wait_loop.simps) (auto split: sum.splits)
next
  case (Suc n s)
  obtain r s1 now s2 now' s3 where c1: "call_snapshot ops (pr_pid target) s = (r, s1)"
    and c2: "call_now ops s1 = (now, s2)" and c3: "call_now ops s2 = (now', s3)" by fastforce
  obtain e s4 where c4: "call_sleep ops (min (deadline - now') poll_interval) s3 = (e, s4)" by fastforce
  note k = call_clock(1) [OF assms c1] call_clock(2) [OF assms c2] call_clock(2) [OF assms c3] call_clock(3) [OF assms c4]
  have pos: "0 < poll_interval" by (simp add: poll_interval_def)
  show ?case
  proof (cases "(\<exists>snap. r = Inr snap \<and> proc_matches target snap) \<and> \<not> timeout \<le> 0 \<and> now < deadline \<and> e = None")
    case go: True
    have "deadline - clock (ps_world s4) \<le> int n * poll_interval"
    proof (cases "deadline - now' \<le> poll_interval")
      case True
      then have "deadline \<le> clock (ps_world s4)" using k go by (auto simp: min_def split: if_splits)
      moreover have "0 \<le> int n * poll_interval" using pos by simp
      ultimately show ?thesis by simp
    next
      case False
      then have "clock (ps_world s) + poll_interval \<le> clock (ps_world s4)"
        using k go by (auto simp: min_def split: if_splits)
      with Suc.prems show ?thesis by (simp add: algebra_simps)
    qed
    from Suc.IH [OF this] obtain x t where "wait_loop ops target timeout deadline s4 = Some (x, t)"
      "snapshots t \<le> snapshots s4 + n + 1" by blast
    moreover have "wait_loop ops target timeout deadline s = wait_loop ops target timeout deadline s4"
      using go c1 c2 c3 c4 by (subst wait_loop.simps) auto
    ultimately show ?thesis using k by auto
  next
    case False
    then show ?thesis
      using k c1 c2 c3 c4 by (subst wait_loop.simps) (auto split: sum.splits option.splits)
  qed
qed

lemma waitForExit_returns:
  assumes "clock_ok ops clock"
  shows "\<exists>r t. waitForExit ops target timeout s = Some (r, t) \<and> snapshots t \<le> snapshots s + polls timeout"
proof -
  obtain now s1 where c: "call_now ops s = (now, s1)" by fastforce
  have k: "now \<le> clock (ps_world s1)" "snapshots s1 = snapshots s" using call_clock(2) [OF assms c] by simp_all
  define n where "n = nat ((timeout + poll_interval - 1) div poll_interval)"
  have "timeout \<le> int n * poll_interval"
    unfolding n_def poll_interval_def by linarith
  then have "now + timeout - clock (ps_world s1) \<le> int n * poll_interval" using k by simp
  from wait_loop_returns [OF assms this, of target timeout] show ?thesis
    using c k by (auto simp: waitForExit_def polls_def n_def)
qed

lemma kill_and_wait_returns:
  assumes "clock_ok ops clock"
  shows "\<exists>r t. kill_and_wait ops gone target kt s = Some (r, t) \<and> snapshots t \<le> snapshots s + polls kt"
proof -
  obtain e s1 where c: "call_signal ops (pr_pid target) Kill s = (e, s1)" by fastforce
  show ?thesis
    using waitForExit_returns [OF assms, of target kt s1] c call_clock(4) [OF assms c]
    by (cases e) (auto simp: kill_and_wait_def)
qed

lemma escalate_returns:
  assumes "clock_ok ops clock"
  shows "\<exists>r t. escalate ops target kt s = Some (r, t) \<and> snapshots t \<le> snapshots s + polls kt + 1"
proof -
  obtain x s1 where c: "call_snapshot ops (pr_pid target) s = (x, s1)" by fastforce
  obtain r t where "kill_and_wait ops False target kt s1 = Some (r, t)" "snapshots t \<le> snapshots s1 + polls kt"
    using kill_and_wait_returns [OF assms] by blast
  then show ?thesis
    using c call_clock(1) [OF assms c] by (cases x) (auto simp: escalate_def)
qed

lemma supervise_returns:
  assumes "clock_ok (ct_ops c) clock"
  shows "\<exists>r t. supervise c target tt kt s = Some (r, t) \<and> snapshots t \<le> snapshots s + polls tt + polls kt + 1"
proof (cases "ct_term c = Kill")
  case True
  then show ?thesis using kill_and_wait_returns [OF assms, of True target kt s] by (auto simp: supervise_def)
next
  case False
  obtain e s1 where sig: "call_signal (ct_ops c) (pr_pid target) (ct_term c) s = (e, s1)" by fastforce
  have n: "snapshots s1 = snapshots s" using call_clock(4) [OF assms sig] .
  obtain r s2 where w: "waitForExit (ct_ops c) target tt s1 = Some (r, s2)" "snapshots s2 \<le> snapshots s1 + polls tt"
    using waitForExit_returns [OF assms] by blast
  obtain x t where esc: "escalate (ct_ops c) target kt s1 = Some (x, t)" "snapshots t \<le> snapshots s1 + polls kt + 1"
    using escalate_returns [OF assms] by blast
  obtain y u where esc2: "escalate (ct_ops c) target kt s2 = Some (y, u)" "snapshots u \<le> snapshots s2 + polls kt + 1"
    using escalate_returns [OF assms] by blast
  show ?thesis
  proof (cases e)
    case None
    show ?thesis
      using None False sig n w esc2 by (cases "r = Inr False") (cases r; auto simp: supervise_def split: bool.splits)+
  next
    case (Some x)
    then show ?thesis using False sig n esc by (auto simp: supervise_def)
  qed
qed

text \<open>C11: \<open>Prepare\<close> always returns when the clock advances, whatever the processes do and whatever fails, and it looks at
  the process at most a number of times that the two timeouts bound: the intervals of 50 ms in
  each timeout, rounded up, and four.\<close>

theorem prepare_returns:
  assumes "clock_ok (ct_ops c) clock"
  shows "\<exists>r t. Prepare L c pf mode current tt kt s = Some (r, t) \<and>
    snapshots t \<le> snapshots s + polls tt + polls kt + 2"
proof (cases "mode = OtherMode \<or> validateRecord current \<noteq> None \<or>
    (\<nexists>existing payload. readRecord c pf (ps_fs s) = Inr (Some (existing, payload)))")
  case True
  then show ?thesis
    by (cases mode) (auto simp: Prepare_def split: sum.splits option.splits prod.splits)
next
  case False
  then obtain existing payload where read: "readRecord c pf (ps_fs s) = Inr (Some (existing, payload))" by blast
  have ok: "mode = Start \<or> mode = Supervise" "validateRecord current = None" using False by (cases mode; simp)+
  obtain x s1 where snap: "call_snapshot (ct_ops c) (pr_pid existing) s = (x, s1)" by fastforce
  have n: "snapshots s1 = Suc (snapshots s)" using call_clock(1) [OF assms snap] by simp
  have same: "snapshots (snd (retire L c pf what payload u)) = snapshots u" for what u
    by (auto simp: retire_def snapshots_def split: prod.splits option.splits)
  obtain q u where sup: "supervise c existing tt kt s1 = Some (q, u)" "snapshots u \<le> snapshots s1 + polls tt + polls kt + 1"
    using supervise_returns [OF assms] by blast
  have "snapshots (snd (finish L c pf payload (q, u))) = snapshots u"
    using same by (auto simp: finish_def split: sum.splits bool.splits)
  then show ?thesis
    using ok read snap n same [of "''retire stale pid record''" s1] sup
    by (cases x; cases "finish L c pf payload (q, u)"; cases "retire L c pf ''retire stale pid record'' payload s1")
       (auto simp: Prepare_def)
qed

section \<open>The record file\<close>

text \<open>A record whose texts need no escape reads back as it was written.\<close>

definition record_plain :: "proc_record \<Rightarrow> bool" where
  "record_plain r \<longleftrightarrow> list_all plain_char (pr_exe r) \<and> list_all plain_char (pr_checkout r) \<and>
     list_all plain_char (pr_start r) \<and> pr_pid r < 2 ^ 63"

lemma record_keys:
  "list_all (list_all plain_char) [''pid'', ''executable'', ''checkout_root'', ''start_identity'']"
  by (simp add: plain_eval)

lemma record_folds:
  "fold_key ''pid'' = [80, 73, 68]" "fold_key ''executable'' = [69, 88, 69, 67, 85, 84, 65, 66, 76, 69]"
  "fold_key ''checkout_root'' = [67, 72, 69, 67, 75, 79, 85, 84, 95, 82, 79, 79, 84]"
  "fold_key ''start_identity'' = [83, 84, 65, 82, 84, 95, 73, 68, 69, 78, 84, 73, 84, 89]"
  by (simp_all add: fold_key_def runes_def plain_steps plain_eval fold_rune_def)

lemma decode_record_text:
  assumes "record_plain r" "validateRecord r = None"
  shows "decode_record (record_text r) = Inr r"
proof -
  have pid: "1 < pr_pid r" using assms(2) by (auto simp: validateRecord_def split: if_splits)
  then have n: "json_int (show_int (pr_pid r)) = Some (pr_pid r)" "plain_number (show_int (pr_pid r))"
    using assms(1) json_int_show [of "nat (pr_pid r)"] plain_number_show
    by (simp_all add: record_plain_def show_int_def nat_less_iff)
  define v where "v = JObj [(''pid'', JNum (show_int (pr_pid r))), (''executable'', JStr (pr_exe r)),
     (''checkout_root'', JStr (pr_checkout r)), (''start_identity'', JStr (pr_start r))]"
  have "json_plain v" "nesting v \<le> max_nesting"
    using assms(1) n record_keys by (simp_all add: v_def record_plain_def max_nesting_def)
  then have "json_single (record_text r) = Some v"
    unfolding record_text_def v_def [symmetric] by (rule json_single_print)
  moreover have "\<not> hasDuplicateTopLevelKey v" by (simp add: v_def hasDuplicateTopLevelKey_def)
  moreover have "decode_struct True record_specs v x = Some r" for x
    using n by (simp add: v_def decode_struct_def record_specs_def record_folds set_int_def set_string_def)
  ultimately show ?thesis using assms(2) by (simp add: decode_record_def)
qed

section \<open>Examples\<close>

definition example_record :: proc_record where
  "example_record = \<lparr>pr_pid = 7, pr_exe = ''/c/d'', pr_checkout = ''/c'', pr_start = ''9''\<rparr>"

text \<open>A world that is a clock: the process lives for 120 ms.\<close>

definition example_ops :: "int proc_ops" where
  "example_ops = \<lparr>po_snapshot = (\<lambda>pid w. (if w < 120000000 then Inr example_record else Inl ErrProcessNotFound, w)),
     po_signal = (\<lambda>pid sig w. (None, w)), po_sleep = DefaultSleep None True, po_now = (\<lambda>w. (w, w))\<rparr>"

text \<open>A process that is gone when the signal arrives.\<close>

definition example_gone :: "unit proc_ops" where
  "example_gone = \<lparr>po_snapshot = (\<lambda>pid w. (Inr example_record, w)),
     po_signal = (\<lambda>pid sig w. (Some ErrProcessNotFound, w)), po_sleep = (\<lambda>d w. (None, w)), po_now = (\<lambda>w. (0, w))\<rparr>"

definition example_controller :: "'w proc_ops \<Rightarrow> 'w controller" where
  "example_controller ops = \<lparr>ct_root = example_root, ct_name = ''pid'', ct_ops = ops, ct_term = SIGTERM\<rparr>"

definition example_proc_faults :: proc_faults where
  "example_proc_faults = \<lparr>pf_exists = no_faults, pf_read = no_faults, pf_remove = no_faults\<rparr>"

definition example_start :: "'w \<Rightarrow> 'w proc_state" where
  "example_start w = \<lparr>ps_world = w, ps_fs = example_fs ''pid'' (record_text example_record), ps_log = []\<rparr>"

lemma example_record_ok: "validateRecord example_record = None" "record_plain example_record"
  by (code_simp, simp add: record_plain_def example_record_def plain_eval)

lemma example_record_read:
  "readRecord (example_controller ops) example_proc_faults (ps_fs (example_start w)) =
     Inr (Some (example_record, record_text example_record))"
proof -
  have short: "length (record_text example_record) \<le> 200"
    by (simp add: record_text_def example_record_def length_plain plain_eval show_int_def show_nat_step)
  have st: "stat_at (example_fs ''pid'' x) ''pid'' =
      Some \<lparr>st_dev = 0, st_ino = 0, st_kind = Regular, st_perm = 384, st_nlink = 1\<rparr>" for x
    by (simp add: stat_at_def example_fs_def stat_of_def)
  have ok: "durable_validateName ''pid''" "durable_verify example_root no_faults = None" by code_simp+
  have "durable_Read example_root no_faults (\<lambda>_. example_fs ''pid'' (record_text example_record)) ''pid''
      maxPIDRecordBytes = Inr (record_text example_record)"
    using Read_stable [OF ok(1) _ ok(2) _ _ _ st _ example_fs_contents(1), of maxPIDRecordBytes] short
    by (simp add: maxPIDRecordBytes_def no_faults_def durable_validateFile_def)
  moreover have "durable_Exists example_root no_faults (example_fs ''pid'' x) ''pid'' = Inr True" for x
    using ok st by (simp add: durable_Exists_def no_faults_def durable_validateFile_def)
  ultimately show ?thesis
    using decode_record_text [OF example_record_ok(2,1)]
    by (simp add: readRecord_def example_controller_def example_proc_faults_def example_start_def)
qed

theorem prepare_careful_witness:
  "\<exists>r t. Prepare example_golib (example_controller example_gone) example_proc_faults Supervise example_record 0 0
      (example_start ()) = Some (r, t) \<and> careful example_record (ps_log t) \<and> \<not> signal_free (ps_log t) \<and>
    exit_seen 7 (ps_log t)"
proof -
  let ?c = "example_controller example_gone" and ?s = "example_start ()"
  obtain u where sup: "supervise ?c example_record 0 0
      (?s\<lparr>ps_log := [Snapshotted 7 (Inr example_record)]\<rparr>) = Some (Inr True, u)"
    and log: "ps_log u = [Signalled 7 SIGTERM (Some ErrProcessNotFound), Snapshotted 7 (Inr example_record)]"
    by (auto simp: supervise_def example_controller_def example_gone_def call_signal_def example_record_def
        ErrProcessNotFound_def)
  obtain r t where fin: "finish example_golib ?c example_proc_faults (record_text example_record) (Inr True, u) = (r, t)"
    by fastforce
  have run: "Prepare example_golib ?c example_proc_faults Supervise example_record 0 0 ?s = Some (r, t)"
    using sup fin example_record_read [of example_gone "()"] example_record_ok(1)
    by (simp add: Prepare_def call_snapshot_def example_controller_def example_gone_def example_start_def
        proc_matches_def example_record_def)
  have "ps_log t = ps_log u" using fin retire_fields by (fastforce simp: finish_def)
  moreover have "ps_log ?s = []" by (simp add: example_start_def)
  ultimately show ?thesis
    using prepare_careful [OF run] run log example_record_read [of example_gone "()"]
    by (auto simp: example_record_def ErrProcessNotFound_def)
qed

theorem prepare_returns_witness:
  "clock_ok (ct_ops (example_controller example_ops)) (\<lambda>w. w) \<and>
   (\<exists>r t. Prepare example_golib (example_controller example_ops) example_proc_faults Supervise example_record
      1000000000 1000000000 (example_start 0) = Some (r, t) \<and> snapshots t \<le> 44)"
proof -
  have ok: "clock_ok (ct_ops (example_controller example_ops)) (\<lambda>w. w)"
    by (simp add: clock_ok_def example_controller_def example_ops_def DefaultSleep_def)
  have "snapshots (example_start (0 :: int)) = 0" "polls 1000000000 = 21"
    by (simp_all add: snapshots_def example_start_def polls_def poll_interval_def)
  with ok prepare_returns [OF ok, of example_golib example_proc_faults Supervise example_record
      1000000000 1000000000 "example_start 0"]
  show ?thesis by simp
qed

end
