(* ===== verification/Process_System.thy ===== *)
theory Process_System
  imports Process
begin

text \<open>
  \<open>system_unix.go\<close>: how the identity of a process is read, from \<open>/proc\<close> on Linux and from
  \<open>ps\<close> and \<open>lsof\<close> on macOS, and how a signal is sent.  What the kernel and the commands answer is
  the record \<open>os_env\<close>.
\<close>

record os_env =
  ev_symlinks :: "string \<Rightarrow> string option"                \<comment> \<open>\<open>filepath.EvalSymlinks\<close>\<close>
  ev_read :: "string \<Rightarrow> string option"                     \<comment> \<open>\<open>os.ReadFile\<close>\<close>
  ev_command :: "string \<Rightarrow> string list \<Rightarrow> string option"   \<comment> \<open>\<open>commandOutput\<close>\<close>
  ev_probe :: "int \<Rightarrow> go_error option"                     \<comment> \<open>\<open>syscall.Kill(pid, 0)\<close>, \<open>ESRCH\<close> below\<close>
  ev_find :: "int \<Rightarrow> bool"                                 \<comment> \<open>\<open>os.FindProcess\<close> succeeds\<close>
  ev_signal :: "int \<Rightarrow> os_signal \<Rightarrow> go_error option"      \<comment> \<open>\<open>process.Signal\<close>\<close>
  ev_pid :: int                                             \<comment> \<open>\<open>os.Getpid()\<close>\<close>

definition ESRCH :: go_error where "ESRCH = Err ''no such process''"
definition ErrProcessDone :: go_error where "ErrProcessDone = Err ''os: process already finished''"
definition os_failure :: go_error where "os_failure = Err ''system call failed''"

text \<open>\<open>strings.Fields\<close>; \<open>cur\<close> is the field that is being read.\<close>

function split_fields :: "string \<Rightarrow> string \<Rightarrow> string list" where
  "split_fields cur [] = (if cur = [] then [] else [cur])"
| "split_fields cur (c # s) =
     (case find (\<lambda>w. has_prefix w (c # s)) space_encodings of
        None \<Rightarrow> split_fields (cur @ [c]) s
      | Some w \<Rightarrow> (if cur = [] then [] else [cur]) @ split_fields [] (drop (length w - 1) s))"
  by pat_completeness auto
termination
  by (relation "measure (\<lambda>(cur, s). length s)") auto

definition strings_Fields :: "string \<Rightarrow> string list" where
  "strings_Fields s = split_fields [] s"

definition linuxSnapshotFromProc :: "os_env \<Rightarrow> string \<Rightarrow> int \<Rightarrow> go_error + proc_snapshot" where
  "linuxSnapshotFromProc ev procRoot pid =
     (let base = path_join procRoot (show_int pid) in
      case ev_symlinks ev (path_join base ''exe'') of
        None \<Rightarrow> Inl os_failure
      | Some executable \<Rightarrow>
          (case ev_symlinks ev (path_join base ''cwd'') of
             None \<Rightarrow> Inl os_failure
           | Some checkout \<Rightarrow>
               (case ev_read ev (path_join base ''stat'') of
                  None \<Rightarrow> Inl os_failure
                | Some stat \<Rightarrow>
                    let closing = last_index stat '')'' in
                    if closing < 0 then Inl ErrUncertainTarget
                    else
                      let fields = strings_Fields (drop (nat (closing + 1)) stat) in
                      if length fields < 20 then Inl ErrUncertainTarget
                      else Inr \<lparr>pr_pid = pid, pr_exe = executable, pr_checkout = checkout,
                                pr_start = fields ! 19\<rparr>)))"

text \<open>The loop over the lines of \<open>lsof\<close>; a line that fills the scanner's buffer ends it with an error.\<close>

fun scan_checkout :: "string list \<Rightarrow> string option" where
  "scan_checkout [] = None"
| "scan_checkout (l # ls) =
     (if 65536 \<le> length l then None
      else
        let line = trim_suffix [CHR 0x0D] l in
        if has_prefix ''n/'' line then Some (trim_prefix ''n'' line) else scan_checkout ls)"

definition darwinSnapshotFromCommands :: "os_env \<Rightarrow> int \<Rightarrow> go_error + proc_snapshot" where
  "darwinSnapshotFromCommands ev pid =
     (case ev_command ev ''ps'' [''-ww'', ''-p'', show_int pid, ''-o'', ''lstart='', ''-o'', ''command=''] of
        None \<Rightarrow> Inl ErrProcessNotFound
      | Some psOutput \<Rightarrow>
          let fields = strings_Fields psOutput in
          if length fields < 6 then Inl ErrUncertainTarget
          else if \<not> is_abs (fields ! 5) then Inl ErrUncertainTarget
          else (case ev_symlinks ev (fields ! 5) of
             None \<Rightarrow> Inl ErrUncertainTarget
           | Some executable \<Rightarrow>
               (case ev_command ev ''lsof'' [''-a'', ''-p'', show_int pid, ''-d'', ''cwd'', ''-Fn''] of
                  None \<Rightarrow> Inl ErrUncertainTarget
                | Some lsofOutput \<Rightarrow>
                    (case scan_checkout (split_char (CHR 0x0A) lsofOutput) of
                       None \<Rightarrow> Inl ErrUncertainTarget
                     | Some checkout \<Rightarrow>
                         (case ev_symlinks ev checkout of
                            None \<Rightarrow> Inl ErrUncertainTarget
                          | Some resolved \<Rightarrow>
                              Inr \<lparr>pr_pid = pid, pr_exe = executable, pr_checkout = resolved,
                                   pr_start = join '' '' (take 5 fields)\<rparr>)))))"

definition systemSnapshotForOS :: "os_env \<Rightarrow> string \<Rightarrow> int \<Rightarrow> go_error + proc_snapshot" where
  "systemSnapshotForOS ev goos pid =
     (if goos = ''linux'' then linuxSnapshotFromProc ev ''/proc'' pid
      else if goos = ''darwin'' then darwinSnapshotFromCommands ev pid
      else Inl ErrUncertainTarget)"

definition SystemOps_Snapshot :: "os_env \<Rightarrow> string \<Rightarrow> int \<Rightarrow> go_error + proc_snapshot" where
  "SystemOps_Snapshot ev goos pid =
     (case ev_probe ev pid of
        Some e \<Rightarrow> Inl (if e = ESRCH then ErrProcessNotFound else e)
      | None \<Rightarrow> systemSnapshotForOS ev goos pid)"

definition SystemOps_Signal :: "os_env \<Rightarrow> int \<Rightarrow> os_signal \<Rightarrow> go_error option" where
  "SystemOps_Signal ev pid sig =
     (if \<not> ev_find ev pid then Some os_failure
      else if ev_signal ev pid sig = Some ErrProcessDone then Some ErrProcessNotFound
      else ev_signal ev pid sig)"

definition CurrentRecord ::
  "os_env \<Rightarrow> (int \<Rightarrow> go_error + proc_snapshot) \<Rightarrow> string \<Rightarrow> string \<Rightarrow> go_error + proc_record" where
  "CurrentRecord ev snapshot executable checkoutRoot =
     (case snapshot (ev_pid ev) of
        Inl e \<Rightarrow> Inl (Wrap ''inspect current process'' e)
      | Inr s \<Rightarrow>
          if ev_symlinks ev executable \<noteq> Some (pr_exe s) then Inl ErrUncertainTarget
          else if ev_symlinks ev checkoutRoot \<noteq> Some (pr_checkout s) then Inl ErrUncertainTarget
          else Inr s)"

section \<open>Lemmas\<close>

text \<open>On Linux only the probe reports that a process does not exist: a process that vanishes while it is
  inspected is an error, never taken for gone.\<close>

lemma linux_not_found:
  "SystemOps_Snapshot ev ''linux'' pid = Inl e \<Longrightarrow> is_not_found e \<Longrightarrow> e \<noteq> ErrProcessNotFound \<or> ev_probe ev pid = Some ESRCH \<or>
   ev_probe ev pid = Some ErrProcessNotFound"
  by (auto simp: SystemOps_Snapshot_def systemSnapshotForOS_def linuxSnapshotFromProc_def Let_def
      ErrProcessNotFound_def ErrUncertainTarget_def os_failure_def split: option.splits if_splits)

text \<open>A snapshot is about the process that was asked for, and a current record is the snapshot of the
  daemon itself.\<close>

lemma snapshot_pid: "SystemOps_Snapshot ev goos pid = Inr s \<Longrightarrow> pr_pid s = pid"
  by (auto simp: SystemOps_Snapshot_def systemSnapshotForOS_def linuxSnapshotFromProc_def
      darwinSnapshotFromCommands_def Let_def split: option.splits if_splits)

lemma current_record_matches:
  assumes "CurrentRecord ev snapshot executable checkout = Inr r"
  shows "snapshot (ev_pid ev) = Inr r" "proc_matches r r" "ev_symlinks ev executable = Some (pr_exe r)"
    "ev_symlinks ev checkout = Some (pr_checkout r)"
  using assms by (auto simp: CurrentRecord_def proc_matches_def split: sum.splits if_splits)

end
