(* ===== verification/Api.thy ===== *)
theory Api
  imports Auth Spanner_Store
begin

text \<open>
  Package \<open>api\<close> (\<open>server.go\<close>, \<open>retrieval.go\<close>): the HTTP surface of the daemon on top of the key
  manager and the store.  A handler is a function of the server, the request and the state of the daemon (the private
  directory, the store and the world behind it) that returns the response and the next
  state.  What \<open>net/http\<close> answers itself for a request that no route matches, the layouts of
  \<open>time\<close>, and the printing and range of floating-point numbers are parameters.
\<close>

section \<open>Requests, responses, servers\<close>

record http_request =
  rq_method :: string
  rq_path :: string
  rq_authorization :: string   \<comment> \<open>\<open>Header.Get("Authorization")\<close>\<close>
  rq_length :: int             \<comment> \<open>\<open>ContentLength\<close>, -1 when unknown\<close>
  rq_body :: string
  rq_broken :: bool            \<comment> \<open>reading fails after the bytes of the body\<close>
  rq_env :: auth_env           \<comment> \<open>what the environment does to the files of the manager\<close>

record http_response =
  rs_code :: int
  rs_body :: string

record api_lib =
  ap_auth :: auth_lib
  ap_viable :: "string \<Rightarrow> bool"               \<comment> \<open>the scanner has found no error yet\<close>
  ap_fits :: "string \<Rightarrow> bool"                 \<comment> \<open>a number literal is in the range of \<open>float64\<close>\<close>
  ap_float :: "dbvalue \<Rightarrow> string option"      \<comment> \<open>\<open>json.Marshal\<close> of a \<open>float64\<close>\<close>
  ap_rfc3339 :: "string \<Rightarrow> instant option"    \<comment> \<open>\<open>time.Parse(time.RFC3339Nano, s)\<close>\<close>
  ap_date :: "string \<Rightarrow> instant option"       \<comment> \<open>\<open>time.Parse("2006-01-02", s)\<close>\<close>
  ap_format :: "instant \<Rightarrow> string"            \<comment> \<open>\<open>Format(time.RFC3339Nano)\<close>\<close>
  ap_mux :: "http_request \<Rightarrow> http_response"   \<comment> \<open>what the mux answers without a route\<close>

record 'w api_state =
  aw_fs :: fs
  aw_store :: "spanner_store \<times> 'w"

text \<open>A dependency: its name and its \<open>Ready\<close>, which says whether the error is nil.\<close>

type_synonym 'w dependency = "string \<times> ('w api_state \<Rightarrow> bool \<times> 'w api_state)"

record 'w api_config =
  ac_auth :: bool
  ac_authority :: "manager option"
  ac_retrieval :: "'w executor option"
  ac_read_only :: bool

record 'w api_server =
  sv_config :: "'w api_config"
  sv_verifier :: "manager option"
  sv_dependencies :: "'w dependency list"

definition MaxRequestBodyBytes :: nat where "MaxRequestBodyBytes = 4096"
definition MaxResponseBytes :: nat where "MaxResponseBytes = 32768"
definition maxRetrievalBody :: nat where "maxRetrievalBody = 65536"
definition maxRetrievalResponse :: nat where "maxRetrievalResponse = 8388608"
definition requiredReadinessDependencyCount :: nat where "requiredReadinessDependencyCount = 2"

definition isRequiredReadinessDependency :: "string \<Rightarrow> bool" where
  "isRequiredReadinessDependency name \<longleftrightarrow> name = ''store'' \<or> name = ''watcher''"

text \<open>The loop over the dependencies; \<open>None\<close> is a nil dependency.\<close>

fun own_dependencies :: "string list \<Rightarrow> 'w dependency option list \<Rightarrow> string + 'w dependency list" where
  "own_dependencies seen [] = Inr []"
| "own_dependencies seen (None # ds) = Inl ''readiness dependency name required''"
| "own_dependencies seen (Some d # ds) =
     (if fst d = [] then Inl ''readiness dependency name required''
      else if \<not> isRequiredReadinessDependency (fst d) then Inl ''unknown readiness dependency''
      else if fst d \<in> set seen then Inl ''duplicate readiness dependency''
      else (case own_dependencies (fst d # seen) ds of Inl e \<Rightarrow> Inl e | Inr owned \<Rightarrow> Inr (d # owned)))"

definition api_New ::
  "'w api_config \<Rightarrow> manager option \<Rightarrow> 'w dependency option list \<Rightarrow> string + 'w api_server" where
  "api_New config verifier dependencies =
     (if ac_auth config \<and> verifier = None then Inl ''authenticated API requires verifier''
      else if ac_read_only config \<and> (\<not> ac_auth config \<or> ac_retrieval config = None)
      then Inl ''read-only API requires authenticated retrieval''
      else (case own_dependencies [] dependencies of
         Inl e \<Rightarrow> Inl e
       | Inr owned \<Rightarrow>
           Inr \<lparr>sv_config = config, sv_verifier = verifier, sv_dependencies = sort_key fst owned\<rparr>))"

section \<open>Writing\<close>

text \<open>\<open>payload\<close> is what \<open>json.Marshal\<close> gives.\<close>

definition write_payload :: "int \<Rightarrow> string \<Rightarrow> http_response" where
  "write_payload code payload =
     (if MaxResponseBytes < length payload + 1
      then \<lparr>rs_code = 500, rs_body = [CHR ''{'', CHR 0x22] @ ''error'' @ [CHR 0x22, CHR '':'', CHR 0x22] @
              ''response_unavailable'' @ [CHR 0x22, CHR ''}'', CHR 0x0A]\<rparr>
      else \<lparr>rs_code = code, rs_body = payload @ [CHR 0x0A]\<rparr>)"

definition writeJSON :: "int \<Rightarrow> json \<Rightarrow> http_response" where
  "writeJSON code v = write_payload code (json_marshal True v)"

definition error_reply :: "int \<Rightarrow> string \<Rightarrow> http_response" where
  "error_reply code what = writeJSON code (JObj [(''error'', JStr what)])"

definition invalidRetrieval :: http_response where
  "invalidRetrieval = error_reply 400 ''invalid_request''"

section \<open>Reading bodies\<close>

fun numbers_fit :: "api_lib \<Rightarrow> json \<Rightarrow> bool" where
  "numbers_fit L (JNum t) \<longleftrightarrow> ap_fits L t"
| "numbers_fit L (JArr xs) \<longleftrightarrow> list_all (numbers_fit L) xs"
| "numbers_fit L (JObj kvs) \<longleftrightarrow> list_all (\<lambda>kv. numbers_fit L (snd kv)) kvs"
| "numbers_fit L _ \<longleftrightarrow> True"

fun scalar :: "json \<Rightarrow> bool" where
  "scalar (JArr _) = False"
| "scalar (JObj _) = False"
| "scalar _ = True"

text \<open>\<open>Decode\<close> of the bytes \<open>seen\<close> of a stream that ends in an error (\<open>torn\<close>) or in \<open>io.EOF\<close>.  The end of
  a scalar is known only with the byte after it.\<close>

definition decode_next :: "bool \<Rightarrow> string \<Rightarrow> (json \<times> string) option" where
  "decode_next torn seen =
     (case read_value max_nesting seen of
        None \<Rightarrow> None
      | Some (v, rest) \<Rightarrow> if rest = [] \<and> scalar v \<and> torn then None else Some (v, rest))"

text \<open>\<open>fill\<close> stores the value into the target, \<open>None\<close> is a type error.\<close>

definition decodeBoundedJSON ::
  "api_lib \<Rightarrow> http_request \<Rightarrow> (json \<Rightarrow> 'a option) \<Rightarrow> http_response + 'a" where
  "decodeBoundedJSON L r fill =
     (if int MaxRequestBodyBytes < rq_length r then Inl (error_reply 413 ''request_too_large'')
      else
        let seen = take MaxRequestBodyBytes (rq_body r);
            over = MaxRequestBodyBytes < length (rq_body r);
            torn = (over \<or> rq_broken r)
        in case decode_next torn seen of
             None \<Rightarrow>
               Inl (if over \<and> (ap_viable L seen \<or> read_value max_nesting seen \<noteq> None)
                    then error_reply 413 ''request_too_large'' else invalidRetrieval)
           | Some (v, rest) \<Rightarrow>
               (case fill v of
                  None \<Rightarrow> Inl invalidRetrieval
                | Some x \<Rightarrow>
                    (case decode_next torn rest of
                       Some (extra, _) \<Rightarrow> if numbers_fit L extra then Inl invalidRetrieval else Inr x
                     | None \<Rightarrow> Inr x)))"

definition fill_any :: "api_lib \<Rightarrow> json \<Rightarrow> unit option" where
  "fill_any L v = (if numbers_fit L v then Some () else None)"

text \<open>\<open>map[string]any\<close>\<close>

definition fill_map :: "api_lib \<Rightarrow> json \<Rightarrow> unit option" where
  "fill_map L v = (case v of JNull \<Rightarrow> Some () | JObj _ \<Rightarrow> fill_any L v | _ \<Rightarrow> None)"

definition fill_secret :: "json \<Rightarrow> string option" where
  "fill_secret v = decode_struct False [(''secret'', set_string (\<lambda>s _. s))] v []"

section \<open>Handlers of the server\<close>

type_synonym 'w handler = "http_request \<Rightarrow> 'w api_state \<Rightarrow> http_response \<times> 'w api_state"

definition handleLive :: "'w handler" where
  "handleLive r s = (writeJSON 200 (JObj [(''status'', JStr ''live'')]), s)"

definition withAuth :: "api_lib \<Rightarrow> 'w api_server \<Rightarrow> 'w handler \<Rightarrow> 'w handler" where
  "withAuth L sv continue r s =
     (if ac_auth (sv_config sv) then
        (if length ''Bearer '' + MaxCredentialBytes < length (rq_authorization r)
         then (error_reply 401 ''unauthorized'', s)
         else (case sv_verifier sv of
            None \<Rightarrow> (error_reply 401 ''unauthorized'', s)
          | Some m \<Rightarrow>
              (case VerifyBearer (ap_auth L) m (rq_env r) (rq_authorization r) (aw_fs s) of
                 Inl e \<Rightarrow> (error_reply 401 ''unauthorized'', s)
               | Inr _ \<Rightarrow> continue r s)))
      else continue r s)"

definition handleAuthState :: "manager \<Rightarrow> 'w handler" where
  "handleAuthState m r s =
     ((case RotationState m (rq_env r) (aw_fs s) of
         Inl e \<Rightarrow> error_reply 503 ''auth_unavailable''
       | Inr st \<Rightarrow> writeJSON 200 (JObj [(''active_id'', JStr (rs_active st)), (''pending_id'', JStr (rs_pending st))])), s)"

definition handleAuthRotate :: "api_lib \<Rightarrow> manager \<Rightarrow> 'w handler" where
  "handleAuthRotate L m r s =
     (case decodeBoundedJSON L r fill_secret of
        Inl reply \<Rightarrow> (reply, s)
      | Inr secret \<Rightarrow>
          let res = BeginRotation (ap_auth L) m (rq_env r) secret (aw_fs s)
          in (if ar_error res \<noteq> None then error_reply 400 ''rotation_rejected''
              else writeJSON 202 (JObj [(''status'', JStr ''rotation_pending'')]),
              s\<lparr>aw_fs := ar_fs res\<rparr>))"

definition handleAuthPromote :: "api_lib \<Rightarrow> manager \<Rightarrow> 'w handler" where
  "handleAuthPromote L m r s =
     (case decodeBoundedJSON L r (fill_map L) of
        Inl reply \<Rightarrow> (reply, s)
      | Inr _ \<Rightarrow>
          let res = PromotePending m (rq_env r) (aw_fs s)
          in (if ar_error res \<noteq> None then error_reply 409 ''rotation_unavailable''
              else writeJSON 200 (JObj [(''status'', JStr ''rotation_promoted'')]),
              s\<lparr>aw_fs := ar_fs res\<rparr>))"

text \<open>The loop over the dependencies: all of them are asked, in order.\<close>

fun ask_dependencies :: "'w dependency list \<Rightarrow> 'w api_state \<Rightarrow> (string \<times> bool) list \<times> 'w api_state" where
  "ask_dependencies [] s = ([], s)"
| "ask_dependencies (d # ds) s =
     (case snd d s of (ok, s1) \<Rightarrow> (case ask_dependencies ds s1 of (rs, s2) \<Rightarrow> ((fst d, ok) # rs, s2)))"

definition expected_dependencies :: "'w api_server \<Rightarrow> bool" where
  "expected_dependencies sv \<longleftrightarrow>
     (let names = map fst (sv_dependencies sv) in
      if ac_read_only (sv_config sv) then length names = 1 \<and> names ! 0 = ''store''
      else length names = requiredReadinessDependencyCount)"

definition readiness_payload :: "bool \<Rightarrow> (string \<times> bool) list \<Rightarrow> string" where
  "readiness_payload ready results =
     json_print True (JObj [(''status'', JStr (if ready then ''ready'' else ''not_ready'')),
       (''dependencies'', JArr (map (\<lambda>(n, ok). JObj [(''name'', JStr n), (''ready'', JBool ok)]) results))])"

definition handleReadiness :: "'w api_server \<Rightarrow> 'w handler" where
  "handleReadiness sv r s =
     (case ask_dependencies (sv_dependencies sv) s of
        (results, s') \<Rightarrow>
          let ready = (expected_dependencies sv \<and> list_all snd results)
          in (write_payload (if ready then 200 else 503) (readiness_payload ready results), s'))"

definition handleCursorMutation :: "api_lib \<Rightarrow> 'w handler" where
  "handleCursorMutation L r s =
     ((case decodeBoundedJSON L r (fill_any L) of
         Inl reply \<Rightarrow> reply | Inr _ \<Rightarrow> error_reply 409 ''cursor_sync_forbidden''), s)"

section \<open>Retrieval\<close>

record search_request =
  se_query :: string
  se_limit :: "int option"
  se_project :: "string option"
  se_from :: "string option"
  se_to :: "string option"
  se_hybrid :: "bool option"
  se_analysis :: "bool option"
  se_synthesis :: "bool option"
  se_debug :: "bool option"

record file_request =
  fr_query :: "string option"
  fr_path :: "string option"
  fr_limit :: "int option"
  fr_project :: "string option"
  fr_from :: "string option"
  fr_to :: "string option"
  fr_operation :: "string option"

record session_request =
  sn_session :: "string option"
  sn_project :: "string option"
  sn_count :: "int option"

definition search_specs :: "(string \<times> search_request setter) list" where
  "search_specs = [(''query'', set_string (\<lambda>v r. r\<lparr>se_query := v\<rparr>)), (''limit'', set_int_ptr (\<lambda>v r. r\<lparr>se_limit := v\<rparr>)),
     (''project_filter'', set_string_ptr (\<lambda>v r. r\<lparr>se_project := v\<rparr>)), (''date_from'', set_string_ptr (\<lambda>v r. r\<lparr>se_from := v\<rparr>)),
     (''date_to'', set_string_ptr (\<lambda>v r. r\<lparr>se_to := v\<rparr>)), (''use_hybrid'', set_bool_ptr (\<lambda>v r. r\<lparr>se_hybrid := v\<rparr>)),
     (''enable_analysis'', set_bool_ptr (\<lambda>v r. r\<lparr>se_analysis := v\<rparr>)),
     (''enable_synthesis'', set_bool_ptr (\<lambda>v r. r\<lparr>se_synthesis := v\<rparr>)),
     (''include_debug'', set_bool_ptr (\<lambda>v r. r\<lparr>se_debug := v\<rparr>))]"

definition file_specs :: "(string \<times> file_request setter) list" where
  "file_specs = [(''query'', set_string_ptr (\<lambda>v r. r\<lparr>fr_query := v\<rparr>)), (''file_path'', set_string_ptr (\<lambda>v r. r\<lparr>fr_path := v\<rparr>)),
     (''limit'', set_int_ptr (\<lambda>v r. r\<lparr>fr_limit := v\<rparr>)), (''project_filter'', set_string_ptr (\<lambda>v r. r\<lparr>fr_project := v\<rparr>)),
     (''date_from'', set_string_ptr (\<lambda>v r. r\<lparr>fr_from := v\<rparr>)), (''date_to'', set_string_ptr (\<lambda>v r. r\<lparr>fr_to := v\<rparr>)),
     (''operation_filter'', set_string_ptr (\<lambda>v r. r\<lparr>fr_operation := v\<rparr>))]"

definition session_specs :: "(string \<times> session_request setter) list" where
  "session_specs = [(''session_id'', set_string_ptr (\<lambda>v r. r\<lparr>sn_session := v\<rparr>)),
     (''project_filter'', set_string_ptr (\<lambda>v r. r\<lparr>sn_project := v\<rparr>)), (''count'', set_int_ptr (\<lambda>v r. r\<lparr>sn_count := v\<rparr>))]"

definition api_value :: "string option \<Rightarrow> string" where
  "api_value v = (case v of None \<Rightarrow> [] | Some s \<Rightarrow> s)"

definition api_limit :: "int option \<Rightarrow> int \<Rightarrow> int \<Rightarrow> int \<times> bool" where
  "api_limit v fallback maximum =
     (case v of None \<Rightarrow> (fallback, True) | Some n \<Rightarrow> (n, 1 \<le> n \<and> n \<le> maximum))"

definition validQuery :: "string \<Rightarrow> bool" where
  "validQuery s \<longleftrightarrow> trim_space s \<noteq> [] \<and> length (runes s) \<le> 10000 \<and> length s \<le> 16384"

text \<open>One of the two dates: \<open>None\<close> is a parse error; the end of a day is its last nanosecond.\<close>

definition parse_bound :: "api_lib \<Rightarrow> bool \<Rightarrow> string option \<Rightarrow> instant option" where
  "parse_bound L at_end source =
     (case source of
        None \<Rightarrow> Some zero_time
      | Some t \<Rightarrow>
          if t = [] then Some zero_time
          else (case ap_rfc3339 L t of
             Some x \<Rightarrow> Some x
           | None \<Rightarrow> map_option (\<lambda>x. if at_end then x + 86399999999999 else x) (ap_date L t)))"

definition empty_filter :: filter where
  "empty_filter = \<lparr>fi_project_path = [], fi_chunk_type = [], fi_session = [], fi_project_name = [], fi_machine = [],
     fi_file_path = [], fi_operation = [], fi_date_from = zero_time, fi_date_to = zero_time\<rparr>"

definition requestFilter ::
  "api_lib \<Rightarrow> string option \<Rightarrow> string option \<Rightarrow> string option \<Rightarrow> filter \<times> bool" where
  "requestFilter L project date_from date_to =
     (let f = empty_filter\<lparr>fi_project_path := api_value project\<rparr> in
      if 8192 < length (fi_project_path f) then (f, False)
      else (case parse_bound L False date_from of
         None \<Rightarrow> (f, False)
       | Some a \<Rightarrow>
           let f1 = f\<lparr>fi_date_from := a\<rparr> in
           (case parse_bound L True date_to of
              None \<Rightarrow> (f1, False)
            | Some b \<Rightarrow>
                (f1\<lparr>fi_date_to := b\<rparr>, is_zero_time a \<or> is_zero_time b \<or> \<not> b < a))))"

text \<open>The pass over the tokens: an object with distinct keys and scalar values.\<close>

definition scan_retrieval :: "api_lib \<Rightarrow> json \<Rightarrow> bool" where
  "scan_retrieval L v =
     (case v of
        JObj kvs \<Rightarrow> distinct (map fst kvs) \<and> list_all (\<lambda>kv. numbers_fit L (snd kv) \<and> scalar (snd kv)) kvs
      | _ \<Rightarrow> False)"

definition decodeRetrieval ::
  "api_lib \<Rightarrow> http_request \<Rightarrow> (json \<Rightarrow> 'a option) \<Rightarrow> http_response + 'a" where
  "decodeRetrieval L r fill =
     (if maxRetrievalBody < length (rq_body r) \<or> rq_broken r then Inl (error_reply 413 ''request_too_large'')
      else
        let data = rq_body r; trimmed = trim_space data in
        if trimmed = [] \<or> hd trimmed \<noteq> CHR ''{'' then Inl invalidRetrieval
        else (case json_single data of
           None \<Rightarrow> Inl invalidRetrieval
         | Some v \<Rightarrow>
             if \<not> scan_retrieval L v then Inl invalidRetrieval
             else (case fill v of None \<Rightarrow> Inl invalidRetrieval | Some x \<Rightarrow> Inr x)))"

definition wire_result :: "api_lib \<Rightarrow> result \<Rightarrow> json option" where
  "wire_result L row =
     map_option (\<lambda>d. JObj [(''id'', JStr (re_id row)), (''content'', JStr (re_content row)), (''chunk_type'', JStr (re_type row)),
       (''session_id'', JStr (re_session row)), (''project_path'', JStr (re_project_path row)),
       (''project_name'', JStr (re_project_name row)), (''timestamp'', JStr (ap_format L (re_time row))),
       (''file_path'', JStr (re_file row)), (''operation'', JStr (re_operation row)), (''machine_id'', JStr (re_machine row)),
       (''distance'', JNum d), (''search_type'', JStr (re_search_type row))]) (ap_float L (re_distance row))"

fun wireResults :: "api_lib \<Rightarrow> result list \<Rightarrow> json list option" where
  "wireResults L [] = Some []"
| "wireResults L (row # rows) =
     (case wire_result L row of
        None \<Rightarrow> None | Some j \<Rightarrow> map_option ((#) j) (wireResults L rows))"

definition optional_string :: "string option \<Rightarrow> json" where
  "optional_string v = (case v of None \<Rightarrow> JNull | Some s \<Rightarrow> JStr s)"

text \<open>\<open>run\<close> is the call of the store, \<open>show_rows\<close> the response value without the rows that it
  prints under \<open>key\<close>.\<close>

definition runRetrieval ::
  "api_lib \<Rightarrow> 'w api_server \<Rightarrow> ('w executor \<Rightarrow> ('w, result list) store_op) \<Rightarrow> string \<Rightarrow>
   (result list \<Rightarrow> (string \<times> json) list) \<Rightarrow> 'w api_state \<Rightarrow> http_response \<times> 'w api_state" where
  "runRetrieval L sv run key show_rows s =
     (case ac_retrieval (sv_config sv) of
        None \<Rightarrow> (error_reply 503 ''retrieval_unavailable'', s)
      | Some E \<Rightarrow>
          (case run E (aw_store s) of
             (Inl e, st) \<Rightarrow>
               (error_reply (if is_deadline e then 504 else 503) ''retrieval_failed'', s\<lparr>aw_store := st\<rparr>)
           | (Inr rows, st) \<Rightarrow>
               ((case wireResults L rows of
                   None \<Rightarrow> error_reply 503 ''retrieval_response_too_large''
                 | Some js \<Rightarrow>
                     let payload = json_marshal True (JObj ((key, JArr js) # show_rows rows)) in
                     if maxRetrievalResponse < length payload
                     then error_reply 503 ''retrieval_response_too_large''
                     else \<lparr>rs_code = 200, rs_body = payload @ [CHR 0x0A]\<rparr>),
                s\<lparr>aw_store := st\<rparr>)))"

definition row_count :: "result list \<Rightarrow> string \<times> json" where
  "row_count rows = (''count'', JNum (show_nat (length rows)))"

definition search_query :: "string \<Rightarrow> int \<Rightarrow> filter \<Rightarrow> query" where
  "search_query t n f = \<lparr>qu_text = t, qu_vector = [], qu_limit = n, qu_mode = SearchAuto, qu_filter = f\<rparr>"

definition handleSearch :: "api_lib \<Rightarrow> 'w api_server \<Rightarrow> 'w handler" where
  "handleSearch L sv r s =
     (case decodeRetrieval L r (\<lambda>v. decode_struct True search_specs v
          \<lparr>se_query = [], se_limit = None, se_project = None, se_from = None, se_to = None, se_hybrid = None,
           se_analysis = None, se_synthesis = None, se_debug = None\<rparr>) of
        Inl reply \<Rightarrow> (reply, s)
      | Inr b \<Rightarrow>
          (case api_limit (se_limit b) 5 50 of (n, ok) \<Rightarrow>
          (case requestFilter L (se_project b) (se_from b) (se_to b) of (f, valid) \<Rightarrow>
             if \<not> ok \<or> \<not> valid \<or> \<not> validQuery (se_query b) then (invalidRetrieval, s)
             else
               let q = search_query (se_query b) n f;
                   hybrid = (case se_hybrid b of None \<Rightarrow> True | Some h \<Rightarrow> h)
               in runRetrieval L sv
                    (\<lambda>E. if hybrid then store_HybridSearch E Context q else store_Search E Context q)
                    ''results''
                    (\<lambda>rows. [row_count rows, (''query'', JStr (se_query b)),
                       (''search_type'', JStr (case rows of [] \<Rightarrow> ''empty'' | row # _ \<Rightarrow> re_search_type row)),
                       (''error'', JNull)]) s)))"

definition handleFileSearch :: "api_lib \<Rightarrow> 'w api_server \<Rightarrow> 'w handler" where
  "handleFileSearch L sv r s =
     (case decodeRetrieval L r (\<lambda>v. decode_struct True file_specs v
          \<lparr>fr_query = None, fr_path = None, fr_limit = None, fr_project = None, fr_from = None, fr_to = None,
           fr_operation = None\<rparr>) of
        Inl reply \<Rightarrow> (reply, s)
      | Inr b \<Rightarrow>
          (case api_limit (fr_limit b) 10 50 of (n, ok) \<Rightarrow>
          (case requestFilter L (fr_project b) (fr_from b) (fr_to b) of (f0, valid) \<Rightarrow>
             let f = f0\<lparr>fi_chunk_type := ''file_change'', fi_file_path := api_value (fr_path b),
                        fi_operation := api_value (fr_operation b)\<rparr>;
                 given = api_value (fr_query b);
                 t = (if given = [] \<and> fi_file_path f \<noteq> [] then ''file changes to '' @ fi_file_path f else given)
             in if \<not> ok \<or> \<not> valid \<or> \<not> validQuery t \<or> 8192 < length (fi_file_path f) \<or>
                   (fi_operation f \<noteq> [] \<and> fi_operation f \<noteq> ''edit'' \<and> fi_operation f \<noteq> ''write'')
                then (invalidRetrieval, s)
                else runRetrieval L sv (\<lambda>E. store_Search E Context (search_query t n f)) ''results''
                       (\<lambda>rows. [row_count rows, (''file_path_filter'', optional_string (fr_path b)),
                          (''operation_filter'', optional_string (fr_operation b)), (''error'', JNull)]) s)))"

definition handleSessions :: "api_lib \<Rightarrow> 'w api_server \<Rightarrow> 'w handler" where
  "handleSessions L sv r s =
     (case decodeRetrieval L r (\<lambda>v. decode_struct True session_specs v
          \<lparr>sn_session = None, sn_project = None, sn_count = None\<rparr>) of
        Inl reply \<Rightarrow> (reply, s)
      | Inr b \<Rightarrow>
          (case api_limit (sn_count b) 1 20 of (n, ok) \<Rightarrow>
          (case requestFilter L (sn_project b) None None of (f0, valid) \<Rightarrow>
             let f = f0\<lparr>fi_session := api_value (sn_session b)\<rparr> in
             if \<not> ok \<or> \<not> valid \<or> 128 < length (fi_session f) then (invalidRetrieval, s)
             else runRetrieval L sv (\<lambda>E. store_Summaries E Context f n) ''summaries''
                    (\<lambda>rows. [row_count rows, (''error'', JNull)]) s)))"

section \<open>Routes\<close>

text \<open>A pattern for \<open>GET\<close> also takes \<open>HEAD\<close>.  \<open>None\<close>: no route.\<close>

definition api_route :: "api_lib \<Rightarrow> 'w api_server \<Rightarrow> string \<Rightarrow> string \<Rightarrow> 'w handler option" where
  "api_route L sv rq_verb path =
     (let is_get = (rq_verb = ''GET'' \<or> rq_verb = ''HEAD''); is_post = (rq_verb = ''POST'') in
      if is_get \<and> path = ''/live'' then Some handleLive
      else if is_get \<and> path = ''/health'' then Some (withAuth L sv (handleReadiness sv))
      else if is_get \<and> path = ''/status'' then Some (withAuth L sv (handleReadiness sv))
      else if is_post \<and> path = ''/api/positions'' then Some (withAuth L sv (handleCursorMutation L))
      else if is_post \<and> path = ''/api/search'' then Some (withAuth L sv (handleSearch L sv))
      else if is_post \<and> path = ''/api/search/files'' then Some (withAuth L sv (handleFileSearch L sv))
      else if is_post \<and> path = ''/api/sessions'' then Some (withAuth L sv (handleSessions L sv))
      else (case ac_authority (sv_config sv) of
         None \<Rightarrow> None
       | Some m \<Rightarrow>
           if is_get \<and> path = ''/api/auth/state'' then Some (withAuth L sv (handleAuthState m))
           else if is_post \<and> path = ''/api/auth/rotate'' then Some (withAuth L sv (handleAuthRotate L m))
           else if is_post \<and> path = ''/api/auth/rotation-ack'' then Some (withAuth L sv (handleAuthPromote L m))
           else None))"

definition fixedHeaders :: "(string \<times> string) list" where
  "fixedHeaders = [(''Content-Type'', ''application/json; charset=utf-8''), (''Cache-Control'', ''no-store''),
     (''X-Content-Type-Options'', ''nosniff'')]"

definition serve :: "api_lib \<Rightarrow> 'w api_server \<Rightarrow> 'w handler" where
  "serve L sv r s =
     (case api_route L sv (rq_method r) (rq_path r) of
        None \<Rightarrow> (ap_mux L r, s)
      | Some handle \<Rightarrow> handle r s)"

end
