(* ===== verification/Api_Safety.thy ===== *)
theory Api_Safety
  imports Api Auth_Rotation
begin

text \<open>
  What the HTTP surface guarantees: no route but \<open>/live\<close> is served without a stored key, responses are
  bounded, and the store is called only with validated arguments.
\<close>

section \<open>The gate\<close>

lemma VerifyBearer_accepts:
  assumes "VerifyBearer L m env header s = Inr k"
  obtains secret st c where "header = ''Bearer '' @ secret" "loadLocked m (ae_read env) s = Inr st"
    "c = as_active st \<or> as_pending st = Some c" "key_matches L secret c"
proof -
  obtain secret where p: "parseBearer header = Inr secret"
    using assms by (cases "parseBearer header") (auto simp: VerifyBearer_def)
  obtain st where load: "loadLocked m (ae_read env) s = Inr st"
    using assms p by (cases "loadLocked m (ae_read env) s") (auto simp: VerifyBearer_def)
  have true: "auth_verify L secret c = Inr True \<Longrightarrow> key_matches L secret c" for c
    by (auto simp: auth_verify_def key_matches_def split: option.splits)
  have "\<exists>c. (c = as_active st \<or> as_pending st = Some c) \<and> auth_verify L secret c = Inr True"
    using assms p load
    by (cases "as_pending st") (auto simp: VerifyBearer_def Let_def split: sum.splits if_splits option.splits)
  with true that load p show thesis by (auto simp: parseBearer_Inr)
qed

text \<open>What a request with a stored key is.\<close>

definition authorized :: "api_lib \<Rightarrow> 'w api_server \<Rightarrow> http_request \<Rightarrow> 'w api_state \<Rightarrow> bool" where
  "authorized L sv r s \<longleftrightarrow>
     (\<exists>m secret st c. sv_verifier sv = Some m \<and> rq_authorization r = ''Bearer '' @ secret \<and>
        loadLocked m (ae_read (rq_env r)) (aw_fs s) = Inr st \<and>
        (c = as_active st \<or> as_pending st = Some c) \<and> key_matches (ap_auth L) secret c)"

lemma withAuth_gate:
  assumes "ac_auth (sv_config sv)"
  shows "withAuth L sv h r s = (error_reply 401 ''unauthorized'', s) \<or> authorized L sv r s \<and> withAuth L sv h r s = h r s"
proof (cases "sv_verifier sv")
  case None
  then show ?thesis using assms by (simp add: withAuth_def)
next
  case (Some m)
  show ?thesis
  proof (cases "VerifyBearer (ap_auth L) m (rq_env r) (rq_authorization r) (aw_fs s)")
    case (Inl e)
    then show ?thesis using assms Some by (simp add: withAuth_def)
  next
    case (Inr k)
    then have "authorized L sv r s"
      using Some by (elim VerifyBearer_accepts) (auto simp: authorized_def)
    then show ?thesis using assms Some Inr by (auto simp: withAuth_def)
  qed
qed

lemma api_route_cases:
  assumes "api_route L sv verb path = Some h"
  obtains "path = ''/live''" "h = handleLive" | g where "h = withAuth L sv g"
  using assms by (auto simp: api_route_def Let_def split: if_splits option.splits)

lemma api_New_fields:
  assumes "api_New config verifier deps = Inr sv"
  shows "sv_config sv = config" "sv_verifier sv = verifier" "ac_auth config \<Longrightarrow> verifier \<noteq> None"
  using assms by (auto simp: api_New_def split: if_splits sum.splits)

section \<open>Sizes\<close>

definition bounded_reply :: "http_response \<Rightarrow> bool" where
  "bounded_reply p \<longleftrightarrow> length (rs_body p) \<le> MaxResponseBytes \<and>
     rs_code p \<in> {200, 202, 400, 401, 409, 413, 500, 503, 504}"

lemma write_payload_bounded:
  "code \<in> {200, 202, 400, 401, 409, 413, 500, 503, 504} \<Longrightarrow> bounded_reply (write_payload code payload)"
  by (auto simp: bounded_reply_def write_payload_def MaxResponseBytes_def)

lemma replies_bounded [simp]:
  "code \<in> {200, 202, 400, 401, 409, 413, 500, 503, 504} \<Longrightarrow> bounded_reply (writeJSON code v)"
  "code \<in> {200, 202, 400, 401, 409, 413, 500, 503, 504} \<Longrightarrow> bounded_reply (error_reply code what)"
  "bounded_reply invalidRetrieval"
  by (simp_all add: writeJSON_def error_reply_def invalidRetrieval_def write_payload_bounded)

text \<open>A retrieval may answer with more.\<close>

definition bounded_answer :: "http_response \<Rightarrow> bool" where
  "bounded_answer p \<longleftrightarrow> bounded_reply p \<or> rs_code p = 200 \<and> length (rs_body p) \<le> maxRetrievalResponse + 1"

lemma decode_bounded:
  "decodeBoundedJSON L r f = Inl p \<Longrightarrow> bounded_reply p" "decodeRetrieval L r f = Inl p \<Longrightarrow> bounded_reply p"
  by (auto simp: decodeBoundedJSON_def decodeRetrieval_def Let_def split: if_splits option.splits prod.splits)

lemma handlers_bounded:
  "bounded_reply (fst (handleLive r s))" "bounded_reply (fst (handleReadiness sv r s))"
  "bounded_reply (fst (handleCursorMutation L r s))" "bounded_reply (fst (handleAuthState m r s))"
  "bounded_reply (fst (handleAuthRotate L m r s))" "bounded_reply (fst (handleAuthPromote L m r s))"
  by (auto simp: handleLive_def handleReadiness_def handleCursorMutation_def handleAuthState_def
      handleAuthRotate_def handleAuthPromote_def Let_def write_payload_bounded decode_bounded
      split: sum.splits prod.splits)

lemma runRetrieval_bounded: "bounded_answer (fst (runRetrieval L sv run key rest s))"
  by (auto simp: runRetrieval_def bounded_answer_def Let_def split: option.splits sum.splits prod.splits)

lemma retrieval_bounded:
  "bounded_answer (fst (handleSearch L sv r s))" "bounded_answer (fst (handleFileSearch L sv r s))"
  "bounded_answer (fst (handleSessions L sv r s))"
proof -
  have reply: "bounded_reply p \<Longrightarrow> bounded_answer p" for p by (simp add: bounded_answer_def)
  show "bounded_answer (fst (handleSearch L sv r s))" "bounded_answer (fst (handleFileSearch L sv r s))"
    "bounded_answer (fst (handleSessions L sv r s))"
    unfolding handleSearch_def handleFileSearch_def handleSessions_def Let_def
    by (auto split: sum.splits prod.splits intro: runRetrieval_bounded reply decode_bounded(2))
qed

section \<open>Calls of the store\<close>

text \<open>A query that the handlers may pass on.\<close>

definition checked_filter :: "filter \<Rightarrow> bool" where
  "checked_filter f \<longleftrightarrow> length (fi_project_path f) \<le> 8192 \<and> length (fi_file_path f) \<le> 8192 \<and> length (fi_session f) \<le> 128 \<and>
     fi_operation f \<in> {[], ''edit'', ''write''} \<and>
     (is_zero_time (fi_date_from f) \<or> is_zero_time (fi_date_to f) \<or> fi_date_from f \<le> fi_date_to f)"

definition checked_query :: "query \<Rightarrow> bool" where
  "checked_query q \<longleftrightarrow> validQuery (qu_text q) \<and> 1 \<le> qu_limit q \<and> qu_limit q \<le> 50 \<and> qu_vector q = [] \<and>
     qu_mode q = SearchAuto \<and> checked_filter (qu_filter q)"

lemma requestFilter_checked:
  assumes "requestFilter L project a b = (f, True)"
  shows "checked_filter f" "fi_file_path f = []" "fi_operation f = []" "fi_session f = []"
  using assms
  by (auto simp: requestFilter_def checked_filter_def empty_filter_def Let_def split: if_splits option.splits)

lemma api_limit_checked: "api_limit v d n = (k, True) \<Longrightarrow> 1 \<le> d \<Longrightarrow> d \<le> n \<Longrightarrow> 1 \<le> k \<and> k \<le> n"
  by (auto simp: api_limit_def split: option.splits)

text \<open>The store after a checked call, or as it was.\<close>

inductive store_called :: "'w api_server \<Rightarrow> spanner_store \<times> 'w \<Rightarrow> spanner_store \<times> 'w \<Rightarrow> bool" for sv st where
  none: "store_called sv st st"
| search: "ac_retrieval (sv_config sv) = Some E \<Longrightarrow> checked_query q \<Longrightarrow>
    store_called sv st (snd (store_Search E Context q st))"
| hybrid: "ac_retrieval (sv_config sv) = Some E \<Longrightarrow> checked_query q \<Longrightarrow>
    store_called sv st (snd (store_HybridSearch E Context q st))"
| summaries: "ac_retrieval (sv_config sv) = Some E \<Longrightarrow> checked_filter f \<Longrightarrow> 1 \<le> n \<Longrightarrow> n \<le> 20 \<Longrightarrow>
    store_called sv st (snd (store_Summaries E Context f n st))"

lemma runRetrieval_store:
  assumes "\<And>E. ac_retrieval (sv_config sv) = Some E \<Longrightarrow> store_called sv (aw_store s) (snd (run E (aw_store s)))"
  shows "store_called sv (aw_store s) (aw_store (snd (runRetrieval L sv run key rest s))) \<and>
    aw_fs (snd (runRetrieval L sv run key rest s)) = aw_fs s"
proof (cases "ac_retrieval (sv_config sv)")
  case None
  then show ?thesis by (simp add: runRetrieval_def none)
next
  case (Some E)
  obtain x st where "run E (aw_store s) = (x, st)" by (cases "run E (aw_store s)")
  with assms [OF Some] Some show ?thesis by (cases x) (simp_all add: runRetrieval_def)
qed

lemma handleSearch_store:
  "store_called sv (aw_store s) (aw_store (snd (handleSearch L sv r s))) \<and> aw_fs (snd (handleSearch L sv r s)) = aw_fs s"
proof -
  have q: "checked_query (search_query t n f)"
    if "api_limit lim 5 50 = (n, True)" "requestFilter L p a b = (f, True)" "validQuery t" for t n f lim p a b
    using that api_limit_checked [OF that(1)] requestFilter_checked [OF that(2)]
    by (simp add: checked_query_def search_query_def)
  show ?thesis
    unfolding handleSearch_def Let_def
    by (auto split: sum.splits prod.splits if_splits bool.splits intro!: runRetrieval_store none search hybrid q)
qed

lemma handleFileSearch_store:
  "store_called sv (aw_store s) (aw_store (snd (handleFileSearch L sv r s))) \<and>
   aw_fs (snd (handleFileSearch L sv r s)) = aw_fs s"
proof -
  have q: "checked_query (search_query t n (f\<lparr>fi_chunk_type := c, fi_file_path := x, fi_operation := y\<rparr>))"
    if "api_limit lim 10 50 = (n, True)" "requestFilter L p a b = (f, True)" "validQuery t" "\<not> 8192 < length x"
      "y \<noteq> [] \<longrightarrow> y \<noteq> ''edit'' \<longrightarrow> y = ''write''" for t n f c x y lim p a b
    using that api_limit_checked [OF that(1)] requestFilter_checked [OF that(2)]
    by (auto simp: checked_query_def search_query_def checked_filter_def)
  show ?thesis
    unfolding handleFileSearch_def Let_def
    by (auto split: sum.splits prod.splits if_splits bool.splits simp del: append.simps
        intro!: runRetrieval_store none search q)
qed

lemma handleSessions_store:
  "store_called sv (aw_store s) (aw_store (snd (handleSessions L sv r s))) \<and>
   aw_fs (snd (handleSessions L sv r s)) = aw_fs s"
proof -
  have f: "checked_filter (f\<lparr>fi_session := x\<rparr>)"
    if "requestFilter L p a b = (f, True)" "\<not> 128 < length x" for f x p a b
    using requestFilter_checked [OF that(1)] that(2) by (simp add: checked_filter_def)
  have n: "1 \<le> n" "n \<le> 20" if "api_limit lim 1 20 = (n, True)" for n lim
    using api_limit_checked [OF that] by simp_all
  show ?thesis
    unfolding handleSessions_def Let_def
    by (auto split: sum.splits prod.splits if_splits bool.splits intro!: runRetrieval_store none summaries f n)
qed

lemma withAuth_keeps:
  "P (error_reply 401 ''unauthorized'') s \<Longrightarrow> P (fst (h r s)) (snd (h r s)) \<Longrightarrow>
   P (fst (withAuth L sv h r s)) (snd (withAuth L sv h r s))"
  by (auto simp: withAuth_def split: option.splits sum.splits)

section \<open>Properties\<close>

text \<open>C8: on a server that \<open>api.New\<close> accepts with authentication on, a request to any route but \<open>/live\<close> either is answered
  with 401 and leaves the state of the daemon as it is, or carries the secret of a credential, active or pending,
  that the state file holds at that moment.  In particular neither retrieval nor the rotation of keys is
  reachable without a stored key.\<close>

theorem api_gate:
  assumes "api_New config verifier deps = Inr sv" "ac_auth config"
    and "api_route L sv (rq_method r) (rq_path r) \<noteq> None" "rq_path r \<noteq> ''/live''"
  shows "serve L sv r s = (error_reply 401 ''unauthorized'', s) \<or> authorized L sv r s"
proof -
  obtain h where h: "api_route L sv (rq_method r) (rq_path r) = Some h" using assms(3) by blast
  then obtain g where "h = withAuth L sv g" using assms(4) by (auto elim: api_route_cases)
  with h have "serve L sv r s = withAuth L sv g r s" by (simp add: serve_def)
  moreover have "ac_auth (sv_config sv)" using api_New_fields(1) [OF assms(1)] assms(2) by simp
  ultimately show ?thesis using withAuth_gate [of sv L g r s] by auto
qed

text \<open>C9: whatever a request holds, a routed request gets a bounded answer with one of nine status codes: 32 KiB, or 8 MiB and a
  line break for retrieved rows; and except for the readiness routes, which ask the dependencies, the store
  is left alone or called once with checked arguments (text of at most 16384 bytes that is not blank, a limit
  of at most 50 or 20, a bounded filter with ordered dates).  Only the routes under \<open>/api/auth\<close> change files.\<close>

theorem api_calls_checked:
  fixes s s' :: "'w api_state"
  assumes "api_route L sv (rq_method r) (rq_path r) \<noteq> None" "serve L sv r s = (p, s')"
  shows "bounded_answer p \<and>
    (rq_path r \<notin> {''/health'', ''/status''} \<longrightarrow>
       store_called sv (aw_store s) (aw_store s') \<and>
       (rq_path r \<notin> {''/api/auth/rotate'', ''/api/auth/rotation-ack''} \<longrightarrow> aw_fs s' = aw_fs s))"
proof -
  define P where "P = (\<lambda>path p (t :: 'w api_state). bounded_answer p \<and>
    (path \<notin> {''/health'', ''/status''} \<longrightarrow> store_called sv (aw_store s) (aw_store t) \<and>
       (path \<notin> {''/api/auth/rotate'', ''/api/auth/rotation-ack''} \<longrightarrow> aw_fs t = aw_fs s)))"
  have reply: "bounded_reply p \<Longrightarrow> bounded_answer p" for p by (simp add: bounded_answer_def)
  have small: "bounded_reply q \<Longrightarrow> P path q s" for path q by (simp add: P_def reply none)
  have gate: "P path (fst (h r s)) (snd (h r s)) \<Longrightarrow> P path (fst (withAuth L sv h r s)) (snd (withAuth L sv h r s))" for path h
    by (rule withAuth_keeps [where P = "P path"]) (simp_all add: small)
  have live: "P path (fst (handleLive r s)) (snd (handleLive r s))"
    "P path (fst (handleCursorMutation L r s)) (snd (handleCursorMutation L r s))"
    "P path (fst (handleAuthState m r s)) (snd (handleAuthState m r s))" for path m
    using small [OF handlers_bounded(1)] small [OF handlers_bounded(3)] small [OF handlers_bounded(4)]
    by (simp_all add: handleLive_def handleCursorMutation_def handleAuthState_def)
  have ready: "P ''/health'' (fst (handleReadiness sv r s)) (snd (handleReadiness sv r s))"
    "P ''/status'' (fst (handleReadiness sv r s)) (snd (handleReadiness sv r s))"
    by (simp_all add: P_def reply handlers_bounded)
  have retrieval: "P path (fst (handleSearch L sv r s)) (snd (handleSearch L sv r s))"
    "P path (fst (handleFileSearch L sv r s)) (snd (handleFileSearch L sv r s))"
    "P path (fst (handleSessions L sv r s)) (snd (handleSessions L sv r s))" for path
    by (simp_all add: P_def retrieval_bounded handleSearch_store handleFileSearch_store handleSessions_store)
  have "aw_store (snd (handleAuthRotate L m r s)) = aw_store s" "aw_store (snd (handleAuthPromote L m r s)) = aw_store s" for m
    by (auto simp: handleAuthRotate_def handleAuthPromote_def Let_def split: sum.splits)
  then have rotate: "P ''/api/auth/rotate'' (fst (handleAuthRotate L m r s)) (snd (handleAuthRotate L m r s))"
    "P ''/api/auth/rotation-ack'' (fst (handleAuthPromote L m r s)) (snd (handleAuthPromote L m r s))" for m
    by (simp_all add: P_def reply handlers_bounded none)
  obtain h where h: "api_route L sv (rq_method r) (rq_path r) = Some h" using assms(1) by blast
  then have "P (rq_path r) (fst (h r s)) (snd (h r s))"
    unfolding api_route_def Let_def
    by (auto split: if_splits option.splits intro: gate live ready retrieval rotate)
  moreover have "h r s = (p, s')" using assms(2) h by (simp add: serve_def)
  ultimately show ?thesis by (simp add: P_def)
qed

section \<open>Examples\<close>

definition example_api :: api_lib where
  "example_api = \<lparr>ap_auth = example_auth_lib, ap_viable = (\<lambda>_. True), ap_fits = (\<lambda>_. True), ap_float = (\<lambda>_. Some ''0''),
     ap_rfc3339 = (\<lambda>_. None), ap_date = (\<lambda>_. None), ap_format = (\<lambda>_. []),
     ap_mux = (\<lambda>_. \<lparr>rs_code = 404, rs_body = []\<rparr>)\<rparr>"

definition example_api_config :: "unit api_config" where
  "example_api_config = \<lparr>ac_auth = True, ac_authority = Some example_manager, ac_retrieval = None, ac_read_only = False\<rparr>"

definition example_server :: "unit api_server" where
  "example_server = \<lparr>sv_config = example_api_config, sv_verifier = Some example_manager, sv_dependencies = []\<rparr>"

definition example_call :: "string \<Rightarrow> http_request" where
  "example_call path = \<lparr>rq_method = ''POST'', rq_path = path, rq_authorization = [], rq_length = 2,
     rq_body = ''{}'', rq_broken = False, rq_env = example_auth_env\<rparr>"

definition example_daemon :: "spanner_store \<Rightarrow> unit api_state" where
  "example_daemon st = \<lparr>aw_fs = example_auth_fs, aw_store = (st, ())\<rparr>"

lemma example_server_new: "api_New example_api_config (Some example_manager) [] = Inr example_server"
  by (simp add: api_New_def example_api_config_def example_server_def)

lemma example_routes:
  "api_route example_api example_server (rq_method (example_call ''/api/auth/rotate''))
     (rq_path (example_call ''/api/auth/rotate'')) \<noteq> None"
  "api_route example_api example_server (rq_method (example_call ''/api/search''))
     (rq_path (example_call ''/api/search'')) \<noteq> None"
  by (simp_all add: api_route_def example_call_def example_server_def example_api_config_def)

theorem api_gate_witness:
  "\<forall>st. serve example_api example_server (example_call ''/api/auth/rotate'') (example_daemon st) =
     (error_reply 401 ''unauthorized'', example_daemon st)"
proof
  fix st
  have "\<not> authorized example_api example_server (example_call ''/api/auth/rotate'') (example_daemon st)"
    by (simp add: authorized_def example_call_def)
  moreover have "rq_path (example_call ''/api/auth/rotate'') \<noteq> ''/live''" "ac_auth example_api_config"
    by (simp_all add: example_call_def example_api_config_def)
  ultimately show "serve example_api example_server (example_call ''/api/auth/rotate'') (example_daemon st) =
     (error_reply 401 ''unauthorized'', example_daemon st)"
    using api_gate [OF example_server_new _ example_routes(1), of "example_daemon st"] by blast
qed

theorem api_calls_checked_witness:
  "\<forall>st. \<exists>p s'. serve example_api example_server (example_call ''/api/search'') (example_daemon st) = (p, s') \<and>
     bounded_answer p \<and> store_called example_server (st, ()) (aw_store s') \<and> aw_fs s' = example_auth_fs"
proof
  fix st
  obtain p s' where serve: "serve example_api example_server (example_call ''/api/search'') (example_daemon st) = (p, s')"
    by fastforce
  show "\<exists>p s'. serve example_api example_server (example_call ''/api/search'') (example_daemon st) = (p, s') \<and>
     bounded_answer p \<and> store_called example_server (st, ()) (aw_store s') \<and> aw_fs s' = example_auth_fs"
    using api_calls_checked [OF example_routes(2) serve] serve
    by (simp add: example_call_def example_daemon_def)
qed

end
