(* ===== verification/Daemon_Config.thy ===== *)
theory Daemon_Config
  imports Durable Json_Read
begin

text \<open>
  Package \<open>config\<close> (\<open>config.go\<close>, \<open>config_file_identity_unix.go\<close>): the configuration file of the
  daemon.  What \<open>Lstat\<close>, \<open>Open\<close>, \<open>Stat\<close> and \<open>EvalSymlinks\<close> answer is in the records \<open>closed_file\<close> and
  \<open>config_env\<close>.
\<close>

section \<open>Data\<close>

record daemon_config =
  cf_state_dir :: string
  cf_listen :: string
  cf_container :: bool
  cf_read_only :: bool
  cf_roots :: "string list"
  cf_pid_file :: string
  cf_auth_file :: string
  cf_auth :: bool
  cf_checkout :: string
  cf_executable :: string

definition MaxConfigBytes :: nat where "MaxConfigBytes = 65536"

text \<open>What one attempt to read the file meets: the results of \<open>Lstat\<close>, of the \<open>Lstat\<close> for the link count, of
  \<open>Stat\<close> on the open file (\<open>None\<close> also when it cannot be opened), the bytes, and the last \<open>Lstat\<close>.\<close>

record closed_file =
  cl_before :: "ustat option"
  cl_links :: "ustat option"
  cl_opened :: "ustat option"
  cl_data :: "string option"
  cl_after :: "ustat option"

record config_env =
  ce_symlinks :: "string \<Rightarrow> string option"
  ce_lstat :: "string \<Rightarrow> ustat option"

section \<open>Reading\<close>

definition requireOwnerOnlyConfigMode :: "ustat \<Rightarrow> bool" where
  "requireOwnerOnlyConfigMode st \<longleftrightarrow> st_perm st = 384"

definition requireOwnerOnlyStateDirectoryMode :: "ustat \<Rightarrow> bool" where
  "requireOwnerOnlyStateDirectoryMode st \<longleftrightarrow> st_perm st = 448"

definition requireSingleLink :: "ustat option \<Rightarrow> bool" where
  "requireSingleLink st \<longleftrightarrow> (case st of None \<Rightarrow> False | Some i \<Rightarrow> st_nlink i = 1)"

definition readClosedFile :: "string \<Rightarrow> closed_file \<Rightarrow> nat \<Rightarrow> string + string" where
  "readClosedFile path cl maxBytes =
     (if \<not> is_abs path \<or> path_clean path \<noteq> path then Inl ''config path must be absolute and clean''
      else (case cl_before cl of
         None \<Rightarrow> Inl ''lstat''
       | Some before \<Rightarrow>
           if st_kind before \<noteq> Regular \<or> \<not> requireOwnerOnlyConfigMode before
           then Inl ''config file must be owner-only regular file''
           else if \<not> requireSingleLink (cl_links cl) then Inl ''config file must have one name''
           else (case cl_opened cl of
              None \<Rightarrow> Inl ''open''
            | Some opened \<Rightarrow>
                if \<not> sameIdentity before opened \<or> st_kind opened \<noteq> Regular \<or> \<not> requireOwnerOnlyConfigMode opened
                then Inl ''config file identity changed''
                else (case cl_data cl of
                   None \<Rightarrow> Inl ''read''
                 | Some payload \<Rightarrow>
                     if maxBytes < length payload then Inl ''config exceeds size limit''
                     else (case cl_after cl of
                        None \<Rightarrow> Inl ''config file identity changed''
                      | Some final \<Rightarrow>
                          if \<not> sameIdentity opened final then Inl ''config file identity changed''
                          else Inr payload)))))"

text \<open>The target of the decoder and the backing array of \<open>WatchRoots\<close>.\<close>

definition set_roots :: "(daemon_config \<times> string list) setter" where
  "set_roots v x =
     (case v of
        JNull \<Rightarrow> Some ((fst x)\<lparr>cf_roots := []\<rparr>, [])
      | JArr [] \<Rightarrow> Some ((fst x)\<lparr>cf_roots := []\<rparr>, [])
      | JArr vs \<Rightarrow>
          map_option (\<lambda>ss. ((fst x)\<lparr>cf_roots := take (length vs) ss\<rparr>, ss)) (decode_strings vs (snd x))
      | _ \<Rightarrow> None)"

definition config_specs :: "(string \<times> (daemon_config \<times> string list) setter) list" where
  "config_specs =
     [(''state_dir'', set_string (\<lambda>v. apfst (\<lambda>c. c\<lparr>cf_state_dir := v\<rparr>))),
      (''listen'', set_string (\<lambda>v. apfst (\<lambda>c. c\<lparr>cf_listen := v\<rparr>))),
      (''container_mode'', set_bool (\<lambda>v. apfst (\<lambda>c. c\<lparr>cf_container := v\<rparr>))),
      (''read_only'', set_bool (\<lambda>v. apfst (\<lambda>c. c\<lparr>cf_read_only := v\<rparr>))),
      (''watch_roots'', set_roots),
      (''pid_file'', set_string (\<lambda>v. apfst (\<lambda>c. c\<lparr>cf_pid_file := v\<rparr>))),
      (''auth_state_file'', set_string (\<lambda>v. apfst (\<lambda>c. c\<lparr>cf_auth_file := v\<rparr>))),
      (''auth_enabled'', set_bool (\<lambda>v. apfst (\<lambda>c. c\<lparr>cf_auth := v\<rparr>))),
      (''checkout_root'', set_string (\<lambda>v. apfst (\<lambda>c. c\<lparr>cf_checkout := v\<rparr>))),
      (''executable'', set_string (\<lambda>v. apfst (\<lambda>c. c\<lparr>cf_executable := v\<rparr>)))]"

definition empty_config :: daemon_config where
  "empty_config = \<lparr>cf_state_dir = [], cf_listen = [], cf_container = False, cf_read_only = False, cf_roots = [],
     cf_pid_file = [], cf_auth_file = [], cf_auth = False, cf_checkout = [], cf_executable = []\<rparr>"

section \<open>Endpoints\<close>

text \<open>\<open>net.SplitHostPort\<close> without brackets, and \<open>net.ParseIP\<close> of a dotted address.\<close>

definition split_host_port :: "string \<Rightarrow> (string \<times> string) option" where
  "split_host_port s =
     (case split_char (CHR '':'') s of [host, port] \<Rightarrow> Some (host, port) | _ \<Rightarrow> None)"

definition parse_octet :: "string \<Rightarrow> nat option" where
  "parse_octet t =
     (if t \<noteq> [] \<and> list_all digit_byte t \<and> length t \<le> 3 \<and> (hd t = CHR ''0'' \<longrightarrow> t = ''0'') \<and> digits_value t \<le> 255
      then Some (nat (digits_value t)) else None)"

definition parse_ip :: "string \<Rightarrow> nat list option" where
  "parse_ip s =
     (case split_char (CHR ''.'') s of
        [a, b, c, d] \<Rightarrow>
          (case (parse_octet a, parse_octet b, parse_octet c, parse_octet d) of
             (Some w, Some x, Some y, Some z) \<Rightarrow> Some [w, x, y, z]
           | _ \<Rightarrow> None)
      | _ \<Rightarrow> None)"

definition is_unspecified :: "nat list \<Rightarrow> bool" where "is_unspecified ip \<longleftrightarrow> ip = [0, 0, 0, 0]"
definition is_loopback :: "nat list \<Rightarrow> bool" where "is_loopback ip \<longleftrightarrow> ip \<noteq> [] \<and> hd ip = 127"

section \<open>Validation\<close>

definition requireCanonicalDirectory :: "config_env \<Rightarrow> string \<Rightarrow> bool \<Rightarrow> string + string" where
  "requireCanonicalDirectory env path ownerOnly =
     (case ce_symlinks env path of
        None \<Rightarrow> Inl ''directory must exist''
      | Some resolved \<Rightarrow>
          (case ce_lstat env resolved of
             None \<Rightarrow> Inl ''directory must be a non-link directory''
           | Some info \<Rightarrow>
               if st_kind info \<noteq> Directory then Inl ''directory must be a non-link directory''
               else if ownerOnly \<and> \<not> requireOwnerOnlyStateDirectoryMode info
               then Inl ''directory mode must be owner-only''
               else Inr resolved))"

text \<open>The part of \<open>validate\<close> before the file system: the mode and the endpoint.\<close>

definition validate_endpoint :: "daemon_config \<Rightarrow> string option" where
  "validate_endpoint c =
     (if cf_read_only c \<and> (\<not> cf_auth c \<or> cf_roots c \<noteq> []) then Some ''read-only mode''
      else if cf_container c \<and> \<not> cf_read_only c \<and> \<not> cf_auth c then Some ''container mode requires authentication''
      else
        let wantListen = (if cf_container c \<and> \<not> cf_read_only c then ''0.0.0.0:4680''
                          else if cf_read_only c then ''127.0.0.1:4681'' else ''127.0.0.1:4680'')
        in if cf_listen c \<noteq> wantListen then Some ''listen does not match the selected runtime mode''
           else (case split_host_port (cf_listen c) of
              None \<Rightarrow> Some ''listen must be a fixed numeric endpoint''
            | Some (host, port) \<Rightarrow>
                if port \<noteq> ''4680'' \<and> \<not> (cf_read_only c \<and> port = ''4681'')
                then Some ''listen must be a fixed numeric endpoint''
                else (case parse_ip host of
                   None \<Rightarrow> Some ''listen must be a fixed numeric endpoint''
                 | Some ip \<Rightarrow>
                     if cf_container c \<and> \<not> cf_read_only c \<and> \<not> is_unspecified ip
                     then Some ''container listen must be the fixed unspecified endpoint''
                     else if (\<not> cf_container c \<or> cf_read_only c) \<and> \<not> is_loopback ip
                     then Some ''host listen must be loopback''
                     else None)))"

definition abs_clean_path :: "string \<Rightarrow> bool" where
  "abs_clean_path p \<longleftrightarrow> is_abs p \<and> path_clean p = p"

definition validate_paths :: "daemon_config \<Rightarrow> string option" where
  "validate_paths c =
     (if cf_container c \<and> \<not> cf_read_only c \<and> length (cf_roots c) \<noteq> 6
      then Some ''container mode requires exactly six watch roots''
      else if \<not> list_all abs_clean_path (cf_roots c) then Some ''watch roots must be absolute and clean''
      else if \<not> distinct (cf_roots c) then Some ''watch roots must be unique''
      else if \<not> list_all abs_clean_path [cf_state_dir c, cf_pid_file c, cf_auth_file c, cf_checkout c, cf_executable c]
      then Some ''must be absolute and clean''
      else if path_dir (cf_pid_file c) \<noteq> cf_state_dir c \<or> path_dir (cf_auth_file c) \<noteq> cf_state_dir c \<or>
              cf_pid_file c = cf_auth_file c
      then Some ''durable files must be distinct direct children of state_dir''
      else None)"

definition validate_files :: "config_env \<Rightarrow> daemon_config \<Rightarrow> string + daemon_config" where
  "validate_files env c =
     (case requireCanonicalDirectory env (cf_state_dir c) True of
        Inl e \<Rightarrow> Inl e
      | Inr stateDir \<Rightarrow>
          (case requireCanonicalDirectory env (cf_checkout c) False of
             Inl e \<Rightarrow> Inl e
           | Inr checkoutRoot \<Rightarrow>
               (case ce_symlinks env (cf_executable c) of
                  None \<Rightarrow> Inl ''executable must exist''
                | Some executable \<Rightarrow>
                    (case path_rel checkoutRoot executable of
                       None \<Rightarrow> Inl ''executable must be beneath checkout_root''
                     | Some relative \<Rightarrow>
                         if relative = ''.'' \<or> relative = ''..'' \<or> is_abs relative \<or>
                            3 \<le> length relative \<and> take 3 relative = ''../''
                         then Inl ''executable must be beneath checkout_root''
                         else if (case ce_lstat env executable of None \<Rightarrow> True | Some i \<Rightarrow> st_kind i \<noteq> Regular)
                         then Inl ''executable must be a regular file''
                         else Inr (c\<lparr>cf_state_dir := stateDir,
                                     cf_pid_file := path_join stateDir (path_base (cf_pid_file c)),
                                     cf_auth_file := path_join stateDir (path_base (cf_auth_file c)),
                                     cf_checkout := checkoutRoot, cf_executable := executable\<rparr>)))))"

definition config_validate :: "config_env \<Rightarrow> daemon_config \<Rightarrow> string + daemon_config" where
  "config_validate env c =
     (case validate_endpoint c of
        Some e \<Rightarrow> Inl e
      | None \<Rightarrow> (case validate_paths c of Some e \<Rightarrow> Inl e | None \<Rightarrow> validate_files env c))"

text \<open>\<open>rejectDuplicateKeys\<close> and the two calls of \<open>Decode\<close>.\<close>

definition decode_config :: "string \<Rightarrow> string + daemon_config" where
  "decode_config payload =
     (case json_single payload of
        None \<Rightarrow> Inl ''decode config''
      | Some v \<Rightarrow>
          if \<not> no_duplicates v then Inl ''decode config''
          else (case decode_struct True config_specs v (empty_config, []) of
             None \<Rightarrow> Inl ''decode config'' | Some (c, _) \<Rightarrow> Inr c))"

definition config_Load :: "config_env \<Rightarrow> string \<Rightarrow> closed_file \<Rightarrow> string + daemon_config" where
  "config_Load env path cl =
     (case readClosedFile path cl MaxConfigBytes of
        Inl e \<Rightarrow> Inl e
      | Inr payload \<Rightarrow> (case decode_config payload of Inl e \<Rightarrow> Inl e | Inr c \<Rightarrow> config_validate env c))"

section \<open>Lemmas\<close>

text \<open>The endpoint checks after the comparison with the fixed endpoint never fail.\<close>

lemma endpoints:
  "split_host_port ''0.0.0.0:4680'' = Some (''0.0.0.0'', ''4680'')"
  "split_host_port ''127.0.0.1:4680'' = Some (''127.0.0.1'', ''4680'')"
  "split_host_port ''127.0.0.1:4681'' = Some (''127.0.0.1'', ''4681'')"
  "parse_ip ''0.0.0.0'' = Some [0, 0, 0, 0]" "parse_ip ''127.0.0.1'' = Some [127, 0, 0, 1]"
  by code_simp+

lemma validate_endpoint_iff:
  "validate_endpoint c = None \<longleftrightarrow>
     (cf_read_only c \<longrightarrow> cf_auth c \<and> cf_roots c = []) \<and> (cf_container c \<longrightarrow> cf_auth c) \<and>
     cf_listen c = (if cf_container c \<and> \<not> cf_read_only c then ''0.0.0.0:4680''
                    else if cf_read_only c then ''127.0.0.1:4681'' else ''127.0.0.1:4680'')"
  by (auto simp: validate_endpoint_def endpoints is_unspecified_def is_loopback_def Let_def)

lemma config_Load_fields:
  assumes "config_Load env path cl = Inr c"
  obtains c0 where "validate_endpoint c0 = None" "validate_paths c0 = None"
    "cf_listen c = cf_listen c0" "cf_container c = cf_container c0" "cf_read_only c = cf_read_only c0"
    "cf_roots c = cf_roots c0" "cf_auth c = cf_auth c0"
    "cf_pid_file c = path_join (cf_state_dir c) (path_base (cf_pid_file c0))"
    "cf_auth_file c = path_join (cf_state_dir c) (path_base (cf_auth_file c0))"
  using assms
  by (auto simp: config_Load_def config_validate_def validate_files_def split: sum.splits option.splits if_splits)

section \<open>Properties\<close>


section \<open>An example\<close>

definition example_daemon_config :: daemon_config where
  "example_daemon_config = empty_config\<lparr>cf_state_dir := ''/s'', cf_listen := ''127.0.0.1:4681'', cf_read_only := True,
     cf_pid_file := ''/s/p'', cf_auth_file := ''/s/a'', cf_auth := True, cf_checkout := ''/c'', cf_executable := ''/c/d''\<rparr>"

definition example_config_json :: json where
  "example_config_json = JObj [(''state_dir'', JStr ''/s''), (''listen'', JStr ''127.0.0.1:4681''),
     (''read_only'', JBool True), (''pid_file'', JStr ''/s/p''), (''auth_state_file'', JStr ''/s/a''),
     (''auth_enabled'', JBool True), (''checkout_root'', JStr ''/c''), (''executable'', JStr ''/c/d'')]"

definition example_closed_file :: closed_file where
  "example_closed_file =
     (let st = \<lparr>st_dev = 1, st_ino = 2, st_kind = Regular, st_perm = 384, st_nlink = 1\<rparr> in
      \<lparr>cl_before = Some st, cl_links = Some st, cl_opened = Some st,
       cl_data = Some (json_print True example_config_json), cl_after = Some st\<rparr>)"

definition example_config_env :: config_env where
  "example_config_env = \<lparr>ce_symlinks = Some,
     ce_lstat = (\<lambda>p. Some (if p = ''/c/d'' then \<lparr>st_dev = 1, st_ino = 3, st_kind = Regular, st_perm = 493, st_nlink = 1\<rparr>
        else \<lparr>st_dev = 1, st_ino = 4, st_kind = Directory, st_perm = 448, st_nlink = 2\<rparr>))\<rparr>"

lemma example_config_decodes: "decode_config (json_print True example_config_json) = Inr example_daemon_config"
proof -
  have "json_single (json_print True example_config_json) = Some example_config_json"
    by (rule json_single_print) (simp_all add: example_config_json_def plain_eval max_nesting_def)
  moreover have "no_duplicates example_config_json" by (simp add: example_config_json_def)
  moreover have "decode_struct True config_specs example_config_json (empty_config, []) = Some (example_daemon_config, [])"
    by (simp add: decode_struct_def example_config_json_def config_specs_def fold_key_plain plain_eval fold_rune_def
        set_string_def set_bool_def example_daemon_config_def)
  ultimately show ?thesis by (simp add: decode_config_def)
qed

lemma example_daemon_config_valid: "config_validate example_config_env example_daemon_config = Inr example_daemon_config"
proof -
  have "validate_endpoint example_daemon_config = None"
    by (simp add: validate_endpoint_iff example_daemon_config_def empty_config_def)
  moreover have "validate_paths example_daemon_config = None" by code_simp
  moreover have "path_join ''/s'' (path_base ''/s/p'') = ''/s/p''" "path_join ''/s'' (path_base ''/s/a'') = ''/s/a''"
    "path_rel ''/c'' ''/c/d'' = Some ''d''" by code_simp+
  ultimately show ?thesis
    by (simp add: config_validate_def validate_files_def requireCanonicalDirectory_def example_config_env_def
        requireOwnerOnlyStateDirectoryMode_def) (simp add: example_daemon_config_def empty_config_def)
qed


end
