(* ===== verification/Go_Url.thy ===== *)
theory Go_Url
  imports Json_Read
begin

text \<open>
  The part of \<open>net/url\<close> that the credential code uses: \<open>Parse\<close>, \<open>EscapedPath\<close>, \<open>PathEscape\<close> and the
  encoding of a query value.  Percent escapes, the two ways of keeping a path and the strict reading of
  the colons of a host are those of the library.  An IP literal in brackets is read as an error: no
  caller accepts such a host.
\<close>

section \<open>Escapes\<close>

datatype escape_mode = EncPath | EncSegment | EncHost | EncQuery | EncFragment

definition alphanumeric :: "char \<Rightarrow> bool" where
  "alphanumeric c \<longleftrightarrow>
     (let b = byte_of c in 97 \<le> b \<and> b \<le> 122 \<or> 65 \<le> b \<and> b \<le> 90 \<or> 48 \<le> b \<and> b \<le> 57)"

definition url_reserved :: "escape_mode \<Rightarrow> char \<Rightarrow> bool" where
  "url_reserved mode c =
     (case mode of
        EncPath \<Rightarrow> c = CHR ''?''
      | EncSegment \<Rightarrow> c \<in> set ''/;,?''
      | EncQuery \<Rightarrow> True
      | EncFragment \<Rightarrow> False
      | EncHost \<Rightarrow> True)"

definition shouldEscape :: "escape_mode \<Rightarrow> char \<Rightarrow> bool" where
  "shouldEscape mode c \<longleftrightarrow>
     \<not> alphanumeric c \<and>
     \<not> (mode = EncHost \<and> (c \<in> set ''!$&()*+,;=:[]<>'' \<or> c = CHR 0x22 \<or> c = CHR 0x27)) \<and>
     c \<notin> set ''-_.~'' \<and>
     (if c \<in> set ''$&+,/:;=?@'' then url_reserved mode c
      else \<not> (mode = EncFragment \<and> c \<in> set ''!()*''))"

definition upper_hex :: "nat \<Rightarrow> char" where
  "upper_hex n = (if n < 10 then char_of (48 + n) else char_of (55 + n))"

definition escape_byte :: "escape_mode \<Rightarrow> char \<Rightarrow> string" where
  "escape_byte mode c =
     (if mode = EncQuery \<and> c = CHR '' '' then ''+''
      else if shouldEscape mode c
      then [CHR ''%'', upper_hex (byte_of c div 16), upper_hex (byte_of c mod 16)]
      else [c])"

definition url_escape :: "escape_mode \<Rightarrow> string \<Rightarrow> string" where
  "url_escape mode s = concat (map (escape_byte mode) s)"

fun url_unescape :: "escape_mode \<Rightarrow> string \<Rightarrow> string option" where
  "url_unescape mode [] = Some []"
| "url_unescape mode (c # s) =
     (if c = CHR ''%'' then
        (case s of
           a # b # r \<Rightarrow>
             (case (hex_value a, hex_value b) of
                (Some x, Some y) \<Rightarrow>
                  if mode = EncHost \<and> x < 8 \<and> [a, b] \<noteq> ''25'' then None
                  else map_option ((#) (char_of (x * 16 + y))) (url_unescape mode r)
              | _ \<Rightarrow> None)
         | _ \<Rightarrow> None)
      else if mode = EncQuery \<and> c = CHR ''+'' then map_option ((#) (CHR '' '')) (url_unescape mode s)
      else if mode = EncHost \<and> byte_of c < 128 \<and> shouldEscape mode c then None
      else map_option ((#) c) (url_unescape mode s))"

section \<open>Parse\<close>

record go_url =
  gu_scheme :: string
  gu_opaque :: string
  gu_user :: bool
  gu_host :: string
  gu_path :: string
  gu_raw_path :: string
  gu_raw_query :: string
  gu_fragment :: string

definition empty_url :: go_url where
  "empty_url = \<lparr>gu_scheme = [], gu_opaque = [], gu_user = False, gu_host = [], gu_path = [], gu_raw_path = [],
     gu_raw_query = [], gu_fragment = []\<rparr>"

text \<open>\<open>strings.Cut\<close> at one byte.\<close>

definition before_char :: "char \<Rightarrow> string \<Rightarrow> string" where
  "before_char c s = takeWhile (\<lambda>x. x \<noteq> c) s"

definition after_char :: "char \<Rightarrow> string \<Rightarrow> string" where
  "after_char c s = drop 1 (dropWhile (\<lambda>x. x \<noteq> c) s)"

definition scheme_char :: "char \<Rightarrow> bool" where
  "scheme_char c \<longleftrightarrow> alphanumeric c \<or> c \<in> set ''+-.''"

definition getScheme :: "string \<Rightarrow> (string \<times> string) option" where
  "getScheme s =
     (let w = takeWhile scheme_char s; r = dropWhile scheme_char s in
      if r \<noteq> [] \<and> hd r = CHR '':'' then
        (if w = [] then None
         else if alphanumeric (hd w) \<and> \<not> digit_byte (hd w) then Some (w, tl r) else Some ([], s))
      else Some ([], s))"

definition validOptionalPort :: "string \<Rightarrow> bool" where
  "validOptionalPort s \<longleftrightarrow> s = [] \<or> hd s = CHR '':'' \<and> list_all digit_byte (tl s)"

definition parseHost :: "string \<Rightarrow> string option" where
  "parseHost host =
     (if CHR ''['' \<in> set host then None
      else
        let port = dropWhile (\<lambda>x. x \<noteq> CHR '':'') host
        in if \<not> validOptionalPort port then None else url_unescape EncHost host)"

definition validUserinfo :: "string \<Rightarrow> bool" where
  "validUserinfo s \<longleftrightarrow> list_all (\<lambda>c. alphanumeric c \<or> c \<in> set ''-._:~!$&()*+,;=%@'' \<or> c = CHR 0x27) s"

text \<open>Whether there is user information, and the host.\<close>

definition parseAuthority :: "string \<Rightarrow> (bool \<times> string) option" where
  "parseAuthority a =
     (if CHR ''@'' \<notin> set a then map_option (Pair False) (parseHost a)
      else
        let host = rev (takeWhile (\<lambda>x. x \<noteq> CHR ''@'') (rev a));
            info = take (length a - length host - 1) a
        in case parseHost host of
             None \<Rightarrow> None
           | Some h \<Rightarrow>
               if validUserinfo info \<and> url_unescape EncSegment info \<noteq> None then Some (True, h) else None)"

definition setPath :: "string \<Rightarrow> go_url \<Rightarrow> go_url option" where
  "setPath p u =
     (case url_unescape EncPath p of
        None \<Rightarrow> None
      | Some path \<Rightarrow>
          Some (u\<lparr>gu_path := path, gu_raw_path := (if url_escape EncPath path = p then [] else p)\<rparr>))"

text \<open>The text without the fragment.\<close>

definition parse_url :: "string \<Rightarrow> go_url option" where
  "parse_url s =
     (if list_ex (\<lambda>c. byte_of c < 32 \<or> byte_of c = 127) s then None
      else if s = ''*'' then Some (empty_url\<lparr>gu_path := ''*''\<rparr>)
      else (case getScheme s of
         None \<Rightarrow> None
       | Some (scheme, rest0) \<Rightarrow>
           let rest = before_char (CHR ''?'') rest0;
               u = empty_url\<lparr>gu_scheme := map ascii_lower scheme, gu_raw_query := after_char (CHR ''?'') rest0\<rparr>
           in if \<not> has_prefix ''/'' rest \<and> scheme \<noteq> [] then Some (u\<lparr>gu_opaque := rest\<rparr>)
              else if \<not> has_prefix ''/'' rest \<and> CHR '':'' \<in> set (before_char (CHR ''/'') rest) then None
              else if (scheme \<noteq> [] \<or> \<not> has_prefix ''///'' rest) \<and> has_prefix ''//'' rest then
                (let authority = before_char (CHR ''/'') (drop 2 rest);
                     path = dropWhile (\<lambda>x. x \<noteq> CHR ''/'') (drop 2 rest)
                 in case parseAuthority authority of
                      None \<Rightarrow> None
                    | Some (user, host) \<Rightarrow> setPath path (u\<lparr>gu_user := user, gu_host := host\<rparr>))
              else setPath rest u))"

definition url_Parse :: "string \<Rightarrow> go_url option" where
  "url_Parse s =
     (case parse_url (before_char (CHR ''#'') s) of
        None \<Rightarrow> None
      | Some u \<Rightarrow>
          if after_char (CHR ''#'') s = [] then Some u
          else map_option (\<lambda>f. u\<lparr>gu_fragment := f\<rparr>) (url_unescape EncFragment (after_char (CHR ''#'') s)))"

definition validEncoded :: "string \<Rightarrow> bool" where
  "validEncoded s \<longleftrightarrow>
     list_all (\<lambda>c. c \<in> set ''!$&()*+,;=:@[]%'' \<or> c = CHR 0x27 \<or> \<not> shouldEscape EncPath c) s"

definition EscapedPath :: "go_url \<Rightarrow> string" where
  "EscapedPath u =
     (if gu_raw_path u \<noteq> [] \<and> validEncoded (gu_raw_path u) \<and>
         url_unescape EncPath (gu_raw_path u) = Some (gu_path u)
      then gu_raw_path u
      else if gu_path u = ''*'' then ''*'' else url_escape EncPath (gu_path u))"

definition PathEscape :: "string \<Rightarrow> string" where
  "PathEscape s = url_escape EncSegment s"

text \<open>\<open>Encode\<close> of values with one key.\<close>

definition encode_query :: "string \<Rightarrow> string \<Rightarrow> string" where
  "encode_query k v = url_escape EncQuery k @ ''='' @ url_escape EncQuery v"

end
