(* ===== verification/Gcp_Auth.thy ===== *)
theory Gcp_Auth
  imports Go_Url Durable "HOL-Library.Word"
begin

text \<open>
  Package \<open>gcpauth\<close> (\<open>selector.go\<close>, \<open>wif.go\<close>, \<open>device.go\<close>, \<open>file_access_unix.go\<close>): the one credential
  selector of the process.  The environment of the process is a function that \<open>Setenv\<close> updates; files,
  the metadata service and Google's libraries are the record \<open>gcp_world\<close>.
\<close>

section \<open>Data\<close>

type_synonym environ = "string \<Rightarrow> string"

definition ApplicationDefault :: string where "ApplicationDefault = ''application_default''"
definition ProfileImpersonated :: string where "ProfileImpersonated = ''impersonated_service_account''"
definition ProfileAttached :: string where "ProfileAttached = ''attached_service_account''"
definition ProfileDevice :: string where "ProfileDevice = ''device_service_account''"
definition ProfileWorkload :: string where "ProfileWorkload = ''workload_identity_federation''"
definition CloudPlatformScope :: string where
  "CloudPlatformScope = ''https://www.googleapis.com/auth/cloud-platform''"
definition maxCredentialConfigurationBytes :: nat where "maxCredentialConfigurationBytes = 1048576"

lemmas profile_defs = ProfileImpersonated_def ProfileAttached_def ProfileDevice_def ProfileWorkload_def

record selector =
  se_file :: string
  se_source :: string
  se_profile :: string
  se_identity :: string
  se_base :: string
  se_audience :: string

text \<open>What a path meets: \<open>Lstat\<close>, \<open>Stat\<close> of the open file (\<open>None\<close> also when it cannot be opened), whether the
  effective user owns it, and the bytes.\<close>

record credential_file =
  cd_lstat :: "ustat option"
  cd_opened :: "ustat option"
  cd_owned :: bool
  cd_data :: "string option"

record metadata_service =
  md_on_gce :: bool
  md_email :: "string option"
  md_get :: "string \<Rightarrow> string option"

text \<open>\<open>gw_credentials kind data scopes detached\<close> is \<open>CredentialsFromJSONWithType\<close>: \<open>None\<close> an error, \<open>Some None\<close> no
  token source.\<close>

record 'src gcp_world =
  gw_files :: "string \<Rightarrow> credential_file"
  gw_setenv :: "string \<Rightarrow> bool"                    \<comment> \<open>\<open>Setenv\<close> of the key succeeds\<close>
  gw_seal_order :: bool                            \<comment> \<open>which key the map iteration meets first\<close>
  gw_metadata :: "metadata_service option"
  gw_credentials :: "string \<Rightarrow> string \<Rightarrow> string list \<Rightarrow> bool \<Rightarrow> 'src option option"
  gw_compute :: "string \<Rightarrow> string list \<Rightarrow> 'src option"
  gw_external :: "string \<Rightarrow> string list \<Rightarrow> 'src option"
  gw_keypair :: "string \<Rightarrow> string \<Rightarrow> bool"          \<comment> \<open>\<open>tls.X509KeyPair\<close> succeeds\<close>
  gw_float :: "string \<Rightarrow> string option"            \<comment> \<open>a number literal as \<open>float64\<close> and printed again\<close>

datatype 'src token_source =
    RequestMetadata string "string list"
  | LibrarySource 'src
  | WorkloadSource bool 'src

section \<open>Patterns\<close>

definition lower_letter :: "char \<Rightarrow> bool" where
  "lower_letter c \<longleftrightarrow> 97 \<le> byte_of c \<and> byte_of c \<le> 122"

definition label_char :: "char \<Rightarrow> bool" where
  "label_char c \<longleftrightarrow> lower_letter c \<or> digit_byte c \<or> c = CHR ''-''"

text \<open>\<open>[a-z][a-z0-9-]{4,28}[a-z0-9]\<close>\<close>

definition account_label :: "string \<Rightarrow> bool" where
  "account_label s \<longleftrightarrow>
     6 \<le> length s \<and> length s \<le> 30 \<and> lower_letter (hd s) \<and> list_all label_char s \<and> last s \<noteq> CHR ''-''"

definition serviceAccountEmailPattern :: "string \<Rightarrow> bool" where
  "serviceAccountEmailPattern s \<longleftrightarrow>
     (case split_char (CHR ''@'') s of
        [a, b] \<Rightarrow>
          account_label a \<and> has_suffix ''.iam.gserviceaccount.com'' b \<and>
          account_label (trim_suffix ''.iam.gserviceaccount.com'' b)
      | _ \<Rightarrow> False)"

text \<open>\<open>[a-z][a-z0-9-]{2,31}\<close>\<close>

definition pool_label :: "string \<Rightarrow> bool" where
  "pool_label s \<longleftrightarrow> 3 \<le> length s \<and> length s \<le> 32 \<and> lower_letter (hd s) \<and> list_all label_char s"

definition workloadAudiencePattern :: "string \<Rightarrow> bool" where
  "workloadAudiencePattern s \<longleftrightarrow>
     (case split_char (CHR ''/'') s of
        [e1, e2, host, projects, number, locations, global, pools, pool, providers, provider] \<Rightarrow>
          e1 = [] \<and> e2 = [] \<and> host = ''iam.googleapis.com'' \<and> projects = ''projects'' \<and>
          number \<noteq> [] \<and> list_all digit_byte number \<and> hd number \<noteq> CHR ''0'' \<and>
          locations = ''locations'' \<and> global = ''global'' \<and> pools = ''workloadIdentityPools'' \<and> pool_label pool \<and>
          providers = ''providers'' \<and> pool_label provider
      | _ \<Rightarrow> False)"

section \<open>The selector\<close>

definition validateWorkloadIdentitySelector :: "selector \<Rightarrow> string option" where
  "validateWorkloadIdentitySelector s =
     (if se_profile s \<noteq> ProfileWorkload \<or> se_source s \<noteq> ApplicationDefault \<or> se_file s \<noteq> [] \<or>
         \<not> serviceAccountEmailPattern (se_identity s) \<or> se_base s \<noteq> [] \<or>
         \<not> workloadAudiencePattern (se_audience s)
      then Some ''direct workload federation requires an exact audience and scoped identity'' else None)"

definition selector_Validate :: "selector \<Rightarrow> string option" where
  "selector_Validate s =
     (if se_file s \<noteq> [] then Some ''credentials_file is forbidden''
      else if se_source s = [] then Some ''credentials_source is required''
      else if se_source s \<noteq> ApplicationDefault then Some ''unsupported credentials_source''
      else if \<not> serviceAccountEmailPattern (se_identity s) then Some ''credentials_identity is not canonical''
      else if se_profile s \<noteq> ProfileWorkload \<and> (se_audience s \<noteq> [] \<or> se_base s \<noteq> [])
      then Some ''workload fields require workload federation profile''
      else if se_profile s = ProfileWorkload then validateWorkloadIdentitySelector s
      else if se_profile s = ProfileImpersonated \<or> se_profile s = ProfileAttached \<or> se_profile s = ProfileDevice
      then None
      else if se_profile s = [] then Some ''credentials_profile is required''
      else Some ''unsupported credentials_profile'')"

section \<open>The ambient environment\<close>

definition forbiddenGODEBUGFragments :: "string list" where
  "forbiddenGODEBUGFragments = [''http2debug='', ''tlsmlkem=0'', ''tlssecpmlkem=0'']"

definition ambientGoogleTransportOverrideKeys :: "string list" where
  "ambientGoogleTransportOverrideKeys =
     [''EXPERIMENTAL_GOOGLE_API_USE_S2A'', ''GCE_METADATA_HOST'', ''GRPC_BINARY_LOG_FILTER'',
      ''GRPC_ENFORCE_ALPN_ENABLED'', ''HTTP_PROXY'', ''HTTPS_PROXY'',
      ''GOOGLE_API_GO_EXPERIMENTAL_DISABLE_NEW_AUTH_LIB'', ''GOOGLE_API_GO_EXPERIMENTAL_ENABLE_NEW_AUTH_LIB'',
      ''GOOGLE_API_CERTIFICATE_CONFIG'', ''GOOGLE_API_USE_CLIENT_CERTIFICATE'', ''GOOGLE_API_USE_MTLS'',
      ''GOOGLE_API_USE_MTLS_ENDPOINT'', ''GOOGLE_AUTH_TRUST_BOUNDARY_ENABLED'',
      ''GOOGLE_CLOUD_DISABLE_DIRECT_PATH'', ''GOOGLE_CLOUD_ENABLE_DIRECT_PATH_XDS'',
      ''GOOGLE_CLOUD_QUOTA_PROJECT'', ''GOOGLE_CLOUD_UNIVERSE_DOMAIN'',
      ''GOOGLE_SPANNER_DISABLE_DIRECT_ACCESS_BOUND_TOKEN'', ''GOOGLE_SPANNER_ENABLE_DIRECT_ACCESS'',
      ''GOOGLE_SPANNER_ENABLE_GCP_FALLBACK'', ''GOOGLE_SPANNER_EXPERIMENTAL_LOCATION_API'', ''NO_PROXY'',
      ''SSL_CERT_DIR'', ''SSL_CERT_FILE'', ''SPANNER_EMULATOR_HOST'', ''SPANNER_MONITORING_HOST'',
      ''http_proxy'', ''https_proxy'', ''no_proxy'']"

definition sealedGoogleClientCertificate :: string where "sealedGoogleClientCertificate = ''false''"
definition sealedGoogleMTLSEndpoint :: string where "sealedGoogleMTLSEndpoint = ''never''"

definition validateSecuritySensitiveGODEBUG :: "string \<Rightarrow> string option" where
  "validateSecuritySensitiveGODEBUG v =
     (if list_ex (\<lambda>fragment. contains fragment v) forbiddenGODEBUGFragments
      then Some ''GODEBUG contains forbidden setting'' else None)"

text \<open>The test of one key in the loop of \<open>sealAmbientGoogleTransport\<close>.\<close>

definition ambient_key_ok :: "environ \<Rightarrow> string \<Rightarrow> bool" where
  "ambient_key_ok env key \<longleftrightarrow>
     env key = [] \<or>
     key = ''GOOGLE_API_USE_CLIENT_CERTIFICATE'' \<and> env key = sealedGoogleClientCertificate \<or>
     key = ''GOOGLE_API_USE_MTLS_ENDPOINT'' \<and> env key = sealedGoogleMTLSEndpoint"

fun seal_keys :: "(string \<Rightarrow> bool) \<Rightarrow> (string \<times> string) list \<Rightarrow> environ \<Rightarrow> string option \<times> environ" where
  "seal_keys setenv [] env = (None, env)"
| "seal_keys setenv ((k, v) # kvs) env =
     (if setenv k then seal_keys setenv kvs (env(k := v)) else (Some ''seal'', env))"

definition sealAmbientGoogleTransport :: "'src gcp_world \<Rightarrow> environ \<Rightarrow> string option \<times> environ" where
  "sealAmbientGoogleTransport w env =
     (case validateSecuritySensitiveGODEBUG (env ''GODEBUG'') of
        Some e \<Rightarrow> (Some e, env)
      | None \<Rightarrow>
          if \<not> list_all (ambient_key_ok env) ambientGoogleTransportOverrideKeys
          then (Some ''ambient Google transport overrides are forbidden'', env)
          else
            let kvs = [(''GOOGLE_API_USE_CLIENT_CERTIFICATE'', sealedGoogleClientCertificate),
                       (''GOOGLE_API_USE_MTLS_ENDPOINT'', sealedGoogleMTLSEndpoint)]
            in seal_keys (gw_setenv w) (if gw_seal_order w then kvs else rev kvs) env)"

section \<open>Files\<close>

definition validateCredentialFileAccess :: "bool \<Rightarrow> ustat \<Rightarrow> string option" where
  "validateCredentialFileAccess owned st =
     (if st_perm st \<noteq> 256 \<and> st_perm st \<noteq> 384 then Some ''credential file must be owner-only and owner-readable''
      else if \<not> owned then Some ''credential file must be owned by the effective user''
      else None)"

definition readOwnerOnlyRegularFile :: "'src gcp_world \<Rightarrow> string \<Rightarrow> string + string" where
  "readOwnerOnlyRegularFile w path =
     (if trim_space path = [] \<or> \<not> is_abs path then Inl ''credential path must be absolute''
      else
        let f = gw_files w path
        in case cd_lstat f of
             None \<Rightarrow> Inl ''lstat''
           | Some st \<Rightarrow>
               if st_kind st \<noteq> Regular then Inl ''credential path must be a regular file''
               else (case cd_opened f of
                  None \<Rightarrow> Inl ''open''
                | Some opened \<Rightarrow>
                    if st_kind opened \<noteq> Regular \<or> \<not> sameIdentity st opened
                    then Inl ''credential file identity changed while opening''
                    else (case validateCredentialFileAccess (cd_owned f) opened of
                       Some e \<Rightarrow> Inl e
                     | None \<Rightarrow>
                         (case cd_data f of
                            None \<Rightarrow> Inl ''read''
                          | Some data \<Rightarrow>
                              if maxCredentialConfigurationBytes < length data
                              then Inl ''credential configuration exceeds its limit'' else Inr data))))"

definition defaultADCPath :: "environ \<Rightarrow> string + string" where
  "defaultADCPath env =
     (let home = trim_space (env ''HOME'') in
      if home = [] then Inl ''HOME is required''
      else Inr (path_clean (join ''/'' [home, ''.config'', ''gcloud'', ''application_default_credentials.json''])))"

section \<open>The impersonated carrier\<close>

definition gcp_rejectDuplicateJSONKeys :: "string \<Rightarrow> string + json" where
  "gcp_rejectDuplicateJSONKeys data =
     (case json_single data of
        None \<Rightarrow> Inl ''decode credential JSON''
      | Some v \<Rightarrow> if no_duplicates v then Inr v else Inl ''duplicate JSON key'')"

text \<open>A value that is decoded into \<open>map[string]any\<close>.\<close>

definition decode_map :: "json \<Rightarrow> (string \<times> json) list option" where
  "decode_map v = (case v of JObj kvs \<Rightarrow> Some kvs | JNull \<Rightarrow> Some [] | _ \<Rightarrow> None)"

definition validateObjectKeys :: "(string \<times> json) list \<Rightarrow> string list \<Rightarrow> bool" where
  "validateObjectKeys kvs allowed \<longleftrightarrow> list_all (\<lambda>kv. fst kv \<in> set allowed) kvs"

fun rejectForbiddenCredentialFields :: "json \<Rightarrow> bool" where
  "rejectForbiddenCredentialFields (JObj kvs) \<longleftrightarrow>
     list_all (\<lambda>kv. fst kv \<noteq> ''private_key'' \<and> fst kv \<noteq> ''private_key_id'' \<and>
       rejectForbiddenCredentialFields (snd kv)) kvs"
| "rejectForbiddenCredentialFields (JArr xs) \<longleftrightarrow> list_all rejectForbiddenCredentialFields xs"
| "rejectForbiddenCredentialFields _ \<longleftrightarrow> True"

definition serviceAccountProject :: "string \<Rightarrow> string" where
  "serviceAccountProject identity =
     (let t = trim_suffix ''.iam.gserviceaccount.com'' identity; i = last_index t ''@'' in
      if i < 0 \<or> i = int (length t) - 1 then [] else drop (nat i + 1) t)"

definition iam_host :: string where "iam_host = ''iamcredentials.googleapis.com''"

definition impersonation_path :: "string \<Rightarrow> string" where
  "impersonation_path identity =
     ''/v1/projects/-/serviceAccounts/'' @ identity @ '':generateAccessToken''"

definition validateImpersonationURL :: "string \<Rightarrow> string \<Rightarrow> string option" where
  "validateImpersonationURL rawURL identity =
     (case url_Parse rawURL of
        None \<Rightarrow> Some ''service_account_impersonation_url''
      | Some u \<Rightarrow>
          if gu_scheme u \<noteq> ''https'' \<or> gu_host u \<noteq> iam_host \<or> gu_user u \<or>
             gu_raw_query u \<noteq> [] \<or> gu_fragment u \<noteq> []
          then Some ''service_account_impersonation_url must use the canonical IAMCredentials authority''
          else if EscapedPath u \<noteq> impersonation_path identity
          then Some ''service_account_impersonation_url target does not match credentials_identity''
          else None)"

definition carrier_keys :: "string list" where
  "carrier_keys = [''type'', ''service_account_impersonation_url'', ''delegates'', ''source_credentials'', ''scopes'',
     ''quota_project_id'']"

definition user_source_keys :: "string list" where
  "user_source_keys = [''type'', ''client_id'', ''client_secret'', ''refresh_token'', ''token_uri'', ''rapt_token'',
     ''universe_domain'', ''account'']"

definition account_source_keys :: "string list" where
  "account_source_keys = [''type'', ''project_id'', ''private_key_id'', ''private_key'', ''client_email'', ''client_id'',
     ''auth_uri'', ''token_uri'', ''auth_provider_x509_cert_url'', ''client_x509_cert_url'', ''universe_domain'']"

text \<open>A member that is a string with more than white space.\<close>

definition present :: "(string \<times> json) list \<Rightarrow> string \<Rightarrow> bool" where
  "present kvs k \<longleftrightarrow> trim_space (string_value (field kvs k)) \<noteq> []"

text \<open>A member that, when it is there, is one fixed string.\<close>

definition fixed_when_present :: "(string \<times> json) list \<Rightarrow> string \<Rightarrow> string \<Rightarrow> bool" where
  "fixed_when_present kvs k v \<longleftrightarrow> (case field kvs k of None \<Rightarrow> True | Some x \<Rightarrow> x = JStr v)"

definition string_when_present :: "(string \<times> json) list \<Rightarrow> string \<Rightarrow> bool" where
  "string_when_present kvs k \<longleftrightarrow> (case field kvs k of None \<Rightarrow> True | Some (JStr _) \<Rightarrow> True | _ \<Rightarrow> False)"

text \<open>The switch on the type of \<open>source_credentials\<close>.\<close>

definition validate_source_type :: "(string \<times> json) list \<Rightarrow> string option" where
  "validate_source_type source =
     (let kind = string_value (field source ''type'') in
      if kind = ''authorized_user'' then
        (if \<not> validateObjectKeys source user_source_keys then Some ''source_credentials field is not allowed''
         else if \<not> list_all (present source) [''client_id'', ''client_secret'', ''refresh_token'']
         then Some ''source_credentials field is required'' else None)
      else if kind = ''service_account'' then
        (if \<not> validateObjectKeys source account_source_keys then Some ''source_credentials field is not allowed''
         else if \<not> list_all (present source) [''client_email'', ''private_key_id'', ''private_key'']
         then Some ''source_credentials field is required''
         else if \<not> serviceAccountEmailPattern (string_value (field source ''client_email''))
         then Some ''source_credentials.client_email is not canonical''
         else if \<not> fixed_when_present source ''auth_uri'' ''https://accounts.google.com/o/oauth2/auth''
         then Some ''source_credentials.auth_uri'' else None)
      else Some ''source_credentials.type'')"

definition validate_source :: "(string \<times> json) list \<Rightarrow> string option" where
  "validate_source source =
     (case validate_source_type source of
        Some e \<Rightarrow> Some e
      | None \<Rightarrow>
          if \<not> fixed_when_present source ''token_uri'' ''https://oauth2.googleapis.com/token''
          then Some ''source_credentials.token_uri''
          else if \<not> fixed_when_present source ''universe_domain'' ''googleapis.com''
          then Some ''source_credentials.universe_domain''
          else if \<not> list_all (string_when_present source) [''rapt_token'', ''account'']
          then Some ''source_credentials field must be a string when present'' else None)"

definition validate_carrier :: "(string \<times> json) list \<Rightarrow> string \<Rightarrow> string option" where
  "validate_carrier raw identity =
     (if \<not> validateObjectKeys raw carrier_keys then Some ''top-level field is not allowed''
      else if \<not> rejectForbiddenCredentialFields (JObj (filter (\<lambda>kv. fst kv \<noteq> ''source_credentials'') raw))
      then Some ''credential field is forbidden''
      else if string_value (field raw ''type'') \<noteq> ProfileImpersonated then Some ''top-level type''
      else (case validateImpersonationURL (string_value (field raw ''service_account_impersonation_url'')) identity of
         Some e \<Rightarrow> Some e
       | None \<Rightarrow>
           if field raw ''quota_project_id'' \<noteq> Some (JStr (serviceAccountProject identity))
           then Some ''quota_project_id must match the impersonated service account project''
           else (case as_object (field raw ''source_credentials'') of
              None \<Rightarrow> Some ''source_credentials object is required''
            | Some source \<Rightarrow>
                (case validate_source source of
                   Some e \<Rightarrow> Some e
                 | None \<Rightarrow>
                     if field raw ''delegates'' \<noteq> Some (JArr []) then Some ''delegates must be an empty array''
                     else if field raw ''scopes'' \<noteq> Some (JArr [JStr CloudPlatformScope])
                     then Some ''scopes must contain only the cloud platform'' else None))))"

definition validateImpersonatedConfiguration :: "string \<Rightarrow> string \<Rightarrow> string option" where
  "validateImpersonatedConfiguration data identity =
     (case gcp_rejectDuplicateJSONKeys data of
        Inl e \<Rightarrow> Some e
      | Inr v \<Rightarrow>
          (case decode_map v of
             None \<Rightarrow> Some ''decode JSON''
           | Some raw \<Rightarrow> validate_carrier raw identity))"

section \<open>The token sources\<close>

definition impersonatedTokenSource ::
  "'src gcp_world \<Rightarrow> environ \<Rightarrow> selector \<Rightarrow> string list \<Rightarrow> bool \<Rightarrow> string + 'src token_source" where
  "impersonatedTokenSource w env s scopes detach =
     (if \<not> list_all (\<lambda>k. trim_space (env k) = [])
           [''GOOGLE_APPLICATION_CREDENTIALS'', ''CLOUDSDK_AUTH_CREDENTIAL_FILE_OVERRIDE'', ''CLOUDSDK_CONFIG'']
      then Inl ''only the validated well-known carrier is used''
      else (case defaultADCPath env of
         Inl e \<Rightarrow> Inl e
       | Inr path \<Rightarrow>
           (case readOwnerOnlyRegularFile w path of
              Inl e \<Rightarrow> Inl e
            | Inr data \<Rightarrow>
                (case validateImpersonatedConfiguration data (se_identity s) of
                   Some e \<Rightarrow> Inl e
                 | None \<Rightarrow>
                     (case gw_credentials w ProfileImpersonated data scopes detach of
                        None \<Rightarrow> Inl ''parse validated impersonated carrier''
                      | Some None \<Rightarrow> Inl ''validated impersonated carrier returned no token source''
                      | Some (Some src) \<Rightarrow> Inr (LibrarySource src))))))"

definition attachedTokenSource ::
  "'src gcp_world \<Rightarrow> environ \<Rightarrow> selector \<Rightarrow> string list \<Rightarrow> bool \<Rightarrow> string + 'src token_source" where
  "attachedTokenSource w env s scopes detach =
     (if \<not> list_all (\<lambda>k. trim_space (env k) = [])
           [''GOOGLE_APPLICATION_CREDENTIALS'', ''CLOUDSDK_AUTH_CREDENTIAL_FILE_OVERRIDE'']
      then Inl ''must be unset for attached_service_account''
      else (case gw_metadata w of
         None \<Rightarrow> Inl ''attached_service_account requires Google-hosted metadata''
       | Some md \<Rightarrow>
           if \<not> md_on_gce md then Inl ''attached_service_account requires Google-hosted metadata''
           else (case md_email md of
              None \<Rightarrow> Inl ''resolve attached metadata identity''
            | Some email \<Rightarrow>
                if trim_space email \<noteq> se_identity s then Inl ''attached metadata identity does not match''
                else if \<not> detach then Inr (RequestMetadata (se_identity s) scopes)
                else (case gw_compute w (se_identity s) scopes of
                   None \<Rightarrow> Inl ''metadata token source is unavailable''
                 | Some src \<Rightarrow> Inr (LibrarySource src)))))"

text \<open>\<open>json.Unmarshal\<close> into \<open>any\<close>: numbers become \<open>float64\<close>.\<close>

fun to_any :: "(string \<Rightarrow> string option) \<Rightarrow> json \<Rightarrow> json option" where
  "to_any fl (JNum t) = map_option JNum (fl t)"
| "to_any fl (JArr xs) =
     (if list_all (\<lambda>x. to_any fl x \<noteq> None) xs then Some (JArr (map (\<lambda>x. the (to_any fl x)) xs)) else None)"
| "to_any fl (JObj kvs) =
     (if list_all (\<lambda>kv. to_any fl (snd kv) \<noteq> None) kvs
      then Some (JObj (map (\<lambda>kv. (fst kv, the (to_any fl (snd kv)))) kvs)) else None)"
| "to_any fl v = Some v"

text \<open>\<open>raw[k] = v\<close> when \<open>k\<close> is missing.\<close>

definition put_missing :: "string \<Rightarrow> json \<Rightarrow> (string \<times> json) list \<Rightarrow> (string \<times> json) list" where
  "put_missing k v kvs = (if field kvs k = None then kvs @ [(k, v)] else kvs)"

definition deviceSourceConfiguration :: "(string \<Rightarrow> string option) \<Rightarrow> string \<Rightarrow> string \<Rightarrow> string + string" where
  "deviceSourceConfiguration fl data identity =
     (case gcp_rejectDuplicateJSONKeys data of
        Inl e \<Rightarrow> Inl e
      | Inr v \<Rightarrow>
          (case Option.bind (to_any fl v) decode_map of
             None \<Rightarrow> Inl ''decode JSON''
           | Some raw \<Rightarrow>
               (case as_object (field raw ''source_credentials'') of
                  None \<Rightarrow> Inl ''device source must match credentials_identity''
                | Some source \<Rightarrow>
                    if field source ''type'' \<noteq> Some (JStr ''service_account'') \<or>
                       field source ''client_email'' \<noteq> Some (JStr identity)
                    then Inl ''device source must match credentials_identity''
                    else (case url_Parse (string_value (field raw ''service_account_impersonation_url'')) of
                       None \<Rightarrow> Inl ''invalid carrier target''
                     | Some u \<Rightarrow>
                         let target = trim_suffix '':generateAccessToken''
                               (trim_prefix ''/v1/projects/-/serviceAccounts/'' (gu_path u))
                         in if \<not> serviceAccountEmailPattern target then Inl ''invalid carrier target''
                            else
                              let raw' = put_missing ''delegates'' (JArr [])
                                    (put_missing ''scopes'' (JArr [JStr CloudPlatformScope])
                                      (put_missing ''quota_project_id'' (JStr (serviceAccountProject target)) raw))
                              in case validateImpersonatedConfiguration (json_marshal True (JObj raw')) target of
                                   Some e \<Rightarrow> Inl e
                                 | None \<Rightarrow> Inr (json_marshal True (JObj source))))))"

definition deviceTokenSource ::
  "'src gcp_world \<Rightarrow> environ \<Rightarrow> selector \<Rightarrow> string list \<Rightarrow> bool \<Rightarrow> string + 'src token_source" where
  "deviceTokenSource w env s scopes detach =
     (if \<not> list_all (\<lambda>k. env k = [])
           [''GOOGLE_APPLICATION_CREDENTIALS'', ''CLOUDSDK_AUTH_CREDENTIAL_FILE_OVERRIDE'', ''CLOUDSDK_CONFIG'']
      then Inl ''must be unset''
      else (case defaultADCPath env of
         Inl e \<Rightarrow> Inl e
       | Inr path \<Rightarrow>
           (case readOwnerOnlyRegularFile w path of
              Inl e \<Rightarrow> Inl e
            | Inr raw \<Rightarrow>
                (case deviceSourceConfiguration (gw_float w) raw (se_identity s) of
                   Inl e \<Rightarrow> Inl e
                 | Inr source \<Rightarrow>
                     (case gw_credentials w ''service_account'' source scopes detach of
                        None \<Rightarrow> Inl ''invalid device source''
                      | Some None \<Rightarrow> Inl ''device token source unavailable''
                      | Some (Some src) \<Rightarrow> Inr (LibrarySource src))))))"

section \<open>Workload federation\<close>

record workload_carrier =
  wc_type :: string
  wc_audience :: string
  wc_subject :: string
  wc_token_url :: string
  wc_impersonation :: string
  wc_universe :: string
  wc_quota :: string
  wc_config :: string

definition empty_carrier :: workload_carrier where
  "empty_carrier = \<lparr>wc_type = [], wc_audience = [], wc_subject = [], wc_token_url = [], wc_impersonation = [],
     wc_universe = [], wc_quota = [], wc_config = []\<rparr>"

definition certificate_specs :: "(string \<times> workload_carrier setter) list" where
  "certificate_specs = [(''certificate_config_location'', set_string (\<lambda>v c. c\<lparr>wc_config := v\<rparr>))]"

definition credential_source_specs :: "(string \<times> workload_carrier setter) list" where
  "credential_source_specs = [(''certificate'', decode_struct True certificate_specs)]"

definition workload_specs :: "(string \<times> workload_carrier setter) list" where
  "workload_specs =
     [(''type'', set_string (\<lambda>v c. c\<lparr>wc_type := v\<rparr>)), (''audience'', set_string (\<lambda>v c. c\<lparr>wc_audience := v\<rparr>)),
      (''subject_token_type'', set_string (\<lambda>v c. c\<lparr>wc_subject := v\<rparr>)),
      (''token_url'', set_string (\<lambda>v c. c\<lparr>wc_token_url := v\<rparr>)),
      (''service_account_impersonation_url'', set_string (\<lambda>v c. c\<lparr>wc_impersonation := v\<rparr>)),
      (''universe_domain'', set_string (\<lambda>v c. c\<lparr>wc_universe := v\<rparr>)),
      (''quota_project_id'', set_string (\<lambda>v c. c\<lparr>wc_quota := v\<rparr>)),
      (''credential_source'', decode_struct True credential_source_specs)]"

text \<open>The paths of the certificate and of the key.\<close>

definition pair_specs :: "(string \<times> (string \<times> string) setter) list" where
  "pair_specs = [(''cert_path'', set_string (\<lambda>v. apfst (\<lambda>_. v))), (''key_path'', set_string (\<lambda>v. apsnd (\<lambda>_. v)))]"

definition certificate_configuration_specs :: "(string \<times> (string \<times> string) setter) list" where
  "certificate_configuration_specs =
     [(''cert_configs'', decode_struct True [(''workload'', decode_struct True pair_specs)])]"

definition decodeWorkloadJSON :: "string \<Rightarrow> (string \<times> 'a setter) list \<Rightarrow> 'a \<Rightarrow> string + 'a" where
  "decodeWorkloadJSON data specs into =
     (case gcp_rejectDuplicateJSONKeys data of
        Inl e \<Rightarrow> Inl ''invalid workload JSON''
      | Inr v \<Rightarrow> (case decode_struct True specs v into of
          None \<Rightarrow> Inl ''unsupported workload configuration'' | Some x \<Rightarrow> Inr x))"

definition workload_transport_keys :: "string list" where
  "workload_transport_keys =
     [''EXPERIMENTAL_GOOGLE_API_USE_S2A'', ''GRPC_BINARY_LOG_FILTER'', ''GRPC_ENFORCE_ALPN_ENABLED'',
      ''HTTP_PROXY'', ''HTTPS_PROXY'', ''NO_PROXY'', ''http_proxy'', ''https_proxy'', ''no_proxy'',
      ''GOOGLE_API_GO_EXPERIMENTAL_DISABLE_NEW_AUTH_LIB'', ''GOOGLE_API_GO_EXPERIMENTAL_ENABLE_NEW_AUTH_LIB'',
      ''GOOGLE_API_USE_MTLS'', ''GOOGLE_AUTH_TRUST_BOUNDARY_ENABLED'', ''GOOGLE_CLOUD_DISABLE_DIRECT_PATH'',
      ''GOOGLE_CLOUD_ENABLE_DIRECT_PATH_XDS'', ''GOOGLE_CLOUD_QUOTA_PROJECT'', ''GOOGLE_CLOUD_UNIVERSE_DOMAIN'',
      ''GOOGLE_SPANNER_DISABLE_DIRECT_ACCESS_BOUND_TOKEN'', ''GOOGLE_SPANNER_ENABLE_DIRECT_ACCESS'',
      ''GOOGLE_SPANNER_ENABLE_GCP_FALLBACK'', ''GOOGLE_SPANNER_EXPERIMENTAL_LOCATION_API'',
      ''SPANNER_MONITORING_HOST'', ''SSL_CERT_DIR'', ''SSL_CERT_FILE'', ''GOOGLE_SDK_GO_LOGGING_LEVEL'']"

definition validateWorkloadTransportEnvironment :: "environ \<Rightarrow> string option" where
  "validateWorkloadTransportEnvironment env =
     (if \<not> list_all (\<lambda>k. env k = []) workload_transport_keys
      then Some ''ambient workload transport override is forbidden''
      else if \<not> list_all (\<lambda>(k, v). env k = [] \<or> env k = v)
             [(''GOOGLE_API_USE_CLIENT_CERTIFICATE'', ''false''), (''GOOGLE_API_USE_MTLS_ENDPOINT'', ''never'')]
      then Some ''ambient workload transport override is forbidden''
      else if list_ex (\<lambda>fragment. contains fragment (env ''GODEBUG'')) [''http2debug='', ''tlsmlkem=0'', ''tlssecpmlkem=0'']
      then Some ''workload transport debugging or post-quantum downgrade is forbidden'' else None)"

definition workload_override_keys :: "string list" where
  "workload_override_keys =
     [''CLOUDSDK_AUTH_CREDENTIAL_FILE_OVERRIDE'', ''CLOUDSDK_AUTH_ACCESS_TOKEN'', ''CLOUDSDK_AUTH_ACCESS_TOKEN_FILE'',
      ''CLOUDSDK_AUTH_IMPERSONATE_SERVICE_ACCOUNT'', ''CLOUDSDK_CONFIG'', ''GOOGLE_GHA_CREDS_PATH'',
      ''GOOGLE_API_CERTIFICATE_CONFIG'', ''GCE_METADATA_HOST'', ''GOOGLE_EXTERNAL_ACCOUNT_ALLOW_EXECUTABLES'']"

definition canonical_path :: "string \<Rightarrow> bool" where
  "canonical_path p \<longleftrightarrow> is_abs p \<and> path_clean p = p"

text \<open>The comparison of the carrier with the selector.\<close>

definition carrier_matches :: "selector \<Rightarrow> workload_carrier \<Rightarrow> bool" where
  "carrier_matches s c \<longleftrightarrow>
     wc_type c = ''external_account'' \<and> wc_audience c = se_audience s \<and>
     wc_subject c = ''urn:ietf:params:oauth:token-type:mtls'' \<and>
     wc_token_url c = ''https://sts.mtls.googleapis.com/v1/token'' \<and>
     wc_impersonation c = ''https://iamcredentials.mtls.googleapis.com/v1/projects/-/serviceAccounts/'' @
       se_identity s @ '':generateAccessToken'' \<and>
     (wc_universe c = [] \<or> wc_universe c = ''googleapis.com'')"

text \<open>The certificate and the key that the configuration names.\<close>

definition workload_material :: "'src gcp_world \<Rightarrow> string \<Rightarrow> string + string \<times> string" where
  "workload_material w certConfig =
     (if \<not> canonical_path certConfig then Inl ''explicit workload certificate configuration is required''
      else (case readOwnerOnlyRegularFile w certConfig of
         Inl e \<Rightarrow> Inl ''workload certificate configuration is not owner-protected''
       | Inr data \<Rightarrow>
           (case decodeWorkloadJSON data certificate_configuration_specs ([], []) of
              Inl e \<Rightarrow> Inl e
            | Inr (cert, key) \<Rightarrow>
                if \<not> canonical_path cert then Inl ''explicit workload certificate material is required''
                else (case readOwnerOnlyRegularFile w cert of
                   Inl e \<Rightarrow> Inl ''workload certificate material is not owner-protected''
                 | Inr c \<Rightarrow>
                     if \<not> canonical_path key then Inl ''explicit workload certificate material is required''
                     else (case readOwnerOnlyRegularFile w key of
                        Inl e \<Rightarrow> Inl ''workload certificate material is not owner-protected''
                      | Inr k \<Rightarrow> Inr (c, k))))))"

definition ValidateWorkloadIdentityConfiguration :: "'src gcp_world \<Rightarrow> environ \<Rightarrow> selector \<Rightarrow> string + string" where
  "ValidateWorkloadIdentityConfiguration w env s =
     (case validateWorkloadTransportEnvironment env of
        Some e \<Rightarrow> Inl e
      | None \<Rightarrow>
     (case validateWorkloadIdentitySelector s of
        Some e \<Rightarrow> Inl e
      | None \<Rightarrow>
          if \<not> list_all (\<lambda>k. env k = []) workload_override_keys
          then Inl ''ambient workload credential override is forbidden''
          else
            let path = env ''GOOGLE_APPLICATION_CREDENTIALS''
            in if \<not> canonical_path path then Inl ''workload carrier must be explicitly selected by absolute path''
               else (case readOwnerOnlyRegularFile w path of
                  Inl e \<Rightarrow> Inl ''workload carrier is not owner-protected''
                | Inr raw \<Rightarrow>
                    (case decodeWorkloadJSON raw workload_specs empty_carrier of
                       Inl e \<Rightarrow> Inl e
                     | Inr c \<Rightarrow>
                         if \<not> carrier_matches s c
                         then Inl ''workload service identity, audience or endpoint does not match''
                         else if wc_quota c \<noteq> [] \<and> wc_quota c \<noteq> serviceAccountProject (se_identity s)
                         then Inl ''workload quota project does not match''
                         else (case workload_material w (wc_config c) of
                            Inl e \<Rightarrow> Inl e
                          | Inr (cert, key) \<Rightarrow>
                              if gw_keypair w cert key then Inr raw
                              else Inl ''workload certificate and key are invalid'')))))"

definition workloadIdentityTokenSource ::
  "'src gcp_world \<Rightarrow> environ \<Rightarrow> selector \<Rightarrow> string list \<Rightarrow> bool \<Rightarrow> string + 'src token_source" where
  "workloadIdentityTokenSource w env s scopes detach =
     (case ValidateWorkloadIdentityConfiguration w env s of
        Inl e \<Rightarrow> Inl e
      | Inr raw \<Rightarrow>
          if scopes \<noteq> [CloudPlatformScope] then Inl ''workload scope must be cloud-platform''
          else (case gw_external w raw scopes of
             None \<Rightarrow> Inl ''workload credential construction failed''
           | Some src \<Rightarrow> Inr (WorkloadSource detach src)))"

section \<open>The one entry\<close>

text \<open>\<open>ctx\<close>: \<open>None\<close> is a nil context, \<open>Some True\<close> one that has ended.\<close>

definition tokenSource ::
  "'src gcp_world \<Rightarrow> environ \<Rightarrow> bool option \<Rightarrow> selector \<Rightarrow> bool \<Rightarrow> string list \<Rightarrow>
   (string + 'src token_source) \<times> environ" where
  "tokenSource w env ctx s detach scopes =
     (if ctx = None then (Inl ''google credentials context is required'', env)
      else if ctx = Some True then (Inl ''google credentials context'', env)
      else (case selector_Validate s of
         Some e \<Rightarrow> (Inl e, env)
       | None \<Rightarrow>
           (case sealAmbientGoogleTransport w env of
              (Some e, env') \<Rightarrow> (Inl e, env')
            | (None, env') \<Rightarrow>
                let scopes' = (if scopes = [] then [CloudPlatformScope] else scopes)
                in (if scopes' \<noteq> [CloudPlatformScope] then Inl ''scopes must contain only the cloud platform''
                    else if se_profile s = ProfileWorkload then workloadIdentityTokenSource w env' s scopes' detach
                    else if se_profile s = ProfileImpersonated then impersonatedTokenSource w env' s scopes' detach
                    else if se_profile s = ProfileAttached then attachedTokenSource w env' s scopes' detach
                    else if se_profile s = ProfileDevice then deviceTokenSource w env' s scopes' detach
                    else Inl ''unsupported credentials_profile'', env'))))"

definition selector_TokenSource ::
  "'src gcp_world \<Rightarrow> environ \<Rightarrow> bool option \<Rightarrow> selector \<Rightarrow> string list \<Rightarrow> (string + 'src token_source) \<times> environ" where
  "selector_TokenSource w env ctx s scopes = tokenSource w env ctx s True scopes"

definition TokenSourceForRequest ::
  "'src gcp_world \<Rightarrow> environ \<Rightarrow> bool option \<Rightarrow> selector \<Rightarrow> string list \<Rightarrow> (string + 'src token_source) \<times> environ" where
  "TokenSourceForRequest w env ctx s scopes = tokenSource w env ctx s False scopes"

section \<open>Tokens\<close>

record oauth_token =
  tk_access :: string
  tk_type :: string
  tk_expiry :: instant
  tk_extra :: "(string \<times> string) list"

text \<open>\<open>time.Duration(n) * time.Second\<close> in 64 bits.\<close>

definition seconds :: "int \<Rightarrow> int" where
  "seconds n = sint (word_of_int (n * 1000000000) :: 64 word)"

definition metadata_specs :: "(string \<times> (string \<times> string \<times> int) setter) list" where
  "metadata_specs =
     [(''access_token'', set_string (\<lambda>v. apfst (\<lambda>_. v))),
      (''token_type'', set_string (\<lambda>v. apsnd (apfst (\<lambda>_. v)))),
      (''expires_in'', set_int (\<lambda>n. apsnd (apsnd (\<lambda>_. n))))]"

definition metadata_token_uri :: "string \<Rightarrow> string list \<Rightarrow> string" where
  "metadata_token_uri account scopes =
     ''instance/service-accounts/'' @ PathEscape account @ ''/token'' @
     (if scopes = [] then [] else ''?'' @ encode_query ''scopes'' (join '','' scopes))"

definition requestMetadata_Token ::
  "metadata_service \<Rightarrow> instant \<Rightarrow> string \<Rightarrow> string list \<Rightarrow> string + oauth_token" where
  "requestMetadata_Token md now account scopes =
     (case md_get md (metadata_token_uri account scopes) of
        None \<Rightarrow> Inl ''metadata''
      | Some raw \<Rightarrow>
          (case Option.bind (read_value max_nesting raw)
                  (\<lambda>(v, _). decode_struct False metadata_specs v ([], [], 0)) of
             None \<Rightarrow> Inl ''invalid token JSON from metadata''
           | Some (access, kind, expires) \<Rightarrow>
               if expires = 0 \<or> trim_space access = [] then Inl ''incomplete token received from metadata''
               else Inr \<lparr>tk_access = access, tk_type = kind, tk_expiry = now + seconds expires,
                 tk_extra = [(''oauth2.google.tokenSource'', ''compute-metadata''),
                   (''oauth2.google.serviceAccount'', account)]\<rparr>))"

text \<open>\<open>answer\<close> is what the provider returns: \<open>None\<close> an error, \<open>Some None\<close> nil, else value, type and expiry.\<close>

definition workload_Token :: "(string \<times> string \<times> instant) option option \<Rightarrow> string + oauth_token" where
  "workload_Token answer =
     (case answer of
        None \<Rightarrow> Inl ''workload token exchange failed''
      | Some None \<Rightarrow> Inl ''workload exchange returned no token''
      | Some (Some (v, kind, expiry)) \<Rightarrow>
          if trim_space v = [] then Inl ''workload exchange returned no token''
          else Inr \<lparr>tk_access = v, tk_type = kind, tk_expiry = expiry, tk_extra = []\<rparr>)"

end
