(* ===== verification/Runtime_Config.thy ===== *)
theory Runtime_Config
  imports Gcp_Auth Store_Config
begin

text \<open>
  Package \<open>runtimeconfig\<close>: the production contract, read from the environment of the process, and
  \<open>productionStoreConfig\<close> of \<open>main.go\<close>, which turns it into the configuration of the store.
\<close>

section \<open>Data\<close>

definition ProductionContract :: string where "ProductionContract = ''production''"
definition ProductionStorageBackend :: string where "ProductionStorageBackend = ''spanner''"
definition ProductionSpannerEmbeddingMode :: string where "ProductionSpannerEmbeddingMode = ''spanner''"
definition ProductionSpannerEmbeddingModelID :: string where
  "ProductionSpannerEmbeddingModelID = ''ConversationEmbeddingModel''"
definition ProductionEmbeddingProvider :: string where "ProductionEmbeddingProvider = ''vertex''"
definition ProductionEmbeddingModel :: string where "ProductionEmbeddingModel = ''gemini-embedding-001''"
definition ProductionEmbeddingDimension :: int where "ProductionEmbeddingDimension = 3072"
definition ProductionStatusServerHost :: string where "ProductionStatusServerHost = ''127.0.0.1''"
definition ProductionStatusServerPort :: int where "ProductionStatusServerPort = 4680"

record spanner_target =
  sp_project :: string
  sp_instance :: string
  sp_database :: string

definition ResourceName :: "spanner_target \<Rightarrow> string" where
  "ResourceName t = ''projects/'' @ sp_project t @ ''/instances/'' @ sp_instance t @ ''/databases/'' @ sp_database t"

record runtime_config =
  rc_contract :: string
  rc_spanner :: spanner_target
  rc_backend :: string
  rc_embedding_mode :: string
  rc_embedding_model_id :: string
  rc_provider :: string
  rc_model :: string
  rc_dimension :: int
  rc_host :: string
  rc_port :: int
  rc_read_only :: bool
  rc_credentials :: selector

section \<open>Reading\<close>

text \<open>\<open>strconv.Atoi\<close> on 64 bits.\<close>

definition go_atoi :: "string \<Rightarrow> int option" where
  "go_atoi s =
     (let ds = (if s \<noteq> [] \<and> (hd s = CHR ''-'' \<or> hd s = CHR ''+'') then tl s else s);
          n = (if s \<noteq> [] \<and> hd s = CHR ''-'' then - digits_value ds else digits_value ds)
      in if ds \<noteq> [] \<and> list_all digit_byte ds \<and> - (2 ^ 63) \<le> n \<and> n < 2 ^ 63 then Some n else None)"

definition parseRequiredInt :: "environ \<Rightarrow> string \<Rightarrow> string + int" where
  "parseRequiredInt env key =
     (let raw = trim_space (env key) in
      if raw = [] then Inl (key @ '' is required'')
      else (case go_atoi raw of None \<Rightarrow> Inl (key @ '' must be an integer'') | Some n \<Rightarrow> Inr n))"

text \<open>The two loops of \<open>validate\<close>: the first name whose test fails.\<close>

fun first_failure :: "(string \<times> bool) list \<Rightarrow> string option" where
  "first_failure [] = None"
| "first_failure ((name, ok) # tests) = (if ok then first_failure tests else Some name)"

definition fixed_fields :: "runtime_config \<Rightarrow> (string \<times> bool) list" where
  "fixed_fields c =
     [(''runtime_contract'', rc_contract c = ProductionContract),
      (''storage_backend'', rc_backend c = ProductionStorageBackend),
      (''spanner_embedding_mode'', rc_embedding_mode c = ProductionSpannerEmbeddingMode),
      (''spanner_embedding_model_id'', rc_embedding_model_id c = ProductionSpannerEmbeddingModelID),
      (''embedding_provider'', rc_provider c = ProductionEmbeddingProvider),
      (''embedding_model'', rc_model c = ProductionEmbeddingModel),
      (''status_server_host'', rc_host c = ProductionStatusServerHost)]"

definition required_fields :: "runtime_config \<Rightarrow> (string \<times> bool) list" where
  "required_fields c =
     [(''spanner_project'', sp_project (rc_spanner c) \<noteq> []), (''spanner_instance'', sp_instance (rc_spanner c) \<noteq> []),
      (''spanner_database'', sp_database (rc_spanner c) \<noteq> [])]"

definition runtime_validate :: "runtime_config \<Rightarrow> string option" where
  "runtime_validate c =
     (case first_failure (fixed_fields c) of
        Some e \<Rightarrow> Some e
      | None \<Rightarrow>
          (case first_failure (required_fields c) of
             Some e \<Rightarrow> Some e
           | None \<Rightarrow>
               if rc_dimension c \<noteq> ProductionEmbeddingDimension then Some ''embedding_dimension''
               else if rc_port c \<noteq> (if rc_read_only c then 4681 else ProductionStatusServerPort)
               then Some ''status_server_port''
               else selector_Validate (rc_credentials c)))"

text \<open>The configuration as it is read, before it is validated.\<close>

definition runtime_read :: "environ \<Rightarrow> int \<Rightarrow> int \<Rightarrow> runtime_config" where
  "runtime_read env dimension port =
     (let get = (\<lambda>key. trim_space (env (''CLAUDE_HISTORY_RAG_'' @ key))) in
      \<lparr>rc_contract = get ''RUNTIME_CONTRACT'',
       rc_spanner = \<lparr>sp_project = get ''SPANNER_PROJECT'', sp_instance = get ''SPANNER_INSTANCE'',
         sp_database = get ''SPANNER_DATABASE''\<rparr>,
       rc_backend = get ''STORAGE_BACKEND'', rc_embedding_mode = get ''SPANNER_EMBEDDING_MODE'',
       rc_embedding_model_id = get ''SPANNER_EMBEDDING_MODEL_ID'', rc_provider = get ''EMBEDDING_PROVIDER'',
       rc_model = get ''EMBEDDING_MODEL'', rc_dimension = dimension, rc_host = get ''STATUS_SERVER_HOST'',
       rc_port = port, rc_read_only = (env ''CLAUDE_HISTORY_RAG_READ_ONLY'' = ''true''),
       rc_credentials = \<lparr>se_file = [], se_source = get ''CREDENTIALS_SOURCE'', se_profile = get ''CREDENTIALS_PROFILE'',
         se_identity = get ''CREDENTIALS_IDENTITY'', se_base = get ''CREDENTIALS_BASE_IDENTITY'',
         se_audience = get ''CREDENTIALS_AUDIENCE''\<rparr>\<rparr>)"

definition LoadProduction :: "environ option \<Rightarrow> string + runtime_config" where
  "LoadProduction getenv =
     (case getenv of
        None \<Rightarrow> Inl ''environment reader is required''
      | Some env \<Rightarrow>
          (case parseRequiredInt env ''CLAUDE_HISTORY_RAG_EMBEDDING_DIMENSION'' of
             Inl e \<Rightarrow> Inl e
           | Inr dimension \<Rightarrow>
               (case parseRequiredInt env ''CLAUDE_HISTORY_RAG_STATUS_SERVER_PORT'' of
                  Inl e \<Rightarrow> Inl e
                | Inr port \<Rightarrow>
                    let c = runtime_read env dimension port; raw = env ''CLAUDE_HISTORY_RAG_READ_ONLY''
                    in if raw \<noteq> [] \<and> raw \<noteq> ''true'' \<and> raw \<noteq> ''false'' then Inl ''read_only must be true or false''
                       else (case runtime_validate c of Some e \<Rightarrow> Inl e | None \<Rightarrow> Inr c))))"

section \<open>The configuration of the store\<close>

definition productionStoreConfig :: "runtime_config \<Rightarrow> store_config" where
  "productionStoreConfig r =
     \<lparr>sc_project = sp_project (rc_spanner r), sc_instance = sp_instance (rc_spanner r),
      sc_database = sp_database (rc_spanner r), sc_model_project = sp_project (rc_spanner r),
      sc_model_location = ''us-central1'', sc_strategy = EmbeddingRemoteModel, sc_remote_model = RemoteModelName,
      sc_embedding_model = EmbeddingModelName, sc_dimension = VectorDimension,
      sc_document_task = TaskRetrievalDocument, sc_query_task = TaskRetrievalQuery, sc_rpc_batch = 1,
      sc_full_text = True, sc_enable_ann = True, sc_use_ann = True, sc_index_leaves = 1000, sc_search_leaves = 50,
      sc_hybrid_limit = 100, sc_rrf_k = 60, sc_max_limit = 100, sc_concurrency = 8, sc_batch = 200,
      sc_interval = 60000000000, sc_max_batches = 1000, sc_stats_ttl = 10000000000\<rparr>"

section \<open>Lemmas\<close>

lemma first_failure_None: "first_failure tests = None \<longleftrightarrow> list_all snd tests"
  by (induction tests rule: first_failure.induct) auto

lemma LoadProduction_Inr:
  assumes "LoadProduction (Some env) = Inr c"
  obtains dimension port where "c = runtime_read env dimension port" "runtime_validate c = None"
  using assms by (auto simp: LoadProduction_def Let_def split: sum.splits option.splits if_splits)

lemma production_location: "locationPart ''us-central1''"
  by code_simp

text \<open>Every number and name that is fixed in \<open>productionStoreConfig\<close> passes; only the three names of the
  database are left to the check of the store.\<close>

lemma productionStoreConfig_iff:
  "config_Validate (productionStoreConfig r) \<longleftrightarrow>
     config_identifier (sp_project (rc_spanner r)) \<and> config_identifier (sp_instance (rc_spanner r)) \<and>
     config_identifier (sp_database (rc_spanner r))"
  by (auto simp: config_Validate_def productionStoreConfig_def config_bounded_def production_location)

lemma config_identifier_trimmed:
  "config_identifier (trim_space v) \<longleftrightarrow> length (trim_space v) \<le> 64 \<and> identifierPart (trim_space v)"
  by (auto simp: config_identifier_def identifierPart_def Let_def)


definition example_settings :: "(string \<times> string) list" where
  "example_settings =
     [(''CLAUDE_HISTORY_RAG_EMBEDDING_DIMENSION'', ''3072''), (''CLAUDE_HISTORY_RAG_STATUS_SERVER_PORT'', ''4680''),
      (''CLAUDE_HISTORY_RAG_RUNTIME_CONTRACT'', ''production''), (''CLAUDE_HISTORY_RAG_SPANNER_PROJECT'', ''p''),
      (''CLAUDE_HISTORY_RAG_SPANNER_INSTANCE'', ''i''), (''CLAUDE_HISTORY_RAG_SPANNER_DATABASE'', ''d''),
      (''CLAUDE_HISTORY_RAG_STORAGE_BACKEND'', ''spanner''), (''CLAUDE_HISTORY_RAG_SPANNER_EMBEDDING_MODE'', ''spanner''),
      (''CLAUDE_HISTORY_RAG_SPANNER_EMBEDDING_MODEL_ID'', ''ConversationEmbeddingModel''),
      (''CLAUDE_HISTORY_RAG_EMBEDDING_PROVIDER'', ''vertex''), (''CLAUDE_HISTORY_RAG_EMBEDDING_MODEL'', ''gemini-embedding-001''),
      (''CLAUDE_HISTORY_RAG_STATUS_SERVER_HOST'', ''127.0.0.1''),
      (''CLAUDE_HISTORY_RAG_CREDENTIALS_SOURCE'', ''application_default''),
      (''CLAUDE_HISTORY_RAG_CREDENTIALS_PROFILE'', ''attached_service_account''),
      (''CLAUDE_HISTORY_RAG_CREDENTIALS_IDENTITY'', ''history@project-one.iam.gserviceaccount.com'')]"

definition example_environ :: environ where
  "example_environ key = (case map_of example_settings key of None \<Rightarrow> [] | Some v \<Rightarrow> v)"

lemmas example_lookup = example_environ_def example_settings_def

lemma example_reads:
  "trim_space (example_environ k) = example_environ k"
proof -
  have "list_all (\<lambda>(_, v). v \<noteq> [] \<and> solid (hd v) \<and> solid (last v)) example_settings" by code_simp
  then have "trim_space v = v" if "map_of example_settings k = Some v" for v
    using map_of_SomeD [OF that] by (auto simp: list_all_iff intro: trim_space_solid)
  then show ?thesis by (auto simp: example_environ_def split: option.splits)
qed

lemma example_ints:
  "parseRequiredInt example_environ ''CLAUDE_HISTORY_RAG_EMBEDDING_DIMENSION'' = Inr 3072"
  "parseRequiredInt example_environ ''CLAUDE_HISTORY_RAG_STATUS_SERVER_PORT'' = Inr 4680"
proof -
  have "go_atoi ''3072'' = Some 3072" "go_atoi ''4680'' = Some 4680"
    by (simp_all add: go_atoi_def digits_value_def digit_byte_def byte_of_def)
  then show "parseRequiredInt example_environ ''CLAUDE_HISTORY_RAG_EMBEDDING_DIMENSION'' = Inr 3072"
    "parseRequiredInt example_environ ''CLAUDE_HISTORY_RAG_STATUS_SERVER_PORT'' = Inr 4680"
    by (simp_all add: parseRequiredInt_def example_reads) (simp_all add: example_lookup)
qed

lemma example_runtime:
  "LoadProduction (Some example_environ) = Inr (runtime_read example_environ 3072 4680)"
proof -
  let ?c = "runtime_read example_environ 3072 4680"
  have id: "serviceAccountEmailPattern ''history@project-one.iam.gserviceaccount.com''" by code_simp
  have "rc_credentials ?c = \<lparr>se_file = [], se_source = ''application_default'', se_profile = ''attached_service_account'',
      se_identity = ''history@project-one.iam.gserviceaccount.com'', se_base = [], se_audience = []\<rparr>"
    by (simp add: runtime_read_def example_reads) (simp add: example_lookup)
  then have "selector_Validate (rc_credentials ?c) = None"
    by (simp add: selector_Validate_def ApplicationDefault_def profile_defs id)
  moreover have "first_failure (fixed_fields ?c) = None" "first_failure (required_fields ?c) = None"
    unfolding first_failure_None
    by (simp_all add: fixed_fields_def required_fields_def runtime_read_def example_reads ProductionContract_def
        ProductionStorageBackend_def ProductionSpannerEmbeddingMode_def ProductionSpannerEmbeddingModelID_def
        ProductionEmbeddingProvider_def ProductionEmbeddingModel_def ProductionStatusServerHost_def)
       (simp_all add: example_lookup)
  moreover have "rc_dimension ?c = 3072" "rc_port ?c = 4680" "\<not> rc_read_only ?c"
    by (simp_all add: runtime_read_def) (simp add: example_lookup)
  ultimately have "runtime_validate ?c = None"
    by (simp add: runtime_validate_def ProductionEmbeddingDimension_def ProductionStatusServerPort_def)
  moreover have "example_environ ''CLAUDE_HISTORY_RAG_READ_ONLY'' = []" by (simp add: example_lookup)
  ultimately show ?thesis using example_ints by (simp add: LoadProduction_def)
qed


end
