(* ===== verification/Gcp_Url.thy ===== *)
theory Gcp_Url
  imports Gcp_Auth
begin

text \<open>
  Which impersonation URLs \<open>validateImpersonationURL\<close> accepts.
\<close>

section \<open>Texts that need no escape\<close>

definition path_char :: "char \<Rightarrow> bool" where
  "path_char c \<longleftrightarrow> alphanumeric c \<or> c \<in> set ''-./:@''"

lemma path_char_plain:
  assumes "path_char c"
  shows "\<not> shouldEscape EncPath c" "c \<noteq> CHR ''%''" "c \<noteq> CHR ''?''" "c \<noteq> CHR ''#''" "\<not> byte_of c < 32" "byte_of c \<noteq> 127"
  using assms by (auto simp: path_char_def shouldEscape_def url_reserved_def alphanumeric_def byte_of_def Let_def)

lemma path_text_plain:
  assumes "list_all path_char s"
  shows "CHR ''%'' \<notin> set s" "CHR ''?'' \<notin> set s" "CHR ''#'' \<notin> set s"
    "\<not> list_ex (\<lambda>c. byte_of c < 32 \<or> byte_of c = 127) s"
  using assms by (induction s) (auto dest: path_char_plain)

lemma url_escape_plain: "list_all path_char p \<Longrightarrow> url_escape EncPath p = p"
  by (induction p) (auto simp: url_escape_def escape_byte_def path_char_plain)

lemma url_unescape_plain: "CHR ''%'' \<notin> set p \<Longrightarrow> url_unescape EncPath p = Some p"
  by (induction p) auto

lemma url_unescape_nonempty: "url_unescape mode s = Some [] \<longleftrightarrow> s = []"
  by (cases s) (auto split: list.splits option.splits if_splits)

lemma url_unescape_member:
  assumes "url_unescape EncPath p = Some q" "c \<in> set p" "c \<noteq> CHR ''%''" "\<not> is_hex c"
  shows "c \<in> set q"
  using assms
proof (induction EncPath p arbitrary: q rule: url_unescape.induct)
  case (2 d s)
  have hex: "hex_value c = None"
    using 2(7) unfolding is_hex_def is_lower_hex_def hex_value_def less_eq_char_byte by (auto simp: byte_of_def Let_def)
  show ?case
  proof (cases "d = CHR ''%''")
    case True
    then obtain a b r x y where s: "s = a # b # r" "hex_value a = Some x" "hex_value b = Some y"
      and q: "map_option ((#) (char_of (x * 16 + y))) (url_unescape EncPath r) = Some q"
      using 2(4) by (auto split: list.splits option.splits)
    then obtain q' where "url_unescape EncPath r = Some q'" "q = char_of (x * 16 + y) # q'" by auto
    moreover have "c \<in> set r" using 2(5,6) True s hex by auto
    ultimately show ?thesis using 2(1) True s 2(6,7) by auto
  next
    case False
    then obtain q' where "url_unescape EncPath s = Some q'" "q = d # q'" using 2(4) by auto
    then show ?thesis using 2(3) False 2(5-7) by auto
  qed
qed simp

lemma url_escape_marks: "c \<in> set q \<Longrightarrow> shouldEscape EncPath c \<Longrightarrow> CHR ''%'' \<in> set (url_escape EncPath q)"
  by (auto simp: url_escape_def escape_byte_def)

lemma hex_not_escaped: "is_hex c \<Longrightarrow> \<not> shouldEscape m c"
  unfolding is_hex_def is_lower_hex_def less_eq_char_byte
  by (auto simp: shouldEscape_def alphanumeric_def byte_of_def Let_def)

text \<open>A path that is kept without escapes was written without escapes.\<close>

lemma setPath_EscapedPath:
  assumes "setPath p u = Some v" "CHR ''%'' \<notin> set (EscapedPath v)" "EscapedPath v \<noteq> ''*''"
  shows "p = EscapedPath v"
proof -
  obtain path where path: "url_unescape EncPath p = Some path"
    and v: "gu_path v = path" "gu_raw_path v = (if url_escape EncPath path = p then [] else p)"
    using assms(1) by (auto simp: setPath_def split: option.splits)
  show ?thesis
  proof (cases "url_escape EncPath path = p")
    case True
    then show ?thesis using assms(3) v by (auto simp: EscapedPath_def split: if_splits)
  next
    case False
    then have "p \<noteq> []" using path by (auto simp: url_escape_def)
    show ?thesis
    proof (cases "validEncoded p")
      case True
      then show ?thesis using False \<open>p \<noteq> []\<close> path v by (simp add: EscapedPath_def)
    next
      case invalid: False
      then obtain c where c: "c \<in> set p" "c \<noteq> CHR ''%''" "shouldEscape EncPath c"
        by (auto simp: validEncoded_def list_all_iff)
      then have "c \<in> set path" using path hex_not_escaped url_unescape_member by blast
      then have "CHR ''%'' \<in> set (url_escape EncPath path)" using c(3) url_escape_marks by blast
      then show ?thesis using assms(2,3) False invalid v by (auto simp: EscapedPath_def split: if_splits)
    qed
  qed
qed

text \<open>A host without escapes was written as it stands.\<close>

lemma hex_value_bound: "hex_value c = Some x \<Longrightarrow> x < 16"
  by (auto simp: hex_value_def Let_def split: if_splits)

lemma url_unescape_host:
  assumes "url_unescape EncHost s = Some t" "list_all (\<lambda>c. byte_of c < 128 \<and> c \<noteq> CHR ''%'') t"
  shows "s = t"
  using assms
proof (induction EncHost s arbitrary: t rule: url_unescape.induct)
  case (2 d s)
  show ?case
  proof (cases "d = CHR ''%''")
    case True
    then obtain a b r x y where s: "hex_value a = Some x" "hex_value b = Some y"
      "\<not> (x < 8 \<and> [a, b] \<noteq> ''25'')" "map_option ((#) (char_of (x * 16 + y))) (url_unescape EncHost r) = Some t"
      using 2(4) by (auto split: list.splits option.splits if_splits)
    then have "char_of (x * 16 + y) \<in> set t" by auto
    moreover have "byte_of (char_of (x * 16 + y)) = x * 16 + y"
      using s(1,2) hex_value_bound [of a x] hex_value_bound [of b y] by simp
    moreover have "x < 8 \<Longrightarrow> x * 16 + y = 37" using s(1-3) by (auto simp: hex_value_def byte_of_def)
    moreover have "char_of (37 :: nat) = CHR ''%''" by code_simp
    ultimately have False
      using 2(5) by (cases "x < 8") (fastforce simp: list_all_iff)+
    then show ?thesis ..
  next
    case False
    then obtain t' where "url_unescape EncHost s = Some t'" "t = d # t'" using 2(4) by (auto split: if_splits)
    then show ?thesis using 2(3) False 2(4,5) by (auto split: if_splits)
  qed
qed simp

section \<open>Cutting\<close>

lemma cut_char: "s = before_char c s @ (if c \<in> set s then c # after_char c s else [])"
  by (induction s) (auto simp: before_char_def after_char_def)

lemma before_char_append:
  "c \<notin> set s \<Longrightarrow> before_char c (s @ t) = s @ before_char c t"
  "c \<notin> set s \<Longrightarrow> after_char c (s @ t) = after_char c t"
  by (induction s) (auto simp: before_char_def after_char_def)

lemma before_char_simps [simp]:
  "before_char c [] = []" "after_char c [] = []" "before_char c (c # s) = []" "after_char c (c # s) = s"
  by (auto simp: before_char_def after_char_def)

lemma before_after_empty:
  assumes "after_char c s = []"
  shows "s = before_char c s \<or> s = before_char c s @ [c]"
  using cut_char [of s c] assms by (auto split: if_splits)

section \<open>The scheme\<close>

lemma ascii_lower_https:
  assumes "map ascii_lower scheme = ''https''"
  shows "list_all (\<lambda>c. alphanumeric c \<and> \<not> digit_byte c) scheme" "scheme \<noteq> []"
proof -
  have "alphanumeric c \<and> \<not> digit_byte c" if "ascii_lower c \<in> set ''https''" for c
    using that unfolding ascii_lower_def alphanumeric_def digit_byte_def less_eq_char_byte byte_of_def Let_def
    by (auto split: if_splits)
  moreover have "ascii_lower c \<in> set ''https''" if "c \<in> set scheme" for c
    using that unfolding assms [symmetric] by simp
  ultimately show "list_all (\<lambda>c. alphanumeric c \<and> \<not> digit_byte c) scheme" by (auto simp: list_all_iff)
  show "scheme \<noteq> []" using assms by auto
qed

lemma alphanumeric_plain:
  "alphanumeric c \<Longrightarrow> scheme_char c \<and> path_char c"
  by (simp add: scheme_char_def path_char_def)

lemma getScheme_scheme:
  assumes "list_all (\<lambda>c. alphanumeric c \<and> \<not> digit_byte c) scheme" "scheme \<noteq> []"
  shows "getScheme (scheme @ CHR '':'' # r) = Some (scheme, r)"
proof -
  have all: "list_all scheme_char scheme" using assms(1) by (auto simp: list_all_iff scheme_char_def)
  have colon: "\<not> scheme_char (CHR '':'')" by (simp add: scheme_char_def alphanumeric_def byte_of_def)
  have "takeWhile scheme_char (scheme @ CHR '':'' # r) = scheme"
    "dropWhile scheme_char (scheme @ CHR '':'' # r) = CHR '':'' # r"
    using all colon by (auto simp: list_all_iff takeWhile_append dropWhile_append)
  then show ?thesis using assms by (cases scheme) (auto simp: getScheme_def)
qed

lemma getSchemeD:
  assumes "getScheme s = Some (scheme, r)" "scheme \<noteq> []"
  shows "s = scheme @ CHR '':'' # r"
proof -
  have "takeWhile scheme_char s = scheme \<and> dropWhile scheme_char s \<noteq> [] \<and> hd (dropWhile scheme_char s) = CHR '':'' \<and>
      tl (dropWhile scheme_char s) = r"
    using assms by (auto simp: getScheme_def Let_def split: if_splits)
  then have "takeWhile scheme_char s = scheme" "dropWhile scheme_char s = CHR '':'' # r"
    by (cases "dropWhile scheme_char s"; simp)+
  moreover have "s = takeWhile scheme_char s @ dropWhile scheme_char s" by simp
  ultimately show ?thesis by (simp only:)
qed

section \<open>Accepted URLs\<close>

lemma iam_host_plain:
  "list_all path_char iam_host" "list_all (\<lambda>c. byte_of c < 128 \<and> c \<noteq> CHR ''%'') iam_host" "iam_host \<noteq> []"
  "parseAuthority iam_host = Some (False, iam_host)" "CHR ''/'' \<notin> set iam_host"
  by code_simp+

lemma label_plain: "label_char c \<Longrightarrow> path_char c"
  by (auto simp: label_char_def lower_letter_def digit_byte_def path_char_def alphanumeric_def byte_of_def Let_def)

lemma serviceAccountEmailE:
  assumes "serviceAccountEmailPattern identity"
  obtains user project where "identity = user @ CHR ''@'' # project @ ''.iam.gserviceaccount.com''"
    "account_label user" "account_label project"
proof -
  obtain a b where ab: "split_char (CHR ''@'') identity = [a, b]" "account_label a"
    "has_suffix ''.iam.gserviceaccount.com'' b" "account_label (trim_suffix ''.iam.gserviceaccount.com'' b)"
    using assms by (auto simp: serviceAccountEmailPattern_def split: list.splits)
  from ab(3) obtain p where b: "b = p @ ''.iam.gserviceaccount.com''" by (auto simp: has_suffix_iff)
  have "identity = join [CHR ''@''] [a, b]" using join_split_char [of "CHR ''@''" identity] ab(1) by simp
  then have "identity = a @ CHR ''@'' # p @ ''.iam.gserviceaccount.com''" using b by simp
  moreover have "trim_suffix ''.iam.gserviceaccount.com'' b = p"
    using ab(3) b by (simp add: trim_suffix_def)
  ultimately show thesis using that ab(2,4) by simp
qed

lemma identity_plain:
  assumes "serviceAccountEmailPattern identity"
  shows "list_all path_char (impersonation_path identity)"
proof -
  have "list_all path_char s" if "list_all label_char s" for s
    using that by (auto simp: list_all_iff label_plain)
  moreover have "list_all path_char ''/v1/projects/-/serviceAccounts/''" "list_all path_char '':generateAccessToken''"
    "list_all path_char ''.iam.gserviceaccount.com''" "path_char (CHR ''@'')"
    by code_simp+
  moreover obtain user project where "identity = user @ CHR ''@'' # project @ ''.iam.gserviceaccount.com''"
    "account_label user" "account_label project" using serviceAccountEmailE [OF assms] .
  ultimately show ?thesis by (simp add: impersonation_path_def account_label_def)
qed

lemma parse_url_accepted:
  assumes "parse_url b = Some u" "gu_scheme u = ''https''" "gu_host u = iam_host" "\<not> gu_user u" "gu_raw_query u = []"
    "EscapedPath u = path" "CHR ''%'' \<notin> set path" "path \<noteq> ''*''"
  shows "\<exists>scheme. map ascii_lower scheme = ''https'' \<and>
    (b = scheme @ ''://'' @ iam_host @ path \<or> b = scheme @ ''://'' @ iam_host @ path @ ''?'')"
proof -
  have b: "\<not> list_ex (\<lambda>c. byte_of c < 32 \<or> byte_of c = 127) b" "b \<noteq> ''*''"
    using assms(1,2) by (auto simp: parse_url_def empty_url_def split: if_splits)
  with assms(1) obtain scheme rest0 where scheme: "getScheme b = Some (scheme, rest0)"
    by (cases "getScheme b") (auto simp: parse_url_def)
  define rest where "rest = before_char (CHR ''?'') rest0"
  define v where "v = empty_url\<lparr>gu_scheme := map ascii_lower scheme, gu_raw_query := after_char (CHR ''?'') rest0\<rparr>"
  define authority where "authority = before_char (CHR ''/'') (drop 2 rest)"
  define p where "p = dropWhile (\<lambda>x. x \<noteq> CHR ''/'') (drop 2 rest)"
  have eq: "(if \<not> has_prefix ''/'' rest \<and> scheme \<noteq> [] then Some (v\<lparr>gu_opaque := rest\<rparr>)
      else if \<not> has_prefix ''/'' rest \<and> CHR '':'' \<in> set (before_char (CHR ''/'') rest) then None
      else if (scheme \<noteq> [] \<or> \<not> has_prefix ''///'' rest) \<and> has_prefix ''//'' rest
      then (case parseAuthority authority of None \<Rightarrow> None
        | Some (user, host) \<Rightarrow> setPath p (v\<lparr>gu_user := user, gu_host := host\<rparr>))
      else setPath rest v) = Some u"
    using assms(1) b scheme unfolding parse_url_def rest_def v_def authority_def p_def Let_def by simp
  have v: "gu_host v = []" by (simp add: v_def empty_url_def)
  have parse: "has_prefix ''//'' rest \<and> (\<exists>user host. parseAuthority authority = Some (user, host) \<and>
      setPath p (v\<lparr>gu_user := user, gu_host := host\<rparr>) = Some u)"
  proof (rule ccontr)
    assume "\<not> ?thesis"
    then have "gu_host u = []"
      using eq v by (auto simp: setPath_def split: if_splits option.splits)
    then show False using assms(3) iam_host_plain(3) by simp
  qed
  then obtain user host where auth: "parseAuthority authority = Some (user, host)"
    and path: "setPath p (v\<lparr>gu_user := user, gu_host := host\<rparr>) = Some u" by blast
  have u: "gu_scheme u = map ascii_lower scheme" "gu_raw_query u = after_char (CHR ''?'') rest0" "gu_user u = user"
    "gu_host u = host"
    using path by (auto simp: setPath_def v_def empty_url_def split: option.splits)
  have "p = path" using setPath_EscapedPath [OF path] assms(6-8) by simp
  have "url_unescape EncHost authority = Some iam_host"
    using auth assms(3,4) u by (auto simp: parseAuthority_def parseHost_def Let_def split: if_splits option.splits)
  then have "authority = iam_host" using iam_host_plain(2) by (rule url_unescape_host)
  moreover have "drop 2 rest = authority @ p" by (simp add: authority_def p_def before_char_def)
  moreover have "rest = ''//'' @ drop 2 rest" using parse by (auto simp: has_prefix_iff)
  ultimately have rest: "rest = ''//'' @ iam_host @ path" using \<open>p = path\<close> by simp
  have "scheme \<noteq> []" using assms(2) u(1) by auto
  then have "b = scheme @ CHR '':'' # rest0" using scheme by (rule getSchemeD [rotated])
  moreover have "rest0 = rest \<or> rest0 = rest @ ''?''"
    using before_after_empty [of "CHR ''?''" rest0] assms(5) u(2) by (simp add: rest_def)
  ultimately have "map ascii_lower scheme = ''https'' \<and>
      (b = scheme @ ''://'' @ iam_host @ path \<or> b = scheme @ ''://'' @ iam_host @ path @ ''?'')"
    using rest assms(2) u(1) by auto
  then show ?thesis by (intro exI [of _ scheme])
qed

lemma url_Parse_accepted:
  assumes "url_Parse raw = Some u" "gu_fragment u = []"
  obtains b v where "parse_url b = Some v" "raw = b \<or> raw = b @ ''#''" "u = v"
proof -
  from assms(1) obtain v where v: "parse_url (before_char (CHR ''#'') raw) = Some v"
    by (auto simp: url_Parse_def split: option.splits)
  have "after_char (CHR ''#'') raw = []"
    using assms v by (auto simp: url_Parse_def url_unescape_nonempty split: if_splits)
  then show thesis using that v assms(1) before_after_empty [of "CHR ''#''" raw]
    by (auto simp: url_Parse_def)
qed

lemma parse_url_builds:
  assumes "map ascii_lower scheme = ''https''" "list_all path_char path" "has_prefix ''/'' path" "q = [] \<or> q = ''?''"
  shows "parse_url (scheme @ ''://'' @ iam_host @ path @ q) =
    Some (empty_url\<lparr>gu_scheme := ''https'', gu_host := iam_host, gu_path := path\<rparr>)"
proof -
  note sch = ascii_lower_https [OF assms(1)]
  define body where "body = ''//'' @ iam_host @ path"
  have plain: "list_all path_char (scheme @ ''://'' @ iam_host @ path)"
  proof -
    have "list_all path_char scheme" using sch(1) by (auto simp: list_all_iff alphanumeric_plain)
    moreover have "list_all path_char ''://''" by code_simp
    ultimately show ?thesis using assms(2) iam_host_plain(1) by simp
  qed
  have ctl: "\<not> list_ex (\<lambda>c. byte_of c < 32 \<or> byte_of c = 127) (scheme @ ''://'' @ iam_host @ path @ q)"
  proof -
    have "\<not> list_ex (\<lambda>c. byte_of c < 32 \<or> byte_of c = 127) (scheme @ ''://'' @ iam_host @ path)"
      using plain by (rule path_text_plain)
    moreover have "\<not> list_ex (\<lambda>c. byte_of c < 32 \<or> byte_of c = 127) q" using assms(4) by (auto simp: byte_of_def)
    ultimately show ?thesis by (auto simp: list_ex_iff)
  qed
  have body: "CHR ''?'' \<notin> set body"
    using path_text_plain(2) [OF plain] by (simp add: body_def)
  have q: "before_char (CHR ''?'') (body @ q) = body" "after_char (CHR ''?'') (body @ q) = []"
    using assms(4) by (auto simp: before_char_append [OF body])
  have g: "getScheme (scheme @ ''://'' @ iam_host @ path @ q) = Some (scheme, body @ q)"
    using getScheme_scheme [OF sch, of "body @ q"] by (simp add: body_def)
  obtain path' where path': "path = CHR ''/'' # path'" using assms(3) by (auto simp: has_prefix_iff)
  have au: "before_char (CHR ''/'') (iam_host @ path) = iam_host"
    "dropWhile (\<lambda>x. x \<noteq> CHR ''/'') (iam_host @ path) = path"
    using iam_host_plain(5) by (auto simp: path' before_char_def takeWhile_append dropWhile_append)
  have "setPath path v = Some (v\<lparr>gu_path := path, gu_raw_path := []\<rparr>)" for v
    using assms(2) path_text_plain(1) [OF assms(2)] by (simp add: setPath_def url_unescape_plain url_escape_plain)
  then show ?thesis
    using ctl g q sch(2) assms(1) au iam_host_plain(4)
    by (simp add: parse_url_def Let_def) (auto simp: body_def has_prefix_def empty_url_def)
qed

lemma validateImpersonationURL_iff:
  assumes "serviceAccountEmailPattern identity"
  shows "validateImpersonationURL raw identity = None \<longleftrightarrow>
    (\<exists>scheme tail. raw = scheme @ ''://'' @ iam_host @ impersonation_path identity @ tail \<and>
       map ascii_lower scheme = ''https'' \<and> tail \<in> {'''', ''?'', ''#'', ''?#''})" (is "?l \<longleftrightarrow> ?r")
proof
  let ?path = "impersonation_path identity"
  note plain = identity_plain [OF assms]
  have path: "CHR ''%'' \<notin> set ?path" "?path \<noteq> ''*''" "has_prefix ''/'' ?path"
    using path_text_plain(1) [OF plain] by (simp_all add: impersonation_path_def has_prefix_def)
  {
    assume ?l
    then obtain u where u: "url_Parse raw = Some u" "gu_scheme u = ''https''" "gu_host u = iam_host" "\<not> gu_user u"
      "gu_raw_query u = []" "gu_fragment u = []" "EscapedPath u = ?path"
      by (auto simp: validateImpersonationURL_def split: option.splits if_splits)
    obtain b where b: "parse_url b = Some u" "raw = b \<or> raw = b @ ''#''"
      using url_Parse_accepted [OF u(1,6)] by metis
    obtain scheme q where b': "map ascii_lower scheme = ''https''" "b = scheme @ ''://'' @ iam_host @ ?path @ q"
      "q = '''' \<or> q = ''?''"
      using parse_url_accepted [OF b(1) u(2-5,7) path(1,2)] by (elim exE conjE) (metis append_Nil2)
    obtain h where h: "raw = b @ h" "h = '''' \<or> h = ''#''" using b(2) by (metis append_Nil2)
    show ?r
    proof (intro exI conjI)
      show "raw = scheme @ ''://'' @ iam_host @ ?path @ (q @ h)" using b'(2) h(1) by simp
      show "q @ h \<in> {'''', ''?'', ''#'', ''?#''}" using b'(3) h(2) by auto
    qed (rule b'(1))
  next
    assume ?r
    then obtain scheme tail where raw: "raw = scheme @ ''://'' @ iam_host @ ?path @ tail"
      "map ascii_lower scheme = ''https''" "tail \<in> {'''', ''?'', ''#'', ''?#''}" by (elim exE conjE)
    define q where "q = (if tail \<in> {''?'', ''?#''} then ''?'' else '''')"
    define b where "b = scheme @ ''://'' @ iam_host @ ?path @ q"
    have "CHR ''#'' \<notin> set b"
    proof -
      have "list_all path_char scheme"
        using ascii_lower_https(1) [OF raw(2)] by (auto simp: list_all_iff alphanumeric_plain)
      then show ?thesis
        using path_text_plain(3) [OF plain] path_text_plain(3) [of scheme] path_text_plain(3) [OF iam_host_plain(1)]
        by (simp add: b_def q_def)
    qed
    moreover have "raw = b \<or> raw = b @ ''#''" using raw(1,3) by (auto simp: b_def q_def)
    ultimately have "before_char (CHR ''#'') raw = b" "after_char (CHR ''#'') raw = []"
      using before_char_append [of "CHR ''#''" b] by (metis append_Nil2 before_char_simps)+
    moreover have "parse_url b = Some (empty_url\<lparr>gu_scheme := ''https'', gu_host := iam_host, gu_path := ?path\<rparr>)"
      unfolding b_def using raw(2) plain path(3) by (rule parse_url_builds) (simp add: q_def)
    ultimately have "url_Parse raw = Some (empty_url\<lparr>gu_scheme := ''https'', gu_host := iam_host, gu_path := ?path\<rparr>)"
      by (simp add: url_Parse_def)
    then show ?l
      using path(2) url_escape_plain [OF plain]
      by (simp add: validateImpersonationURL_def empty_url_def EscapedPath_def)
  }
qed

end
