(* ===== verification/Gcp_Safety.thy ===== *)
theory Gcp_Safety
  imports Gcp_Url
begin

text \<open>
  What a successful selection of credentials guarantees: the carrier acts only as the declared
  identity, and a token source exists only in a sealed environment and from material that is bound to
  that identity.
\<close>

section \<open>The project of an identity\<close>

lemma last_index_from_skip:
  "c \<notin> set v \<Longrightarrow> last_index_from [c] v i best = best"
  by (induction v arbitrary: i) (auto simp: has_prefix_def)

lemma last_index_char:
  assumes "c \<notin> set v"
  shows "last_index (u @ c # v) [c] = int (length u)"
proof -
  have "last_index_from [c] (u @ c # v) i best = i + int (length u)" for i best
    by (induction u arbitrary: i best) (auto simp: has_prefix_def last_index_from_skip [OF assms])
  then show ?thesis by (simp add: last_index_def)
qed

lemma label_no_at: "account_label s \<Longrightarrow> CHR ''@'' \<notin> set s"
  by (auto simp: account_label_def list_all_iff label_char_def lower_letter_def digit_byte_def byte_of_def)

lemma serviceAccountProject_of:
  assumes "account_label user" "account_label project"
  shows "serviceAccountProject (user @ CHR ''@'' # project @ ''.iam.gserviceaccount.com'') = project"
proof -
  let ?t = "user @ CHR ''@'' # project"
  have t: "trim_suffix ''.iam.gserviceaccount.com'' (?t @ ''.iam.gserviceaccount.com'') = ?t"
    by (auto simp: trim_suffix_def has_suffix_iff)
  have "CHR ''@'' \<notin> set project" using assms(2) by (rule label_no_at)
  then have "last_index ?t ''@'' = int (length user)" by (rule last_index_char)
  moreover have "project \<noteq> []" using assms(2) by (auto simp: account_label_def)
  ultimately show ?thesis
    using t by (simp add: serviceAccountProject_def Let_def)
qed

lemma identity_user:
  assumes "user @ CHR ''@'' # r = user' @ CHR ''@'' # project' @ ''.iam.gserviceaccount.com''"
    and "account_label user'" "account_label project'"
  shows "user = user'"
proof -
  let ?ats = "filter (\<lambda>c. c = CHR ''@'')"
  have none: "?ats user' = []" "?ats project' = []"
    using assms(2,3) label_no_at by (auto simp: filter_empty_conv)
  have "length (?ats user) + Suc (length (?ats r)) = Suc 0"
    using arg_cong [OF assms(1), of "\<lambda>s. length (?ats s)"] none by simp
  then have "CHR ''@'' \<notin> set user" by (auto simp: filter_empty_conv)
  moreover have "CHR ''@'' \<notin> set user'" using assms(2) by (rule label_no_at)
  ultimately show ?thesis
    using arg_cong [OF assms(1), of "takeWhile (\<lambda>c. c \<noteq> CHR ''@'')"]
    by (auto simp: takeWhile_append split: if_splits)
qed

section \<open>The carrier\<close>

lemma string_value_nonempty: "string_value v \<noteq> [] \<Longrightarrow> v = Some (JStr (string_value v))"
  by (cases v rule: string_value.cases) auto

text \<open>Some object inside the value has one of the two private members.\<close>

fun holds_private_key :: "json \<Rightarrow> bool" where
  "holds_private_key (JObj kvs) \<longleftrightarrow>
     list_ex (\<lambda>kv. fst kv = ''private_key'' \<or> fst kv = ''private_key_id'' \<or> holds_private_key (snd kv)) kvs"
| "holds_private_key (JArr xs) \<longleftrightarrow> list_ex holds_private_key xs"
| "holds_private_key _ \<longleftrightarrow> False"

lemma rejectForbidden_iff: "rejectForbiddenCredentialFields v \<longleftrightarrow> \<not> holds_private_key v"
  by (induction v rule: holds_private_key.induct) (auto simp: list_all_iff list_ex_iff)

lemma validateImpersonatedConfigurationE:
  assumes "validateImpersonatedConfiguration data identity = None"
  obtains raw where "json_single data = Some (JObj raw)" "no_duplicates (JObj raw)" "validate_carrier raw identity = None"
proof -
  obtain v raw where v: "json_single data = Some v" "no_duplicates v" "decode_map v = Some raw"
    "validate_carrier raw identity = None"
    using assms by (auto simp: validateImpersonatedConfiguration_def gcp_rejectDuplicateJSONKeys_def
        split: option.splits sum.splits if_splits)
  have "validate_carrier [] identity \<noteq> None"
    by (simp add: validate_carrier_def field_def ProfileImpersonated_def)
  then show thesis using that v by (auto simp: decode_map_def split: json.splits)
qed

lemma validate_carrierD:
  assumes "validate_carrier raw identity = None"
  shows "rejectForbiddenCredentialFields (JObj (filter (\<lambda>kv. fst kv \<noteq> ''source_credentials'') raw))"
    "validateImpersonationURL (string_value (field raw ''service_account_impersonation_url'')) identity = None"
    "field raw ''quota_project_id'' = Some (JStr (serviceAccountProject identity))"
    "field raw ''delegates'' = Some (JArr [])" "field raw ''scopes'' = Some (JArr [JStr CloudPlatformScope])"
    "\<exists>source. field raw ''source_credentials'' = Some (JObj source) \<and> validate_source source = None"
  using assms unfolding validate_carrier_def
  by (auto split: if_splits option.splits elim!: as_object.elims)

lemma private_keys_confined:
  assumes "rejectForbiddenCredentialFields (JObj (filter (\<lambda>kv. fst kv \<noteq> ''source_credentials'') raw))"
    and "(k, v) \<in> set raw" "holds_private_key (JObj [(k, v)])"
  shows "k = ''source_credentials''"
  using assms by (auto simp: rejectForbidden_iff list_ex_iff)

text \<open>C17: a carrier that \<open>validateImpersonatedConfiguration\<close> accepts for a canonical identity acts only as that identity.
  It is one JSON object without repeated members; its URL is, up to the case of the scheme and an empty query or
  fragment, the token URL of the identity at the IAM credentials service; it has no delegates, the one
  cloud-platform scope and the identity's own project as quota project; private key material occurs only
  inside \<open>source_credentials\<close>, whose token endpoint is Google's.\<close>

theorem carrier_bound:
  assumes "validateImpersonatedConfiguration data (user @ CHR ''@'' # project @ ''.iam.gserviceaccount.com'') = None"
    and "serviceAccountEmailPattern (user @ CHR ''@'' # project @ ''.iam.gserviceaccount.com'')"
  shows "\<exists>raw source scheme tail.
    json_single data = Some (JObj raw) \<and> distinct (map fst raw) \<and>
    field raw ''service_account_impersonation_url'' = Some (JStr (scheme @ ''://iamcredentials.googleapis.com'' @
      impersonation_path (user @ CHR ''@'' # project @ ''.iam.gserviceaccount.com'') @ tail)) \<and>
    map ascii_lower scheme = ''https'' \<and> tail \<in> {'''', ''?'', ''#'', ''?#''} \<and>
    field raw ''delegates'' = Some (JArr []) \<and> field raw ''scopes'' = Some (JArr [JStr CloudPlatformScope]) \<and>
    field raw ''quota_project_id'' = Some (JStr project) \<and>
    field raw ''source_credentials'' = Some (JObj source) \<and>
    fixed_when_present source ''token_uri'' ''https://oauth2.googleapis.com/token'' \<and>
    (\<forall>k v. (k, v) \<in> set raw \<longrightarrow> holds_private_key (JObj [(k, v)]) \<longrightarrow> k = ''source_credentials'')"
proof -
  let ?identity = "user @ CHR ''@'' # project @ ''.iam.gserviceaccount.com''"
  obtain user' project' where id: "?identity = user' @ CHR ''@'' # project' @ ''.iam.gserviceaccount.com''"
    "account_label user'" "account_label project'" using serviceAccountEmailE [OF assms(2)] .
  have "user = user'" using id by (rule identity_user)
  then have project: "serviceAccountProject ?identity = project"
    using id serviceAccountProject_of [OF id(2,3)] by simp
  obtain raw where raw: "json_single data = Some (JObj raw)" "no_duplicates (JObj raw)"
    "validate_carrier raw ?identity = None"
    using validateImpersonatedConfigurationE [OF assms(1)] .
  note carrier = validate_carrierD [OF raw(3)]
  obtain source where source: "field raw ''source_credentials'' = Some (JObj source)" "validate_source source = None"
    using carrier(6) by blast
  have uri: "fixed_when_present source ''token_uri'' ''https://oauth2.googleapis.com/token''"
    using source(2) by (auto simp: validate_source_def split: option.splits if_splits)
  define raw_url where "raw_url = string_value (field raw ''service_account_impersonation_url'')"
  obtain scheme tail where url: "raw_url = scheme @ ''://'' @ iam_host @ impersonation_path ?identity @ tail"
    "map ascii_lower scheme = ''https''" "tail \<in> {'''', ''?'', ''#'', ''?#''}"
    using carrier(2) unfolding raw_url_def [symmetric] validateImpersonationURL_iff [OF assms(2)]
    by (elim exE conjE)
  have "raw_url \<noteq> []" using url(1) by simp
  then have "field raw ''service_account_impersonation_url'' = Some (JStr raw_url)"
    unfolding raw_url_def by (rule string_value_nonempty)
  moreover have "raw_url = scheme @ ''://iamcredentials.googleapis.com'' @ impersonation_path ?identity @ tail"
    using url(1) by (simp add: iam_host_def)
  moreover have "distinct (map fst raw)" using raw(2) by simp
  moreover have "\<forall>k v. (k, v) \<in> set raw \<longrightarrow> holds_private_key (JObj [(k, v)]) \<longrightarrow> k = ''source_credentials''"
    using private_keys_confined [OF carrier(1)] by blast
  ultimately show ?thesis
    using raw(1) url(2,3) carrier(3-5) project source(1) uri
    by (intro exI [of _ raw] exI [of _ source] exI [of _ scheme] exI [of _ tail] conjI) simp_all
qed

definition example_carrier :: "(string \<times> json) list" where
  "example_carrier =
     [(''type'', JStr ''impersonated_service_account''),
      (''service_account_impersonation_url'', JStr (''HTTPS://iamcredentials.googleapis.com'' @
         impersonation_path ''history@project-one.iam.gserviceaccount.com'' @ ''?'')),
      (''delegates'', JArr []), (''scopes'', JArr [JStr CloudPlatformScope]),
      (''quota_project_id'', JStr ''project-one''),
      (''source_credentials'', JObj [(''type'', JStr ''service_account''), (''private_key_id'', JStr ''k''),
         (''private_key'', JStr ''p''), (''client_email'', JStr ''device@project-two.iam.gserviceaccount.com'')])]"

lemma example_carrier_url:
  "validateImpersonationURL (''HTTPS://iamcredentials.googleapis.com'' @
     impersonation_path ''history@project-one.iam.gserviceaccount.com'' @ ''?'')
   ''history@project-one.iam.gserviceaccount.com'' = None"
proof -
  have "serviceAccountEmailPattern ''history@project-one.iam.gserviceaccount.com''" "map ascii_lower ''HTTPS'' = ''https''"
    by code_simp+
  then show ?thesis
    unfolding validateImpersonationURL_iff [OF \<open>serviceAccountEmailPattern _\<close>] iam_host_def
    by (intro exI [of _ "''HTTPS''"] exI [of _ "''?''"] conjI) simp_all
qed

lemma example_carrier_valid:
  "validate_carrier example_carrier ''history@project-one.iam.gserviceaccount.com'' = None"
proof -
  let ?source = "[(''type'', JStr ''service_account''), (''private_key_id'', JStr ''k''),
     (''private_key'', JStr ''p''), (''client_email'', JStr ''device@project-two.iam.gserviceaccount.com'')]"
  have project: "serviceAccountProject ''history@project-one.iam.gserviceaccount.com'' = ''project-one''"
    using serviceAccountProject_of [of "''history''" "''project-one''"] by (simp; code_simp)
  have "validateObjectKeys example_carrier carrier_keys"
    "rejectForbiddenCredentialFields (JObj (filter (\<lambda>kv. fst kv \<noteq> ''source_credentials'') example_carrier))"
    by code_simp+
  moreover have "validate_source ?source = None"
  proof -
    have "trim_space ''k'' = ''k''" "trim_space ''p'' = ''p''"
      "trim_space ''device@project-two.iam.gserviceaccount.com'' = ''device@project-two.iam.gserviceaccount.com''"
      by (rule trim_space_solid; simp add: solid_def byte_of_def)+
    moreover have "serviceAccountEmailPattern ''device@project-two.iam.gserviceaccount.com''" by code_simp
    moreover have "validateObjectKeys ?source account_source_keys" by code_simp
    ultimately show ?thesis
      by (simp add: validate_source_def validate_source_type_def field_def present_def fixed_when_present_def
          string_when_present_def Let_def)
  qed
  ultimately have parts: "validateObjectKeys example_carrier carrier_keys"
    "rejectForbiddenCredentialFields (JObj (filter (\<lambda>kv. fst kv \<noteq> ''source_credentials'') example_carrier))"
    "validate_source ?source = None" by -
  with project example_carrier_url show ?thesis
    by (simp add: validate_carrier_def del: rejectForbiddenCredentialFields.simps)
       (simp add: example_carrier_def field_def ProfileImpersonated_def)
qed

lemma example_carrier_accepted:
  "validateImpersonatedConfiguration (json_print True (JObj example_carrier)) ''history@project-one.iam.gserviceaccount.com'' = None"
proof -
  have "json_plain (JObj example_carrier)" "nesting (JObj example_carrier) \<le> 2" by code_simp+
  then have "json_single (json_print True (JObj example_carrier)) = Some (JObj example_carrier)"
    by (intro json_single_print) (auto simp del: nesting.simps json_plain.simps simp: max_nesting_def)
  moreover have "no_duplicates (JObj example_carrier)" by code_simp
  moreover note example_carrier_valid
  ultimately show ?thesis
    by (simp add: validateImpersonatedConfiguration_def gcp_rejectDuplicateJSONKeys_def decode_map_def)
qed

theorem carrier_bound_witness:
  "\<exists>raw. json_single (json_print True (JObj example_carrier)) = Some (JObj raw) \<and>
     field raw ''quota_project_id'' = Some (JStr ''project-one'')"
proof -
  have "serviceAccountEmailPattern (''history'' @ CHR ''@'' # ''project-one'' @ ''.iam.gserviceaccount.com'')" by code_simp
  from carrier_bound [OF _ this, of "json_print True (JObj example_carrier)"] example_carrier_accepted
  show ?thesis by auto
qed

section \<open>Files and the environment\<close>

text \<open>The bytes come from a bounded regular file that only its owner, the effective user, can read.\<close>

definition protected_file :: "'src gcp_world \<Rightarrow> string \<Rightarrow> string \<Rightarrow> bool" where
  "protected_file w path data \<longleftrightarrow>
     is_abs path \<and> cd_owned (gw_files w path) \<and> cd_data (gw_files w path) = Some data \<and>
     length data \<le> maxCredentialConfigurationBytes \<and>
     (\<exists>st opened. cd_lstat (gw_files w path) = Some st \<and> cd_opened (gw_files w path) = Some opened \<and>
        sameIdentity st opened \<and> st_kind opened = Regular \<and> st_perm opened \<in> {256, 384})"

lemma readOwnerOnlyRegularFile_Inr:
  assumes "readOwnerOnlyRegularFile w path = Inr data"
  shows "protected_file w path data"
  using assms unfolding readOwnerOnlyRegularFile_def protected_file_def validateCredentialFileAccess_def Let_def
  by (auto split: option.splits if_splits)

text \<open>No variable redirects Google's transport or weakens it.\<close>

definition sealed_environment :: "environ \<Rightarrow> bool" where
  "sealed_environment env \<longleftrightarrow>
     (\<forall>key \<in> set ambientGoogleTransportOverrideKeys. env key \<noteq> [] \<longrightarrow>
        (key, env key) \<in> {(''GOOGLE_API_USE_CLIENT_CERTIFICATE'', ''false''), (''GOOGLE_API_USE_MTLS_ENDPOINT'', ''never'')}) \<and>
     (\<forall>fragment \<in> set forbiddenGODEBUGFragments. \<not> contains fragment (env ''GODEBUG''))"

abbreviation sealed :: "environ \<Rightarrow> environ" where
  "sealed env \<equiv> env(''GOOGLE_API_USE_CLIENT_CERTIFICATE'' := ''false'', ''GOOGLE_API_USE_MTLS_ENDPOINT'' := ''never'')"

lemma sealAmbientGoogleTransport_ok:
  assumes "sealAmbientGoogleTransport w env = (None, env')"
  shows "sealed_environment env" "env' = sealed env"
proof -
  have ok: "validateSecuritySensitiveGODEBUG (env ''GODEBUG'') = None"
    "list_all (ambient_key_ok env) ambientGoogleTransportOverrideKeys"
    and run: "seal_keys (gw_setenv w)
      (if gw_seal_order w
       then [(''GOOGLE_API_USE_CLIENT_CERTIFICATE'', ''false''), (''GOOGLE_API_USE_MTLS_ENDPOINT'', ''never'')]
       else [(''GOOGLE_API_USE_MTLS_ENDPOINT'', ''never''), (''GOOGLE_API_USE_CLIENT_CERTIFICATE'', ''false'')]) env =
      (None, env')"
    using assms
    by (auto simp: sealAmbientGoogleTransport_def Let_def sealedGoogleClientCertificate_def sealedGoogleMTLSEndpoint_def
        split: option.splits if_splits)
  show "sealed_environment env"
    using ok unfolding sealed_environment_def validateSecuritySensitiveGODEBUG_def list_all_iff ambient_key_ok_def
      sealedGoogleClientCertificate_def sealedGoogleMTLSEndpoint_def
    by (auto simp: list_ex_iff split: if_splits)
  show "env' = sealed env"
    using run by (auto split: if_splits simp: fun_upd_twist)
qed

text \<open>After the sealing the environment is sealed again: a second selection is not refused.\<close>

lemma sealed_stays: "sealed_environment env \<Longrightarrow> sealed_environment (sealed env)"
  by (auto simp: sealed_environment_def)

section \<open>Bound sources\<close>

definition attached_identity :: "'src gcp_world \<Rightarrow> selector \<Rightarrow> bool" where
  "attached_identity w s \<longleftrightarrow>
     (\<exists>md email. gw_metadata w = Some md \<and> md_on_gce md \<and> md_email md = Some email \<and> trim_space email = se_identity s)"

text \<open>The device key: a service account whose address is the declared identity.\<close>

definition device_key :: "selector \<Rightarrow> string \<Rightarrow> bool" where
  "device_key s data \<longleftrightarrow>
     (\<exists>source. data = json_marshal True (JObj source) \<and> field source ''type'' = Some (JStr ''service_account'') \<and>
        field source ''client_email'' = Some (JStr (se_identity s)))"

text \<open>Where a token source comes from.\<close>

inductive source_bound :: "'src gcp_world \<Rightarrow> environ \<Rightarrow> selector \<Rightarrow> bool \<Rightarrow> 'src token_source \<Rightarrow> bool"
  for w :: "'src gcp_world" and env :: environ and s :: selector and detach :: bool where
  request: "se_profile s = ProfileAttached \<Longrightarrow> attached_identity w s \<Longrightarrow> \<not> detach \<Longrightarrow>
     source_bound w env s detach (RequestMetadata (se_identity s) [CloudPlatformScope])"
| compute: "se_profile s = ProfileAttached \<Longrightarrow> attached_identity w s \<Longrightarrow> detach \<Longrightarrow>
     gw_compute w (se_identity s) [CloudPlatformScope] = Some src \<Longrightarrow>
     source_bound w env s detach (LibrarySource src)"
| impersonated: "se_profile s = ProfileImpersonated \<Longrightarrow> defaultADCPath env = Inr path \<Longrightarrow> protected_file w path data \<Longrightarrow>
     validateImpersonatedConfiguration data (se_identity s) = None \<Longrightarrow>
     gw_credentials w ProfileImpersonated data [CloudPlatformScope] detach = Some (Some src) \<Longrightarrow>
     source_bound w env s detach (LibrarySource src)"
| device: "se_profile s = ProfileDevice \<Longrightarrow> defaultADCPath env = Inr path \<Longrightarrow> protected_file w path data \<Longrightarrow>
     device_key s key \<Longrightarrow> gw_credentials w ''service_account'' key [CloudPlatformScope] detach = Some (Some src) \<Longrightarrow>
     source_bound w env s detach (LibrarySource src)"
| workload: "se_profile s = ProfileWorkload \<Longrightarrow> protected_file w (env ''GOOGLE_APPLICATION_CREDENTIALS'') raw \<Longrightarrow>
     decodeWorkloadJSON raw workload_specs empty_carrier = Inr c \<Longrightarrow> carrier_matches s c \<Longrightarrow>
     gw_external w raw [CloudPlatformScope] = Some src \<Longrightarrow>
     source_bound w env s detach (WorkloadSource detach src)"

lemma attachedTokenSource_bound:
  assumes "attachedTokenSource w env s [CloudPlatformScope] detach = Inr src" "se_profile s = ProfileAttached"
  shows "source_bound w env s detach src"
  using assms unfolding attachedTokenSource_def
  by (auto split: if_splits option.splits intro!: source_bound.request source_bound.compute simp: attached_identity_def)

lemma impersonatedTokenSource_bound:
  assumes "impersonatedTokenSource w env s [CloudPlatformScope] detach = Inr src" "se_profile s = ProfileImpersonated"
  shows "source_bound w env s detach src"
  using assms unfolding impersonatedTokenSource_def
  by (auto split: if_splits option.splits sum.splits
      intro: source_bound.impersonated dest: readOwnerOnlyRegularFile_Inr)

lemma deviceSourceConfiguration_key:
  assumes "deviceSourceConfiguration fl data (se_identity s) = Inr key"
  shows "device_key s key"
  using assms unfolding deviceSourceConfiguration_def device_key_def Let_def
  by (auto split: if_splits option.splits sum.splits)

lemma deviceTokenSource_bound:
  assumes "deviceTokenSource w env s [CloudPlatformScope] detach = Inr src" "se_profile s = ProfileDevice"
  shows "source_bound w env s detach src"
  using assms unfolding deviceTokenSource_def
  by (auto split: if_splits option.splits sum.splits
      intro: source_bound.device dest: readOwnerOnlyRegularFile_Inr deviceSourceConfiguration_key)

lemma ValidateWorkload_Inr:
  assumes "ValidateWorkloadIdentityConfiguration w env s = Inr raw"
  shows "protected_file w (env ''GOOGLE_APPLICATION_CREDENTIALS'') raw"
    "\<exists>c. decodeWorkloadJSON raw workload_specs empty_carrier = Inr c \<and> carrier_matches s c"
  using assms unfolding ValidateWorkloadIdentityConfiguration_def Let_def
  by (auto split: if_splits option.splits sum.splits dest: readOwnerOnlyRegularFile_Inr)

lemma workloadIdentityTokenSource_bound:
  assumes "workloadIdentityTokenSource w env s [CloudPlatformScope] detach = Inr src" "se_profile s = ProfileWorkload"
  shows "source_bound w env s detach src"
proof -
  obtain raw x where raw: "ValidateWorkloadIdentityConfiguration w env s = Inr raw"
    and src: "gw_external w raw [CloudPlatformScope] = Some x" "src = WorkloadSource detach x"
    using assms(1) unfolding workloadIdentityTokenSource_def by (auto split: if_splits option.splits sum.splits)
  from ValidateWorkload_Inr [OF raw] src assms(2) show ?thesis by (auto intro: source_bound.workload)
qed

text \<open>C16: a token source exists only for a canonical identity and the one scope, in an environment in which no
  variable redirects or weakens Google's transport, and the variables that remain allowed are pinned afterwards.
  Its material is bound to the identity: the metadata service reported it, or a protected file names it
  as the impersonated identity, as the device key's address or as the target of the workload federation.\<close>

theorem token_source_bound:
  assumes "tokenSource w env ctx s detach scopes = (Inr src, env')"
  shows "ctx = Some False \<and> scopes \<in> {[], [CloudPlatformScope]} \<and> serviceAccountEmailPattern (se_identity s) \<and>
    sealed_environment env \<and> env' = sealed env \<and> source_bound w env' s detach src"
proof -
  have ctx: "ctx = Some False" using assms by (cases ctx) (auto simp: tokenSource_def split: if_splits)
  have valid: "selector_Validate s = None"
    using assms ctx by (auto simp: tokenSource_def split: option.splits)
  obtain seal where seal: "sealAmbientGoogleTransport w env = (None, seal)"
    using assms ctx valid
    by (cases "sealAmbientGoogleTransport w env"; cases "fst (sealAmbientGoogleTransport w env)")
      (auto simp: tokenSource_def)
  have run: "env' = seal" "(if scopes = [] then [CloudPlatformScope] else scopes) = [CloudPlatformScope]"
    "(if se_profile s = ProfileWorkload then workloadIdentityTokenSource w seal s [CloudPlatformScope] detach
      else if se_profile s = ProfileImpersonated then impersonatedTokenSource w seal s [CloudPlatformScope] detach
      else if se_profile s = ProfileAttached then attachedTokenSource w seal s [CloudPlatformScope] detach
      else if se_profile s = ProfileDevice then deviceTokenSource w seal s [CloudPlatformScope] detach
      else Inl ''unsupported credentials_profile'') = Inr src"
    using assms ctx valid seal by (auto simp: tokenSource_def Let_def split: if_splits)
  have "source_bound w seal s detach src"
    using run(3)
    by (auto split: if_splits dest: workloadIdentityTokenSource_bound impersonatedTokenSource_bound
        attachedTokenSource_bound deviceTokenSource_bound)
  moreover have "serviceAccountEmailPattern (se_identity s)"
    using valid by (auto simp: selector_Validate_def split: if_splits)
  ultimately show ?thesis
    using ctx run(1,2) sealAmbientGoogleTransport_ok [OF seal] by (auto split: if_splits)
qed

definition example_gcp_world :: "unit gcp_world" where
  "example_gcp_world = \<lparr>gw_files = (\<lambda>_. \<lparr>cd_lstat = None, cd_opened = None, cd_owned = False, cd_data = None\<rparr>),
     gw_setenv = (\<lambda>_. True), gw_seal_order = True,
     gw_metadata = Some \<lparr>md_on_gce = True, md_email = Some ''history@project-one.iam.gserviceaccount.com'', md_get = (\<lambda>_. None)\<rparr>,
     gw_credentials = (\<lambda>_ _ _ _. None), gw_compute = (\<lambda>_ _. Some ()), gw_external = (\<lambda>_ _. None),
     gw_keypair = (\<lambda>_ _. False), gw_float = Some\<rparr>"

definition example_selector :: selector where
  "example_selector = \<lparr>se_file = [], se_source = ''application_default'', se_profile = ''attached_service_account'',
     se_identity = ''history@project-one.iam.gserviceaccount.com'', se_base = [], se_audience = []\<rparr>"

theorem token_source_bound_witness:
  "source_bound example_gcp_world (sealed (\<lambda>_. [])) example_selector True (LibrarySource ())"
proof -
  have valid: "selector_Validate example_selector = None" by code_simp
  have "sealAmbientGoogleTransport example_gcp_world (\<lambda>_. []) = (None, sealed (\<lambda>_. []))"
    by (simp add: sealAmbientGoogleTransport_def validateSecuritySensitiveGODEBUG_def forbiddenGODEBUGFragments_def
        ambient_key_ok_def ambientGoogleTransportOverrideKeys_def example_gcp_world_def
        sealedGoogleClientCertificate_def sealedGoogleMTLSEndpoint_def)
  moreover have "attachedTokenSource example_gcp_world (sealed (\<lambda>_. [])) example_selector [CloudPlatformScope] True =
      Inr (LibrarySource ())"
  proof -
    have "trim_space (se_identity example_selector) = se_identity example_selector" by code_simp
    then show ?thesis by (simp add: attachedTokenSource_def example_gcp_world_def example_selector_def)
  qed
  ultimately have "tokenSource example_gcp_world (\<lambda>_. []) (Some False) example_selector True [] =
      (Inr (LibrarySource ()), sealed (\<lambda>_. []))"
    using valid by (simp add: tokenSource_def) (simp add: example_selector_def profile_defs)
  from token_source_bound [OF this] show ?thesis by simp
qed

end
