(* ===== verification/Daemon.thy ===== *)
theory Daemon
  imports Runtime_Config Gcp_Safety Api_Safety Process_Safety Process_System Daemon_Config
begin

text \<open>
  \<open>cmd/history-ragd/main.go\<close>: how the daemon is put together from its parts and taken apart again.  Each
  \<open>defer\<close> of \<open>run\<close> is a bracket around the rest of the function, so the deferred calls run in the
  reverse order on every return.  The requests and the scans of the watcher that happen while the daemon
  serves are a list of steps; the hooks of the file (\<open>newSpannerExecutor\<close>, \<open>newWatchProducer\<close>, \<open>newTCPListener\<close>,
  the signal) are fields of the environment.  A run that waits forever has the result \<open>None\<close>.
\<close>

section \<open>State\<close>

datatype resource = RootHandle | StoreHandle | Watcher | Signals | Listener string | PidRecord

datatype daemon_event =
    Acquired resource
  | Released resource
  | Served fs http_request http_response
  | Scanned
  | Printed string

record 'w daemon_state =
  dm_api :: "'w api_state"
  dm_log :: "daemon_event list"

datatype daemon_step = Request http_request | WatchScan

text \<open>What the \<open>select\<close> meets: \<open>Serve\<close> returned; a signal came, with the results of \<open>Shutdown\<close> and then of
  \<open>Serve\<close>; or the watcher returned.\<close>

datatype daemon_end =
    ServeReturned go_error
  | SignalReceived "go_error option" go_error
  | WatchReturned "go_error option"

record ('w, 'p) daemon_env =
  de_getenv :: environ
  de_gcp :: "unit gcp_world"
  de_config :: config_env
  de_file :: "string \<Rightarrow> closed_file"
  de_root :: "ustat option \<times> bool \<times> ustat option"
  de_api :: api_lib
  de_auth :: auth_env
  de_lib :: golib
  de_os :: os_env
  de_goos :: string
  de_ops :: "'p proc_ops"
  de_processes :: 'p
  de_faults :: proc_faults
  de_write :: faults
  de_remove :: faults
  de_executor :: "string \<Rightarrow> selector \<Rightarrow> go_error + 'w executor"
  de_hostname :: "string option"
  de_producer :: "string \<Rightarrow> string list \<Rightarrow> go_error option"
  de_scan :: "'w api_state \<Rightarrow> go_error option \<times> 'w api_state"
  de_watching :: "'w api_state \<Rightarrow> bool"
  de_listen :: "string \<Rightarrow> go_error option"
  de_steps :: "daemon_step list"
  de_end :: daemon_end

type_synonym 'w daemon = "'w daemon_state \<Rightarrow> (go_error option \<times> 'w daemon_state) option"

definition note_event :: "daemon_event \<Rightarrow> 'w daemon_state \<Rightarrow> 'w daemon_state" where
  "note_event e s = s\<lparr>dm_log := e # dm_log s\<rparr>"

definition return_error :: "go_error option \<Rightarrow> 'w daemon" where
  "return_error e s = Some (e, s)"

text \<open>\<open>r\<close> is taken, \<open>body\<close> runs, and the deferred call gives \<open>r\<close> back.\<close>

definition bracket :: "resource \<Rightarrow> ('w daemon_state \<Rightarrow> 'w daemon_state) \<Rightarrow> 'w daemon \<Rightarrow> 'w daemon" where
  "bracket r cleanup body s =
     map_option (\<lambda>(e, s'). (e, note_event (Released r) (cleanup s'))) (body (note_event (Acquired r) s))"

section \<open>Errors and arguments\<close>

definition ErrServerClosed :: go_error where "ErrServerClosed = Err ''http: Server closed''"

fun is_server_closed :: "go_error \<Rightarrow> bool" where
  "is_server_closed (Wrap t e) = is_server_closed e"
| "is_server_closed e = (e = ErrServerClosed)"

fun is_canceled :: "go_error \<Rightarrow> bool" where
  "is_canceled (Wrap t e) = is_canceled e"
| "is_canceled e = (e = Canceled)"

definition auth_failure :: "auth_error \<Rightarrow> go_error" where
  "auth_failure e = Err ''authentication''"

definition parseMode :: "string \<Rightarrow> proc_mode option" where
  "parseMode command =
     (if command = ''start'' then Some Start else if command = ''supervise'' then Some Supervise else None)"

text \<open>\<open>flags.Parse\<close> with the one flag \<open>config\<close>: its value, or \<open>None\<close> for an error or an argument that is left.\<close>

function parse_flags :: "string list \<Rightarrow> string \<Rightarrow> string option" where
  "parse_flags [] v = Some v"
| "parse_flags (a # as) v =
     (if length a < 2 \<or> hd a \<noteq> CHR ''-'' then None
      else if a = ''--'' then (if as = [] then Some v else None)
      else
        let name = (if a ! 1 = CHR ''-'' then drop 2 a else drop 1 a);
            key = takeWhile (\<lambda>c. c \<noteq> CHR ''='') name;
            rest = dropWhile (\<lambda>c. c \<noteq> CHR ''='') name
        in if name = [] \<or> hd name = CHR ''-'' \<or> hd name = CHR ''='' \<or> key \<noteq> ''config'' then None
           else if rest \<noteq> [] then parse_flags as (tl rest)
           else if as = [] then None
           else parse_flags (tl as) (hd as))"
  by pat_completeness auto
termination by (relation "measure (\<lambda>(as, v). length as)") auto

section \<open>The production store\<close>

definition openProductionStore ::
  "('w, 'p) daemon_env \<Rightarrow> 'w \<Rightarrow> (go_error + spanner_store \<times> 'w executor) \<times> 'w" where
  "openProductionStore d w =
     (case LoadProduction (Some (de_getenv d)) of
        Inl e \<Rightarrow> (Inl (Err e), w)
      | Inr r \<Rightarrow>
          (case de_executor d (ResourceName (rc_spanner r)) (rc_credentials r) of
             Inl e \<Rightarrow> (Inl (Wrap ''construct production Spanner executor'' e), w)
           | Inr E \<Rightarrow>
               (case store_New (productionStoreConfig r) True of
                  Inl e \<Rightarrow>
                    (case ex_close E w of
                       (Inl _, w') \<Rightarrow> (Inl (Wrap ''construct production store; close executor'' (Err e)), w')
                     | (Inr _, w') \<Rightarrow> (Inl (Wrap ''construct production store'' (Err e)), w'))
                | Inr st \<Rightarrow> (Inr (st, E), w))))"

text \<open>\<open>Ready\<close> of the two dependencies; the store of the program has a method \<open>Ready\<close>.\<close>

definition storeReadiness :: "'w executor \<Rightarrow> 'w dependency" where
  "storeReadiness E =
     (''store'', \<lambda>s. case store_Ready E Context (aw_store s) of
        (r, st) \<Rightarrow> ((case r of Inr _ \<Rightarrow> True | Inl _ \<Rightarrow> False), s\<lparr>aw_store := st\<rparr>))"

definition watcherReadiness :: "('w, 'p) daemon_env \<Rightarrow> 'w dependency" where
  "watcherReadiness d = (''watcher'', \<lambda>s. (de_watching d s, s))"

section \<open>Serving\<close>

fun serve_steps :: "('w, 'p) daemon_env \<Rightarrow> 'w api_server \<Rightarrow> bool \<Rightarrow> daemon_step list \<Rightarrow> 'w daemon_state \<Rightarrow> 'w daemon_state" where
  "serve_steps d sv watching [] s = s"
| "serve_steps d sv watching (Request r # steps) s =
     (case serve (de_api d) sv r (dm_api s) of
        (p, a) \<Rightarrow> serve_steps d sv watching steps
          \<lparr>dm_api = a, dm_log = Served (aw_fs (dm_api s)) r p # dm_log s\<rparr>)"
| "serve_steps d sv watching (WatchScan # steps) s =
     serve_steps d sv watching steps
       (if watching then \<lparr>dm_api = snd (de_scan d (dm_api s)), dm_log = Scanned # dm_log s\<rparr> else s)"

text \<open>The \<open>select\<close>.  Without a watcher nothing is ever sent on its channel.\<close>

definition wait_end :: "daemon_end \<Rightarrow> bool \<Rightarrow> 'w daemon" where
  "wait_end en watching s =
     (case en of
        ServeReturned e \<Rightarrow> Some (if is_server_closed e then None else Some e, s)
      | SignalReceived (Some e) _ \<Rightarrow> Some (Some e, s)
      | SignalReceived None e \<Rightarrow> Some (if is_server_closed e then None else Some e, s)
      | WatchReturned r \<Rightarrow>
          if \<not> watching then None
          else (case r of
             None \<Rightarrow> Some (None, s)
           | Some e \<Rightarrow> Some (if is_canceled e then None else Some (Wrap ''source watcher stopped'' e), s)))"

definition serve_phase ::
  "('w, 'p) daemon_env \<Rightarrow> daemon_config \<Rightarrow> manager option \<Rightarrow> 'w executor option \<Rightarrow> 'w dependency option list \<Rightarrow> bool \<Rightarrow> 'w daemon" where
  "serve_phase d cfg verifier retrieval deps watching s =
     (case api_New \<lparr>ac_auth = cf_auth cfg, ac_authority = None, ac_retrieval = retrieval, ac_read_only = cf_read_only cfg\<rparr>
             verifier deps of
        Inl e \<Rightarrow> return_error (Some (Err e)) s
      | Inr sv \<Rightarrow> wait_end (de_end d) watching (serve_steps d sv watching (de_steps d) s))"

section \<open>From the listener outwards\<close>

text \<open>\<open>defer controller.RemoveRecord(current)\<close>\<close>

definition remove_pid_record :: "('w, 'p) daemon_env \<Rightarrow> 'p controller \<Rightarrow> proc_record \<Rightarrow> 'w daemon_state \<Rightarrow> 'w daemon_state" where
  "remove_pid_record d c current s =
     s\<lparr>dm_api := (dm_api s)\<lparr>aw_fs := snd (RemoveRecord (de_lib d) c (de_remove d) current (aw_fs (dm_api s)))\<rparr>\<rparr>"

definition with_record ::
  "('w, 'p) daemon_env \<Rightarrow> ('p controller \<times> proc_record) option \<Rightarrow> 'w daemon \<Rightarrow> 'w daemon" where
  "with_record d control body s =
     (case control of
        None \<Rightarrow> body s
      | Some (c, current) \<Rightarrow>
          (case WriteRecord c (de_write d) current (aw_fs (dm_api s)) of
             (Some e, f) \<Rightarrow> return_error (Some e) (s\<lparr>dm_api := (dm_api s)\<lparr>aw_fs := f\<rparr>\<rparr>)
           | (None, f) \<Rightarrow>
               bracket PidRecord (remove_pid_record d c current) body (s\<lparr>dm_api := (dm_api s)\<lparr>aw_fs := f\<rparr>\<rparr>)))"

definition with_listener ::
  "('w, 'p) daemon_env \<Rightarrow> daemon_config \<Rightarrow> manager option \<Rightarrow> ('p controller \<times> proc_record) option \<Rightarrow>
   'w executor option \<Rightarrow> 'w dependency option list \<Rightarrow> bool \<Rightarrow> 'w daemon" where
  "with_listener d cfg verifier control retrieval deps watching =
     bracket Signals id (\<lambda>s.
       case de_listen d (cf_listen cfg) of
         Some e \<Rightarrow> return_error (Some e) s
       | None \<Rightarrow>
           bracket (Listener (cf_listen cfg)) id
             (with_record d control (serve_phase d cfg verifier retrieval deps watching)) s)"

definition close_store :: "'w executor \<Rightarrow> 'w daemon_state \<Rightarrow> 'w daemon_state" where
  "close_store E s = s\<lparr>dm_api := (dm_api s)\<lparr>aw_store := snd (store_Close E (aw_store (dm_api s)))\<rparr>\<rparr>"

definition with_watcher ::
  "('w, 'p) daemon_env \<Rightarrow> daemon_config \<Rightarrow> manager option \<Rightarrow> ('p controller \<times> proc_record) option \<Rightarrow> 'w executor \<Rightarrow> 'w daemon" where
  "with_watcher d cfg verifier control E s =
     (case store_DiscoverIndexes E Context (aw_store (dm_api s)) of
        (Inl e, st) \<Rightarrow> return_error (Some (Wrap ''discover search index'' e)) (s\<lparr>dm_api := (dm_api s)\<lparr>aw_store := st\<rparr>\<rparr>)
      | (Inr _, st) \<Rightarrow>
          let s1 = s\<lparr>dm_api := (dm_api s)\<lparr>aw_store := st\<rparr>\<rparr>
          in if cf_roots cfg = []
             then with_listener d cfg verifier control (Some E) [Some (storeReadiness E)] False s1
             else (case de_hostname d of
                None \<Rightarrow> return_error (Some (Err ''resolve watcher machine identity'')) s1
              | Some hostname \<Rightarrow>
                  (case de_producer d hostname (cf_roots cfg) of
                     Some e \<Rightarrow> return_error (Some (Wrap ''construct source watcher'' e)) s1
                   | None \<Rightarrow>
                       bracket Watcher id (\<lambda>s2.
                         case de_scan d (dm_api s2) of
                           (Some e, a) \<Rightarrow> return_error (Some (Wrap ''initial source scan'' e)) (s2\<lparr>dm_api := a\<rparr>)
                         | (None, a) \<Rightarrow>
                             with_listener d cfg verifier control (Some E)
                               [Some (storeReadiness E), Some (watcherReadiness d)] True
                               \<lparr>dm_api = a, dm_log = Scanned # dm_log s2\<rparr>) s1)))"

definition with_store ::
  "('w, 'p) daemon_env \<Rightarrow> daemon_config \<Rightarrow> manager option \<Rightarrow> ('p controller \<times> proc_record) option \<Rightarrow> 'w daemon" where
  "with_store d cfg verifier control s =
     (if trim_space (de_getenv d ''CLAUDE_HISTORY_RAG_RUNTIME_CONTRACT'') = []
      then with_listener d cfg verifier control None [] False s
      else if cf_read_only cfg \<noteq> (de_getenv d ''CLAUDE_HISTORY_RAG_READ_ONLY'' = ''true'')
      then return_error (Some (Err ''configuration and runtime read-only modes disagree'')) s
      else (case openProductionStore d (snd (aw_store (dm_api s))) of
         (Inl e, w) \<Rightarrow> return_error (Some e) (s\<lparr>dm_api := (dm_api s)\<lparr>aw_store := (fst (aw_store (dm_api s)), w)\<rparr>\<rparr>)
       | (Inr (st, E), w) \<Rightarrow>
           bracket StoreHandle (close_store E) (with_watcher d cfg verifier control E)
             (s\<lparr>dm_api := (dm_api s)\<lparr>aw_store := (st, w)\<rparr>\<rparr>)))"

section \<open>Authentication and the other daemon\<close>

definition open_auth :: "('w, 'p) daemon_env \<Rightarrow> daemon_config \<Rightarrow> root \<Rightarrow> fs \<Rightarrow> (go_error + manager option) \<times> fs" where
  "open_auth d cfg rt f =
     (if \<not> cf_auth cfg then (Inr None, f)
      else
        let secret = de_getenv d ''CLAUDE_HISTORY_RAG_SERVER_PSK''
        in if secret = [] then (Inl (Err ''authentication credential unavailable''), f)
           else (case NewManager (Some rt) (path_base (cf_auth_file cfg)) True of
              Inl e \<Rightarrow> (Inl (auth_failure e), f)
            | Inr m \<Rightarrow>
                let res = auth_Initialize (ap_auth (de_api d)) m (de_auth d) secret f
                in (case ar_error res of
                      Some e \<Rightarrow> (Inl (auth_failure e), ar_fs res)
                    | None \<Rightarrow> (Inr (Some m), ar_fs res))))"

text \<open>The controller and the record of this process, and whether the daemon should run.\<close>

definition claim ::
  "('w, 'p) daemon_env \<Rightarrow> proc_mode \<Rightarrow> daemon_config \<Rightarrow> root \<Rightarrow> fs \<Rightarrow>
   ((go_error + ('p controller \<times> proc_record) option \<times> bool) \<times> fs) option" where
  "claim d mode cfg rt f =
     (if cf_container cfg then Some (Inr (None, True), f)
      else (case CurrentRecord (de_os d) (SystemOps_Snapshot (de_os d) (de_goos d)) (cf_executable cfg) (cf_checkout cfg) of
         Inl e \<Rightarrow> Some (Inl e, f)
       | Inr current \<Rightarrow>
           (case NewController (Some rt) (path_base (cf_pid_file cfg)) (Some (de_ops d)) True SIGTERM of
              Inl e \<Rightarrow> Some (Inl e, f)
            | Inr c \<Rightarrow>
                (case Prepare (de_lib d) c (de_faults d) mode current 15000000000 5000000000
                        \<lparr>ps_world = de_processes d, ps_fs = f, ps_log = []\<rparr> of
                   None \<Rightarrow> None
                 | Some (Inl e, ps) \<Rightarrow> Some (Inl e, ps_fs ps)
                 | Some (Inr should, ps) \<Rightarrow> Some (Inr (Some (c, current), should), ps_fs ps)))))"

definition with_root :: "('w, 'p) daemon_env \<Rightarrow> proc_mode \<Rightarrow> daemon_config \<Rightarrow> root \<Rightarrow> 'w daemon" where
  "with_root d mode cfg rt s =
     (case open_auth d cfg rt (aw_fs (dm_api s)) of
        (Inl e, f) \<Rightarrow> return_error (Some e) (s\<lparr>dm_api := (dm_api s)\<lparr>aw_fs := f\<rparr>\<rparr>)
      | (Inr verifier, f) \<Rightarrow>
          (case claim d mode cfg rt f of
             None \<Rightarrow> None
           | Some (Inl e, g) \<Rightarrow> return_error (Some e) (s\<lparr>dm_api := (dm_api s)\<lparr>aw_fs := g\<rparr>\<rparr>)
           | Some (Inr (control, should), g) \<Rightarrow>
               if \<not> should
               then return_error None (note_event (Printed ''history-ragd is already running'')
                      (s\<lparr>dm_api := (dm_api s)\<lparr>aw_fs := g\<rparr>\<rparr>))
               else with_store d cfg verifier control (s\<lparr>dm_api := (dm_api s)\<lparr>aw_fs := g\<rparr>\<rparr>)))"

section \<open>Run\<close>

definition validate_workload :: "('w, 'p) daemon_env \<Rightarrow> go_error option" where
  "validate_workload d =
     (case LoadProduction (Some (de_getenv d)) of
        Inl e \<Rightarrow> Some (Err e)
      | Inr r \<Rightarrow>
          (case ValidateWorkloadIdentityConfiguration (de_gcp d) (de_getenv d) (rc_credentials r) of
             Inl e \<Rightarrow> Some (Err e) | Inr _ \<Rightarrow> None))"

definition daemon_run :: "('w, 'p) daemon_env \<Rightarrow> string list \<Rightarrow> 'w daemon" where
  "daemon_run d arguments s =
     (if arguments = [''validate-workload-credentials''] then Some (validate_workload d, s)
      else (case arguments of
         [] \<Rightarrow> return_error (Some (Err ''command required'')) s
       | command # options \<Rightarrow>
           (case parseMode command of
              None \<Rightarrow> return_error (Some (Err ''command must be start or supervise'')) s
            | Some mode \<Rightarrow>
                (case parse_flags options [] of
                   None \<Rightarrow> return_error (Some (Err ''exactly one --config path is required'')) s
                 | Some path \<Rightarrow>
                     if path = [] then return_error (Some (Err ''exactly one --config path is required'')) s
                     else (case config_Load (de_config d) path (de_file d path) of
                        Inl e \<Rightarrow> return_error (Some (Err e)) s
                      | Inr cfg \<Rightarrow>
                          (case durable_OpenRoot (cf_state_dir cfg) (fst (de_root d)) (fst (snd (de_root d))) (snd (snd (de_root d))) of
                             Inl e \<Rightarrow> return_error (Some (durable_failure e)) s
                           | Inr rt \<Rightarrow> bracket RootHandle id (with_root d mode cfg rt) s))))))"

definition daemonExitCode :: "('w, 'p) daemon_env \<Rightarrow> string list \<Rightarrow> 'w daemon_state \<Rightarrow> nat option" where
  "daemonExitCode d arguments s = map_option (\<lambda>(e, _). if e = None then 0 else 1) (daemon_run d arguments s)"

end
