(* ===== verification/Daemon_Safety.thy ===== *)
theory Daemon_Safety
  imports Daemon
begin

text \<open>
  What holds of every run of the daemon: whatever it took it gives back in the reverse order, and it answers
  requests only while everything it needs is held and only behind the gate that the configuration demands.
\<close>

named_theorems orderly_intros \<open>rules for the orderly parts of a run\<close>

section \<open>Held resources\<close>

text \<open>The stack of resources that a log (newest event first) leaves; \<open>None\<close> when something was given back out of
  order.\<close>

fun held :: "daemon_event list \<Rightarrow> resource list option" where
  "held [] = Some []"
| "held (Acquired r # es) = map_option ((#) r) (held es)"
| "held (Released r # es) = (case held es of Some (q # rs) \<Rightarrow> if q = r then Some rs else None | _ \<Rightarrow> None)"
| "held (_ # es) = held es"

text \<open>Every answer in the log was given under a stack that allows it.\<close>

fun answers_under :: "(resource list \<Rightarrow> fs \<Rightarrow> http_request \<Rightarrow> http_response \<Rightarrow> bool) \<Rightarrow> daemon_event list \<Rightarrow> bool" where
  "answers_under P [] \<longleftrightarrow> True"
| "answers_under P (Served f r p # es) \<longleftrightarrow> (\<exists>st. held es = Some st \<and> P st f r p) \<and> answers_under P es"
| "answers_under P (_ # es) \<longleftrightarrow> answers_under P es"

definition tidy :: "(resource list \<Rightarrow> fs \<Rightarrow> http_request \<Rightarrow> http_response \<Rightarrow> bool) \<Rightarrow> resource list \<Rightarrow> 'w daemon_state \<Rightarrow> bool" where
  "tidy P st s \<longleftrightarrow> held (dm_log s) = Some st \<and> answers_under P (dm_log s)"

definition orderly :: "(resource list \<Rightarrow> fs \<Rightarrow> http_request \<Rightarrow> http_response \<Rightarrow> bool) \<Rightarrow> resource list \<Rightarrow> 'w daemon \<Rightarrow> bool" where
  "orderly P st body \<longleftrightarrow> (\<forall>s e s'. tidy P st s \<longrightarrow> body s = Some (e, s') \<longrightarrow> tidy P st s')"

lemma orderlyI: "(\<And>s e s'. tidy P st s \<Longrightarrow> body s = Some (e, s') \<Longrightarrow> tidy P st s') \<Longrightarrow> orderly P st body"
  by (simp add: orderly_def)

lemma orderlyD: "orderly P st body \<Longrightarrow> tidy P st s \<Longrightarrow> body s = Some (e, s') \<Longrightarrow> tidy P st s'"
  by (simp add: orderly_def)

lemma orderly_run: "orderly P st body \<Longrightarrow> body s = Some (e, s') \<Longrightarrow> tidy P st s \<Longrightarrow> tidy P st s'"
  by (simp add: orderly_def)

lemma tidy_simps [simp]:
  "tidy P st (s\<lparr>dm_api := a\<rparr>) \<longleftrightarrow> tidy P st s"
  "tidy P st \<lparr>dm_api = a, dm_log = dm_log s\<rparr> \<longleftrightarrow> tidy P st s"
  "tidy P st \<lparr>dm_api = a, dm_log = Scanned # dm_log s\<rparr> \<longleftrightarrow> tidy P st s"
  "tidy P st (note_event (Printed t) s) \<longleftrightarrow> tidy P st s"
  by (simp_all add: tidy_def note_event_def)

declare return_error_def [simp]

lemma orderly_bracket [orderly_intros]:
  assumes "orderly P (r # st) body" "\<And>s. dm_log (cleanup s) = dm_log s"
  shows "orderly P st (bracket r cleanup body)"
proof (rule orderlyI)
  fix s e s' assume s: "tidy P st s" "bracket r cleanup body s = Some (e, s')"
  then obtain t where t: "body (note_event (Acquired r) s) = Some (e, t)" "s' = note_event (Released r) (cleanup t)"
    by (auto simp: bracket_def)
  have "tidy P (r # st) (note_event (Acquired r) s)" using s(1) by (simp add: tidy_def note_event_def)
  then have "tidy P (r # st) t" using assms(1) t(1) by (auto dest: orderlyD)
  then show "tidy P st s'" using t(2) assms(2) by (simp add: tidy_def note_event_def)
qed

section \<open>The parts of a run\<close>

lemma serve_steps_tidy:
  assumes "tidy P st s"
    and "\<And>r a p a'. serve (de_api d) sv r a = (p, a') \<Longrightarrow> P st (aw_fs a) r p"
  shows "tidy P st (serve_steps d sv watching steps s)"
  using assms(2,1)
proof (induction d sv watching steps s rule: serve_steps.induct)
  case (2 d sv watching r steps s)
  obtain p a where pa: "serve (de_api d) sv r (dm_api s) = (p, a)" by (cases "serve (de_api d) sv r (dm_api s)")
  then have "tidy P st \<lparr>dm_api = a, dm_log = Served (aw_fs (dm_api s)) r p # dm_log s\<rparr>"
    using 2(2,3) by (auto simp: tidy_def)
  then show ?case using 2(1) [OF pa [symmetric]] 2(2) pa by simp
qed simp_all

lemma wait_end_tidy: "tidy P st s \<Longrightarrow> wait_end en watching s = Some (e, s') \<Longrightarrow> tidy P st s'"
  by (auto simp: wait_end_def split: daemon_end.splits option.splits if_splits)

text \<open>The condition under which an answer is allowed in the serving phase of a configuration.\<close>

definition gated :: "('w, 'p) daemon_env \<Rightarrow> daemon_config \<Rightarrow> manager option \<Rightarrow> fs \<Rightarrow> http_request \<Rightarrow> http_response \<Rightarrow> bool" where
  "gated d cfg verifier f r p \<longleftrightarrow>
     (cf_auth cfg \<longrightarrow>
        rq_path r = ''/live'' \<or> p = ap_mux (de_api d) r \<or> p = error_reply 401 ''unauthorized'' \<or>
        (\<exists>m secret st c. verifier = Some m \<and> rq_authorization r = ''Bearer '' @ secret \<and>
           loadLocked m (ae_read (rq_env r)) f = Inr st \<and> (c = as_active st \<or> as_pending st = Some c) \<and>
           key_matches (ap_auth (de_api d)) secret c))"

lemma serve_gated:
  assumes "api_New config verifier deps = Inr sv" "ac_auth config = cf_auth cfg" "serve (de_api d) sv r a = (p, a')"
  shows "gated d cfg verifier (aw_fs a) r p"
proof (cases "api_route (de_api d) sv (rq_method r) (rq_path r)")
  case None
  then show ?thesis using assms(3) by (auto simp: serve_def gated_def)
next
  case (Some h)
  note fields = api_New_fields [OF assms(1)]
  show ?thesis
  proof (cases "cf_auth cfg \<and> rq_path r \<noteq> ''/live''")
    case True
    with Some obtain g where "h = withAuth (de_api d) sv g" by (auto elim: api_route_cases)
    moreover have "ac_auth (sv_config sv)" using fields(1) assms(2) True by simp
    ultimately have "p = error_reply 401 ''unauthorized'' \<or> authorized (de_api d) sv r a"
      using withAuth_gate [of sv "de_api d" g r a] Some assms(3) by (auto simp: serve_def)
    then show ?thesis using fields(2) by (auto simp: gated_def authorized_def)
  qed (auto simp: gated_def)
qed

lemma serve_phase_orderly [orderly_intros]:
  assumes "\<And>f r p. gated d cfg verifier f r p \<Longrightarrow> P st f r p"
  shows "orderly P st (serve_phase d cfg verifier retrieval deps watching)"
proof (rule orderlyI)
  fix s e s' assume s: "tidy P st s" "serve_phase d cfg verifier retrieval deps watching s = Some (e, s')"
  let ?config = "\<lparr>ac_auth = cf_auth cfg, ac_authority = None, ac_retrieval = retrieval, ac_read_only = cf_read_only cfg\<rparr>"
  show "tidy P st s'"
  proof (cases "api_New ?config verifier deps")
    case (Inl e)
    then show ?thesis using s by (auto simp: serve_phase_def)
  next
    case (Inr sv)
    have "tidy P st (serve_steps d sv watching (de_steps d) s)"
      using s(1) assms serve_gated [OF Inr, of cfg d] by (auto intro!: serve_steps_tidy)
    then show ?thesis using s(2) Inr by (auto simp: serve_phase_def dest: wait_end_tidy)
  qed
qed

definition record_part :: "daemon_config \<Rightarrow> resource list" where
  "record_part cfg = (if cf_container cfg then [] else [PidRecord])"

lemma with_record_orderly:
  assumes "orderly P ((if control = None then [] else [PidRecord]) @ st) body"
  shows "orderly P st (with_record d control body)"
proof (rule orderlyI)
  fix s e s' assume s: "tidy P st s" "with_record d control body s = Some (e, s')"
  show "tidy P st s'"
  proof (cases control)
    case None
    then show ?thesis using assms s by (auto simp: with_record_def dest: orderlyD)
  next
    case (Some cc)
    obtain c current where cc: "control = Some (c, current)" using Some by (cases cc) auto
    have "dm_log (remove_pid_record d c current t) = dm_log t" for t by (simp add: remove_pid_record_def)
    then have "orderly P st (bracket PidRecord (remove_pid_record d c current) body)"
      using assms Some by (intro orderly_bracket) auto
    then show ?thesis
      using s cc by (auto simp: with_record_def split: prod.splits option.splits dest!: orderly_run)
  qed
qed

lemma with_listener_orderly:
  assumes "\<And>f r p. gated d cfg verifier f r p \<Longrightarrow>
    P ((if control = None then [] else [PidRecord]) @ Listener (cf_listen cfg) # Signals # st) f r p"
  shows "orderly P st (with_listener d cfg verifier control retrieval deps watching)"
proof -
  have "orderly P (Listener (cf_listen cfg) # Signals # st)
      (with_record d control (serve_phase d cfg verifier retrieval deps watching))"
    using assms by (intro with_record_orderly serve_phase_orderly)
  then have inner: "orderly P (Signals # st) (bracket (Listener (cf_listen cfg)) id
      (with_record d control (serve_phase d cfg verifier retrieval deps watching)))"
    by (intro orderly_intros) auto
  have "orderly P (Signals # st) (\<lambda>s. case de_listen d (cf_listen cfg) of
      Some e \<Rightarrow> return_error (Some e) s
    | None \<Rightarrow> bracket (Listener (cf_listen cfg)) id
        (with_record d control (serve_phase d cfg verifier retrieval deps watching)) s)"
    using inner by (intro orderlyI) (auto split: option.splits dest: orderlyD)
  then show ?thesis unfolding with_listener_def by (intro orderly_intros) auto
qed

text \<open>The stack while the daemon serves, innermost first.\<close>

definition serving_stack :: "('w, 'p) daemon_env \<Rightarrow> daemon_config \<Rightarrow> resource list" where
  "serving_stack d cfg =
     (if cf_container cfg then [] else [PidRecord]) @ [Listener (cf_listen cfg), Signals] @
     (if trim_space (de_getenv d ''CLAUDE_HISTORY_RAG_RUNTIME_CONTRACT'') = [] then []
      else (if cf_roots cfg = [] then [] else [Watcher]) @ [StoreHandle]) @ [RootHandle]"

lemma with_watcher_orderly:
  assumes "trim_space (de_getenv d ''CLAUDE_HISTORY_RAG_RUNTIME_CONTRACT'') \<noteq> []"
    and "control = None \<longleftrightarrow> cf_container cfg"
    and "\<And>f r p. gated d cfg verifier f r p \<Longrightarrow> P (serving_stack d cfg) f r p"
  shows "orderly P [StoreHandle, RootHandle] (with_watcher d cfg verifier control E)"
proof (rule orderlyI)
  fix s e s' assume s: "tidy P [StoreHandle, RootHandle] s" "with_watcher d cfg verifier control E s = Some (e, s')"
  have listen: "orderly P ((if cf_roots cfg = [] then [] else [Watcher]) @ [StoreHandle, RootHandle])
      (with_listener d cfg verifier control (Some E) deps watching)" for deps watching
    using assms by (intro with_listener_orderly) (auto simp: serving_stack_def)
  show "tidy P [StoreHandle, RootHandle] s'"
  proof (cases "cf_roots cfg = []")
    case True
    then show ?thesis
      using s
      by (auto simp: with_watcher_def Let_def split: prod.splits sum.splits dest!: orderly_run [OF listen])
  next
    case False
    have scan: "orderly P [StoreHandle, RootHandle] (bracket Watcher id (\<lambda>s2.
       case de_scan d (dm_api s2) of
         (Some e, a) \<Rightarrow> return_error (Some (Wrap ''initial source scan'' e)) (s2\<lparr>dm_api := a\<rparr>)
       | (None, a) \<Rightarrow> with_listener d cfg verifier control (Some E) [Some (storeReadiness E), Some (watcherReadiness d)] True
                       \<lparr>dm_api = a, dm_log = Scanned # dm_log s2\<rparr>))"
    proof (intro orderly_bracket orderlyI)
      fix t e' t'
      assume t: "tidy P [Watcher, StoreHandle, RootHandle] t"
        "(case de_scan d (dm_api t) of
         (Some e, a) \<Rightarrow> return_error (Some (Wrap ''initial source scan'' e)) (t\<lparr>dm_api := a\<rparr>)
       | (None, a) \<Rightarrow> with_listener d cfg verifier control (Some E) [Some (storeReadiness E), Some (watcherReadiness d)] True
                       \<lparr>dm_api = a, dm_log = Scanned # dm_log t\<rparr>) = Some (e', t')"
      have l: "orderly P [Watcher, StoreHandle, RootHandle] (with_listener d cfg verifier control (Some E) deps watching)" for deps watching
        using listen False by simp
      show "tidy P [Watcher, StoreHandle, RootHandle] t'"
        using t by (auto split: prod.splits option.splits dest!: orderly_run [OF l])
    qed simp
    show ?thesis
      using s False
      by (auto simp: with_watcher_def Let_def split: prod.splits sum.splits option.splits dest!: orderly_run [OF scan])
  qed
qed

lemma with_store_orderly:
  assumes "control = None \<longleftrightarrow> cf_container cfg"
    and "\<And>f r p. gated d cfg verifier f r p \<Longrightarrow> P (serving_stack d cfg) f r p"
  shows "orderly P [RootHandle] (with_store d cfg verifier control)"
proof (rule orderlyI)
  fix s e s' assume s: "tidy P [RootHandle] s" "with_store d cfg verifier control s = Some (e, s')"
  show "tidy P [RootHandle] s'"
  proof (cases "trim_space (de_getenv d ''CLAUDE_HISTORY_RAG_RUNTIME_CONTRACT'') = []")
    case True
    then have "orderly P [RootHandle] (with_listener d cfg verifier control None [] False)"
      using assms by (intro with_listener_orderly) (auto simp: serving_stack_def)
    then show ?thesis using s True by (auto simp: with_store_def dest: orderlyD)
  next
    case False
    have store: "orderly P [RootHandle] (bracket StoreHandle (close_store E) (with_watcher d cfg verifier control E))" for E
      using with_watcher_orderly [where P = P, OF False assms] by (intro orderly_bracket) (auto simp: close_store_def)
    show ?thesis
      using s False
      by (auto simp: with_store_def split: if_splits prod.splits sum.splits dest!: orderly_run [OF store])
  qed
qed

lemma claim_control:
  assumes "claim d mode cfg rt f = Some (Inr (control, should), g)"
  shows "control = None \<longleftrightarrow> cf_container cfg"
  using assms by (auto simp: claim_def split: if_splits sum.splits option.splits prod.splits)

lemma open_auth_verifier:
  assumes "open_auth d cfg rt f = (Inr verifier, g)" "verifier = Some m"
  shows "mg_name m = path_base (cf_auth_file cfg)" "mg_root m = rt"
  using assms by (auto simp: open_auth_def NewManager_def Let_def split: if_splits sum.splits option.splits)

lemma with_root_orderly:
  assumes "\<And>verifier f r p. (\<And>m. verifier = Some m \<Longrightarrow> mg_name m = path_base (cf_auth_file cfg) \<and> mg_root m = rt) \<Longrightarrow>
      gated d cfg verifier f r p \<Longrightarrow> P (serving_stack d cfg) f r p"
  shows "orderly P [RootHandle] (with_root d mode cfg rt)"
proof (rule orderlyI)
  fix s e s' assume s: "tidy P [RootHandle] s" "with_root d mode cfg rt s = Some (e, s')"
  show "tidy P [RootHandle] s'"
  proof (cases "open_auth d cfg rt (aw_fs (dm_api s))")
    case (Pair res f)
    show ?thesis
    proof (cases res)
      case (Inl e')
      then show ?thesis using s Pair by (auto simp: with_root_def)
    next
      case (Inr verifier)
      have store: "orderly P [RootHandle] (with_store d cfg verifier control)" if "control = None \<longleftrightarrow> cf_container cfg" for control
        using that assms open_auth_verifier [OF Pair [unfolded Inr]] by (intro with_store_orderly) blast+
      then show ?thesis
        using s Pair Inr
        by (auto simp: with_root_def split: option.splits sum.splits prod.splits if_splits
            dest!: orderly_run [OF store [OF claim_control]])
    qed
  qed
qed

text \<open>The parts of a run that has a configuration.\<close>

lemma daemon_run_tidy:
  assumes "daemon_run d arguments s = Some (e, s')" "tidy P [] s"
    and "\<And>path cfg rt verifier f r p. config_Load (de_config d) path (de_file d path) = Inr cfg \<Longrightarrow>
      (\<And>m. verifier = Some m \<Longrightarrow> mg_name m = path_base (cf_auth_file cfg) \<and> mg_root m = rt) \<Longrightarrow>
      gated d cfg verifier f r p \<Longrightarrow> P (serving_stack d cfg) f r p"
  shows "tidy P [] s'"
proof -
  have root: "orderly P [] (bracket RootHandle id (with_root d mode cfg rt))"
    if "config_Load (de_config d) path (de_file d path) = Inr cfg" for mode cfg rt path
    using assms(3) [OF that] by (intro orderly_bracket with_root_orderly) (blast, simp)
  show ?thesis
    using assms(1,2)
    by (auto simp: daemon_run_def split: if_splits list.splits option.splits sum.splits dest!: orderly_run [OF root])
qed

section \<open>Properties\<close>


lemma answers_underD:
  assumes "answers_under P log" "Served f r p \<in> set log"
  shows "\<exists>newer older st. log = newer @ Served f r p # older \<and> held older = Some st \<and> P st f r p"
  using assms
proof (induction log)
  case (Cons e es)
  have rest: "answers_under P es" using Cons.prems(1) by (cases e) auto
  show ?case
  proof (cases "e = Served f r p")
    case True
    then obtain st where "held es = Some st" "P st f r p" using Cons.prems(1) by auto
    then show ?thesis using True by (intro exI [of _ "[]"] exI [of _ es] exI [of _ st]) simp
  next
    case False
    then obtain newer older st where "es = newer @ Served f r p # older" "held older = Some st" "P st f r p"
      using Cons.IH [OF rest] Cons.prems(2) by auto
    then show ?thesis by (intro exI [of _ "e # newer"] exI [of _ older] exI [of _ st]) simp
  qed
qed simp

lemma config_listen:
  assumes "config_Load env path cl = Inr c"
  shows "cf_listen c \<in> {''127.0.0.1:4680'', ''127.0.0.1:4681''} \<or> cf_listen c = ''0.0.0.0:4680'' \<and> cf_auth c"
  using assms by (auto elim!: config_Load_fields simp: validate_endpoint_iff split: if_splits)


section \<open>An example run\<close>

text \<open>A container without a production contract: one request without a key, then a signal.\<close>

definition example_container :: daemon_config where
  "example_container = empty_config\<lparr>cf_state_dir := ''/state'', cf_listen := ''0.0.0.0:4680'', cf_container := True,
     cf_roots := [''/a'', ''/b'', ''/c'', ''/d'', ''/e'', ''/f''], cf_pid_file := ''/state/pid'',
     cf_auth_file := ''/state/auth'', cf_auth := True, cf_checkout := ''/c'', cf_executable := ''/c/d''\<rparr>"

definition example_container_json :: json where
  "example_container_json = JObj [(''state_dir'', JStr ''/state''), (''listen'', JStr ''0.0.0.0:4680''),
     (''container_mode'', JBool True),
     (''watch_roots'', JArr [JStr ''/a'', JStr ''/b'', JStr ''/c'', JStr ''/d'', JStr ''/e'', JStr ''/f'']),
     (''pid_file'', JStr ''/state/pid''), (''auth_state_file'', JStr ''/state/auth''), (''auth_enabled'', JBool True),
     (''checkout_root'', JStr ''/c''), (''executable'', JStr ''/c/d'')]"

definition example_daemon_env :: "(unit, unit) daemon_env" where
  "example_daemon_env = \<lparr>de_getenv = (\<lambda>k. if k = ''CLAUDE_HISTORY_RAG_SERVER_PSK'' then example_secret else []),
     de_gcp = example_gcp_world, de_config = example_config_env,
     de_file = (\<lambda>_. example_closed_file\<lparr>cl_data := Some (json_print True example_container_json)\<rparr>),
     de_root = (Some (rt_stat example_root), True, Some (rt_stat example_root)), de_api = example_api,
     de_auth = example_auth_env, de_lib = example_golib,
     de_os = \<lparr>ev_symlinks = Some, ev_read = (\<lambda>_. None), ev_command = (\<lambda>_ _. None), ev_probe = (\<lambda>_. None),
       ev_find = (\<lambda>_. True), ev_signal = (\<lambda>_ _. None), ev_pid = 7\<rparr>,
     de_goos = ''linux'', de_ops = example_gone, de_processes = (), de_faults = example_proc_faults,
     de_write = no_faults, de_remove = no_faults, de_executor = (\<lambda>_ _. Inl Canceled), de_hostname = None,
     de_producer = (\<lambda>_ _. None), de_scan = (\<lambda>s. (None, s)), de_watching = (\<lambda>_. True), de_listen = (\<lambda>_. None),
     de_steps = [Request (example_call ''/api/search'')], de_end = SignalReceived None ErrServerClosed\<rparr>"

lemma example_container_loads:
  "config_Load (de_config example_daemon_env) ''/k'' (de_file example_daemon_env ''/k'') = Inr example_container"
proof -
  let ?text = "json_print True example_container_json"
  have "length ?text \<le> MaxConfigBytes"
    by (simp add: example_container_json_def MaxConfigBytes_def length_plain plain_eval join_Cons)
  moreover have "path_clean ''/k'' = ''/k''" by code_simp
  ultimately have read: "readClosedFile ''/k'' (de_file example_daemon_env ''/k'') MaxConfigBytes = Inr ?text"
    by (simp add: readClosedFile_def example_daemon_env_def example_closed_file_def requireOwnerOnlyConfigMode_def
        requireSingleLink_def sameIdentity_def Let_def)
  have "json_single ?text = Some example_container_json"
    by (rule json_single_print) (simp_all add: example_container_json_def plain_eval max_nesting_def)
  moreover have "no_duplicates example_container_json" by (simp add: example_container_json_def)
  moreover have "decode_struct True config_specs example_container_json (empty_config, []) =
      Some (example_container, [''/a'', ''/b'', ''/c'', ''/d'', ''/e'', ''/f''])"
    by (simp add: decode_struct_def example_container_json_def config_specs_def fold_key_plain plain_eval fold_rune_def
        set_string_def set_bool_def set_roots_def example_container_def)
  ultimately have decoded: "decode_config ?text = Inr example_container" by (simp add: decode_config_def)
  have "validate_endpoint example_container = None"
    by (simp add: validate_endpoint_def endpoints is_unspecified_def example_container_def empty_config_def)
  moreover have "validate_paths example_container = None" by code_simp
  moreover have "path_join ''/state'' (path_base ''/state/pid'') = ''/state/pid''"
    "path_join ''/state'' (path_base ''/state/auth'') = ''/state/auth''" "path_rel ''/c'' ''/c/d'' = Some ''d''"
    by code_simp+
  ultimately have "config_validate example_config_env example_container = Inr example_container"
    by (simp add: config_validate_def validate_files_def requireCanonicalDirectory_def example_config_env_def
        requireOwnerOnlyStateDirectoryMode_def) (simp add: example_container_def empty_config_def)
  with read decoded show ?thesis by (simp add: config_Load_def example_daemon_env_def)
qed

lemma example_initialized:
  "auth_Initialize example_auth_lib example_manager example_auth_env example_secret example_auth_fs = unchanged None example_auth_fs"
proof -
  have "validateSecret example_secret = None"
    by (rule plain_secret) (simp_all add: example_secret_def plain_eval)
  moreover have "durable_Exists example_root no_faults example_auth_fs ''auth'' = Inr True"
  proof -
    have "durable_validateName ''auth''" "durable_verify example_root no_faults = None" by code_simp+
    then show ?thesis using example_stat by (simp add: durable_Exists_def no_faults_def durable_validateFile_def)
  qed
  moreover have "auth_verify example_auth_lib example_secret (as_active example_auth_state) = Inr True"
  proof -
    have "key_matches example_auth_lib example_secret (as_active example_auth_state)"
      using derive_matches [OF example_credential_derived] by (simp add: example_auth_state_def)
    moreover have "validateCredential (as_active example_auth_state) = None"
      using load_valid(1) [OF example_loads] by simp
    ultimately show ?thesis using verify_valid example_auth_lib_ok(2) by simp
  qed
  ultimately show ?thesis
    using example_loads by (simp add: auth_Initialize_def example_auth_env_def example_manager_def)
qed

text \<open>The server of the run and its answer.\<close>

definition example_serving :: "unit api_server" where
  "example_serving = \<lparr>sv_config = \<lparr>ac_auth = True, ac_authority = None, ac_retrieval = None, ac_read_only = False\<rparr>,
     sv_verifier = Some example_manager, sv_dependencies = []\<rparr>"

lemma example_refused:
  "serve example_api example_serving (example_call ''/api/search'') (example_daemon st) =
     (error_reply 401 ''unauthorized'', example_daemon st)"
proof -
  have "\<not> authorized example_api example_serving (example_call ''/api/search'') (example_daemon st)"
    by (simp add: authorized_def example_call_def)
  moreover have "ac_auth (sv_config example_serving)" by (simp add: example_serving_def)
  ultimately show ?thesis
    using withAuth_gate by (fastforce simp: serve_def api_route_def example_call_def)
qed

definition example_log :: "daemon_event list" where
  "example_log = [Released RootHandle, Released Signals, Released (Listener ''0.0.0.0:4680''),
     Served example_auth_fs (example_call ''/api/search'') (error_reply 401 ''unauthorized''),
     Acquired (Listener ''0.0.0.0:4680''), Acquired Signals, Acquired RootHandle]"

lemma example_serves:
  "serve_phase example_daemon_env example_container (Some example_manager) None [] False
       \<lparr>dm_api = example_daemon st, dm_log = log\<rparr> =
     Some (None, \<lparr>dm_api = example_daemon st, dm_log =
       Served example_auth_fs (example_call ''/api/search'') (error_reply 401 ''unauthorized'') # log\<rparr>)"
proof -
  have "api_New \<lparr>ac_auth = cf_auth example_container, ac_authority = None, ac_retrieval = None,
      ac_read_only = cf_read_only example_container\<rparr> (Some example_manager) [] = Inr example_serving"
    by (simp add: api_New_def example_container_def empty_config_def example_serving_def)
  then show ?thesis
    using example_refused
    by (simp add: serve_phase_def example_daemon_env_def wait_end_def ErrServerClosed_def example_daemon_def)
qed

lemma example_opens:
  "open_auth example_daemon_env example_container example_root example_auth_fs = (Inr (Some example_manager), example_auth_fs)"
proof -
  have "path_base (cf_auth_file example_container) = ''auth''" by code_simp
  moreover have "NewManager (Some example_root) ''auth'' True = Inr example_manager" by code_simp
  moreover have "cf_auth example_container" "example_secret \<noteq> []"
    by (simp_all add: example_container_def example_secret_def)
  ultimately show ?thesis
    using example_initialized
    by (simp add: open_auth_def example_daemon_env_def example_api_def unchanged_def Let_def)
qed

lemma example_run:
  "daemon_run example_daemon_env [''start'', ''--config'', ''/k''] \<lparr>dm_api = example_daemon st, dm_log = []\<rparr> =
     Some (None, \<lparr>dm_api = example_daemon st, dm_log = example_log\<rparr>)"
proof -
  have "parse_flags [''--config'', ''/k''] [] = Some ''/k''" by code_simp
  moreover have "durable_OpenRoot (cf_state_dir example_container) (fst (de_root example_daemon_env))
      (fst (snd (de_root example_daemon_env))) (snd (snd (de_root example_daemon_env))) = Inr example_root"
  proof -
    have "cf_state_dir example_container = ''/state''" by (simp add: example_container_def)
    moreover have "durable_OpenRoot ''/state'' (Some (rt_stat example_root)) True (Some (rt_stat example_root)) = Inr example_root"
      by code_simp
    ultimately show ?thesis by (simp add: example_daemon_env_def)
  qed
  moreover have "cf_container example_container" "cf_listen example_container = ''0.0.0.0:4680''"
    by (simp_all add: example_container_def)
  moreover have "de_getenv example_daemon_env ''CLAUDE_HISTORY_RAG_RUNTIME_CONTRACT'' = []" "de_listen example_daemon_env a = None" for a
    by (simp_all add: example_daemon_env_def)
  ultimately show ?thesis
    using example_container_loads example_opens example_serves
    by (simp add: daemon_run_def parseMode_def bracket_def with_root_def claim_def with_store_def with_listener_def
        with_record_def note_event_def example_daemon_def example_log_def)
qed



end
